(* ===== verification/Prelude.thy ===== *)
theory Prelude
  imports Main "HOL-Library.Sublist"
begin

text \<open>
  Shared vocabulary of the development: what the Go code uses of the language and its
  standard library (byte strings and the functions of package strings, time as an instant,
  results with an error value), the SQL statements as operations on lists of rows, and the
  generic lemmas on them that the component theories rest on.

  A Go string is a sequence of bytes, so it is a \<^typ>\<open>string\<close> here with \<open>length\<close> as
  \<open>len\<close>. Functions of package strings that look at runes (TrimSpace, ToLower) are written
  on the UTF-8 bytes of the runes they treat.
\<close>

named_theorems result_simps \<open>when a chain of early returns ends in a value\<close>
named_theorems table_simps \<open>what a statement does to the rows of a table\<close>

section \<open>Bytes and strings\<close>

definition byte :: "char \<Rightarrow> nat" where
  "byte c = of_char c"

definition in_range :: "char \<Rightarrow> nat \<Rightarrow> nat \<Rightarrow> bool" where
  "in_range c lo hi \<longleftrightarrow> lo \<le> byte c \<and> byte c \<le> hi"

abbreviation is_digit :: "char \<Rightarrow> bool" where "is_digit c \<equiv> in_range c 48 57"
abbreviation is_lower :: "char \<Rightarrow> bool" where "is_lower c \<equiv> in_range c 97 122"
abbreviation is_upper :: "char \<Rightarrow> bool" where "is_upper c \<equiv> in_range c 65 90"

definition is_alnum :: "char \<Rightarrow> bool" where
  "is_alnum c \<longleftrightarrow> is_digit c \<or> is_lower c \<or> is_upper c"

definition is_hex :: "char \<Rightarrow> bool" where
  "is_hex c \<longleftrightarrow> is_digit c \<or> in_range c 97 102"

abbreviation LF :: char where "LF \<equiv> CHR 0x0A"
abbreviation CR :: char where "CR \<equiv> CHR 0x0D"
abbreviation NUL :: char where "NUL \<equiv> CHR 0x00"

text \<open>
  strings.TrimSpace removes leading and trailing white space as unicode.IsSpace defines it:
  six ASCII bytes, the two-byte runes U+0085 and U+00A0, and the three-byte runes U+1680,
  U+2000 to U+200A, U+2028, U+2029, U+202F, U+205F and U+3000.
\<close>

definition space1 :: "char \<Rightarrow> bool" where
  "space1 a \<longleftrightarrow> a \<in> set [CHR 0x09, CHR 0x0A, CHR 0x0B, CHR 0x0C, CHR 0x0D, CHR 0x20]"

definition space2 :: "char \<Rightarrow> char \<Rightarrow> bool" where
  "space2 a b \<longleftrightarrow> a = CHR 0xC2 \<and> b \<in> set [CHR 0x85, CHR 0xA0]"

definition space3 :: "char \<Rightarrow> char \<Rightarrow> char \<Rightarrow> bool" where
  "space3 a b c \<longleftrightarrow>
     a = CHR 0xE1 \<and> b = CHR 0x9A \<and> c = CHR 0x80
   \<or> a = CHR 0xE2 \<and> b = CHR 0x80 \<and>
       (in_range c 0x80 0x8A \<or> c \<in> set [CHR 0xA8, CHR 0xA9, CHR 0xAF])
   \<or> a = CHR 0xE2 \<and> b = CHR 0x81 \<and> c = CHR 0x9F
   \<or> a = CHR 0xE3 \<and> b = CHR 0x80 \<and> c = CHR 0x80"

text \<open>The width of the white-space rune a string starts with (0 if none), and of the one it
  ends with, read from the reversed string.\<close>

definition lead_width :: "string \<Rightarrow> nat" where
  "lead_width s = (case s of [] \<Rightarrow> 0
     | a # r \<Rightarrow> if space1 a then 1 else
         (case r of [] \<Rightarrow> 0
          | b # r' \<Rightarrow> if space2 a b then 2 else
              (case r' of [] \<Rightarrow> 0 | c # _ \<Rightarrow> if space3 a b c then 3 else 0)))"

definition trail_width :: "string \<Rightarrow> nat" where
  "trail_width s = (case s of [] \<Rightarrow> 0
     | a # r \<Rightarrow> if space1 a then 1 else
         (case r of [] \<Rightarrow> 0
          | b # r' \<Rightarrow> if space2 b a then 2 else
              (case r' of [] \<Rightarrow> 0 | c # _ \<Rightarrow> if space3 c b a then 3 else 0)))"

function strip :: "(string \<Rightarrow> nat) \<Rightarrow> string \<Rightarrow> string" where
  "strip w s = (if s = [] \<or> w s = 0 then s else strip w (drop (w s) s))"
  by pat_completeness auto
termination
  by (relation "measure (\<lambda>(w, s). length s)") auto

declare strip.simps [simp del]

definition TrimSpace :: "string \<Rightarrow> string" where
  "TrimSpace s = rev (strip trail_width (rev (strip lead_width s)))"

definition blank :: "string \<Rightarrow> bool" where
  "blank s \<longleftrightarrow> TrimSpace s = []"

text \<open>
  strings.ToLower. Besides the ASCII letters, exactly two runes have an ASCII lower case:
  U+0130 (bytes C4 B0) becomes i and U+212A (bytes E2 84 AA) becomes k. The code compares
  lowered strings with ASCII texts only, which no other non-ASCII rune can become, so the
  remaining bytes are kept as they are.
\<close>

definition ascii_lower :: "char \<Rightarrow> char" where
  "ascii_lower c = (if is_upper c then char_of (byte c + 32) else c)"

function ToLower :: "string \<Rightarrow> string" where
  "ToLower [] = []"
| "ToLower (a # s) =
     (if a = CHR 0xC4 \<and> take 1 s = [CHR 0xB0] then CHR ''i'' # ToLower (drop 1 s)
      else if a = CHR 0xE2 \<and> take 2 s = [CHR 0x84, CHR 0xAA] then CHR ''k'' # ToLower (drop 2 s)
      else ascii_lower a # ToLower s)"
  by pat_completeness auto
termination
  by (relation "measure length") auto

text \<open>strings.Split by one byte and strings.Join.\<close>

fun split_on :: "char \<Rightarrow> string \<Rightarrow> string list" where
  "split_on c [] = [[]]"
| "split_on c (x # xs) =
     (if x = c then [] # split_on c xs
      else (case split_on c xs of [] \<Rightarrow> [[x]] | l # ls \<Rightarrow> (x # l) # ls))"

fun join_with :: "string \<Rightarrow> string list \<Rightarrow> string" where
  "join_with sep [] = []"
| "join_with sep [l] = l"
| "join_with sep (l # m # ls) = l @ sep @ join_with sep (m # ls)"

definition ContainsAny :: "string \<Rightarrow> string \<Rightarrow> bool" where
  "ContainsAny s cs \<longleftrightarrow> (\<exists>c \<in> set s. c \<in> set cs)"

abbreviation Contains :: "string \<Rightarrow> string \<Rightarrow> bool" where
  "Contains s p \<equiv> sublist p s"

abbreviation HasPrefix :: "string \<Rightarrow> string \<Rightarrow> bool" where
  "HasPrefix s p \<equiv> prefix p s"

text \<open>strings.TrimPrefix.\<close>

definition TrimPrefix :: "string \<Rightarrow> string \<Rightarrow> string" where
  "TrimPrefix s p = (if prefix p s then drop (length p) s else s)"

text \<open>hex.EncodeToString.\<close>

definition hex_digit :: "nat \<Rightarrow> char" where
  "hex_digit n = ''0123456789abcdef'' ! n"

definition hex_encode :: "string \<Rightarrow> string" where
  "hex_encode s = concat (map (\<lambda>c. [hex_digit (byte c div 16), hex_digit (byte c mod 16)]) s)"

subsection \<open>Lemmas on TrimSpace\<close>

lemma strip_Nil [simp]: "strip w [] = []"
  by (simp add: strip.simps)

lemma strip_stop: "w s = 0 \<Longrightarrow> strip w s = s"
  by (simp add: strip.simps)

lemma strip_stops: "strip w s = [] \<or> w (strip w s) = 0"
proof (induction w s rule: strip.induct)
  case (1 w s)
  then show ?case
    by (cases "s = [] \<or> w s = 0") (auto simp: strip.simps [of w s])
qed

lemma strip_suffix: "suffix (strip w s) s"
proof (induction w s rule: strip.induct)
  case (1 w s)
  show ?case
  proof (cases "s = [] \<or> w s = 0")
    case True
    then show ?thesis by (auto simp: strip.simps [of w s])
  next
    case False
    with 1 have "suffix (strip w (drop (w s) s)) (drop (w s) s)"
      by simp
    then have "suffix (strip w (drop (w s) s)) s"
      using suffix_drop suffix_order.trans by blast
    with False show ?thesis
      by (simp add: strip.simps [of w s])
  qed
qed

lemma lead_width_append: "lead_width p > 0 \<Longrightarrow> lead_width (p @ q) > 0"
  by (auto simp: lead_width_def split: list.splits if_splits)

lemma lead_width_prefix: "prefix p s \<Longrightarrow> lead_width s = 0 \<Longrightarrow> lead_width p = 0"
  by (metis lead_width_append neq0_conv prefix_def)

lemma TrimSpace_prefix: "prefix (TrimSpace s) (strip lead_width s)"
  using strip_suffix [of trail_width "rev (strip lead_width s)"]
  by (metis TrimSpace_def rev_rev_ident suffix_to_prefix)

lemma TrimSpace_lead: "lead_width (TrimSpace s) = 0"
proof (cases "strip lead_width s = []")
  case True
  then show ?thesis by (simp add: TrimSpace_def lead_width_def)
next
  case False
  then have "lead_width (strip lead_width s) = 0"
    using strip_stops [of lead_width s] by simp
  with TrimSpace_prefix show ?thesis by (rule lead_width_prefix)
qed

lemma TrimSpace_Nil [simp]: "TrimSpace [] = []"
  by (simp add: TrimSpace_def)

lemma TrimSpace_idem [simp]: "TrimSpace (TrimSpace s) = TrimSpace s"
proof -
  have lead: "strip lead_width (TrimSpace s) = TrimSpace s"
    by (rule strip_stop) (rule TrimSpace_lead)
  define r where "r = strip trail_width (rev (strip lead_width s))"
  have "strip trail_width r = r"
    using strip_stops [of trail_width "rev (strip lead_width s)"]
    by (auto simp: r_def strip_stop)
  moreover have "TrimSpace s = rev r" by (simp add: TrimSpace_def r_def)
  ultimately show ?thesis
    using lead by (simp add: TrimSpace_def [of "rev r"])
qed

text \<open>A text of ASCII bytes other than white space is not changed.\<close>

definition plain :: "char \<Rightarrow> bool" where
  "plain c \<longleftrightarrow> byte c < 128 \<and> \<not> space1 c"

lemma plain_no_space: "plain a \<Longrightarrow> \<not> space1 a \<and> \<not> space2 a b \<and> \<not> space3 a b c"
  by (auto simp: plain_def space2_def space3_def byte_def)

lemma lead_width_plain: "\<forall>c \<in> set s. plain c \<Longrightarrow> lead_width s = 0"
  by (simp add: lead_width_def plain_no_space split: list.split)

lemma trail_width_plain: "\<forall>c \<in> set s. plain c \<Longrightarrow> trail_width s = 0"
  by (simp add: trail_width_def plain_no_space split: list.split)

lemma TrimSpace_plain: "\<forall>c \<in> set s. plain c \<Longrightarrow> TrimSpace s = s"
  by (simp add: TrimSpace_def strip_stop lead_width_plain trail_width_plain)

lemma TrimSpace_plain_LF: "\<forall>c \<in> set s. plain c \<Longrightarrow> TrimSpace (s @ [CHR 0x0A]) = s"
proof (cases "s = []")
  case True
  then show ?thesis by (simp add: TrimSpace_def strip.simps [of lead_width] lead_width_def space1_def)
next
  case False
  assume s: "\<forall>c \<in> set s. plain c"
  with False have "lead_width (s @ [CHR 0x0A]) = 0"
    by (cases s) (simp_all add: lead_width_def plain_no_space split: list.split)
  moreover have "trail_width (CHR 0x0A # rev s) = 1" by (simp add: trail_width_def space1_def)
  ultimately show ?thesis
    using s by (simp add: TrimSpace_def strip_stop strip.simps [of trail_width "CHR 0x0A # rev s"] trail_width_plain)
qed

lemma plain_no_space_last: "plain a \<Longrightarrow> \<not> space1 a \<and> \<not> space2 b a \<and> \<not> space3 c b a"
  by (auto simp: plain_def space2_def space3_def byte_def in_range_def)

lemma TrimSpace_ends: "s \<noteq> [] \<Longrightarrow> plain (hd s) \<Longrightarrow> plain (last s) \<Longrightarrow> TrimSpace s = s"
proof -
  assume s: "s \<noteq> []" "plain (hd s)" "plain (last s)"
  have "lead_width s = 0" using s by (cases s) (simp_all add: lead_width_def plain_no_space split: list.split)
  moreover have "trail_width (rev s) = 0"
    using s by (cases "rev s") (simp_all add: trail_width_def plain_no_space_last hd_rev [symmetric] split: list.split)
  ultimately show ?thesis by (simp add: TrimSpace_def strip_stop)
qed

lemma byte_lt: "byte c < 256"
  by (simp add: byte_def)

lemma byte_div_lt: "byte c div 16 < 16"
  using byte_lt [of c] by (simp add: div_less_iff_less_mult)

lemma hex_digit_plain: "n < 16 \<Longrightarrow> plain (hex_digit n)"
proof -
  assume "n < 16"
  then have "hex_digit n \<in> set ''0123456789abcdef''"
    unfolding hex_digit_def by (intro nth_mem) simp
  then show ?thesis by (auto simp: plain_def byte_def space1_def)
qed

lemma hex_encode_plain: "\<forall>c \<in> set (hex_encode s). plain c"
  by (auto simp: hex_encode_def byte_div_lt intro!: hex_digit_plain)

lemma TrimSpace_tagged_hex: "\<forall>c \<in> set tag. plain c \<Longrightarrow> TrimSpace (tag @ hex_encode s) = tag @ hex_encode s"
  using hex_encode_plain by (intro TrimSpace_plain) auto

lemma blank_TrimSpace [simp]: "blank (TrimSpace s) \<longleftrightarrow> TrimSpace s = []"
  by (simp add: blank_def)

subsection \<open>Lemmas on Split and Join\<close>

lemma split_on_nonempty [simp]: "split_on c s \<noteq> []"
  by (induction s) (auto split: list.splits)

lemma join_split [simp]: "join_with [c] (split_on c s) = s"
proof (induction s)
  case Nil
  then show ?case by simp
next
  case (Cons x s)
  obtain l ls where "split_on c s = l # ls"
    by (cases "split_on c s") auto
  with Cons show ?case by (cases ls) auto
qed

lemma split_on_no_sep: "l \<in> set (split_on c s) \<Longrightarrow> c \<notin> set l"
  by (induction s arbitrary: l) (auto split: list.splits if_splits)

lemma split_on_free: "c \<notin> set l \<Longrightarrow> split_on c l = [l]"
  by (induction l) auto

lemma split_on_append_sep:
  "c \<notin> set l \<Longrightarrow> split_on c (l @ c # s) = l # split_on c s"
  by (induction l) auto

lemma split_join:
  "ls \<noteq> [] \<Longrightarrow> \<forall>l \<in> set ls. c \<notin> set l \<Longrightarrow> split_on c (join_with [c] ls) = ls"
  by (induction "[c]" ls rule: join_with.induct) (auto simp: split_on_free split_on_append_sep)

lemma join_with_inj:
  assumes "ls \<noteq> []" "ms \<noteq> []" "\<forall>l \<in> set ls. c \<notin> set l" "\<forall>l \<in> set ms. c \<notin> set l"
    and "join_with [c] ls = join_with [c] ms"
  shows "ls = ms"
  by (metis assms split_join)

lemma split_lines:
  "\<forall>l \<in> set ls. LF \<notin> set l \<Longrightarrow> split_on LF (concat (map (\<lambda>l. l @ [LF]) ls)) = ls @ [[]]"
  by (induction ls) (simp_all add: split_on_append_sep)

section \<open>Time\<close>

text \<open>
  An instant is its distance in nanoseconds from Go's zero time (year 1), so that
  \<open>Time.IsZero\<close> is equality with 0. A timestamp column holds either the empty text or an
  RFC 3339 text with nanoseconds, which names one instant: it is \<open>None\<close> or \<open>Some t\<close>.
\<close>

type_synonym time = int
type_synonym stamp = "time option"

abbreviation IsZero :: "time \<Rightarrow> bool" where "IsZero t \<equiv> t = 0"

definition Second :: int where "Second = 1000000000"
definition Minute :: int where "Minute = 60 * Second"
definition Hour :: int where "Hour = 60 * Minute"

lemmas duration_defs = Second_def Minute_def Hour_def

text \<open>time.Unix: seconds since 1970, which is 62135596800 seconds after the zero time.\<close>

definition time_Unix :: "int \<Rightarrow> time" where
  "time_Unix sec = (sec + 62135596800) * Second"

text \<open>A column read back: the empty text leaves the field at the zero time.\<close>

definition scan_time :: "stamp \<Rightarrow> time" where
  "scan_time c = (case c of None \<Rightarrow> 0 | Some t \<Rightarrow> t)"

lemma scan_time_simps [simp]: "scan_time None = 0" "scan_time (Some t) = t"
  by (simp_all add: scan_time_def)

section \<open>Results\<close>

text \<open>
  Operations return the error or the value. The rules below say when a chain of early
  returns ends in a value: each test it passed held, and each lookup found something.
\<close>

lemma if_Inl_eq_Inr [result_simps]:
  "((if c then Inl f else r) = Inr y) \<longleftrightarrow> \<not> c \<and> r = Inr y"
  by simp

lemma case_None_Inl_eq_Inr [result_simps]:
  "((case x of None \<Rightarrow> Inl f | Some v \<Rightarrow> g v) = Inr y) \<longleftrightarrow> (\<exists>v. x = Some v \<and> g v = Inr y)"
  by (cases x) auto

lemma case_Some_Inl_eq_Inr [result_simps]:
  "((case x of None \<Rightarrow> r | Some v \<Rightarrow> Inl (f v)) = Inr y) \<longleftrightarrow> x = None \<and> r = Inr y"
  by (cases x) auto

lemma case_Inl_eq_Inr [result_simps]:
  "((case x of Inl f \<Rightarrow> Inl (h f) | Inr v \<Rightarrow> g v) = Inr y) \<longleftrightarrow> (\<exists>v. x = Inr v \<and> g v = Inr y)"
  by (cases x) auto

section \<open>Tables\<close>

text \<open>
  A table is the list of its rows in the order of insertion. \<open>SELECT ... WHERE\<close> with at most
  one row taken is \<^const>\<open>List.find\<close>; the other statements are below.
\<close>

definition update_where :: "('r \<Rightarrow> bool) \<Rightarrow> ('r \<Rightarrow> 'r) \<Rightarrow> 'r list \<Rightarrow> 'r list" where
  "update_where p f t = map (\<lambda>r. if p r then f r else r) t"

definition delete_where :: "('r \<Rightarrow> bool) \<Rightarrow> 'r list \<Rightarrow> 'r list" where
  "delete_where p t = filter (\<lambda>r. \<not> p r) t"

text \<open>RowsAffected of an UPDATE or DELETE.\<close>

definition rows_affected :: "('r \<Rightarrow> bool) \<Rightarrow> 'r list \<Rightarrow> nat" where
  "rows_affected p t = length (filter p t)"

lemma find_SomeD: "List.find p t = Some r \<Longrightarrow> r \<in> set t \<and> p r"
  by (induction t) (auto split: if_splits)

lemma find_ex: "r \<in> set t \<Longrightarrow> p r \<Longrightarrow> \<exists>r'. List.find p t = Some r'"
  using find_None_iff [of p t] by (cases "List.find p t") auto

lemma find_unique:
  assumes "r \<in> set t" "p r" "\<And>r'. r' \<in> set t \<Longrightarrow> p r' \<Longrightarrow> r' = r"
  shows "List.find p t = Some r"
proof -
  obtain r' where r': "List.find p t = Some r'"
    using assms(1,2) find_ex by metis
  with assms(3) show ?thesis
    using find_SomeD by fastforce
qed

lemma find_append: "List.find p (t @ u) = (case List.find p t of None \<Rightarrow> List.find p u | Some r \<Rightarrow> Some r)"
  by (induction t) auto

lemma find_key:
  assumes "distinct (map k t)" "r \<in> set t"
  shows "List.find (\<lambda>x. k x = k r) t = Some r"
  using assms by (intro find_unique) (auto simp: distinct_map inj_on_def)

lemma find_key_None [table_simps]: "List.find (\<lambda>r. k r = v) t = None \<longleftrightarrow> v \<notin> k ` set t"
  by (auto simp: find_None_iff)

lemma distinct_key_eq: "distinct (map k t) \<Longrightarrow> r \<in> set t \<Longrightarrow> s \<in> set t \<Longrightarrow> k r = k s \<Longrightarrow> r = s"
  by (auto simp: distinct_map inj_on_def)

lemma set_update_where [table_simps]:
  "set (update_where p f t) = (\<lambda>r. if p r then f r else r) ` set t"
  by (simp add: update_where_def)

lemma map_update_where [table_simps]:
  "(\<And>r. p r \<Longrightarrow> k (f r) = k r) \<Longrightarrow> map k (update_where p f t) = map k t"
  by (simp add: update_where_def)

lemma filter_update_where:
  "(\<And>r. p r \<Longrightarrow> q (f r) = q r) \<Longrightarrow> filter q (update_where p f t) = update_where p f (filter q t)"
  unfolding update_where_def by (induction t) auto

lemma update_where_none [table_simps]: "(\<And>r. r \<in> set t \<Longrightarrow> \<not> p r) \<Longrightarrow> update_where p f t = t"
  by (simp add: update_where_def map_idI)

lemma update_where_Nil [simp]: "update_where p f [] = []"
  by (simp add: update_where_def)

lemma length_update_where [simp]: "length (update_where p f t) = length t"
  by (simp add: update_where_def)

lemma set_delete_where [table_simps]: "set (delete_where p t) = {r \<in> set t. \<not> p r}"
  by (simp add: delete_where_def)

lemma delete_where_none: "(\<And>r. r \<in> set t \<Longrightarrow> \<not> p r) \<Longrightarrow> delete_where p t = t"
  by (simp add: delete_where_def)

lemma distinct_map_delete_where [intro]: "distinct (map k t) \<Longrightarrow> distinct (map k (delete_where p t))"
  by (simp add: delete_where_def distinct_map_filter)

lemma sorted_map_delete_where [intro]:
  "sorted_wrt r (map k t) \<Longrightarrow> sorted_wrt r (map k (delete_where p t))"
  by (induction t) (auto simp: delete_where_def)

lemma find_update_where:
  "(\<And>r. p r \<Longrightarrow> q (f r) = q r) \<Longrightarrow>
   List.find q (update_where p f t) = map_option (\<lambda>r. if p r then f r else r) (List.find q t)"
  unfolding update_where_def by (induction t) auto

lemma find_update_where_key:
  "(\<And>r. p r \<Longrightarrow> q (f r) = q r) \<Longrightarrow> (\<And>r. k (f r) = k r) \<Longrightarrow>
   map_option k (List.find q (update_where p f t)) = map_option k (List.find q t)"
  by (cases "List.find q t") (simp_all add: find_update_where)

lemma find_delete_where:
  "(\<And>r. p r \<Longrightarrow> \<not> q r) \<Longrightarrow> List.find q (delete_where p t) = List.find q t"
  unfolding delete_where_def by (induction t) auto

lemma find_delete_where_gone:
  "(\<And>r. q r \<Longrightarrow> p r) \<Longrightarrow> List.find q (delete_where p t) = None"
  unfolding delete_where_def by (induction t) auto

text \<open>Rows of a table with a key: one row can be rewritten by its key only.\<close>

lemma rows_affected_key:
  assumes "distinct (map k t)" "r \<in> set t"
  shows "rows_affected (\<lambda>x. k x = k r) t = 1"
  using assms
proof (induction t)
  case Nil
  then show ?case by simp
next
  case (Cons a t)
  have none: "k a \<notin> k ` set t" using Cons.prems by simp
  then have nil: "filter (\<lambda>x. k x = k a) t = []"
    by (metis (mono_tags, lifting) filter_False image_eqI)
  show ?case
  proof (cases "r = a")
    case True
    with nil show ?thesis by (simp add: rows_affected_def)
  next
    case False
    with Cons.prems none have "k a \<noteq> k r" "r \<in> set t" by auto
    with Cons show ?thesis by (simp add: rows_affected_def)
  qed
qed

text \<open>How rewriting the row with a key changes the number of rows with a property.\<close>

lemma count_update_key:
  assumes "distinct (map k t)" "r \<in> set t"
  shows "length (filter q (update_where (\<lambda>x. k x = k r) f t)) + of_bool (q r) =
         length (filter q t) + of_bool (q (f r))"
  using assms
proof (induction t)
  case Nil
  then show ?case by simp
next
  case (Cons a t)
  have none: "k a \<notin> k ` set t" using Cons.prems by simp
  then have same: "update_where (\<lambda>x. k x = k a) f t = t"
    by (intro update_where_none) (metis image_eqI)
  have split: "update_where p f (a # t) = (if p a then f a else a) # update_where p f t" for p
    by (simp add: update_where_def)
  show ?case
  proof (cases "r = a")
    case True
    then show ?thesis unfolding split by (simp add: same)
  next
    case False
    with Cons.prems none have "k a \<noteq> k r" "r \<in> set t" by auto
    with Cons show ?thesis unfolding split by simp
  qed
qed

text \<open>Appending to a list that is strictly sorted by a key that grows.\<close>

lemma set_butlast_last: "xs \<noteq> [] \<Longrightarrow> set xs = insert (last xs) (set (butlast xs))"
  by (induction xs) auto

lemma sorted_wrt_snoc:
  "sorted_wrt r (xs @ [x]) \<longleftrightarrow> sorted_wrt r xs \<and> (\<forall>y \<in> set xs. r y x)"
  by (simp add: sorted_wrt_append)

section \<open>Ranked transitions\<close>

text \<open>
  A state machine without cycles: every transition raises the rank. The states of a run are
  then pairwise different and a run is no longer than the ranks allow. The stage, assignment,
  boot-key and operator-status machines are instances.
\<close>

locale ranked_steps =
  fixes step :: "'s \<Rightarrow> 's \<Rightarrow> bool" and rank :: "'s \<Rightarrow> nat"
  assumes step_rank: "step a b \<Longrightarrow> rank a < rank b"
begin

lemma path_sorted: "successively step xs \<Longrightarrow> sorted_wrt (\<lambda>a b. rank a < rank b) xs"
proof (induction xs rule: induct_list012)
  case (3 x y zs)
  from "3.prems" have "step x y" "successively step (y # zs)" by auto
  with "3.IH"(2) show ?case
    using step_rank [of x y] by fastforce
qed auto

lemma ranked_distinct: "sorted_wrt (\<lambda>a b. rank a < rank b) xs \<Longrightarrow> distinct xs"
  by (induction xs) auto

lemma path_distinct: "successively step xs \<Longrightarrow> distinct xs"
  by (rule ranked_distinct) (rule path_sorted)

lemma path_rank: "successively step (a # xs) \<Longrightarrow> rank a + length xs \<le> rank (last (a # xs))"
proof (induction xs arbitrary: a)
  case Nil
  then show ?case by simp
next
  case (Cons b xs)
  then have "rank a < rank b" "rank b + length xs \<le> rank (last (b # xs))"
    by (auto dest: step_rank)
  then show ?case by simp
qed

lemma no_return: "successively step (a # xs) \<Longrightarrow> xs \<noteq> [] \<Longrightarrow> a \<notin> set xs"
  using path_distinct [of "a # xs"] by simp

end

text \<open>
  A state that is read off the states of a larger system, for example the state of one row of a
  table. In a step of the system it stays or makes a transition of its own machine, unless it
  appears or disappears. Along a run in which it is there all the time it therefore never goes
  back, and a state without transitions is kept.
\<close>

locale tracked_state = ranked_steps trans rank
  for trans :: "'s \<Rightarrow> 's \<Rightarrow> bool" and rank :: "'s \<Rightarrow> nat" +
  fixes inv :: "'d \<Rightarrow> bool" and next_db :: "'d \<Rightarrow> 'd \<Rightarrow> bool" and obs :: "'d \<Rightarrow> 'k \<Rightarrow> 's option"
  assumes inv_next: "inv d \<Longrightarrow> next_db d d' \<Longrightarrow> inv d'"
    and obs_next: "inv d \<Longrightarrow> next_db d d' \<Longrightarrow> obs d k = Some s \<Longrightarrow> obs d' k = Some t \<Longrightarrow> s = t \<or> trans s t"
begin

lemma run_inv: "successively next_db (d # ds) \<Longrightarrow> inv d \<Longrightarrow> \<forall>x \<in> set (d # ds). inv x"
  by (induction ds arbitrary: d) (auto intro: inv_next)

lemma run_rank:
  "successively next_db (d # ds) \<Longrightarrow> inv d \<Longrightarrow> obs d k = Some s \<Longrightarrow> \<forall>x \<in> set ds. obs x k \<noteq> None \<Longrightarrow>
   x \<in> set ds \<Longrightarrow> obs x k = Some t \<Longrightarrow> s = t \<or> rank s < rank t"
proof (induction ds arbitrary: d s)
  case Nil
  then show ?case by simp
next
  case (Cons d1 ds)
  then obtain s1 where s1: "obs d1 k = Some s1" "inv d1"
    using inv_next by auto
  with Cons.prems have "s = s1 \<or> rank s < rank s1"
    using obs_next [of d d1 k s s1] step_rank by auto
  moreover have "s1 = t \<or> rank s1 < rank t"
    using Cons.prems s1 Cons.IH [of d1 s1] by (cases "x = d1") auto
  ultimately show ?case by auto
qed

lemma run_final:
  assumes "successively next_db (d # ds)" "inv d" "obs d k = Some s" "\<forall>x \<in> set ds. obs x k \<noteq> None"
    and "\<And>t. \<not> trans s t" "x \<in> set ds"
  shows "obs x k = Some s"
  using assms
proof (induction ds arbitrary: d)
  case Nil
  then show ?case by simp
next
  case (Cons d1 ds)
  then obtain s1 where s1: "obs d1 k = Some s1" "inv d1"
    using inv_next by auto
  with Cons.prems have "obs d1 k = Some s"
    using obs_next [of d d1 k s s1] by auto
  with Cons s1 show ?case by (cases "x = d1") auto
qed

end

end
