(* ===== verification/Base64.thy ===== *)
theory Base64
  imports Prelude
begin

text \<open>
  Package encoding/base64 as the code uses it: RawURLEncoding (no padding) for secrets,
  nonces and signatures and StdEncoding (padded) for SSH keys. Decoding skips line breaks and
  ignores the unused low bits of the last symbol, as Go's non-strict decoders do.
\<close>

definition std_alphabet :: string where
  "std_alphabet = ''ABCDEFGHIJKLMNOPQRSTUVWXYZabcdefghijklmnopqrstuvwxyz0123456789+/''"

definition url_alphabet :: string where
  "url_alphabet = ''ABCDEFGHIJKLMNOPQRSTUVWXYZabcdefghijklmnopqrstuvwxyz0123456789-_''"

fun index_of :: "char \<Rightarrow> string \<Rightarrow> nat option" where
  "index_of c [] = None"
| "index_of c (x # xs) = (if x = c then Some 0 else map_option Suc (index_of c xs))"

text \<open>Symbols as six-bit numbers: three bytes are four of them.\<close>

definition three_bytes :: "nat \<Rightarrow> nat \<Rightarrow> nat \<Rightarrow> nat \<Rightarrow> string" where
  "three_bytes i j k l =
     (let n = ((i * 64 + j) * 64 + k) * 64 + l
      in [char_of (n div 65536), char_of (n div 256 mod 256), char_of (n mod 256)])"

fun sextets :: "string \<Rightarrow> nat list" where
  "sextets [] = []"
| "sextets [a] = [byte a div 4, byte a mod 4 * 16]"
| "sextets [a, b] = [byte a div 4, byte a mod 4 * 16 + byte b div 16, byte b mod 16 * 4]"
| "sextets (a # b # c # s) =
     [byte a div 4, byte a mod 4 * 16 + byte b div 16, byte b mod 16 * 4 + byte c div 64, byte c mod 64]
       @ sextets s"

fun unsextets :: "nat list \<Rightarrow> string option" where
  "unsextets [] = Some []"
| "unsextets [i] = None"
| "unsextets [i, j] = Some (take 1 (three_bytes i j 0 0))"
| "unsextets [i, j, k] = Some (take 2 (three_bytes i j k 0))"
| "unsextets (i # j # k # l # s) = map_option (\<lambda>r. three_bytes i j k l @ r) (unsextets s)"

fun symbols :: "string \<Rightarrow> string \<Rightarrow> nat list option" where
  "symbols al [] = Some []"
| "symbols al (c # s) = (case index_of c al of None \<Rightarrow> None
     | Some i \<Rightarrow> map_option (\<lambda>is. i # is) (symbols al s))"

definition no_breaks :: "string \<Rightarrow> string" where
  "no_breaks s = filter (\<lambda>c. c \<noteq> LF \<and> c \<noteq> CR) s"

definition RawURL_Encode :: "string \<Rightarrow> string" where
  "RawURL_Encode s = map (\<lambda>i. url_alphabet ! i) (sextets s)"

definition RawURL_Decode :: "string \<Rightarrow> string option" where
  "RawURL_Decode s = Option.bind (symbols url_alphabet (no_breaks s)) unsextets"

text \<open>Padding: the last group of four may end in one or two padding bytes.\<close>

definition strip_padding :: "string \<Rightarrow> string option" where
  "strip_padding s =
     (if length s mod 4 \<noteq> 0 then None
      else if s \<noteq> [] \<and> last s = CHR ''='' then
        (let t = butlast s in
         Some (if t \<noteq> [] \<and> last t = CHR ''='' then butlast t else t))
      else Some s)"

definition Std_Decode :: "string \<Rightarrow> string option" where
  "Std_Decode s = Option.bind (strip_padding (no_breaks s))
     (\<lambda>t. Option.bind (symbols std_alphabet t) unsextets)"

section \<open>Decoding inverts encoding\<close>

lemma byte_less [simp]: "byte c < 256"
  by (simp add: byte_def)

lemma char_of_byte [simp]: "char_of (byte c) = c"
  by (simp add: byte_def)

lemma sextet_bounds:
  fixes a b :: nat
  assumes "a < 256"
  shows "a div 4 < 64" "a mod 4 * 16 < 64" "b < 256 \<Longrightarrow> a mod 4 * 16 + b div 16 < 64"
    "a mod 16 * 4 < 64" "b < 256 \<Longrightarrow> a mod 16 * 4 + b div 64 < 64" "a mod 64 < 64"
  using assms by linarith+

lemma sextets_bound: "\<forall>i \<in> set (sextets s). i < 64"
  by (induction s rule: sextets.induct) (auto simp: sextet_bounds)

lemma sextet_arith:
  fixes a b c :: nat
  shows "(((a div 4) * 64 + (a mod 4 * 16 + b div 16)) * 64 + (b mod 16 * 4 + c div 64)) * 64 + c mod 64
    = a * 65536 + b * 256 + c"
proof -
  have "((q * 64 + (r * 16 + s)) * 64 + (t * 4 + u)) * 64 + v
      = (q * 4 + r) * 65536 + (s * 16 + t) * 256 + (u * 64 + v)" for q r s t u v :: nat
    by simp
  from this [of "a div 4" "a mod 4" "b div 16" "b mod 16" "c div 64" "c mod 64"]
  show ?thesis by (simp only: div_mult_mod_eq)
qed

lemma three_bytes_eq:
  "a < 256 \<Longrightarrow> b < 256 \<Longrightarrow> c < 256 \<Longrightarrow>
   three_bytes (a div 4) (a mod 4 * 16 + b div 16) (b mod 16 * 4 + c div 64) (c mod 64)
     = [char_of a, char_of b, char_of c]"
proof -
  assume h: "a < 256" "b < 256" "c < 256"
  have 1: "(a * 65536 + b * 256 + c) div 65536 = a" using h by linarith
  have 2: "(a * 65536 + b * 256 + c) div 256 = a * 256 + b" using h by linarith
  have 3: "(a * 256 + b) mod 256 = b" using h by simp
  have "a * 65536 + b * 256 + c = (a * 256 + b) * 256 + c" by simp
  then have 4: "(a * 65536 + b * 256 + c) mod 256 = c" using h by (simp only: mod_mult_self3 mod_less)
  show ?thesis
    by (simp only: three_bytes_def Let_def sextet_arith 1 2 3 4)
qed

lemma unsextets_sextets: "unsextets (sextets s) = Some s"
proof (induction s rule: sextets.induct)
  case (2 a)
  show ?case
    using three_bytes_eq [of "byte a" 0 0] by simp
next
  case (3 a b)
  show ?case
    using three_bytes_eq [of "byte a" "byte b" 0] by simp
next
  case (4 a b c s)
  then show ?case
    using three_bytes_eq [of "byte a" "byte b" "byte c"] by simp
qed simp

lemma index_of_url: "list_all (\<lambda>i. index_of (url_alphabet ! i) url_alphabet = Some i) [0..<64]"
  by (simp add: url_alphabet_def upt_rec)

lemma index_of_url_nth: "i < 64 \<Longrightarrow> index_of (url_alphabet ! i) url_alphabet = Some i"
  using index_of_url by (simp add: list_all_iff)

lemma url_alphabet_no_break: "i < 64 \<Longrightarrow> url_alphabet ! i \<noteq> LF \<and> url_alphabet ! i \<noteq> CR"
proof -
  assume "i < 64"
  moreover have "list_all (\<lambda>c. c \<noteq> LF \<and> c \<noteq> CR) url_alphabet" and "length url_alphabet = 64"
    by (simp_all add: url_alphabet_def)
  ultimately show ?thesis by (auto simp: list_all_length)
qed

lemma symbols_encode: "\<forall>i \<in> set is. i < 64 \<Longrightarrow> symbols url_alphabet (map (\<lambda>i. url_alphabet ! i) is) = Some is"
  by (induction "is") (auto simp: index_of_url_nth)

lemma no_breaks_encode: "no_breaks (RawURL_Encode s) = RawURL_Encode s"
  using sextets_bound [of s] url_alphabet_no_break
  by (auto simp: no_breaks_def RawURL_Encode_def filter_id_conv)

lemma RawURL_roundtrip: "RawURL_Decode (RawURL_Encode s) = Some s"
  unfolding RawURL_Decode_def no_breaks_encode
  by (simp add: RawURL_Encode_def symbols_encode sextets_bound unsextets_sextets)

lemma RawURL_Encode_inj: "RawURL_Encode s = RawURL_Encode t \<Longrightarrow> s = t"
  by (metis RawURL_roundtrip option.inject)

lemma length_sextets: "length (sextets s) = (4 * length s + 2) div 3"
  by (induction s rule: sextets.induct) auto

lemma length_RawURL_Encode: "length (RawURL_Encode s) = (4 * length s + 2) div 3"
  by (simp add: RawURL_Encode_def length_sextets)

lemma RawURL_Encode_no_LF: "LF \<notin> set (RawURL_Encode s)"
proof -
  have "LF \<notin> set (no_breaks (RawURL_Encode s))" by (simp add: no_breaks_def)
  then show ?thesis by (simp add: no_breaks_encode)
qed

lemma url_alphabet_plain: "i < 64 \<Longrightarrow> plain (url_alphabet ! i)"
proof -
  have "list_all plain url_alphabet" by code_simp
  moreover have "length url_alphabet = 64" by code_simp
  ultimately show "i < 64 \<Longrightarrow> plain (url_alphabet ! i)" by (simp add: list_all_length)
qed

lemma RawURL_Encode_plain: "\<forall>c \<in> set (RawURL_Encode s). plain c"
  using sextets_bound [of s] by (auto simp: RawURL_Encode_def intro: url_alphabet_plain)

lemma TrimSpace_RawURL_Encode [simp]: "TrimSpace (RawURL_Encode s) = RawURL_Encode s"
  by (rule TrimSpace_plain) (rule RawURL_Encode_plain)

lemma TrimSpace_RawURL_line: "TrimSpace (RawURL_Encode s @ [LF]) = RawURL_Encode s"
  using TrimSpace_plain_LF [OF RawURL_Encode_plain [of s]] by simp

end
