(* ===== verification/Fault.thy ===== *)
theory Fault
  imports Prelude
begin

text \<open>
  The fault codes of internal/fault/fault.go, the environment an operation runs in (clock,
  random bytes, success of the database calls), identifier generation (internal/idgen) and
  the shape of a transaction: begin, statements, commit, with a rollback on every early return.
\<close>

section \<open>Faults\<close>

datatype code =
    DiscoveryRateLimited | MachineIdentityConflict | MachineIdentityInvalid | MachineNotFound
  | MachinePolicyInvalid | MachineDeleteConflict | ArtifactTrustFailed | ArtifactHashMismatch
  | ArtifactFetchFailed | DriverSpecUnsupported | DriverRenderFailed | InstallationSpecInvalid
  | InstallationNotFound | InstallationAssignmentInvalid | InstallationAssignmentConflict
  | InstallationAssignmentNotFound | InstallerTelemetryInvalid | InstallerTelemetryConflict
  | InstallerLogLimitExceeded | InstallationDeleteConflict | CryptographicBootTrustRequired
  | OperatorAuthenticationFailed | OperatorAuthRateLimited | OperatorSessionRequired
  | OperatorCSRFInvalid | OperatorSecureTransportRequired | OperatorUserPending
  | OperatorUserBlocked | OperatorUserNotFound | OperatorPasskeyRequired | OperatorPasskeyFailed
  | OperatorAuthorizationDenied | OperatorRecoveryFailed | OperatorWebAuthnNotConfigured
  | InstallerCredentialRequired | InstallerCredentialInvalid | InstallerCredentialExpired
  | BootTrustEnrollmentRequired | BootTrustKeyInvalid | BootTrustProofInvalid
  | BootTrustChallengeExpired | BootTrustReplayRejected | SecureBootRequired
  | SecureBootEvidenceInvalid | SecureBootAssetsInvalid | StorageFailure

text \<open>An error: its code and message. The wrapped cause only reaches the log.\<close>

datatype fault = Fault (Code: code) (Message: string)

type_synonym 'a result = "fault + 'a"

abbreviation storageError :: "string \<Rightarrow> fault" where
  "storageError msg \<equiv> Fault StorageFailure msg"

section \<open>The environment of an operation\<close>

text \<open>
  \<open>env_now\<close> is the store's clock. \<open>env_rand k\<close> are the bytes the read of the system's random
  source with label \<open>k\<close> yields in this operation, \<open>None\<close> when it fails. \<open>env_io k\<close> says whether
  the database call with label \<open>k\<close> (begin, statement, read of rows or commit) succeeds in this
  operation; every call of an operation has a label of its own. A statement can also fail on a
  constraint of the schema.
\<close>

record env =
  env_now :: time
  env_rand :: "nat \<Rightarrow> (nat \<Rightarrow> char) option"
  env_io :: "nat \<Rightarrow> bool"

text \<open>The system clock does not show Go's zero time, the first instant of year 1.\<close>

abbreviation clock_ok :: "env \<Rightarrow> bool" where
  "clock_ok e \<equiv> \<not> IsZero (env_now e)"

definition rand_Read :: "env \<Rightarrow> nat \<Rightarrow> nat \<Rightarrow> string option" where
  "rand_Read e k n = map_option (\<lambda>src. map src [0..<n]) (env_rand e k)"

definition idgen_New :: "env \<Rightarrow> nat \<Rightarrow> string \<Rightarrow> string option" where
  "idgen_New e k pre = map_option (\<lambda>raw. pre @ hex_encode raw) (rand_Read e k 12)"

text \<open>A blank request identifier is replaced by a generated one.\<close>

definition request_id :: "env \<Rightarrow> nat \<Rightarrow> string \<Rightarrow> string option" where
  "request_id e k requestID =
     (if TrimSpace requestID = [] then idgen_New e k ''req_'' else Some requestID)"

lemma length_rand_Read: "rand_Read e k n = Some s \<Longrightarrow> length s = n"
  by (auto simp: rand_Read_def)

text \<open>A generated identifier has no white space around it and is not empty.\<close>

lemma idgen_New_trimmed:
  "idgen_New e k pre = Some i \<Longrightarrow> \<forall>c \<in> set pre. plain c \<Longrightarrow> TrimSpace i = i"
  by (auto simp: idgen_New_def TrimSpace_tagged_hex)

text \<open>Whether an outcome is an error, and what a successful one is.\<close>

lemma isl_failed: "(\<And>x d'. r = (Inr x, d') \<Longrightarrow> False) \<Longrightarrow> isl (fst r)"
  by (cases r; cases "fst r") auto

lemma succeeded: "isl (fst r) = False \<Longrightarrow> r = (Inr (projr (fst r)), snd r)"
  by (cases "fst r") (auto simp: prod_eq_iff)

section \<open>Transactions\<close>

text \<open>
  The body of a transaction ends in an error, in a value with nothing to commit, or in a
  value with the database to commit. The deferred Rollback makes the first two leave the
  database as it was.
\<close>

type_synonym ('a, 'd) tx_body = "fault + 'a \<times> 'd option"

definition transact :: "env \<Rightarrow> nat \<Rightarrow> string \<Rightarrow> nat \<Rightarrow> string \<Rightarrow> 'd \<Rightarrow> ('a, 'd) tx_body \<Rightarrow> 'a result \<times> 'd"
  where
  "transact e b begin_msg c commit_msg d body =
     (if \<not> env_io e b then (Inl (storageError begin_msg), d)
      else case body of
        Inl f \<Rightarrow> (Inl f, d)
      | Inr (x, None) \<Rightarrow> (Inr x, d)
      | Inr (x, Some d') \<Rightarrow>
          if \<not> env_io e c then (Inl (storageError commit_msg), d) else (Inr x, d'))"

text \<open>The outcome of an operation on \<open>d\<close>: after an error the database is still \<open>d\<close>.\<close>

definition rolled_back :: "'d \<Rightarrow> 'a result \<times> 'd \<Rightarrow> bool" where
  "rolled_back d r \<longleftrightarrow> (\<forall>f. fst r = Inl f \<longrightarrow> snd r = d)"

lemma rolled_back_simps [simp]: "rolled_back d (Inl f, d') \<longleftrightarrow> d' = d" "rolled_back d (Inr x, d')"
  by (simp_all add: rolled_back_def)

lemma rolled_back_transact [simp]: "rolled_back d (transact e b bm c cm d body)"
  by (simp add: transact_def split: sum.split option.split)

lemma transact_Inr [result_simps]:
  "transact e b bm c cm d body = (Inr x, d') \<longleftrightarrow>
     env_io e b \<and> (body = Inr (x, None) \<and> d' = d \<or> env_io e c \<and> body = Inr (x, Some d'))"
  by (auto simp: transact_def split: sum.splits option.splits if_splits)

lemma transact_snd:
  "snd (transact e b bm c cm d body) = d \<or> (\<exists>x. body = Inr (x, Some (snd (transact e b bm c cm d body))))"
  by (auto simp: transact_def split: sum.splits option.splits if_splits)

lemma transact_keeps:
  assumes "P d" and "\<And>x d'. body = Inr (x, Some d') \<Longrightarrow> P d'"
  shows "P (snd (transact e b bm c cm d body))"
  using transact_snd [of e b bm c cm d body] assms by metis

section \<open>The contract of a store operation\<close>

text \<open>
  What every operation of the store promises: it keeps the invariant of the database, so runs
  of any calls keep it. Most operations promise more: one that reports an error has not changed
  the database, because its transaction was rolled back. (The operations that read back what
  they have just committed can report an error after the commit; they promise the first only.)
\<close>

locale invariant_operation =
  fixes op :: "env \<Rightarrow> 'd \<Rightarrow> 'arg \<Rightarrow> 'a result \<times> 'd"
    and inv :: "'d \<Rightarrow> bool"
  assumes keeps: "clock_ok e \<Longrightarrow> inv d \<Longrightarrow> inv (snd (op e d a))"
begin

lemma run_keeps:
  "\<forall>(e, a) \<in> set calls. clock_ok e \<Longrightarrow> inv d \<Longrightarrow> inv (fold (\<lambda>(e, a) d. snd (op e d a)) calls d)"
  by (induction calls arbitrary: d) (auto intro: keeps)

end

locale store_operation = invariant_operation +
  assumes rollback: "rolled_back d (op e d a)"
begin

lemma error_keeps_database: "op e d a = (Inl f, d') \<Longrightarrow> d' = d"
  using rollback [of d e a] by simp

text \<open>A caller that repeats a failing call gets what the call would have given at first.\<close>

lemma retry_after_error:
  "op e d a = (Inl f, d') \<Longrightarrow> op e' d' a' = op e' d a'"
  using error_keeps_database [of e d a f d'] by simp

end

end
