(* ===== verification/Installation_Model.thy ===== *)
theory Installation_Model
  imports Base64 Fault
begin

text \<open>
  The data an installation is made of and its validation: artifact descriptors
  (internal/artifact/model.go), the profile snapshot (internal/profile/model.go), the
  installation specification (internal/installation/model.go), the boot specification
  (internal/boot/spec.go) and the seed bundle (internal/driver/seed.go).

  Validation functions return the message of their error, \<open>None\<close> for nil. Where the code
  tests the entries of a Go map, whose order is not fixed, the tests are written in the order
  of the literal: which of several errors is reported may differ, that one is reported not.
\<close>

section \<open>Functions of the Go library\<close>

text \<open>
  What the code calls in net/url, crypto/sha256, crypto/hmac, encoding/pem, crypto/x509 and
  crypto/rsa, as parameters: a URL parser giving scheme, host and whether there is user info,
  and of the same URL RawQuery, Fragment, EscapedPath and Path;
  digests; the decoding of a PEM block into its type, bytes and rest, and of PKIX bytes into
  a key (an RSA modulus and exponent, or another kind of key); signature verification and
  encryption, which needs random bytes.
\<close>

datatype pkix_key = RSAKey nat nat | OtherKey

record golib =
  lib_url :: "string \<Rightarrow> (string \<times> string \<times> bool) option"
  lib_url_path :: "string \<Rightarrow> string \<times> string \<times> string \<times> string"
  lib_sha256 :: "string \<Rightarrow> string"
  lib_hmac :: "string \<Rightarrow> string \<Rightarrow> string"
  lib_pem :: "string \<Rightarrow> (string \<times> string \<times> string) option"
  lib_pkix :: "string \<Rightarrow> pkix_key option"
  lib_rsa_verify :: "pkix_key \<Rightarrow> string \<Rightarrow> string \<Rightarrow> bool"
  lib_rsa_encrypt :: "pkix_key \<Rightarrow> (nat \<Rightarrow> char) \<Rightarrow> string \<Rightarrow> string \<Rightarrow> string option"

text \<open>Documented behaviour of the digests: 32 bytes.\<close>

definition digests_ok :: "golib \<Rightarrow> bool" where
  "digests_ok L \<longleftrightarrow> (\<forall>s. length (lib_sha256 L s) = 32) \<and> (\<forall>k s. length (lib_hmac L k s) = 32)"

section \<open>Artifacts\<close>

record Descriptor =
  ar_ID :: string
  ar_Name :: string
  ar_SourceURL :: string
  ar_Version :: string
  ar_Digest :: string
  ar_Size :: int
  ar_Provenance :: string

definition ValidSHA256 :: "string \<Rightarrow> bool" where
  "ValidSHA256 v \<longleftrightarrow> HasPrefix v ''sha256:'' \<and>
     (let raw = TrimPrefix v ''sha256:'' in length raw = 64 \<and> list_all is_hex raw)"

fun first_blank :: "(string \<times> string) list \<Rightarrow> string option" where
  "first_blank [] = None"
| "first_blank ((name, v) # rest) =
     (if TrimSpace v = [] then Some (name @ '' is required'') else first_blank rest)"

definition descriptor_Validate :: "golib \<Rightarrow> Descriptor \<Rightarrow> string option" where
  "descriptor_Validate L d =
     (case first_blank [(''artifact ID'', ar_ID d), (''artifact name'', ar_Name d),
        (''artifact source URL'', ar_SourceURL d), (''artifact version'', ar_Version d),
        (''artifact provenance'', ar_Provenance d)] of
        Some err \<Rightarrow> Some err
      | None \<Rightarrow>
        if length (ar_ID d) > 128 \<or> length (ar_Name d) > 128 \<or> length (ar_Version d) > 128
           \<or> length (ar_Provenance d) > 256 \<or> length (ar_SourceURL d) > 2048 then
          Some ''artifact metadata exceeds size limit''
        else if (case lib_url L (ar_SourceURL d) of None \<Rightarrow> True
                 | Some (scheme, host, user) \<Rightarrow> scheme \<noteq> ''https'' \<or> host = [] \<or> user) then
          Some ''artifact source URL must be an absolute HTTPS URL without user info''
        else if \<not> ValidSHA256 (ar_Digest d) then Some ''artifact digest must be canonical sha256''
        else if ar_Size d \<le> 0 then Some ''artifact size must be positive''
        else None)"

definition SHA256 :: "golib \<Rightarrow> string \<Rightarrow> string" where
  "SHA256 L content = ''sha256:'' @ hex_encode (lib_sha256 L content)"

definition VerifyContent :: "golib \<Rightarrow> Descriptor \<Rightarrow> string \<Rightarrow> string option" where
  "VerifyContent L d content =
     (case descriptor_Validate L d of Some err \<Rightarrow> Some err
      | None \<Rightarrow>
        if int (length content) \<noteq> ar_Size d then Some ''artifact integrity mismatch: size mismatch''
        else if SHA256 L content \<noteq> ar_Digest d then
          Some ''artifact integrity mismatch: sha256 mismatch''
        else None)"

section \<open>Profiles\<close>

record Admin =
  ad_Username :: string
  ad_FullName :: string
  ad_AuthorizedSSHKeys :: "string list"
  ad_PasswordlessSudo :: bool

record Snapshot =
  pf_SchemaVersion :: int
  pf_Hostname :: string
  pf_Locale :: string
  pf_Keyboard :: string
  pf_Timezone :: string
  pf_Admin :: Admin
  pf_Packages :: "string list"

definition SchemaVersion :: int where "SchemaVersion = 1"

abbreviation lower_digit :: "char \<Rightarrow> bool" where "lower_digit c \<equiv> is_lower c \<or> is_digit c"

definition hostnamePattern :: "string \<Rightarrow> bool" where
  "hostnamePattern s \<longleftrightarrow> s \<noteq> [] \<and> length s \<le> 63 \<and> lower_digit (hd s) \<and> lower_digit (last s) \<and>
     list_all (\<lambda>c. lower_digit c \<or> c = CHR ''-'') s"

definition usernamePattern :: "string \<Rightarrow> bool" where
  "usernamePattern s = (case s of [] \<Rightarrow> False | c # cs \<Rightarrow>
     (is_lower c \<or> c = CHR ''_'') \<and> length cs \<le> 31 \<and>
     list_all (\<lambda>x. lower_digit x \<or> x \<in> set ''_-'') cs)"

definition localePattern :: "string \<Rightarrow> bool" where
  "localePattern s \<longleftrightarrow> 1 \<le> length s \<and> length s \<le> 64 \<and> list_all (\<lambda>c. is_alnum c \<or> c \<in> set ''_.@-'') s"

definition keymapPattern :: "string \<Rightarrow> bool" where
  "keymapPattern s \<longleftrightarrow> 1 \<le> length s \<and> length s \<le> 64 \<and> list_all (\<lambda>c. is_alnum c \<or> c \<in> set ''_.+-'') s"

definition timezonePattern :: "string \<Rightarrow> bool" where
  "timezonePattern s \<longleftrightarrow>
     list_all (\<lambda>part. part \<noteq> [] \<and> list_all (\<lambda>c. is_alnum c \<or> c \<in> set ''_+.-'') part)
       (split_on (CHR ''/'') s)"

definition packagePattern :: "string \<Rightarrow> bool" where
  "packagePattern s = (case s of [] \<Rightarrow> False | c # cs \<Rightarrow>
     lower_digit c \<and> length cs \<le> 127 \<and> list_all (\<lambda>x. lower_digit x \<or> x \<in> set ''+.-'') cs)"

text \<open>strings.Fields: the maximal runs without white space.\<close>

function fields_from :: "string \<Rightarrow> string \<Rightarrow> string list" where
  "fields_from acc s =
     (if s = [] then (if acc = [] then [] else [rev acc])
      else if lead_width s > 0 then
        (if acc = [] then [] else [rev acc]) @ fields_from [] (drop (lead_width s) s)
      else fields_from (hd s # acc) (tl s))"
  by pat_completeness auto
termination
  by (relation "measure (\<lambda>(acc, s). length s)") auto

declare fields_from.simps [simp del]

definition Fields :: "string \<Rightarrow> string list" where
  "Fields s = fields_from [] s"

definition key_types :: "string list" where
  "key_types = [''ssh-ed25519'', ''ssh-rsa'', ''ecdsa-sha2-nistp256'', ''ecdsa-sha2-nistp384'',
     ''ecdsa-sha2-nistp521'', ''sk-ssh-ed25519@openssh.com'', ''sk-ecdsa-sha2-nistp256@openssh.com'']"

definition validateAuthorizedKey :: "string \<Rightarrow> string option" where
  "validateAuthorizedKey v =
     (if length v = 0 \<or> length v > 8192 \<or> ContainsAny v [CR, LF] then
        Some ''profile SSH public key is invalid''
      else case Fields v of
        f0 # f1 # _ \<Rightarrow>
          if f0 \<notin> set key_types then Some ''profile SSH public key type is unsupported''
          else (case Std_Decode f1 of
                  None \<Rightarrow> Some ''profile SSH public key payload is invalid''
                | Some raw \<Rightarrow>
                    if length raw < 32 \<or> length raw > 16384 then
                      Some ''profile SSH public key payload is invalid'' else None)
      | _ \<Rightarrow> Some ''profile SSH public key is invalid'')"

fun first_error :: "('a \<Rightarrow> string option) \<Rightarrow> 'a list \<Rightarrow> string option" where
  "first_error f [] = None"
| "first_error f (x # xs) = (case f x of Some err \<Rightarrow> Some err | None \<Rightarrow> first_error f xs)"

fun validate_packages :: "string list \<Rightarrow> string list \<Rightarrow> string option" where
  "validate_packages seen [] = None"
| "validate_packages seen (name # rest) =
     (if \<not> packagePattern name then Some ''profile package name is invalid''
      else if name \<in> set seen then Some ''profile contains duplicate package names''
      else validate_packages (name # seen) rest)"

definition snapshot_Validate :: "Snapshot \<Rightarrow> string option" where
  "snapshot_Validate s =
     (if pf_SchemaVersion s \<noteq> SchemaVersion then Some ''unsupported profile snapshot schema version''
      else if \<not> hostnamePattern (pf_Hostname s) then Some ''profile hostname is invalid''
      else if \<not> localePattern (pf_Locale s) then Some ''profile locale is invalid''
      else if \<not> keymapPattern (pf_Keyboard s) then Some ''profile keyboard layout is invalid''
      else if length (pf_Timezone s) > 128 \<or> \<not> timezonePattern (pf_Timezone s)
              \<or> Contains (pf_Timezone s) ''..'' then Some ''profile timezone is invalid''
      else if \<not> usernamePattern (ad_Username (pf_Admin s)) then
        Some ''profile admin username is invalid''
      else if (let name = TrimSpace (ad_FullName (pf_Admin s)) in
               name = [] \<or> length name > 128 \<or> ContainsAny name [CR, LF]) then
        Some ''profile admin full name is invalid''
      else if ad_AuthorizedSSHKeys (pf_Admin s) = [] \<or> length (ad_AuthorizedSSHKeys (pf_Admin s)) > 8 then
        Some ''profile requires between one and eight SSH public keys''
      else case first_error validateAuthorizedKey (ad_AuthorizedSSHKeys (pf_Admin s)) of
        Some err \<Rightarrow> Some err
      | None \<Rightarrow>
        if length (pf_Packages s) > 64 then Some ''profile requests too many packages''
        else validate_packages [] (pf_Packages s))"

section \<open>Installation specifications\<close>

record Storage =
  st_Mode :: string
  st_Filesystem :: string
  st_TargetDisk :: string
  st_Encrypted :: bool
  st_TPM2 :: bool

record Security =
  se_SSHPasswordAuthentication :: bool
  se_RootLogin :: bool
  se_AutomaticSecurityUpdates :: bool

record Spec =
  sp_ID :: string
  sp_MachineID :: string
  sp_DriverID :: string
  sp_DriverVersion :: string
  sp_OSRelease :: string
  sp_Architecture :: string
  sp_ProfileID :: string
  sp_ProfileRevision :: string
  sp_Profile :: Snapshot
  sp_Artifacts :: "Descriptor list"
  sp_Storage :: Storage
  sp_Security :: Security
  sp_LifecycleCredentialID :: string
  sp_CreatedAt :: time
  sp_CreatedBy :: string

text \<open>\<^verbatim>\<open>^/dev/(?:sd[a-z]|vd[a-z]|xvd[a-z]|nvme[0-9]+n[0-9]+|mmcblk[0-9]+)$\<close>\<close>

definition digits :: "string \<Rightarrow> bool" where
  "digits s \<longleftrightarrow> s \<noteq> [] \<and> list_all is_digit s"

definition letter_disk :: "string \<Rightarrow> string \<Rightarrow> bool" where
  "letter_disk pre s \<longleftrightarrow> HasPrefix s pre \<and> length s = length pre + 1 \<and> is_lower (last s)"

definition targetDiskPattern :: "string \<Rightarrow> bool" where
  "targetDiskPattern s \<longleftrightarrow>
     letter_disk ''/dev/sd'' s \<or> letter_disk ''/dev/vd'' s \<or> letter_disk ''/dev/xvd'' s
   \<or> HasPrefix s ''/dev/nvme'' \<and>
       (case split_on (CHR ''n'') (drop 9 s) of [a, b] \<Rightarrow> digits a \<and> digits b | _ \<Rightarrow> False)
   \<or> HasPrefix s ''/dev/mmcblk'' \<and> digits (drop 11 s)"

definition ValidateTargetDisk :: "string \<Rightarrow> string option" where
  "ValidateTargetDisk v =
     (if \<not> targetDiskPattern v then Some ''storage target disk is invalid or refers to a partition''
      else None)"

fun validate_artifacts :: "golib \<Rightarrow> string list \<Rightarrow> string list \<Rightarrow> Descriptor list \<Rightarrow> string option" where
  "validate_artifacts L seenIDs seenNames [] = None"
| "validate_artifacts L seenIDs seenNames (item # rest) =
     (case descriptor_Validate L item of
        Some err \<Rightarrow> Some (''invalid installation artifact '' @ ar_ID item @ '': '' @ err)
      | None \<Rightarrow>
        if ar_ID item \<in> set seenIDs then Some ''installation artifacts must have unique IDs''
        else if ar_Name item \<in> set seenNames then Some ''installation artifacts must have unique names''
        else validate_artifacts L (ar_ID item # seenIDs) (ar_Name item # seenNames) rest)"

definition spec_Validate :: "golib \<Rightarrow> Spec \<Rightarrow> string option" where
  "spec_Validate L s =
     (case first_blank [(''machine ID'', sp_MachineID s), (''driver ID'', sp_DriverID s),
        (''driver version'', sp_DriverVersion s), (''OS release'', sp_OSRelease s),
        (''architecture'', sp_Architecture s), (''profile ID'', sp_ProfileID s),
        (''profile revision'', sp_ProfileRevision s),
        (''lifecycle credential ID'', sp_LifecycleCredentialID s), (''created by'', sp_CreatedBy s)] of
        Some err \<Rightarrow> Some err
      | None \<Rightarrow>
        if length (sp_DriverID s) > 64 \<or> length (sp_DriverVersion s) > 64
           \<or> length (sp_OSRelease s) > 64 \<or> length (sp_Architecture s) > 64 then
          Some ''installation target metadata exceeds size limit''
        else if length (sp_ProfileID s) > 128 \<or> length (sp_ProfileRevision s) > 128
           \<or> length (sp_LifecycleCredentialID s) > 128 \<or> length (sp_CreatedBy s) > 128 then
          Some ''installation metadata exceeds size limit''
        else case snapshot_Validate (sp_Profile s) of
          Some err \<Rightarrow> Some (''invalid profile snapshot: '' @ err)
        | None \<Rightarrow>
          if sp_Artifacts s = [] then Some ''at least one verified artifact is required''
          else if length (sp_Artifacts s) > 16 then Some ''too many installation artifacts''
          else case validate_artifacts L [] [] (sp_Artifacts s) of
            Some err \<Rightarrow> Some err
          | None \<Rightarrow>
            if TrimSpace (st_Mode (sp_Storage s)) = [] \<or> TrimSpace (st_Filesystem (sp_Storage s)) = [] then
              Some ''storage mode and filesystem are required''
            else if length (st_Mode (sp_Storage s)) > 64 \<or> length (st_Filesystem (sp_Storage s)) > 64 then
              Some ''storage metadata exceeds size limit''
            else case ValidateTargetDisk (st_TargetDisk (sp_Storage s)) of
              Some err \<Rightarrow> Some err
            | None \<Rightarrow>
              if st_TPM2 (sp_Storage s) \<and> \<not> st_Encrypted (sp_Storage s) then
                Some ''TPM2 enrollment requires encrypted storage''
              else None)"

section \<open>Boot specifications and seeds\<close>

record ArtifactRef =
  rf_ID :: string
  rf_Name :: string
  rf_Digest :: string

record Argument =
  arg_Key :: string
  arg_Value :: string

record BootSpec =
  bs_InstallationID :: string
  bs_DriverID :: string
  bs_DriverVersion :: string
  bs_Kernel :: ArtifactRef
  bs_Initrds :: "ArtifactRef list"
  bs_Arguments :: "Argument list"
  bs_SeedRef :: string

definition validateArtifactRef :: "ArtifactRef \<Rightarrow> string option" where
  "validateArtifactRef ref =
     (if TrimSpace (rf_ID ref) = [] \<or> TrimSpace (rf_Name ref) = [] then
        Some ''artifact ID and name are required''
      else if length (rf_ID ref) > 128 \<or> length (rf_Name ref) > 128 then
        Some ''artifact reference exceeds size limit''
      else if \<not> ValidSHA256 (rf_Digest ref) then Some ''artifact digest must be canonical sha256''
      else None)"

definition argumentKeyPattern :: "string \<Rightarrow> bool" where
  "argumentKeyPattern s \<longleftrightarrow> 1 \<le> length s \<and> length s \<le> 128 \<and>
     list_all (\<lambda>c. is_alnum c \<or> c \<in> set ''_./-'') s"

fun validate_initrds :: "string list \<Rightarrow> ArtifactRef list \<Rightarrow> string option" where
  "validate_initrds seen [] = None"
| "validate_initrds seen (item # rest) =
     (case validateArtifactRef item of
        Some err \<Rightarrow> Some (''boot spec initrd is invalid: '' @ err)
      | None \<Rightarrow>
        if rf_ID item \<in> set seen then Some ''boot spec contains duplicate artifact reference''
        else validate_initrds (rf_ID item # seen) rest)"

fun validate_arguments :: "string list \<Rightarrow> Argument list \<Rightarrow> string option" where
  "validate_arguments seen [] = None"
| "validate_arguments seen (arg # rest) =
     (if \<not> argumentKeyPattern (arg_Key arg) then Some ''boot spec kernel argument key is invalid''
      else if length (arg_Value arg) > 512 \<or> ContainsAny (arg_Value arg) [CR, LF, NUL] then
        Some ''boot spec kernel argument value is invalid''
      else let lower = ToLower (arg_Key arg) in
      if Contains lower ''password'' \<or> Contains lower ''secret'' \<or> Contains lower ''token''
         \<or> Contains lower ''credential'' then Some ''boot spec kernel arguments may not carry secrets''
      else if arg_Key arg \<in> set seen then Some ''boot spec contains duplicate kernel argument''
      else validate_arguments (arg_Key arg # seen) rest)"

definition bootspec_Validate :: "BootSpec \<Rightarrow> string option" where
  "bootspec_Validate s =
     (if TrimSpace (bs_InstallationID s) = [] \<or> TrimSpace (bs_DriverID s) = []
         \<or> TrimSpace (bs_DriverVersion s) = [] then Some ''boot spec identity is incomplete''
      else if length (bs_InstallationID s) > 128 \<or> length (bs_DriverID s) > 64
         \<or> length (bs_DriverVersion s) > 64 then Some ''boot spec identity exceeds size limit''
      else case validateArtifactRef (bs_Kernel s) of
        Some err \<Rightarrow> Some (''boot spec kernel is invalid: '' @ err)
      | None \<Rightarrow>
        if bs_Initrds s = [] \<or> length (bs_Initrds s) > 4 then
          Some ''boot spec must contain between one and four initrds''
        else case validate_initrds [rf_ID (bs_Kernel s)] (bs_Initrds s) of
          Some err \<Rightarrow> Some err
        | None \<Rightarrow>
          if length (bs_Arguments s) > 32 then Some ''boot spec contains too many kernel arguments''
          else case validate_arguments [] (bs_Arguments s) of
            Some err \<Rightarrow> Some err
          | None \<Rightarrow>
            if TrimSpace (bs_SeedRef s) = [] \<or> length (bs_SeedRef s) > 256
               \<or> ContainsAny (bs_SeedRef s) [CR, LF, NUL, CHR ''?'', CHR 0x23]
               \<or> Contains (bs_SeedRef s) ''://'' then Some ''boot spec seed reference is invalid''
            else None)"

record SeedBundle =
  sd_Filename :: string
  sd_MediaType :: string
  sd_Content :: string

definition maxSeedBytes :: nat where "maxSeedBytes = 262144"

definition seed_Validate :: "SeedBundle \<Rightarrow> string option" where
  "seed_Validate s =
     (if TrimSpace (sd_Filename s) = [] \<or> length (sd_Filename s) > 128
         \<or> ContainsAny (sd_Filename s) [CHR ''/'', CHR 0x5C, CR, LF] then Some ''seed filename is invalid''
      else if TrimSpace (sd_MediaType s) = [] \<or> length (sd_MediaType s) > 128
         \<or> ContainsAny (sd_MediaType s) [CR, LF] then Some ''seed media type is invalid''
      else if sd_Content s = [] \<or> length (sd_Content s) > maxSeedBytes then
        Some ''seed content size is invalid''
      else None)"

end
