(* ===== verification/Lifecycle.thy ===== *)
theory Lifecycle
  imports Fault
begin

text \<open>
  The installation lifecycle of internal/lifecycle/model.go: the stages, who may report
  which stage, which stage may follow which, and the validation of a report. A stage or
  source is a text in Go; the constants are constructors here and any other text is the
  last constructor.
\<close>

section \<open>Stages and sources\<close>

datatype Stage =
    StageNone
  | StageCreated | StageQueued | StagePXEBooted | StageInstallerStarted | StageDiskPreparation
  | StageOSInstalling | StageProfileApplying | StageHardening | StageFirstBoot | StageValidating
  | StageSuccess | StageFailed
  | StageOther string

datatype Source =
    SourceServer | SourceInstaller | SourceFinalizer | SourceValidator | SourceOther string

definition stage_names :: "(Stage \<times> string) list" where
  "stage_names =
    [(StageNone, ''''), (StageCreated, ''CREATED''), (StageQueued, ''QUEUED''),
     (StagePXEBooted, ''PXE_BOOTED''), (StageInstallerStarted, ''INSTALLER_STARTED''),
     (StageDiskPreparation, ''DISK_PREPARATION''), (StageOSInstalling, ''OS_INSTALLING''),
     (StageProfileApplying, ''PROFILE_APPLYING''), (StageHardening, ''HARDENING''),
     (StageFirstBoot, ''FIRST_BOOT''), (StageValidating, ''VALIDATING''),
     (StageSuccess, ''SUCCESS''), (StageFailed, ''FAILED'')]"

definition parse_stage :: "string \<Rightarrow> Stage" where
  "parse_stage s = (case List.find (\<lambda>(_, n). n = s) stage_names of
     Some (st, _) \<Rightarrow> st | None \<Rightarrow> StageOther s)"

fun stage_text :: "Stage \<Rightarrow> string" where
  "stage_text (StageOther s) = s"
| "stage_text st = (case map_of stage_names st of Some n \<Rightarrow> n | None \<Rightarrow> [])"

fun source_text :: "Source \<Rightarrow> string" where
  "source_text SourceServer = ''server''"
| "source_text SourceInstaller = ''installer''"
| "source_text SourceFinalizer = ''finalizer''"
| "source_text SourceValidator = ''validator''"
| "source_text (SourceOther s) = s"

fun stage_Valid :: "Stage \<Rightarrow> bool" where
  "stage_Valid StageNone = False"
| "stage_Valid (StageOther s) = False"
| "stage_Valid _ = True"

definition Terminal :: "Stage \<Rightarrow> bool" where
  "Terminal s \<longleftrightarrow> s = StageSuccess \<or> s = StageFailed"

fun source_Valid :: "Source \<Rightarrow> bool" where
  "source_Valid (SourceOther s) = False"
| "source_Valid _ = True"

definition SourceAllowed :: "Stage \<Rightarrow> Source \<Rightarrow> bool" where
  "SourceAllowed stage source =
     (if stage \<in> set [StageCreated, StageQueued, StagePXEBooted] then source = SourceServer
      else if stage \<in> set [StageInstallerStarted, StageDiskPreparation, StageOSInstalling,
                           StageProfileApplying, StageHardening] then source = SourceInstaller
      else if stage = StageFirstBoot then source = SourceFinalizer
      else if stage \<in> set [StageValidating, StageSuccess] then
        source = SourceValidator \<or> source = SourceFinalizer
      else if stage = StageFailed then
        source = SourceInstaller \<or> source = SourceFinalizer \<or> source = SourceValidator
      else False)"

definition CanAdvance :: "Stage \<Rightarrow> Stage \<Rightarrow> bool" where
  "CanAdvance current next_stage =
     (if \<not> stage_Valid next_stage then False
      else if current = StageNone then
        next_stage \<in> set [StageCreated, StageQueued, StagePXEBooted]
      else if Terminal current then False
      else if next_stage = StageFailed then
        current \<in> set [StagePXEBooted, StageInstallerStarted, StageDiskPreparation,
          StageOSInstalling, StageProfileApplying, StageHardening, StageFirstBoot, StageValidating]
      else if current = next_stage then False
      else (case current of
        StageCreated \<Rightarrow> next_stage \<in> set [StageQueued, StagePXEBooted]
      | StageQueued \<Rightarrow> next_stage = StagePXEBooted
      | StagePXEBooted \<Rightarrow> next_stage = StageInstallerStarted
      | StageInstallerStarted \<Rightarrow> next_stage = StageDiskPreparation
      | StageDiskPreparation \<Rightarrow> next_stage = StageOSInstalling
      | StageOSInstalling \<Rightarrow> next_stage = StageProfileApplying
      | StageProfileApplying \<Rightarrow> next_stage = StageHardening
      | StageHardening \<Rightarrow> next_stage \<in> set [StageFirstBoot, StageValidating]
      | StageFirstBoot \<Rightarrow> next_stage = StageValidating
      | StageValidating \<Rightarrow> next_stage = StageSuccess
      | _ \<Rightarrow> False))"

section \<open>Reports\<close>

text \<open>
  Metadata is a Go map from text to text; it is the list of its entries in key order, which
  is the order in which json.Marshal writes them, and the nil map is the empty list.
\<close>

type_synonym metadata = "(string \<times> string) list"

record Report =
  r_InstallationID :: string
  r_Stage :: Stage
  r_Source :: Source
  r_ClientAt :: time
  r_IdempotencyKey :: string
  r_Message :: string
  r_ErrorCode :: string
  r_Metadata :: metadata

record LifecycleEvent =
  le_Sequence :: int
  le_InstallationID :: string
  le_Stage :: Stage
  le_Source :: Source
  le_ReceivedAt :: time
  le_ClientAt :: time
  le_RequestID :: string
  le_IdempotencyKey :: string
  le_Message :: string
  le_ErrorCode :: string
  le_Metadata :: metadata

definition idempotencyPattern :: "string \<Rightarrow> bool" where
  "idempotencyPattern v = (case v of [] \<Rightarrow> False
     | c # cs \<Rightarrow> is_alnum c \<and> length cs \<le> 127 \<and>
         (\<forall>x \<in> set cs. is_alnum x \<or> x \<in> set ''._:-''))"

text \<open>A validation returns the message of its error, \<open>None\<close> for nil.\<close>

definition ValidateIdempotencyKey :: "string \<Rightarrow> string option" where
  "ValidateIdempotencyKey v =
     (if v \<noteq> TrimSpace v \<or> \<not> idempotencyPattern v then Some ''idempotency key is invalid''
      else None)"

definition sensitiveMetadataKey :: "string \<Rightarrow> bool" where
  "sensitiveMetadataKey key =
     (let v = ToLower (map (\<lambda>c. if c = CHR ''-'' \<or> c = CHR ''.'' then CHR ''_'' else c) key)
      in \<exists>part \<in> set [''token'', ''password'', ''secret'', ''authorization'', ''cookie'',
                       ''credential'', ''recovery_key'', ''private_key'']. Contains v part)"

fun validate_metadata :: "metadata \<Rightarrow> string option" where
  "validate_metadata [] = None"
| "validate_metadata ((k, v) # rest) =
     (let key = TrimSpace k in
      if key = [] \<or> length key > 64 \<or> length v > 512 then
        Some ''lifecycle metadata exceeds size limit''
      else if sensitiveMetadataKey key then Some ''lifecycle metadata contains a sensitive key''
      else validate_metadata rest)"

definition report_Validate :: "Report \<Rightarrow> string option" where
  "report_Validate r =
     (if TrimSpace (r_InstallationID r) = [] then Some ''installation ID is required''
      else if \<not> stage_Valid (r_Stage r) then Some ''lifecycle stage is invalid''
      else if \<not> source_Valid (r_Source r) then Some ''lifecycle source is invalid''
      else case ValidateIdempotencyKey (r_IdempotencyKey r) of Some err \<Rightarrow> Some err
      | None \<Rightarrow>
        if length (r_Message r) > 1024 \<or> length (r_ErrorCode r) > 128 then
          Some ''lifecycle event text exceeds size limit''
        else if r_Stage r = StageFailed \<and> TrimSpace (r_ErrorCode r) = [] then
          Some ''failed lifecycle event requires an error code''
        else if r_Stage r \<noteq> StageFailed \<and> TrimSpace (r_ErrorCode r) \<noteq> [] then
          Some ''non-failed lifecycle event cannot carry an error code''
        else if length (r_Metadata r) > 32 then Some ''too many lifecycle metadata fields''
        else case validate_metadata (r_Metadata r) of Some err \<Rightarrow> Some err
        | None \<Rightarrow>
          if \<not> SourceAllowed (r_Stage r) (r_Source r) then
            Some ''lifecycle source is not authorized for stage''
          else None)"

section \<open>The stage machine\<close>

fun stage_rank :: "Stage \<Rightarrow> nat" where
  "stage_rank StageNone = 0"
| "stage_rank StageCreated = 1"
| "stage_rank StageQueued = 2"
| "stage_rank StagePXEBooted = 3"
| "stage_rank StageInstallerStarted = 4"
| "stage_rank StageDiskPreparation = 5"
| "stage_rank StageOSInstalling = 6"
| "stage_rank StageProfileApplying = 7"
| "stage_rank StageHardening = 8"
| "stage_rank StageFirstBoot = 9"
| "stage_rank StageValidating = 10"
| "stage_rank StageSuccess = 11"
| "stage_rank StageFailed = 12"
| "stage_rank (StageOther s) = 0"

lemma CanAdvance_rank: "CanAdvance a b \<Longrightarrow> stage_rank a < stage_rank b"
  by (cases a; cases b) (auto simp: CanAdvance_def Terminal_def)

interpretation stages: ranked_steps CanAdvance stage_rank
  by unfold_locales (rule CanAdvance_rank)

text \<open>The stages an installation has gone through, from the empty stage on.\<close>

definition stage_path :: "Stage list \<Rightarrow> bool" where
  "stage_path ss \<longleftrightarrow> successively CanAdvance (StageNone # ss)"

lemma stage_path_Nil [simp]: "stage_path []"
  by (simp add: stage_path_def)

lemma stage_path_snoc:
  "stage_path (ss @ [s]) \<longleftrightarrow> stage_path ss \<and> CanAdvance (last (StageNone # ss)) s"
  using successively_append_iff [of CanAdvance "StageNone # ss" "[s]"]
  by (simp add: stage_path_def)

lemma terminal_stuck: "Terminal s \<Longrightarrow> \<not> CanAdvance s t"
  by (auto simp: CanAdvance_def Terminal_def)

lemma CanAdvance_valid: "CanAdvance s t \<Longrightarrow> stage_Valid t"
  by (simp add: CanAdvance_def split: if_splits)

lemma stage_path_bound: "stage_path ss \<Longrightarrow> length ss \<le> 12"
  using stages.path_rank [of StageNone ss]
  by (cases "last (StageNone # ss)") (auto simp: stage_path_def)

text \<open>The only way back from each stage, used to unwind a path from its end.\<close>

lemma before_Success: "CanAdvance s StageSuccess \<Longrightarrow> s = StageValidating"
  by (cases s) (auto simp: CanAdvance_def Terminal_def)

lemma before_Validating: "CanAdvance s StageValidating \<Longrightarrow> s = StageHardening \<or> s = StageFirstBoot"
  by (cases s) (auto simp: CanAdvance_def Terminal_def)

lemma before_FirstBoot: "CanAdvance s StageFirstBoot \<Longrightarrow> s = StageHardening"
  by (cases s) (auto simp: CanAdvance_def Terminal_def)

lemma before_Hardening: "CanAdvance s StageHardening \<Longrightarrow> s = StageProfileApplying"
  by (cases s) (auto simp: CanAdvance_def Terminal_def)

lemma before_ProfileApplying: "CanAdvance s StageProfileApplying \<Longrightarrow> s = StageOSInstalling"
  by (cases s) (auto simp: CanAdvance_def Terminal_def)

lemma before_OSInstalling: "CanAdvance s StageOSInstalling \<Longrightarrow> s = StageDiskPreparation"
  by (cases s) (auto simp: CanAdvance_def Terminal_def)

lemma before_DiskPreparation: "CanAdvance s StageDiskPreparation \<Longrightarrow> s = StageInstallerStarted"
  by (cases s) (auto simp: CanAdvance_def Terminal_def)

lemma before_InstallerStarted: "CanAdvance s StageInstallerStarted \<Longrightarrow> s = StagePXEBooted"
  by (cases s) (auto simp: CanAdvance_def Terminal_def)

lemmas before_stage = before_Success before_Validating before_FirstBoot before_Hardening
  before_ProfileApplying before_OSInstalling before_DiskPreparation before_InstallerStarted

lemma stage_path_back:
  assumes "stage_path (ss @ [s])" and "\<And>p. CanAdvance p s \<Longrightarrow> p = q" and "q \<noteq> StageNone"
  obtains ts where "ss = ts @ [q]" "stage_path (ts @ [q])"
proof -
  from assms have "last (StageNone # ss) = q" by (simp add: stage_path_snoc)
  with assms(3) have ne: "ss \<noteq> []" "last ss = q" by (auto split: if_splits)
  then have "ss = butlast ss @ [q]" by (metis append_butlast_last_id)
  with assms(1) that show ?thesis by (metis stage_path_snoc)
qed

definition install_chain :: "Stage list" where
  "install_chain = [StagePXEBooted, StageInstallerStarted, StageDiskPreparation,
     StageOSInstalling, StageProfileApplying, StageHardening]"

lemma hardening_chain:
  assumes "stage_path (ss @ [StageHardening])"
  shows "\<exists>ts. ss @ [StageHardening] = ts @ install_chain"
proof -
  obtain s1 where 1: "ss = s1 @ [StageProfileApplying]" "stage_path (s1 @ [StageProfileApplying])"
    using assms by (rule stage_path_back) (auto dest: before_stage)
  obtain s2 where 2: "s1 = s2 @ [StageOSInstalling]" "stage_path (s2 @ [StageOSInstalling])"
    using 1(2) by (rule stage_path_back) (auto dest: before_stage)
  obtain s3 where 3: "s2 = s3 @ [StageDiskPreparation]" "stage_path (s3 @ [StageDiskPreparation])"
    using 2(2) by (rule stage_path_back) (auto dest: before_stage)
  obtain s4 where 4: "s3 = s4 @ [StageInstallerStarted]" "stage_path (s4 @ [StageInstallerStarted])"
    using 3(2) by (rule stage_path_back) (auto dest: before_stage)
  obtain s5 where 5: "s4 = s5 @ [StagePXEBooted]"
    using 4(2) by (rule stage_path_back) (auto dest: before_stage)
  show ?thesis
    by (rule exI [of _ s5]) (simp add: 1 2 3 4 5 install_chain_def)
qed

lemma success_chain:
  assumes "stage_path (ss @ [StageSuccess])"
  shows "\<exists>ts. ss @ [StageSuccess] = ts @ install_chain @ [StageValidating, StageSuccess]
            \<or> ss @ [StageSuccess] = ts @ install_chain @ [StageFirstBoot, StageValidating, StageSuccess]"
proof -
  obtain s1 where 1: "ss = s1 @ [StageValidating]" "stage_path (s1 @ [StageValidating])"
    using assms by (rule stage_path_back) (auto dest: before_stage)
  from 1(2) have "CanAdvance (last (StageNone # s1)) StageValidating" by (simp add: stage_path_snoc)
  then consider "last (StageNone # s1) = StageHardening" | "last (StageNone # s1) = StageFirstBoot"
    by (auto dest: before_stage)
  then show ?thesis
  proof cases
    case 1
    then have "s1 = butlast s1 @ [StageHardening]" by (metis append_butlast_last_id last.simps Stage.distinct(15))
    then obtain ts where "s1 = ts @ install_chain"
      using \<open>stage_path (s1 @ _)\<close> hardening_chain by (metis stage_path_snoc)
    then show ?thesis using \<open>ss = _\<close> by auto
  next
    case 2
    then have s1: "s1 = butlast s1 @ [StageFirstBoot]" by (metis append_butlast_last_id last.simps Stage.distinct(17))
    then have "stage_path (butlast s1 @ [StageFirstBoot])"
      using \<open>stage_path (s1 @ _)\<close> by (metis stage_path_snoc)
    then obtain s2 where s2: "butlast s1 = s2 @ [StageHardening]" "stage_path (s2 @ [StageHardening])"
      by (rule stage_path_back) (auto dest: before_stage)
    then obtain ts where "butlast s1 = ts @ install_chain"
      using hardening_chain by metis
    with s1 have "s1 = ts @ install_chain @ [StageFirstBoot]" by simp
    then show ?thesis using \<open>ss = _\<close> by auto
  qed
qed

lemma parse_stage_text: "stage_text (parse_stage s) = s"
  by (auto simp: parse_stage_def stage_names_def)

text \<open>Only the last stage of a path can be a terminal one.\<close>

lemma stage_path_open: "stage_path ss \<Longrightarrow> \<forall>s \<in> set (butlast ss). \<not> Terminal s"
proof (induction ss rule: rev_induct)
  case (snoc x xs)
  then have path: "stage_path xs" "CanAdvance (last (StageNone # xs)) x" by (simp_all add: stage_path_snoc)
  show ?case
  proof (cases "xs = []")
    case False
    with path(2) have "\<not> Terminal (last xs)" using terminal_stuck by auto
    then show ?thesis using snoc.IH [OF path(1)] set_butlast_last [OF False] by simp
  qed simp
qed simp

end
