(* ===== verification/Telemetry_Model.thy ===== *)
theory Telemetry_Model
  imports Installation_Model Lifecycle
begin

text \<open>
  Installer telemetry without the database: credentials, log chunks and the redaction of log
  lines (internal/telemetry/model.go), and the request authentication code
  (internal/telemetryauth/auth.go).
\<close>

section \<open>Credentials and log chunks\<close>

definition MaxLogChunkBytes :: nat where "MaxLogChunkBytes = 131072"
definition MaxInstallationLogBytes :: nat where "MaxInstallationLogBytes = 16777216"

record Credential =
  cr_ID :: string
  cr_InstallationID :: string
  cr_CreatedAt :: time
  cr_ExpiresAt :: time
  cr_RevokedAt :: time
  cr_LastUsedAt :: time

record LogChunk =
  lg_ID :: int
  lg_InstallationID :: string
  lg_Sequence :: int
  lg_Source :: Source
  lg_ReceivedAt :: time
  lg_ClientAt :: time
  lg_RequestID :: string
  lg_IdempotencyKey :: string
  lg_Content :: string
  lg_Digest :: string

definition credential_Active :: "Credential \<Rightarrow> time \<Rightarrow> bool" where
  "credential_Active c now \<longleftrightarrow>
     \<not> IsZero (cr_CreatedAt c) \<and> cr_ExpiresAt c > now \<and> IsZero (cr_RevokedAt c)"

definition log_sources :: "Source list" where
  "log_sources = [SourceInstaller, SourceFinalizer, SourceValidator]"

definition chunk_Validate :: "LogChunk \<Rightarrow> string option" where
  "chunk_Validate c =
     (if TrimSpace (lg_InstallationID c) = [] then Some ''installation ID is required''
      else if lg_Sequence c \<le> 0 then Some ''log chunk sequence must be positive''
      else if lg_Source c \<notin> set log_sources then Some ''log chunk source is invalid''
      else case ValidateIdempotencyKey (lg_IdempotencyKey c) of Some err \<Rightarrow> Some err
      | None \<Rightarrow>
        if lg_Content c = [] then Some ''log chunk content is required''
        else if length (lg_Content c) > MaxLogChunkBytes then Some ''log chunk exceeds size limit''
        else None)"

section \<open>Redaction\<close>

definition log_markers :: "string list" where
  "log_markers = [''authorization:'', ''bearer '', ''password='', ''password:'', ''token='', ''token:'',
     ''secret='', ''secret:'', ''cookie='', ''cookie:'', ''private_key='', ''private key-----'',
     ''recovery_key='', ''recovery key:'']"

definition sensitiveLogLine :: "string \<Rightarrow> bool" where
  "sensitiveLogLine lower \<longleftrightarrow> list_ex (\<lambda>marker. Contains lower marker) log_markers"

definition redacted_line :: string where
  "redacted_line = ''[REDACTED sensitive installer log line]''"

definition redact_line :: "string \<Rightarrow> string" where
  "redact_line line = (if sensitiveLogLine (ToLower line) then redacted_line else line)"

definition RedactLogContent :: "string \<Rightarrow> string" where
  "RedactLogContent content =
     join_with [LF] (map redact_line (split_on LF (filter (\<lambda>c. c \<noteq> NUL) content)))"

text \<open>What redaction is for: no line of the text carries a marker, in any letter case.\<close>

definition no_sensitive_line :: "string \<Rightarrow> bool" where
  "no_sensitive_line content \<longleftrightarrow> (\<forall>line \<in> set (split_on LF content). \<not> sensitiveLogLine (ToLower line))"

lemma redacted_line_safe: "\<not> sensitiveLogLine (ToLower redacted_line)"
  by code_simp

lemma redact_line_safe: "\<not> sensitiveLogLine (ToLower (redact_line line))"
  by (simp add: redact_line_def redacted_line_safe)

lemma redact_line_no_LF: "LF \<notin> set line \<Longrightarrow> LF \<notin> set (redact_line line)"
  by (simp add: redact_line_def redacted_line_def)

lemma split_RedactLogContent:
  "split_on LF (RedactLogContent content) = map redact_line (split_on LF (filter (\<lambda>c. c \<noteq> NUL) content))"
  unfolding RedactLogContent_def
  by (rule split_join) (auto dest!: split_on_no_sep dest: redact_line_no_LF)

lemma RedactLogContent_safe: "no_sensitive_line (RedactLogContent content)"
  by (auto simp: no_sensitive_line_def split_RedactLogContent redact_line_safe)

lemma set_join_with: "set (join_with sep ls) \<subseteq> set sep \<union> \<Union> (set ` set ls)"
  by (induction sep ls rule: join_with.induct) auto

lemma set_split_on: "l \<in> set (split_on c s) \<Longrightarrow> set l \<subseteq> set s"
  by (induction s arbitrary: l) (auto split: list.splits if_splits, blast+)

lemma RedactLogContent_no_NUL: "NUL \<notin> set (RedactLogContent content)"
proof -
  have "NUL \<notin> set (redact_line l)" if "l \<in> set (split_on LF (filter (\<lambda>c. c \<noteq> NUL) content))" for l
    using set_split_on [OF that] by (auto simp: redact_line_def redacted_line_def)
  then show ?thesis
    unfolding RedactLogContent_def
    using set_join_with [of "[LF]" "map redact_line (split_on LF (filter (\<lambda>c. c \<noteq> NUL) content))"]
    by fastforce
qed

lemma RedactLogContent_fixed:
  "no_sensitive_line s \<Longrightarrow> NUL \<notin> set s \<Longrightarrow> RedactLogContent s = s"
proof -
  assume safe: "no_sensitive_line s" and nul: "NUL \<notin> set s"
  from nul have "filter (\<lambda>c. c \<noteq> NUL) s = s" by (auto simp: filter_id_conv)
  moreover from safe have "map redact_line (split_on LF s) = split_on LF s"
    by (intro map_idI) (simp add: no_sensitive_line_def redact_line_def)
  ultimately show ?thesis by (simp add: RedactLogContent_def)
qed

lemma RedactLogContent_idem: "RedactLogContent (RedactLogContent s) = RedactLogContent s"
  by (rule RedactLogContent_fixed [OF RedactLogContent_safe RedactLogContent_no_NUL])

section \<open>Request authentication\<close>

text \<open>strconv.FormatInt in base ten.\<close>

fun nat_text :: "nat \<Rightarrow> string" where
  "nat_text n = (if n < 10 then [char_of (48 + n)] else nat_text (n div 10) @ [char_of (48 + n mod 10)])"

declare nat_text.simps [simp del]

definition FormatInt :: "int \<Rightarrow> string" where
  "FormatInt i = (if i < 0 then CHR ''-'' # nat_text (nat (- i)) else nat_text (nat i))"

text \<open>strings.ToUpper on an HTTP method, whose bytes are ASCII.\<close>

definition ToUpper :: "string \<Rightarrow> string" where
  "ToUpper s = map (\<lambda>c. if is_lower c then char_of (byte c - 32) else c) s"

definition KeyFromSecret :: "golib \<Rightarrow> string \<Rightarrow> string" where
  "KeyFromSecret L secret = lib_sha256 L secret"

definition Canonical :: "golib \<Rightarrow> string \<Rightarrow> string \<Rightarrow> string \<Rightarrow> int \<Rightarrow> string \<Rightarrow> string + string" where
  "Canonical L httpMethod0 path0 idempotencyKey0 unixSeconds body =
     (let httpMethod = ToUpper (TrimSpace httpMethod0); path = TrimSpace path0;
          idempotencyKey = TrimSpace idempotencyKey0
      in if httpMethod = [] \<or> path = [] \<or> \<not> HasPrefix path ''/'' \<or> idempotencyKey = []
            \<or> unixSeconds \<le> 0 then
        Inl ''telemetry authentication input is incomplete''
      else Inr (join_with [LF] [''AEGISPXE-TELEMETRY-AUTH-V1'', httpMethod, path, idempotencyKey,
                  FormatInt unixSeconds, hex_encode (lib_sha256 L body)] @ [LF]))"

definition Sign :: "golib \<Rightarrow> string \<Rightarrow> string \<Rightarrow> string" where
  "Sign L key canonical = RawURL_Encode (lib_hmac L key canonical)"

definition Verify :: "golib \<Rightarrow> string \<Rightarrow> string \<Rightarrow> string \<Rightarrow> bool" where
  "Verify L key canonical encodedSignature =
     (case RawURL_Decode (TrimSpace encodedSignature) of
        None \<Rightarrow> False
      | Some provided \<Rightarrow>
          if length provided \<noteq> 32 then False else provided = lib_hmac L key canonical)"

section \<open>What the canonical text determines\<close>

lemma hex_digit_inj: "a < 16 \<Longrightarrow> b < 16 \<Longrightarrow> hex_digit a = hex_digit b \<Longrightarrow> a = b"
proof -
  have "list_all (\<lambda>a. list_all (\<lambda>b. hex_digit a = hex_digit b \<longrightarrow> a = b) [0..<16]) [0..<16]" by code_simp
  then show "a < 16 \<Longrightarrow> b < 16 \<Longrightarrow> hex_digit a = hex_digit b \<Longrightarrow> a = b" by (simp add: list_all_iff)
qed

lemma hex_encode_Cons: "hex_encode (c # s) = hex_digit (byte c div 16) # hex_digit (byte c mod 16) # hex_encode s"
  by (simp add: hex_encode_def)

lemma hex_encode_inj: "hex_encode s = hex_encode t \<Longrightarrow> s = t"
proof (induction s arbitrary: t)
  case Nil
  then show ?case by (cases t) (simp_all add: hex_encode_def)
next
  case (Cons a s)
  then obtain b u where t: "t = b # u" by (cases t) (simp_all add: hex_encode_def)
  with Cons.prems have "hex_digit (byte a div 16) = hex_digit (byte b div 16)"
      "hex_digit (byte a mod 16) = hex_digit (byte b mod 16)" "hex_encode s = hex_encode u"
    by (simp_all add: hex_encode_Cons)
  then have "byte a div 16 = byte b div 16" "byte a mod 16 = byte b mod 16"
    by (auto intro: hex_digit_inj byte_div_lt)
  then have "byte a = byte b" by (metis div_mult_mod_eq)
  then have "a = b" by (metis char_of_byte)
  with t Cons.IH \<open>hex_encode s = hex_encode u\<close> show ?case by simp
qed

lemma digit_char_inj: "a < 10 \<Longrightarrow> b < 10 \<Longrightarrow> (char_of (48 + a :: nat) :: char) = char_of (48 + b) \<Longrightarrow> a = b"
proof -
  assume "a < 10" "b < 10" "(char_of (48 + a :: nat) :: char) = char_of (48 + b)"
  then have "of_char (char_of (48 + a :: nat) :: char) = (of_char (char_of (48 + b :: nat) :: char) :: nat)" by simp
  with \<open>a < 10\<close> \<open>b < 10\<close> show "a = b" by simp
qed

lemma digit_char_no_LF: "a < 10 \<Longrightarrow> (char_of (48 + a :: nat) :: char) \<noteq> LF"
proof
  assume "a < 10" "(char_of (48 + a :: nat) :: char) = LF"
  then have "of_char (char_of (48 + a :: nat) :: char) = (of_char LF :: nat)" by simp
  with \<open>a < 10\<close> show False by simp
qed

lemma nat_text_nonempty: "nat_text n \<noteq> []"
  by (subst nat_text.simps) simp

lemmas nat_text_nonempty' = nat_text_nonempty [symmetric]

lemma nat_text_inj: "nat_text n = nat_text m \<Longrightarrow> n = m"
proof (induction n arbitrary: m rule: nat_text.induct)
  case (1 n)
  show ?case
  proof (cases "n < 10 \<or> m < 10")
    case True
    with "1.prems" show ?thesis
      by (subst (asm) (1 2) nat_text.simps) (auto simp: nat_text_nonempty nat_text_nonempty' split: if_splits dest: digit_char_inj)
  next
    case False
    then have "nat_text (n div 10) @ [char_of (48 + n mod 10)] = nat_text (m div 10) @ [char_of (48 + m mod 10)]"
      using "1.prems" nat_text.simps [of n] nat_text.simps [of m] by simp
    then have "nat_text (n div 10) = nat_text (m div 10)" "n mod 10 = m mod 10"
      by (auto intro: digit_char_inj)
    with "1.IH" False have "n div 10 = m div 10" by simp
    with \<open>n mod 10 = m mod 10\<close> show ?thesis by (metis div_mult_mod_eq)
  qed
qed

lemma nat_text_digits: "c \<in> set (nat_text n) \<Longrightarrow> c \<noteq> LF"
proof (induction n rule: nat_text.induct)
  case (1 n)
  have "(char_of (48 + n mod 10) :: char) \<noteq> LF" "n < 10 \<Longrightarrow> (char_of (48 + n) :: char) \<noteq> LF"
    by (simp_all add: digit_char_no_LF)
  with 1 show ?case by (subst (asm) nat_text.simps) (auto split: if_splits)
qed

lemma hex_encode_no_LF: "LF \<notin> set (hex_encode s)"
  using hex_encode_plain [of s] by (auto simp: plain_def space1_def byte_def)

lemma ToUpper_no_LF: "LF \<notin> set s \<Longrightarrow> LF \<notin> set (ToUpper s)"
proof -
  have "(char_of (byte c - 32) :: char) \<noteq> LF" if "is_lower c" for c
  proof
    assume "(char_of (byte c - 32) :: char) = LF"
    then have "(of_char (char_of (byte c - 32) :: char) :: nat) = of_char LF" by simp
    moreover have "(byte c - 32) mod 256 = byte c - 32" using byte_lt [of c] by (intro mod_less) linarith
    ultimately show False using that by (simp add: in_range_def) linarith
  qed
  then have up: "(if is_lower c then char_of (byte c - 32) else c) \<noteq> LF" if "c \<noteq> LF" for c
    using that by (metis (full_types))
  define up where "up c = (if is_lower c then char_of (byte c - 32) else c)" for c
  have eq: "ToUpper s = map up s" by (simp add: ToUpper_def up_def)
  have "up c \<noteq> LF" if "c \<noteq> LF" for c using up [OF that] by (simp only: up_def not_False_eq_True)
  then show "LF \<notin> set s \<Longrightarrow> LF \<notin> set (ToUpper s)" unfolding eq by (induction s) (simp_all, metis)
qed

lemma set_strip: "set (strip w s) \<subseteq> set s"
  using strip_suffix [of w s] by (rule set_mono_suffix)

lemma TrimSpace_no_LF: "LF \<notin> set s \<Longrightarrow> LF \<notin> set (TrimSpace s)"
  using set_strip [of trail_width "rev (strip lead_width s)"] set_strip [of lead_width s] by (auto simp: TrimSpace_def)

definition canonical_lines :: "golib \<Rightarrow> string \<Rightarrow> string \<Rightarrow> string \<Rightarrow> int \<Rightarrow> string \<Rightarrow> string list" where
  "canonical_lines L httpMethod path idempotencyKey unixSeconds body =
     [''AEGISPXE-TELEMETRY-AUTH-V1'', ToUpper (TrimSpace httpMethod), TrimSpace path, TrimSpace idempotencyKey,
      FormatInt unixSeconds, hex_encode (lib_sha256 L body)]"

lemma Canonical_lines:
  "Canonical L hm p k t b = Inr c \<Longrightarrow> c = join_with [LF] (canonical_lines L hm p k t b) @ [LF] \<and> 0 < t"
  unfolding Canonical_def canonical_lines_def Let_def by (simp split: if_splits)

lemma canonical_lines_no_LF:
  "LF \<notin> set hm \<Longrightarrow> LF \<notin> set p \<Longrightarrow> LF \<notin> set k \<Longrightarrow> 0 < t \<Longrightarrow> \<forall>l \<in> set (canonical_lines L hm p k t b). LF \<notin> set l"
  by (auto simp: canonical_lines_def FormatInt_def ToUpper_no_LF TrimSpace_no_LF hex_encode_no_LF dest: nat_text_digits)

lemma FormatInt_inj: "0 < a \<Longrightarrow> 0 < b \<Longrightarrow> FormatInt a = FormatInt b \<Longrightarrow> a = b"
  by (auto simp: FormatInt_def dest: nat_text_inj)

section \<open>Properties\<close>

text \<open>
  the text that is signed determines the request. Two requests without line breaks in their
  method, path and idempotency key that have the same canonical text have the same method (in
  upper case), path, idempotency key, time and body digest, so a code for one of them is no code
  for a different one.\<close>

theorem canonical_determines_request:
  assumes "Canonical L hm p k t b = Inr c" "Canonical L hm' p' k' t' b' = Inr c"
    and "LF \<notin> set hm" "LF \<notin> set p" "LF \<notin> set k" "LF \<notin> set hm'" "LF \<notin> set p'" "LF \<notin> set k'"
  shows "ToUpper (TrimSpace hm) = ToUpper (TrimSpace hm') \<and> TrimSpace p = TrimSpace p' \<and> TrimSpace k = TrimSpace k'
    \<and> t = t' \<and> lib_sha256 L b = lib_sha256 L b'"
proof -
  have c: "c = join_with [LF] (canonical_lines L hm p k t b) @ [LF]" "0 < t" using Canonical_lines [OF assms(1)] by auto
  have c': "c = join_with [LF] (canonical_lines L hm' p' k' t' b') @ [LF]" "0 < t'"
    using Canonical_lines [OF assms(2)] by auto
  from c(1) c'(1) have "join_with [LF] (canonical_lines L hm p k t b) = join_with [LF] (canonical_lines L hm' p' k' t' b')"
    by simp
  moreover have "canonical_lines L hm p k t b \<noteq> []" "canonical_lines L hm' p' k' t' b' \<noteq> []"
    by (simp_all add: canonical_lines_def)
  ultimately have "canonical_lines L hm p k t b = canonical_lines L hm' p' k' t' b'"
    using canonical_lines_no_LF [OF assms(3-5) c(2)] canonical_lines_no_LF [OF assms(6-8) c'(2)]
    by (metis join_with_inj)
  then have eqs: "ToUpper (TrimSpace hm) = ToUpper (TrimSpace hm')" "TrimSpace p = TrimSpace p'"
      "TrimSpace k = TrimSpace k'" "FormatInt t = FormatInt t'" "hex_encode (lib_sha256 L b) = hex_encode (lib_sha256 L b')"
    unfolding canonical_lines_def by blast+
  with FormatInt_inj [OF c(2) c'(2)] hex_encode_inj [OF eqs(5)] show ?thesis by blast
qed

theorem canonical_determines_request_witness:
  "\<forall>L. projr (Canonical L ''POST'' ''/a'' ''k'' 1 ''x'') \<noteq> projr (Canonical L ''POST'' ''/b'' ''k'' 1 ''x'')"
proof (intro allI notI)
  fix L
  have ok: "Canonical L ''POST'' [CHR ''/'', c] ''k'' 1 ''x'' = Inr (projr (Canonical L ''POST'' [CHR ''/'', c] ''k'' 1 ''x''))"
    if "plain c" for c
    using that by (simp add: Canonical_def Let_def TrimSpace_plain plain_def byte_def space1_def ToUpper_def)
  assume "projr (Canonical L ''POST'' ''/a'' ''k'' 1 ''x'') = projr (Canonical L ''POST'' ''/b'' ''k'' 1 ''x'')"
  with ok [of "CHR ''a''"] ok [of "CHR ''b''"]
  have "Canonical L ''POST'' ''/a'' ''k'' 1 ''x'' = Inr (projr (Canonical L ''POST'' ''/b'' ''k'' 1 ''x''))"
    "Canonical L ''POST'' ''/b'' ''k'' 1 ''x'' = Inr (projr (Canonical L ''POST'' ''/b'' ''k'' 1 ''x''))"
    by (simp_all add: plain_def byte_def space1_def)
  from canonical_determines_request [OF this] show False
    by (simp add: TrimSpace_plain plain_def byte_def space1_def)
qed

end
