(* ===== verification/Boot_Trust_Model.thy ===== *)
theory Boot_Trust_Model
  imports Telemetry_Model
begin

text \<open>
  Boot trust keys and challenges (internal/boottrust/model.go): the accepted public keys and
  the text a client signs to answer a challenge.
\<close>

datatype KeyState = KeyPending | KeyApproved | KeyRevoked | KeyStateOther string

definition MaxPublicKeyPEMBytes :: nat where "MaxPublicKeyPEMBytes = 8192"
definition MaxEKFingerprintLen :: nat where "MaxEKFingerprintLen = 128"

record Key =
  k_Fingerprint :: string
  k_MachineID :: string
  k_PublicKeyPEM :: string
  k_EKFingerprint :: string
  k_State :: KeyState
  k_FirstSeenAt :: time
  k_LastSeenAt :: time
  k_ApprovedAt :: time
  k_ApprovedBy :: string
  k_RevokedAt :: time
  k_RevokedBy :: string

record Challenge =
  c_ID :: string
  c_InstallationID :: string
  c_MachineID :: string
  c_KeyFingerprint :: string
  c_Nonce :: string
  c_CreatedAt :: time
  c_ExpiresAt :: time
  c_UsedAt :: time
  c_ResponseCipher :: string
  c_CredentialExpiry :: time

record Release =
  rl_ChallengeID :: string
  rl_Ciphertext :: string
  rl_Algorithm :: string
  rl_CredentialExpiry :: time
  rl_Duplicate :: bool

fun BitLen :: "nat \<Rightarrow> nat" where
  "BitLen n = (if n = 0 then 0 else Suc (BitLen (n div 2)))"

declare BitLen.simps [simp del]

definition ParseRSAPublicKeyPEM :: "golib \<Rightarrow> string \<Rightarrow> string + pkix_key \<times> string" where
  "ParseRSAPublicKeyPEM L value0 =
     (let v = TrimSpace value0 in
      if v = [] \<or> length v > MaxPublicKeyPEMBytes then
        Inl ''boot trust public key is missing or too large''
      else case lib_pem L v of
        None \<Rightarrow> Inl ''boot trust key must be one PKIX PUBLIC KEY PEM block''
      | Some (block_type, block_bytes, rest) \<Rightarrow>
        if length (TrimSpace rest) \<noteq> 0 \<or> block_type \<noteq> ''PUBLIC KEY'' then
          Inl ''boot trust key must be one PKIX PUBLIC KEY PEM block''
        else case lib_pkix L block_bytes of
          None \<Rightarrow> Inl ''parse boot trust public key''
        | Some OtherKey \<Rightarrow> Inl ''boot trust key must be RSA 2048-4096 with exponent 65537''
        | Some (RSAKey n ex) \<Rightarrow>
          if ex \<noteq> 65537 \<or> BitLen n < 2048 \<or> BitLen n > 4096 then
            Inl ''boot trust key must be RSA 2048-4096 with exponent 65537''
          else Inr (RSAKey n ex, ''sha256:'' @ hex_encode (lib_sha256 L block_bytes)))"

definition ValidateEKFingerprint :: "string \<Rightarrow> string option" where
  "ValidateEKFingerprint value0 =
     (let v = TrimSpace value0 in
      if v = [] then None
      else if length v > MaxEKFingerprintLen \<or> \<not> HasPrefix v ''sha256:'' then
        Some ''EK fingerprint is invalid''
      else let hexValue = TrimPrefix v ''sha256:'' in
      if length hexValue \<noteq> 64 then Some ''EK fingerprint is invalid''
      else if \<not> list_all (\<lambda>c. is_hex c \<or> in_range c 65 70) hexValue then Some ''EK fingerprint is invalid''
      else None)"

definition CanonicalChallenge :: "Challenge \<Rightarrow> string + string" where
  "CanonicalChallenge c =
     (if TrimSpace (c_ID c) = [] \<or> TrimSpace (c_InstallationID c) = [] \<or> TrimSpace (c_MachineID c) = []
         \<or> TrimSpace (c_KeyFingerprint c) = [] \<or> length (c_Nonce c) \<noteq> 32 then
        Inl ''boot trust challenge is incomplete''
      else Inr (join_with [LF] [''AEGISPXE-BOOT-TRUST-V1'', c_ID c, c_InstallationID c, c_MachineID c,
                  c_KeyFingerprint c, RawURL_Encode (c_Nonce c)] @ [LF]))"

text \<open>What the code ever does to the state of a key.\<close>

definition key_step :: "KeyState \<Rightarrow> KeyState \<Rightarrow> bool" where
  "key_step s t \<longleftrightarrow> s = KeyPending \<and> t = KeyApproved \<or> s \<noteq> KeyRevoked \<and> t = KeyRevoked"

fun key_rank :: "KeyState \<Rightarrow> nat" where
  "key_rank KeyPending = 0"
| "key_rank KeyApproved = 1"
| "key_rank KeyRevoked = 2"
| "key_rank (KeyStateOther s) = 1"

interpretation key_states: ranked_steps key_step key_rank
proof
  fix a b
  show "key_step a b \<Longrightarrow> key_rank a < key_rank b"
    by (cases a) (auto simp: key_step_def)
qed

section \<open>Lemmas\<close>

lemma ParseRSAPublicKeyPEM_key:
  "ParseRSAPublicKeyPEM L v = Inr (k, fp) \<Longrightarrow>
   \<exists>n. k = RSAKey n 65537 \<and> 2048 \<le> BitLen n \<and> BitLen n \<le> 4096"
  by (auto simp: ParseRSAPublicKeyPEM_def Let_def split: if_splits option.splits prod.splits pkix_key.splits)

lemma ParseRSAPublicKeyPEM_trim: "ParseRSAPublicKeyPEM L (TrimSpace v) = ParseRSAPublicKeyPEM L v"
  by (simp add: ParseRSAPublicKeyPEM_def)

lemma join_LF_inj:
  assumes "join_with [LF] ls @ [LF] = join_with [LF] ms @ [LF]"
    and "ls \<noteq> []" "ms \<noteq> []" "\<forall>l \<in> set ls. LF \<notin> set l" "\<forall>l \<in> set ms. LF \<notin> set l"
  shows "ls = ms"
  using assms by (metis append_same_eq join_with_inj)

end
