(* ===== verification/Machine_Model.thy ===== *)
theory Machine_Model
  imports Fault
begin

text \<open>
  Machines and the decisions about them that need no database: Secure Boot evidence and
  policy (internal/secureboot/policy.go), machine identity and nicknames
  (internal/machine/model.go), the boot decision (internal/boot/decision.go) and the trust
  gate (internal/trust/gate.go).
\<close>

section \<open>Secure Boot\<close>

datatype SBState = StateUnknown | StateEnabled | StateDisabled | StateSetupMode | StateUnsupported
  | SBStateOther string

datatype SBPolicy = PolicyRequired | PolicyAudit | PolicyDisabled | SBPolicyOther string

definition ParsePolicy :: "string \<Rightarrow> string + SBPolicy" where
  "ParsePolicy v =
     (let p = ToLower (TrimSpace v) in
      if p = ''required'' then Inr PolicyRequired
      else if p = ''audit'' then Inr PolicyAudit
      else if p = ''disabled'' then Inr PolicyDisabled
      else Inl ''secure boot policy must be required, audit, or disabled'')"

definition normalizeByte :: "string \<Rightarrow> string" where
  "normalizeByte value0 =
     (let v = TrimPrefix (ToLower (TrimSpace value0)) ''0x'' in
      if v = ''0'' then ''00'' else if v = ''1'' then ''01'' else v)"

definition validFlag :: "string \<Rightarrow> bool" where
  "validFlag v \<longleftrightarrow> v = ''00'' \<or> v = ''01''"

definition Observe :: "string \<Rightarrow> string \<Rightarrow> string \<Rightarrow> string + SBState" where
  "Observe firmware0 secureBootHex0 setupModeHex0 =
     (let firmware = ToLower (TrimSpace firmware0);
          secureBootHex = normalizeByte secureBootHex0;
          setupModeHex = normalizeByte setupModeHex0
      in if firmware \<noteq> ''efi'' then Inr StateUnsupported
      else if secureBootHex = [] \<or> setupModeHex = [] then Inr StateUnknown
      else if \<not> validFlag secureBootHex \<or> \<not> validFlag setupModeHex then
        Inl ''invalid UEFI SecureBoot or SetupMode value''
      else if setupModeHex = ''01'' then Inr StateSetupMode
      else if secureBootHex = ''01'' then Inr StateEnabled
      else Inr StateDisabled)"

definition AllowsProvision :: "SBPolicy \<Rightarrow> SBState \<Rightarrow> bool" where
  "AllowsProvision p state = (case p of
     PolicyDisabled \<Rightarrow> True | PolicyAudit \<Rightarrow> True
   | PolicyRequired \<Rightarrow> state = StateEnabled
   | SBPolicyOther s \<Rightarrow> False)"

section \<open>Machines\<close>

datatype Policy = PolicyPending | PolicyLocal | PolicyProvision | PolicyBlocked | PolicyOther string

fun policy_text :: "Policy \<Rightarrow> string" where
  "policy_text PolicyPending = ''pending''"
| "policy_text PolicyLocal = ''local''"
| "policy_text PolicyProvision = ''provision''"
| "policy_text PolicyBlocked = ''blocked''"
| "policy_text (PolicyOther s) = s"

datatype IdentifierKind = IdentifierMAC | IdentifierSMBIOSUUID

type_synonym Identifier = "IdentifierKind \<times> string"

record Observation =
  o_MAC :: string
  o_SMBIOSUUID :: string
  o_Architecture :: string
  o_Firmware :: string
  o_SecureBoot :: string
  o_SetupMode :: string

record Machine =
  m_ID :: string
  m_Nickname :: string
  m_Policy :: Policy
  m_Architecture :: string
  m_Firmware :: string
  m_SecureBootState :: SBState
  m_SecureBootObserved :: time
  m_FirstSeen :: time
  m_LastSeen :: time

text \<open>The runes of a Go string: utf8.DecodeRune, an invalid byte being a rune of width one.\<close>

definition cont :: "string \<Rightarrow> nat \<Rightarrow> nat \<Rightarrow> nat \<Rightarrow> bool" where
  "cont s i lo hi \<longleftrightarrow> i < length s \<and> in_range (s ! i) lo hi"

definition rune_width :: "string \<Rightarrow> nat" where
  "rune_width s = (case s of [] \<Rightarrow> 0 | a # _ \<Rightarrow>
     if in_range a 0xC2 0xDF then (if cont s 1 0x80 0xBF then 2 else 1)
     else if in_range a 0xE0 0xEF then
       (if cont s 1 (if byte a = 0xE0 then 0xA0 else 0x80) (if byte a = 0xED then 0x9F else 0xBF)
           \<and> cont s 2 0x80 0xBF then 3 else 1)
     else if in_range a 0xF0 0xF4 then
       (if cont s 1 (if byte a = 0xF0 then 0x90 else 0x80) (if byte a = 0xF4 then 0x8F else 0xBF)
           \<and> cont s 2 0x80 0xBF \<and> cont s 3 0x80 0xBF then 4 else 1)
     else 1)"

function runes :: "string \<Rightarrow> string list" where
  "runes s = (if s = [] \<or> rune_width s = 0 then []
              else take (rune_width s) s # runes (drop (rune_width s) s))"
  by pat_completeness auto
termination
  by (relation "measure length") auto

declare runes.simps [simp del]

text \<open>unicode.IsControl: U+0000 to U+001F and U+007F to U+009F.\<close>

definition control_rune :: "string \<Rightarrow> bool" where
  "control_rune r = (case r of
     [c] \<Rightarrow> byte c < 0x20 \<or> byte c = 0x7F
   | [a, b] \<Rightarrow> byte a = 0xC2 \<and> in_range b 0x80 0x9F
   | _ \<Rightarrow> False)"

definition MaxNicknameRunes :: nat where "MaxNicknameRunes = 80"

definition NormalizeNickname :: "string \<Rightarrow> string + string" where
  "NormalizeNickname v0 =
     (let v = TrimSpace v0 in
      if length (runes v) > MaxNicknameRunes then Inl ''machine nickname is too long''
      else if \<exists>r \<in> set (runes v). control_rune r then
        Inl ''machine nickname contains control characters''
      else Inr v)"

text \<open>
  net.ParseMAC restricted to the six-octet addresses the caller accepts: six pairs of hex
  digits joined by one of \<open>:\<close> and \<open>-\<close>, or three groups of four joined by dots. The result is
  the text HardwareAddr.String gives.
\<close>

definition hex_any :: "char \<Rightarrow> bool" where
  "hex_any c \<longleftrightarrow> is_hex c \<or> in_range c 65 70"

fun mac_pairs :: "char \<Rightarrow> string \<Rightarrow> string list option" where
  "mac_pairs sep [a, b] = (if hex_any a \<and> hex_any b then Some [[ascii_lower a, ascii_lower b]] else None)"
| "mac_pairs sep (a # b # x # rest) =
     (if hex_any a \<and> hex_any b \<and> x = sep then
        map_option (\<lambda>ps. [ascii_lower a, ascii_lower b] # ps) (mac_pairs sep rest)
      else None)"
| "mac_pairs sep _ = None"

fun mac_quads :: "string \<Rightarrow> string list option" where
  "mac_quads [a, b, c, d] =
     (if list_all hex_any [a, b, c, d] then
        Some [[ascii_lower a, ascii_lower b], [ascii_lower c, ascii_lower d]] else None)"
| "mac_quads (a # b # c # d # x # rest) =
     (if list_all hex_any [a, b, c, d] \<and> x = CHR ''.'' then
        map_option (\<lambda>ps. [ascii_lower a, ascii_lower b] # [ascii_lower c, ascii_lower d] # ps)
          (mac_quads rest)
      else None)"
| "mac_quads _ = None"

definition ParseMAC6 :: "string \<Rightarrow> string option" where
  "ParseMAC6 s = map_option (join_with '':'')
     (if length s = 17 \<and> (s ! 2 = CHR '':'' \<or> s ! 2 = CHR ''-'') then mac_pairs (s ! 2) s
      else if length s = 14 \<and> s ! 4 = CHR ''.'' then mac_quads s
      else None)"

definition smbiosUUID :: "string \<Rightarrow> bool" where
  "smbiosUUID s \<longleftrightarrow> length s = 36 \<and>
     list_all (\<lambda>(i, c). if i \<in> set [8, 13, 18, 23] then c = CHR ''-'' else is_hex c) (enumerate 0 s)"

definition SecureBootState :: "Observation \<Rightarrow> string + SBState" where
  "SecureBootState ob = Observe (o_Firmware ob) (o_SecureBoot ob) (o_SetupMode ob)"

definition Identifiers :: "Observation \<Rightarrow> string + Identifier list" where
  "Identifiers ob =
     (case (if TrimSpace (o_MAC ob) \<noteq> [] then
              (case ParseMAC6 (o_MAC ob) of
                 None \<Rightarrow> Inl ''invalid MAC address''
               | Some hw \<Rightarrow> Inr [(IdentifierMAC, ToLower hw)])
            else Inr []) of
        Inl err \<Rightarrow> Inl err
      | Inr out1 \<Rightarrow>
        (case (if TrimSpace (o_SMBIOSUUID ob) \<noteq> [] then
                 (let v = ToLower (TrimSpace (o_SMBIOSUUID ob)) in
                  if \<not> smbiosUUID v then Inl ''invalid SMBIOS UUID''
                  else Inr (out1 @ [(IdentifierSMBIOSUUID, v)]))
               else Inr out1) of
           Inl err \<Rightarrow> Inl err
         | Inr out2 \<Rightarrow>
           if out2 = [] then Inl ''at least one machine identifier is required'' else Inr out2))"

section \<open>Boot decision and trust gate\<close>

datatype Action = ActionLocal | ActionBlocked | ActionProvision

record Decision =
  d_Action :: Action
  d_Reason :: string

definition Decide :: "Policy \<Rightarrow> Decision" where
  "Decide p = (case p of
     PolicyBlocked \<Rightarrow> \<lparr>d_Action = ActionBlocked, d_Reason = ''machine_blocked''\<rparr>
   | PolicyLocal \<Rightarrow> \<lparr>d_Action = ActionLocal, d_Reason = ''local_policy''\<rparr>
   | PolicyProvision \<Rightarrow> \<lparr>d_Action = ActionLocal, d_Reason = ''installation_not_armed''\<rparr>
   | _ \<Rightarrow> \<lparr>d_Action = ActionLocal, d_Reason = ''pending_approval''\<rparr>)"

record Gate =
  OperatorApproved :: bool
  AssignmentArmed :: bool
  CryptographicVerified :: bool
  PublicBootAllowed :: bool
  SecretReleaseAllowed :: bool
  GateReason :: string

definition Evaluate :: "Policy \<Rightarrow> bool \<Rightarrow> bool \<Rightarrow> Gate" where
  "Evaluate p assignmentArmed cryptographicVerified =
     (let gate = \<lparr>OperatorApproved = (p = PolicyProvision), AssignmentArmed = assignmentArmed,
                  CryptographicVerified = cryptographicVerified, PublicBootAllowed = False,
                  SecretReleaseAllowed = False, GateReason = ''''\<rparr> in
      if \<not> OperatorApproved gate then gate\<lparr>GateReason := ''operator_approval_required''\<rparr>
      else if \<not> AssignmentArmed gate then gate\<lparr>GateReason := ''assignment_required''\<rparr>
      else let gate = gate\<lparr>PublicBootAllowed := True\<rparr> in
      if \<not> CryptographicVerified gate then gate\<lparr>GateReason := ''cryptographic_boot_trust_required''\<rparr>
      else gate\<lparr>SecretReleaseAllowed := True, GateReason := ''trusted''\<rparr>)"

section \<open>Lemmas\<close>

lemma Evaluate_public:
  "PublicBootAllowed (Evaluate p armed crypto) \<longleftrightarrow> p = PolicyProvision \<and> armed"
  by (auto simp: Evaluate_def Let_def)

lemma Evaluate_secret:
  "SecretReleaseAllowed (Evaluate p armed crypto) \<longleftrightarrow> p = PolicyProvision \<and> armed \<and> crypto"
  by (auto simp: Evaluate_def Let_def)

lemma Decide_never_provisions [simp]: "d_Action (Decide p) \<noteq> ActionProvision"
  by (simp add: Decide_def split: Policy.splits)

lemma Observe_enabled:
  "Observe fw sb sm = Inr StateEnabled \<longleftrightarrow>
     ToLower (TrimSpace fw) = ''efi'' \<and> normalizeByte sb = ''01'' \<and> normalizeByte sm = ''00''"
  by (auto simp: Observe_def Let_def validFlag_def)

lemma Observe_known: "Observe fw sb sm = Inr st \<Longrightarrow> \<nexists>x. st = SBStateOther x"
  by (auto simp: Observe_def Let_def split: if_splits)

lemma Identifiers_nonempty: "Identifiers ob = Inr ids \<Longrightarrow> ids \<noteq> []"
  by (auto simp: Identifiers_def Let_def split: if_splits sum.splits option.splits)

text \<open>The identifiers of one observation have different kinds.\<close>

lemma Identifiers_distinct: "Identifiers ob = Inr ids \<Longrightarrow> distinct ids"
  by (auto simp: Identifiers_def Let_def split: if_splits sum.splits option.splits)

lemma NormalizeNickname_trimmed: "NormalizeNickname v = Inr n \<Longrightarrow> TrimSpace n = n"
  by (auto simp: NormalizeNickname_def Let_def split: if_splits)

end
