(* ===== verification/Assignment_Model.thy ===== *)
theory Assignment_Model
  imports Fault
begin

text \<open>Assignments of an installation to a machine (internal/assignment/model.go).\<close>

datatype AssignmentState = StateArmed | StateConsumed | StateCancelled | AssignmentStateOther string

definition TrustRequirementCryptographic :: string where
  "TrustRequirementCryptographic = ''cryptographic''"

record Assignment =
  as_ID :: string
  as_MachineID :: string
  as_InstallationID :: string
  as_State :: AssignmentState
  as_TrustRequirement :: string
  as_ArmedAt :: time
  as_ArmedBy :: string
  as_ConsumedAt :: time
  as_CancelledAt :: time

definition assignment_Validate :: "Assignment \<Rightarrow> string option" where
  "assignment_Validate a =
     (if TrimSpace (as_MachineID a) = [] \<or> TrimSpace (as_InstallationID a) = [] then
        Some ''assignment machine and installation IDs are required''
      else if as_TrustRequirement a \<noteq> TrustRequirementCryptographic then
        Some ''assignment requires unsupported boot trust''
      else case as_State a of
        StateArmed \<Rightarrow>
          if IsZero (as_ArmedAt a) \<or> TrimSpace (as_ArmedBy a) = [] \<or> \<not> IsZero (as_ConsumedAt a)
             \<or> \<not> IsZero (as_CancelledAt a) then Some ''armed assignment metadata is invalid'' else None
      | StateConsumed \<Rightarrow>
          if IsZero (as_ArmedAt a) \<or> IsZero (as_ConsumedAt a) \<or> \<not> IsZero (as_CancelledAt a) then
            Some ''consumed assignment metadata is invalid'' else None
      | StateCancelled \<Rightarrow>
          if IsZero (as_ArmedAt a) \<or> IsZero (as_CancelledAt a) \<or> \<not> IsZero (as_ConsumedAt a) then
            Some ''cancelled assignment metadata is invalid'' else None
      | AssignmentStateOther s \<Rightarrow> Some ''assignment state is invalid'')"

text \<open>What the code ever does to the state of an assignment.\<close>

definition assignment_step :: "AssignmentState \<Rightarrow> AssignmentState \<Rightarrow> bool" where
  "assignment_step s t \<longleftrightarrow> s = StateArmed \<and> (t = StateConsumed \<or> t = StateCancelled)"

fun assignment_rank :: "AssignmentState \<Rightarrow> nat" where
  "assignment_rank StateArmed = 0"
| "assignment_rank _ = 1"

interpretation asg_states: ranked_steps assignment_step assignment_rank
  by unfold_locales (auto simp: assignment_step_def)

end
