(* ===== verification/Operator_Model.thy ===== *)
theory Operator_Model
  imports Fault
begin

text \<open>
  Operator identities (internal/operatoridentity/model.go). The WebAuthn credentials of a
  user are opaque values of a package outside the repository.
\<close>

datatype Role = RoleAdmin | RoleOperator | RoleOther string

datatype Status = StatusPendingReview | StatusEnrollmentRequired | StatusActive | StatusBlocked
  | StatusOther string

fun role_text :: "Role \<Rightarrow> string" where
  "role_text RoleAdmin = ''admin''"
| "role_text RoleOperator = ''operator''"
| "role_text (RoleOther s) = s"

record User =
  u_ID :: string
  u_Provider :: string
  u_Subject :: string
  u_DisplayName :: string
  u_Email :: string
  u_Role :: Role
  u_Status :: Status
  u_WebAuthnHandle :: string
  u_CreatedAt :: time
  u_UpdatedAt :: time
  u_ApprovedAt :: time
  u_ApprovedBy :: string

definition WebAuthnName :: "User \<Rightarrow> string" where
  "WebAuthnName u =
     (let v = TrimSpace (u_DisplayName u) in if v \<noteq> [] then v else u_Subject u)"

definition ValidateRole :: "Role \<Rightarrow> string option" where
  "ValidateRole role = (case role of RoleAdmin \<Rightarrow> None | RoleOperator \<Rightarrow> None
     | RoleOther s \<Rightarrow> Some ''operator role is invalid'')"

definition ValidateStatus :: "Status \<Rightarrow> string option" where
  "ValidateStatus status = (case status of StatusOther s \<Rightarrow> Some ''operator user status is invalid''
     | _ \<Rightarrow> None)"

text \<open>A control character: a byte below 0x20 or 0x7F. No longer rune decodes to one.\<close>

definition containsControl :: "string \<Rightarrow> bool" where
  "containsControl s \<longleftrightarrow> list_ex (\<lambda>c. byte c < 0x20 \<or> byte c = 0x7F) s"

definition ValidateExternalIdentity :: "string \<Rightarrow> string \<Rightarrow> string option" where
  "ValidateExternalIdentity provider0 subject0 =
     (let provider = TrimSpace provider0; subject = TrimSpace subject0 in
      if provider = [] \<or> length provider > 64 then Some ''operator identity provider is invalid''
      else if subject = [] \<or> length subject > 128 then Some ''operator identity subject is invalid''
      else if list_ex containsControl [provider, subject] then
        Some ''operator identity contains control characters''
      else None)"

text \<open>What the code ever does to the status of a user: approval, enrolment, blocking.\<close>

definition status_step :: "Status \<Rightarrow> Status \<Rightarrow> bool" where
  "status_step s t \<longleftrightarrow>
     s = StatusPendingReview \<and> t = StatusEnrollmentRequired
   \<or> s = StatusEnrollmentRequired \<and> t = StatusActive
   \<or> s \<noteq> StatusBlocked \<and> t = StatusBlocked"

fun status_rank :: "Status \<Rightarrow> nat" where
  "status_rank StatusPendingReview = 0"
| "status_rank StatusEnrollmentRequired = 1"
| "status_rank StatusActive = 2"
| "status_rank StatusBlocked = 3"
| "status_rank (StatusOther s) = 2"

interpretation user_statuses: ranked_steps status_step status_rank
proof
  fix a b
  show "status_step a b \<Longrightarrow> status_rank a < status_rank b"
    by (cases a) (auto simp: status_step_def)
qed

end
