(* ===== verification/Database.thy ===== *)
theory Database
  imports Boot_Trust_Model Machine_Model Assignment_Model Operator_Model
begin

text \<open>
  The database of internal/store/schema.go: the tables as lists of rows, the INSERT
  statements with the constraints the schema puts on them (primary keys, UNIQUE columns and
  partial indexes, CHECK clauses, foreign keys), the audit log of events.go, and the invariant
  of the whole database.

  Rows are the records the code reads back. A timestamp column that a statement compares with
  the empty text is kept as a \<^typ>\<open>stamp\<close>. Foreign keys are enforced (the schema turns them
  on and the pool has one connection). AUTOINCREMENT counters are kept beside their table and
  are unbounded integers: the 64-bit limit is out of reach of any real run.
\<close>

section \<open>Tables\<close>

record IdentifierRow =
  mi_MachineID :: string
  mi_Kind :: IdentifierKind
  mi_Value :: string
  mi_FirstSeen :: time
  mi_LastSeen :: time

record CredentialRow =
  lc_CredentialID :: string
  lc_InstallationID :: string
  lc_SecretSHA256 :: string
  lc_CreatedAt :: time
  lc_ExpiresAt :: time
  lc_RevokedAt :: stamp
  lc_LastUsedAt :: stamp

record ChallengeRow =
  ch_ID :: string
  ch_InstallationID :: string
  ch_MachineID :: string
  ch_KeyFingerprint :: string
  ch_Nonce :: string
  ch_CreatedAt :: time
  ch_ExpiresAt :: time
  ch_UsedAt :: stamp
  ch_ResponseCipher :: string
  ch_CredentialExpiresAt :: stamp

record OperatorCredentialRow =
  oc_UserID :: string
  oc_RPID :: string
  oc_CredentialID :: string
  oc_CredentialJSON :: string
  oc_CreatedAt :: time
  oc_UpdatedAt :: time
  oc_LastUsedAt :: time

record AuditEvent =
  ev_Sequence :: int
  ev_EntityType :: string
  ev_EntityID :: string
  ev_Type :: string
  ev_OccurredAt :: time
  ev_RequestID :: string
  ev_Actor :: string
  ev_Message :: string
  ev_ErrorCode :: string

record db =
  machines :: "Machine list"
  machine_identifiers :: "IdentifierRow list"
  installation_specs :: "Spec list"
  installation_assignments :: "Assignment list"
  operator_users :: "User list"
  operator_credentials :: "OperatorCredentialRow list"
  events :: "AuditEvent list"
  events_seq :: int
  lifecycle_credentials :: "CredentialRow list"
  lifecycle_events :: "LifecycleEvent list"
  lifecycle_events_seq :: int
  log_chunks :: "LogChunk list"
  log_chunks_seq :: int
  boot_trust_keys :: "Key list"
  boot_trust_challenges :: "ChallengeRow list"

definition empty_db :: db where
  "empty_db = \<lparr>machines = [], machine_identifiers = [], installation_specs = [],
     installation_assignments = [], operator_users = [], operator_credentials = [], events = [],
     events_seq = 0, lifecycle_credentials = [], lifecycle_events = [], lifecycle_events_seq = 0,
     log_chunks = [], log_chunks_seq = 0, boot_trust_keys = [], boot_trust_challenges = []\<rparr>"

section \<open>Inserts\<close>

text \<open>\<open>None\<close> is a constraint violation, which the code sees as an error of the statement.\<close>

definition known_policy :: "Policy \<Rightarrow> bool" where
  "known_policy p \<longleftrightarrow> p \<in> set [PolicyPending, PolicyLocal, PolicyProvision, PolicyBlocked]"

definition known_secure_boot :: "SBState \<Rightarrow> bool" where
  "known_secure_boot s \<longleftrightarrow>
     s \<in> set [StateUnknown, StateEnabled, StateDisabled, StateSetupMode, StateUnsupported]"

definition insert_machine :: "db \<Rightarrow> Machine \<Rightarrow> db option" where
  "insert_machine d m =
     (if m_ID m \<in> m_ID ` set (machines d) \<or> \<not> known_policy (m_Policy m)
         \<or> \<not> known_secure_boot (m_SecureBootState m) then None
      else Some (d\<lparr>machines := machines d @ [m]\<rparr>))"

text \<open>The upsert on (kind, value): a known identifier keeps its machine and is touched.\<close>

definition upsert_identifier :: "db \<Rightarrow> IdentifierRow \<Rightarrow> db option" where
  "upsert_identifier d r =
     (if mi_MachineID r \<notin> m_ID ` set (machines d) then None
      else if (mi_Kind r, mi_Value r) \<in> (\<lambda>x. (mi_Kind x, mi_Value x)) ` set (machine_identifiers d) then
        Some (d\<lparr>machine_identifiers := update_where
                 (\<lambda>x. mi_Kind x = mi_Kind r \<and> mi_Value x = mi_Value r)
                 (\<lambda>x. x\<lparr>mi_LastSeen := mi_LastSeen r\<rparr>) (machine_identifiers d)\<rparr>)
      else Some (d\<lparr>machine_identifiers := machine_identifiers d @ [r]\<rparr>))"

definition insert_spec :: "db \<Rightarrow> Spec \<Rightarrow> db option" where
  "insert_spec d s =
     (if sp_ID s \<in> sp_ID ` set (installation_specs d) \<or> sp_MachineID s \<notin> m_ID ` set (machines d) then None
      else Some (d\<lparr>installation_specs := installation_specs d @ [s]\<rparr>))"

abbreviation armed_rows :: "Assignment list \<Rightarrow> Assignment list" where
  "armed_rows t \<equiv> filter (\<lambda>a. as_State a = StateArmed) t"

definition insert_assignment :: "db \<Rightarrow> Assignment \<Rightarrow> db option" where
  "insert_assignment d a =
     (if as_ID a \<in> as_ID ` set (installation_assignments d)
         \<or> as_InstallationID a \<in> as_InstallationID ` set (installation_assignments d)
         \<or> as_MachineID a \<notin> m_ID ` set (machines d)
         \<or> as_InstallationID a \<notin> sp_ID ` set (installation_specs d)
         \<or> as_State a \<notin> set [StateArmed, StateConsumed, StateCancelled]
         \<or> as_TrustRequirement a \<noteq> ''cryptographic''
         \<or> as_State a = StateArmed
             \<and> as_MachineID a \<in> as_MachineID ` set (armed_rows (installation_assignments d)) then None
      else Some (d\<lparr>installation_assignments := installation_assignments d @ [a]\<rparr>))"

definition insert_lifecycle_credential :: "db \<Rightarrow> CredentialRow \<Rightarrow> db option" where
  "insert_lifecycle_credential d c =
     (if lc_CredentialID c \<in> lc_CredentialID ` set (lifecycle_credentials d)
         \<or> lc_InstallationID c \<in> lc_InstallationID ` set (lifecycle_credentials d)
         \<or> lc_InstallationID c \<notin> sp_ID ` set (installation_specs d)
         \<or> length (lc_SecretSHA256 c) \<noteq> 32 then None
      else Some (d\<lparr>lifecycle_credentials := lifecycle_credentials d @ [c]\<rparr>))"

abbreviation event_key :: "LifecycleEvent \<Rightarrow> string \<times> string" where
  "event_key e \<equiv> (le_InstallationID e, le_IdempotencyKey e)"

definition insert_lifecycle_event :: "db \<Rightarrow> LifecycleEvent \<Rightarrow> (db \<times> int) option" where
  "insert_lifecycle_event d e =
     (if le_InstallationID e \<notin> sp_ID ` set (installation_specs d)
         \<or> \<not> stage_Valid (le_Stage e) \<or> \<not> source_Valid (le_Source e)
         \<or> event_key e \<in> event_key ` set (lifecycle_events d) then None
      else let n = lifecycle_events_seq d + 1
        in Some (d\<lparr>lifecycle_events := lifecycle_events d @ [e\<lparr>le_Sequence := n\<rparr>],
                   lifecycle_events_seq := n\<rparr>, n))"

abbreviation chunk_key :: "LogChunk \<Rightarrow> string \<times> string" where
  "chunk_key c \<equiv> (lg_InstallationID c, lg_IdempotencyKey c)"

definition insert_log_chunk :: "db \<Rightarrow> LogChunk \<Rightarrow> (db \<times> int) option" where
  "insert_log_chunk d c =
     (if lg_InstallationID c \<notin> sp_ID ` set (installation_specs d)
         \<or> lg_Source c \<notin> set log_sources
         \<or> (lg_InstallationID c, lg_Sequence c) \<in> (\<lambda>x. (lg_InstallationID x, lg_Sequence x)) ` set (log_chunks d)
         \<or> chunk_key c \<in> chunk_key ` set (log_chunks d) then None
      else let n = log_chunks_seq d + 1
        in Some (d\<lparr>log_chunks := log_chunks d @ [c\<lparr>lg_ID := n\<rparr>], log_chunks_seq := n\<rparr>, n))"

abbreviation approved_rows :: "Key list \<Rightarrow> Key list" where
  "approved_rows t \<equiv> filter (\<lambda>k. k_State k = KeyApproved) t"

definition insert_boot_trust_key :: "db \<Rightarrow> Key \<Rightarrow> db option" where
  "insert_boot_trust_key d k =
     (if k_Fingerprint k \<in> k_Fingerprint ` set (boot_trust_keys d)
         \<or> k_MachineID k \<notin> m_ID ` set (machines d)
         \<or> k_State k \<notin> set [KeyPending, KeyApproved, KeyRevoked]
         \<or> k_State k = KeyApproved
             \<and> k_MachineID k \<in> k_MachineID ` set (approved_rows (boot_trust_keys d)) then None
      else Some (d\<lparr>boot_trust_keys := boot_trust_keys d @ [k]\<rparr>))"

definition insert_challenge :: "db \<Rightarrow> ChallengeRow \<Rightarrow> db option" where
  "insert_challenge d c =
     (if ch_ID c \<in> ch_ID ` set (boot_trust_challenges d)
         \<or> ch_InstallationID c \<notin> sp_ID ` set (installation_specs d)
         \<or> ch_MachineID c \<notin> m_ID ` set (machines d)
         \<or> ch_KeyFingerprint c \<notin> k_Fingerprint ` set (boot_trust_keys d)
         \<or> length (ch_Nonce c) \<noteq> 32 then None
      else Some (d\<lparr>boot_trust_challenges := boot_trust_challenges d @ [c]\<rparr>))"

definition insert_user :: "db \<Rightarrow> User \<Rightarrow> db option" where
  "insert_user d u =
     (if u_ID u \<in> u_ID ` set (operator_users d)
         \<or> (u_Provider u, u_Subject u) \<in> (\<lambda>x. (u_Provider x, u_Subject x)) ` set (operator_users d)
         \<or> u_WebAuthnHandle u \<in> u_WebAuthnHandle ` set (operator_users d)
         \<or> u_Role u \<notin> set [RoleOther '''', RoleAdmin, RoleOperator]
         \<or> u_Status u \<notin> set [StatusPendingReview, StatusEnrollmentRequired, StatusActive, StatusBlocked]
      then None
      else Some (d\<lparr>operator_users := operator_users d @ [u]\<rparr>))"

section \<open>The audit log (events.go)\<close>

definition event_row :: "string \<Rightarrow> string \<Rightarrow> string \<Rightarrow> time \<Rightarrow> string \<Rightarrow> string \<Rightarrow> string \<Rightarrow> AuditEvent" where
  "event_row entityType entityID eventType occurredAt requestID actor message =
     \<lparr>ev_Sequence = 0, ev_EntityType = entityType, ev_EntityID = entityID, ev_Type = eventType,
      ev_OccurredAt = occurredAt, ev_RequestID = requestID, ev_Actor = actor, ev_Message = message,
      ev_ErrorCode = ''''\<rparr>"

definition appendEventTx :: "db \<Rightarrow> AuditEvent \<Rightarrow> db" where
  "appendEventTx d v =
     d\<lparr>events := events d @ [v\<lparr>ev_Sequence := events_seq d + 1\<rparr>], events_seq := events_seq d + 1\<rparr>"

text \<open>
  Reading one row: \<open>None\<close> when the query fails, \<open>Some None\<close> for sql.ErrNoRows.
\<close>

definition query_row :: "env \<Rightarrow> nat \<Rightarrow> ('r \<Rightarrow> bool) \<Rightarrow> 'r list \<Rightarrow> 'r option option" where
  "query_row e k p t = (if env_io e k then Some (List.find p t) else None)"

lemma query_row_Some [result_simps]: "query_row e k p t = Some r \<longleftrightarrow> env_io e k \<and> List.find p t = r"
  by (simp add: query_row_def)

text \<open>Reading rows: the query, every Scan, and Err after the last row.\<close>

definition read_rows :: "env \<Rightarrow> nat \<Rightarrow> string \<Rightarrow> string \<Rightarrow> string \<Rightarrow> 'r list \<Rightarrow> 'r list result" where
  "read_rows e k query_msg scan_msg iterate_msg rows =
     (if \<not> env_io e k then Inl (storageError query_msg)
      else if \<not> env_io e (k + 1) then Inl (storageError scan_msg)
      else if \<not> env_io e (k + 2) then Inl (storageError iterate_msg)
      else Inr rows)"

text \<open>\<open>ORDER BY sequence\<close> is the order of the list, which is in the order of insertion.\<close>

definition entity_events :: "db \<Rightarrow> string \<Rightarrow> string \<Rightarrow> AuditEvent list" where
  "entity_events d entityType entityID =
     filter (\<lambda>v. ev_EntityType v = entityType \<and> ev_EntityID v = entityID) (events d)"

definition Events :: "env \<Rightarrow> db \<Rightarrow> string \<Rightarrow> string \<Rightarrow> AuditEvent list result" where
  "Events e d entityType entityID =
     read_rows e 0 ''query events'' ''scan event'' ''iterate events'' (entity_events d entityType entityID)"

definition maxRecentEvents :: int where "maxRecentEvents = 500"

text \<open>
  \<open>ORDER BY sequence DESC LIMIT n\<close>, the end of the list read backwards, and the reversal in
  scanEvents.
\<close>

definition RecentEvents :: "env \<Rightarrow> db \<Rightarrow> string \<Rightarrow> string \<Rightarrow> int \<Rightarrow> AuditEvent list result" where
  "RecentEvents e d entityType entityID limit0 =
     (if limit0 \<le> 0 then Inr []
      else let limit = (if limit0 > maxRecentEvents then maxRecentEvents else limit0) in
        (case read_rows e 0 ''query recent events'' ''scan event'' ''iterate events''
                (take (nat limit) (rev (entity_events d entityType entityID))) of
           Inl err \<Rightarrow> Inl err
         | Inr out \<Rightarrow> Inr (rev out)))"

lemma appendEventTx_frame [simp]:
  "machines (appendEventTx d v) = machines d"
  "machine_identifiers (appendEventTx d v) = machine_identifiers d"
  "installation_specs (appendEventTx d v) = installation_specs d"
  "installation_assignments (appendEventTx d v) = installation_assignments d"
  "operator_users (appendEventTx d v) = operator_users d"
  "operator_credentials (appendEventTx d v) = operator_credentials d"
  "lifecycle_credentials (appendEventTx d v) = lifecycle_credentials d"
  "lifecycle_events (appendEventTx d v) = lifecycle_events d"
  "lifecycle_events_seq (appendEventTx d v) = lifecycle_events_seq d"
  "log_chunks (appendEventTx d v) = log_chunks d"
  "log_chunks_seq (appendEventTx d v) = log_chunks_seq d"
  "boot_trust_keys (appendEventTx d v) = boot_trust_keys d"
  "boot_trust_challenges (appendEventTx d v) = boot_trust_challenges d"
  by (simp_all add: appendEventTx_def)

section \<open>Queries for the newest row\<close>

text \<open>\<open>ORDER BY f DESC LIMIT 1\<close>\<close>

fun max_by :: "('r \<Rightarrow> int) \<Rightarrow> 'r list \<Rightarrow> 'r option" where
  "max_by f [] = None"
| "max_by f (x # xs) = (case max_by f xs of None \<Rightarrow> Some x | Some y \<Rightarrow> Some (if f x > f y then x else y))"

lemma max_by_None [simp]: "max_by f xs = None \<longleftrightarrow> xs = []"
  by (cases xs) (auto split: option.splits)

lemma max_by_mem: "max_by f xs = Some y \<Longrightarrow> y \<in> set xs"
  by (induction xs arbitrary: y) (auto split: option.splits if_splits)

lemma max_by_sorted: "sorted_wrt (<) (map f xs) \<Longrightarrow> xs \<noteq> [] \<Longrightarrow> max_by f xs = Some (last xs)"
proof (induction xs)
  case Nil
  then show ?case by simp
next
  case (Cons x xs)
  show ?case
  proof (cases "xs = []")
    case True
    then show ?thesis by simp
  next
    case False
    with Cons have "max_by f xs = Some (last xs)" "f x < f (last xs)" by auto
    with False show ?thesis by simp
  qed
qed

section \<open>The invariant\<close>

definition mach_inv :: "Machine list \<Rightarrow> IdentifierRow list \<Rightarrow> bool" where
  "mach_inv ms is \<longleftrightarrow> distinct (map m_ID ms)
     \<and> distinct (map (\<lambda>x. (mi_Kind x, mi_Value x)) is)
     \<and> (\<forall>x \<in> set is. mi_MachineID x \<in> m_ID ` set ms)
     \<and> (\<forall>m \<in> set ms. known_policy (m_Policy m) \<and> known_secure_boot (m_SecureBootState m)
          \<and> TrimSpace (m_ID m) = m_ID m)"

definition spec_inv :: "Machine list \<Rightarrow> Spec list \<Rightarrow> bool" where
  "spec_inv ms ss \<longleftrightarrow> distinct (map sp_ID ss) \<and> (\<forall>s \<in> set ss. sp_MachineID s \<in> m_ID ` set ms)"

text \<open>An assignment belongs to an installation of its own machine, is well formed, and is the
  only armed one of its machine.\<close>

abbreviation spec_bindings :: "Spec list \<Rightarrow> (string \<times> string) set" where
  "spec_bindings ss \<equiv> (\<lambda>s. (sp_ID s, sp_MachineID s)) ` set ss"

abbreviation key_bindings :: "Key list \<Rightarrow> (string \<times> string) set" where
  "key_bindings ks \<equiv> (\<lambda>k. (k_Fingerprint k, k_MachineID k)) ` set ks"

definition asg_inv :: "Spec list \<Rightarrow> Assignment list \<Rightarrow> bool" where
  "asg_inv ss as \<longleftrightarrow> distinct (map as_ID as) \<and> distinct (map as_InstallationID as)
     \<and> (\<forall>a \<in> set as. (as_InstallationID a, as_MachineID a) \<in> spec_bindings ss \<and> assignment_Validate a = None)
     \<and> distinct (map as_MachineID (armed_rows as))"

definition cred_inv :: "Spec list \<Rightarrow> CredentialRow list \<Rightarrow> bool" where
  "cred_inv ss cs \<longleftrightarrow> distinct (map lc_CredentialID cs) \<and> distinct (map lc_InstallationID cs)
     \<and> (\<forall>c \<in> set cs. lc_InstallationID c \<in> sp_ID ` set ss \<and> length (lc_SecretSHA256 c) = 32
          \<and> lc_RevokedAt c \<noteq> Some 0)"

text \<open>The stages recorded for an installation, in order.\<close>

definition journal :: "LifecycleEvent list \<Rightarrow> string \<Rightarrow> Stage list" where
  "journal es i = map le_Stage (filter (\<lambda>e. le_InstallationID e = i) es)"

definition life_inv :: "Spec list \<Rightarrow> LifecycleEvent list \<Rightarrow> int \<Rightarrow> bool" where
  "life_inv ss es n \<longleftrightarrow> sorted_wrt (<) (map le_Sequence es) \<and> distinct (map event_key es)
     \<and> (\<forall>e \<in> set es. le_Sequence e \<le> n \<and> le_InstallationID e \<in> sp_ID ` set ss
          \<and> SourceAllowed (le_Stage e) (le_Source e))
     \<and> (\<forall>i. stage_path (journal es i))"

definition chunks_of :: "LogChunk list \<Rightarrow> string \<Rightarrow> LogChunk list" where
  "chunks_of cs i = filter (\<lambda>c. lg_InstallationID c = i) cs"

definition log_bytes :: "LogChunk list \<Rightarrow> nat" where
  "log_bytes cs = sum_list (map (\<lambda>c. length (lg_Content c)) cs)"

definition log_inv :: "Spec list \<Rightarrow> LogChunk list \<Rightarrow> bool" where
  "log_inv ss cs \<longleftrightarrow> distinct (map chunk_key cs)
     \<and> (\<forall>c \<in> set cs. lg_InstallationID c \<in> sp_ID ` set ss \<and> lg_Source c \<in> set log_sources
          \<and> no_sensitive_line (lg_Content c) \<and> NUL \<notin> set (lg_Content c)
          \<and> lg_Content c \<noteq> [] \<and> length (lg_Content c) \<le> MaxLogChunkBytes)
     \<and> (\<forall>i. map lg_Sequence (chunks_of cs i) = map int [1..<length (chunks_of cs i) + 1]
          \<and> log_bytes (chunks_of cs i) \<le> MaxInstallationLogBytes)"

definition key_inv :: "Machine list \<Rightarrow> Key list \<Rightarrow> bool" where
  "key_inv ms ks \<longleftrightarrow> distinct (map k_Fingerprint ks)
     \<and> (\<forall>k \<in> set ks. k_MachineID k \<in> m_ID ` set ms \<and> k_State k \<in> set [KeyPending, KeyApproved, KeyRevoked])
     \<and> distinct (map k_MachineID (approved_rows ks))"

text \<open>A challenge is bound to the machine of its installation and to a key of that machine; a
  used one has released the credential of its installation.\<close>

definition chal_inv :: "Spec list \<Rightarrow> Key list \<Rightarrow> CredentialRow list \<Rightarrow> ChallengeRow list \<Rightarrow> bool" where
  "chal_inv ss ks lcs cs \<longleftrightarrow> distinct (map ch_ID cs)
     \<and> (\<forall>c \<in> set cs. length (ch_Nonce c) = 32
          \<and> (ch_InstallationID c, ch_MachineID c) \<in> spec_bindings ss
          \<and> (ch_KeyFingerprint c, ch_MachineID c) \<in> key_bindings ks
          \<and> (ch_UsedAt c \<noteq> None \<longrightarrow> ch_InstallationID c \<in> lc_InstallationID ` set lcs))"

definition user_inv :: "User list \<Rightarrow> OperatorCredentialRow list \<Rightarrow> bool" where
  "user_inv us ocs \<longleftrightarrow> distinct (map u_ID us)
     \<and> distinct (map (\<lambda>u. (u_Provider u, u_Subject u)) us) \<and> distinct (map u_WebAuthnHandle us)
     \<and> distinct (map (\<lambda>x. (oc_RPID x, oc_CredentialID x)) ocs)
     \<and> (\<forall>x \<in> set ocs. oc_UserID x \<in> u_ID ` set us)
     \<and> (\<forall>u \<in> set us. u_Status u \<in> set [StatusPendingReview, StatusEnrollmentRequired, StatusActive, StatusBlocked]
          \<and> (u_Status u \<in> set [StatusEnrollmentRequired, StatusActive] \<longrightarrow> ValidateRole (u_Role u) = None)
          \<and> (u_Status u = StatusPendingReview \<longrightarrow> u_Role u \<noteq> RoleAdmin))"

definition event_inv :: "AuditEvent list \<Rightarrow> int \<Rightarrow> bool" where
  "event_inv es n \<longleftrightarrow> sorted_wrt (<) (map ev_Sequence es) \<and> (\<forall>e \<in> set es. ev_Sequence e \<le> n)"

definition db_inv :: "db \<Rightarrow> bool" where
  "db_inv d \<longleftrightarrow> mach_inv (machines d) (machine_identifiers d)
     \<and> spec_inv (machines d) (installation_specs d)
     \<and> asg_inv (installation_specs d) (installation_assignments d)
     \<and> cred_inv (installation_specs d) (lifecycle_credentials d)
     \<and> life_inv (installation_specs d) (lifecycle_events d) (lifecycle_events_seq d)
     \<and> log_inv (installation_specs d) (log_chunks d)
     \<and> key_inv (machines d) (boot_trust_keys d)
     \<and> chal_inv (installation_specs d) (boot_trust_keys d) (lifecycle_credentials d) (boot_trust_challenges d)
     \<and> user_inv (operator_users d) (operator_credentials d)
     \<and> event_inv (events d) (events_seq d)"

lemma db_inv_empty: "db_inv empty_db"
  by (simp add: db_inv_def empty_db_def mach_inv_def spec_inv_def asg_inv_def cred_inv_def life_inv_def
      log_inv_def key_inv_def chal_inv_def user_inv_def event_inv_def journal_def chunks_of_def log_bytes_def)

subsection \<open>What each insert keeps\<close>

lemma event_inv_append [intro]:
  "event_inv (events d) (events_seq d) \<Longrightarrow>
   event_inv (events (appendEventTx d v)) (events_seq (appendEventTx d v))"
  by (force simp: event_inv_def appendEventTx_def sorted_wrt_append)

lemma db_inv_appendEventTx [intro!]: "db_inv d \<Longrightarrow> db_inv (appendEventTx d v)"
  by (simp add: db_inv_def event_inv_append)

lemma spec_ids: "sp_ID ` set ss = fst ` spec_bindings ss"
  by (simp add: image_image)

lemma spec_ids_mono: "spec_bindings ss \<subseteq> spec_bindings ss' \<Longrightarrow> sp_ID ` set ss \<subseteq> sp_ID ` set ss'"
  by (simp add: spec_ids image_mono)

lemma spec_inv_mono: "spec_inv ms ss \<Longrightarrow> m_ID ` set ms \<subseteq> m_ID ` set ms' \<Longrightarrow> spec_inv ms' ss"
  by (auto simp: spec_inv_def)

lemma key_inv_mono: "key_inv ms ks \<Longrightarrow> m_ID ` set ms \<subseteq> m_ID ` set ms' \<Longrightarrow> key_inv ms' ks"
  by (auto simp: key_inv_def)

lemma asg_inv_mono: "asg_inv ss as \<Longrightarrow> spec_bindings ss \<subseteq> spec_bindings ss' \<Longrightarrow> asg_inv ss' as"
  unfolding asg_inv_def by blast

lemma cred_inv_mono: "cred_inv ss cs \<Longrightarrow> spec_bindings ss \<subseteq> spec_bindings ss' \<Longrightarrow> cred_inv ss' cs"
  unfolding cred_inv_def by (blast dest: spec_ids_mono)

lemma life_inv_mono: "life_inv ss es n \<Longrightarrow> spec_bindings ss \<subseteq> spec_bindings ss' \<Longrightarrow> life_inv ss' es n"
  unfolding life_inv_def by (blast dest: spec_ids_mono)

lemma log_inv_mono: "log_inv ss cs \<Longrightarrow> spec_bindings ss \<subseteq> spec_bindings ss' \<Longrightarrow> log_inv ss' cs"
  unfolding log_inv_def by (blast dest: spec_ids_mono)

lemma chal_inv_mono:
  "chal_inv ss ks lcs cs \<Longrightarrow> spec_bindings ss \<subseteq> spec_bindings ss' \<Longrightarrow> key_bindings ks \<subseteq> key_bindings ks' \<Longrightarrow>
   lc_InstallationID ` set lcs \<subseteq> lc_InstallationID ` set lcs' \<Longrightarrow> chal_inv ss' ks' lcs' cs"
  unfolding chal_inv_def by blast

lemmas inv_monos = spec_inv_mono key_inv_mono asg_inv_mono cred_inv_mono life_inv_mono log_inv_mono
  chal_inv_mono

text \<open>Replacing one table: what its part of the invariant and the tables that refer to it need.\<close>

lemma db_inv_machines:
  "db_inv d \<Longrightarrow> mach_inv ms (machine_identifiers d) \<Longrightarrow> m_ID ` set (machines d) \<subseteq> m_ID ` set ms \<Longrightarrow>
   db_inv (d\<lparr>machines := ms\<rparr>)"
  by (auto simp: db_inv_def intro: inv_monos)

lemma db_inv_identifiers:
  "db_inv d \<Longrightarrow> mach_inv (machines d) is \<Longrightarrow> db_inv (d\<lparr>machine_identifiers := is\<rparr>)"
  by (auto simp: db_inv_def)

lemma db_inv_specs:
  "db_inv d \<Longrightarrow> spec_inv (machines d) ss \<Longrightarrow> spec_bindings (installation_specs d) \<subseteq> spec_bindings ss \<Longrightarrow>
   db_inv (d\<lparr>installation_specs := ss\<rparr>)"
  by (auto simp: db_inv_def intro: inv_monos)

lemma db_inv_assignments:
  "db_inv d \<Longrightarrow> asg_inv (installation_specs d) as \<Longrightarrow> db_inv (d\<lparr>installation_assignments := as\<rparr>)"
  by (auto simp: db_inv_def)

lemma db_inv_credentials:
  "db_inv d \<Longrightarrow> cred_inv (installation_specs d) cs \<Longrightarrow>
   lc_InstallationID ` set (lifecycle_credentials d) \<subseteq> lc_InstallationID ` set cs \<Longrightarrow>
   db_inv (d\<lparr>lifecycle_credentials := cs\<rparr>)"
  by (auto simp: db_inv_def intro: inv_monos)

lemma db_inv_lifecycle:
  "db_inv d \<Longrightarrow> life_inv (installation_specs d) es n \<Longrightarrow>
   db_inv (d\<lparr>lifecycle_events := es, lifecycle_events_seq := n\<rparr>)"
  by (auto simp: db_inv_def)

lemma db_inv_logs:
  "db_inv d \<Longrightarrow> log_inv (installation_specs d) cs \<Longrightarrow> db_inv (d\<lparr>log_chunks := cs, log_chunks_seq := n\<rparr>)"
  by (auto simp: db_inv_def)

lemma db_inv_keys:
  "db_inv d \<Longrightarrow> key_inv (machines d) ks \<Longrightarrow> key_bindings (boot_trust_keys d) \<subseteq> key_bindings ks \<Longrightarrow>
   db_inv (d\<lparr>boot_trust_keys := ks\<rparr>)"
  by (auto simp: db_inv_def intro: inv_monos)

lemma db_inv_challenges:
  "db_inv d \<Longrightarrow> chal_inv (installation_specs d) (boot_trust_keys d) (lifecycle_credentials d) cs \<Longrightarrow>
   db_inv (d\<lparr>boot_trust_challenges := cs\<rparr>)"
  by (auto simp: db_inv_def)

lemma db_inv_users:
  "db_inv d \<Longrightarrow> user_inv us ocs \<Longrightarrow> db_inv (d\<lparr>operator_users := us, operator_credentials := ocs\<rparr>)"
  by (auto simp: db_inv_def)

lemmas db_inv_tables = db_inv_machines db_inv_identifiers db_inv_specs db_inv_assignments
  db_inv_credentials db_inv_lifecycle db_inv_logs db_inv_keys db_inv_challenges db_inv_users

lemma db_invD:
  assumes "db_inv d"
  shows "mach_inv (machines d) (machine_identifiers d)"
    and "spec_inv (machines d) (installation_specs d)"
    and "asg_inv (installation_specs d) (installation_assignments d)"
    and "cred_inv (installation_specs d) (lifecycle_credentials d)"
    and "life_inv (installation_specs d) (lifecycle_events d) (lifecycle_events_seq d)"
    and "log_inv (installation_specs d) (log_chunks d)"
    and "key_inv (machines d) (boot_trust_keys d)"
    and "chal_inv (installation_specs d) (boot_trust_keys d) (lifecycle_credentials d) (boot_trust_challenges d)"
    and "user_inv (operator_users d) (operator_credentials d)"
  using assms by (simp_all add: db_inv_def)

lemma transact_db_inv [intro]:
  "db_inv d \<Longrightarrow> (\<And>x d'. body = Inr (x, Some d') \<Longrightarrow> db_inv d') \<Longrightarrow>
   db_inv (snd (transact e b bm c cm d body))"
  by (rule transact_keeps [of db_inv])

end
