(* ===== verification/Samples.thy ===== *)
theory Samples
  imports Database
begin

text \<open>
  One machine approved for provisioning, with an armed installation, an enrolled and approved
  key, a pending challenge and an administrator: the concrete data at which the theorems with
  hypotheses are applied.
\<close>

lemmas sample_trim = TrimSpace_plain plain_def byte_def space1_def

definition sample_env :: env where
  "sample_env = \<lparr>env_now = 63900000000000000000, env_rand = \<lambda>k. Some (\<lambda>n. char_of (65 + k)), env_io = \<lambda>_. True\<rparr>"

lemma sample_env_simps [simp]: "env_now sample_env = 63900000000000000000" "env_io sample_env k"
    "env_rand sample_env k = Some (\<lambda>n. char_of (65 + k))"
  by (simp_all add: sample_env_def)

definition sample_machine :: Machine where
  "sample_machine = \<lparr>m_ID = ''m_1'', m_Nickname = '''', m_Policy = PolicyProvision, m_Architecture = ''x86_64'',
     m_Firmware = ''efi'', m_SecureBootState = StateEnabled, m_SecureBootObserved = 1, m_FirstSeen = 1, m_LastSeen = 1\<rparr>"

definition sample_spec :: Spec where
  "sample_spec = \<lparr>sp_ID = ''i_1'', sp_MachineID = ''m_1'', sp_DriverID = ''debian-13'', sp_DriverVersion = ''1'',
     sp_OSRelease = ''13'', sp_Architecture = ''amd64'', sp_ProfileID = ''p'', sp_ProfileRevision = ''1'',
     sp_Profile = \<lparr>pf_SchemaVersion = 1, pf_Hostname = ''host'', pf_Locale = ''en_US.UTF-8'', pf_Keyboard = ''us'',
       pf_Timezone = ''UTC'', pf_Admin = \<lparr>ad_Username = ''admin'', ad_FullName = ''Admin'', ad_AuthorizedSSHKeys = [], ad_PasswordlessSudo = False\<rparr>,
       pf_Packages = []\<rparr>,
     sp_Artifacts = [], sp_Storage = \<lparr>st_Mode = ''guided'', st_Filesystem = ''ext4'', st_TargetDisk = ''/dev/sda'',
       st_Encrypted = False, st_TPM2 = False\<rparr>,
     sp_Security = \<lparr>se_SSHPasswordAuthentication = False, se_RootLogin = False, se_AutomaticSecurityUpdates = True\<rparr>,
     sp_LifecycleCredentialID = ''lc_1'', sp_CreatedAt = 1, sp_CreatedBy = ''op''\<rparr>"

definition sample_assignment :: Assignment where
  "sample_assignment = \<lparr>as_ID = ''a_1'', as_MachineID = ''m_1'', as_InstallationID = ''i_1'', as_State = StateArmed,
     as_TrustRequirement = ''cryptographic'', as_ArmedAt = 1, as_ArmedBy = ''op'', as_ConsumedAt = 0, as_CancelledAt = 0\<rparr>"

definition sample_key :: Key where
  "sample_key = \<lparr>k_Fingerprint = ''sha256:00'', k_MachineID = ''m_1'', k_PublicKeyPEM = ''pem'', k_EKFingerprint = '''',
     k_State = KeyApproved, k_FirstSeenAt = 1, k_LastSeenAt = 1, k_ApprovedAt = 1, k_ApprovedBy = ''op'',
     k_RevokedAt = 0, k_RevokedBy = ''''\<rparr>"

definition sample_user :: User where
  "sample_user = \<lparr>u_ID = ''u_1'', u_Provider = ''proxy'', u_Subject = ''alice'', u_DisplayName = ''Alice'', u_Email = '''',
     u_Role = RoleAdmin, u_Status = StatusActive, u_WebAuthnHandle = ''h'', u_CreatedAt = 1, u_UpdatedAt = 1,
     u_ApprovedAt = 1, u_ApprovedBy = ''op''\<rparr>"

definition sample_db :: db where
  "sample_db = empty_db\<lparr>machines := [sample_machine], installation_specs := [sample_spec],
     installation_assignments := [sample_assignment], boot_trust_keys := [sample_key],
     operator_users := [sample_user]\<rparr>"

lemma sample_db_inv: "db_inv sample_db"
  by (simp add: sample_db_def db_inv_def empty_db_def mach_inv_def spec_inv_def asg_inv_def cred_inv_def
      life_inv_def log_inv_def key_inv_def chal_inv_def user_inv_def event_inv_def journal_def chunks_of_def
      log_bytes_def sample_machine_def sample_spec_def sample_assignment_def sample_key_def sample_user_def
      known_policy_def known_secure_boot_def assignment_Validate_def TrustRequirementCryptographic_def
      ValidateRole_def sample_trim)

definition sample_observation :: Observation where
  "sample_observation = \<lparr>o_MAC = ''52:54:00:12:34:56'', o_SMBIOSUUID = '''', o_Architecture = ''x86_64'',
     o_Firmware = ''efi'', o_SecureBoot = ''01'', o_SetupMode = ''00''\<rparr>"

definition sample_candidate :: User where
  "sample_candidate = sample_user\<lparr>u_ID := ''u_2'', u_Subject := ''bob'', u_Role := RoleOther '''',
     u_Status := StatusPendingReview, u_WebAuthnHandle := ''g''\<rparr>"

text \<open>Before the first administrator is claimed.\<close>

definition sample_new_db :: db where
  "sample_new_db = empty_db\<lparr>operator_users := [sample_candidate]\<rparr>"

lemma sample_new_db_inv: "db_inv sample_new_db"
  using db_inv_empty
  by (simp add: sample_new_db_def db_inv_def empty_db_def user_inv_def sample_candidate_def sample_user_def)

text \<open>
  A stand-in for the cryptographic library, with digests of 32 bytes: every PEM block holds the
  RSA key with the given modulus, a signature of a digest is the digest.
\<close>

definition sample_digest :: "string \<Rightarrow> string" where
  "sample_digest s = take 32 (s @ replicate 32 (CHR ''0''))"

definition sample_lib :: "nat \<Rightarrow> golib" where
  "sample_lib modulus = \<lparr>lib_url = \<lambda>s. Some (''https'', ''deb.debian.org'', False),
     lib_url_path = \<lambda>s. ([], [], drop 22 s, drop 22 s), lib_sha256 = sample_digest,
     lib_hmac = \<lambda>k s. sample_digest (k @ s), lib_pem = \<lambda>s. Some (''PUBLIC KEY'', s, []),
     lib_pkix = \<lambda>s. Some (RSAKey modulus 65537), lib_rsa_verify = \<lambda>k digest signature. signature = digest,
     lib_rsa_encrypt = \<lambda>k rnd secret label. Some (secret @ label)\<rparr>"

lemma length_sample_digest [simp]: "length (sample_digest s) = 32"
  by (auto simp: sample_digest_def min_def)

lemma sample_lib_digests: "digests_ok (sample_lib n)"
  by (simp add: digests_ok_def sample_lib_def)

text \<open>The installation has been handed off and its installer has a credential.\<close>

definition sample_credential :: CredentialRow where
  "sample_credential = \<lparr>lc_CredentialID = ''lc_1'', lc_InstallationID = ''i_1'', lc_SecretSHA256 = sample_digest ''secret'',
     lc_CreatedAt = 1, lc_ExpiresAt = 64000000000000000000, lc_RevokedAt = None, lc_LastUsedAt = None\<rparr>"

lemma sample_credential_fields:
  "lc_InstallationID sample_credential = ''i_1''" "lc_SecretSHA256 sample_credential = sample_digest ''secret''"
  "lc_RevokedAt sample_credential = None" "lc_ExpiresAt sample_credential = 64000000000000000000"
  by (simp_all add: sample_credential_def)

definition sample_event :: "int \<Rightarrow> Stage \<Rightarrow> Source \<Rightarrow> string \<Rightarrow> LifecycleEvent" where
  "sample_event n stage source key = \<lparr>le_Sequence = n, le_InstallationID = ''i_1'', le_Stage = stage, le_Source = source,
     le_ReceivedAt = 1, le_ClientAt = 0, le_RequestID = ''req'', le_IdempotencyKey = key, le_Message = '''',
     le_ErrorCode = '''', le_Metadata = []\<rparr>"

definition sample_live_db :: db where
  "sample_live_db = sample_db\<lparr>lifecycle_credentials := [sample_credential],
     lifecycle_events := [sample_event 1 StageCreated SourceServer ''k1'', sample_event 2 StageQueued SourceServer ''k2'',
       sample_event 3 StagePXEBooted SourceServer ''k3''], lifecycle_events_seq := 3\<rparr>"

lemma sample_live_db_inv: "db_inv sample_live_db"
proof -
  have "journal (lifecycle_events sample_live_db) i =
      (if i = ''i_1'' then [StageCreated, StageQueued, StagePXEBooted] else [])" for i
    by (simp add: sample_live_db_def journal_def sample_event_def)
  then have "life_inv (installation_specs sample_live_db) (lifecycle_events sample_live_db) 3"
    by (auto simp: life_inv_def stage_path_def CanAdvance_def Terminal_def SourceAllowed_def
        sample_live_db_def sample_event_def sample_db_def sample_spec_def)
  with sample_db_inv show ?thesis
    by (simp add: db_inv_def sample_live_db_def cred_inv_def sample_credential_def sample_digest_def chal_inv_def
        sample_db_def empty_db_def sample_spec_def)
qed

definition sample_report :: "Stage \<Rightarrow> Source \<Rightarrow> string \<Rightarrow> Report" where
  "sample_report stage source errorCode = \<lparr>r_InstallationID = ''i_1'', r_Stage = stage, r_Source = source, r_ClientAt = 0,
     r_IdempotencyKey = ''k4'', r_Message = ''message'', r_ErrorCode = errorCode, r_Metadata = []\<rparr>"

lemma sample_report_fields [simp]:
  "r_InstallationID (sample_report stage source errorCode) = ''i_1''"
  "r_Stage (sample_report stage source errorCode) = stage"
  by (simp_all add: sample_report_def)

end
