(* ===== verification/Store_Machines.thy ===== *)
theory Store_Machines
  imports Samples
begin

text \<open>
  Machines in the store: internal/store/machines.go, machine_policy.go and machine_queries.go.
  Each operation takes its environment and the database and returns its result and the
  database after it.
\<close>

section \<open>Operations\<close>

text \<open>scanMachine: the row as read back.\<close>

definition scanMachine :: "Machine \<Rightarrow> Machine" where
  "scanMachine m =
     (if m_SecureBootState m = SBStateOther '''' then m\<lparr>m_SecureBootState := StateUnknown\<rparr> else m)"

definition machineByIDTx :: "env \<Rightarrow> nat \<Rightarrow> db \<Rightarrow> string \<Rightarrow> Machine option option" where
  "machineByIDTx e k d machineID =
     map_option (map_option scanMachine) (query_row e k (\<lambda>m. m_ID m = machineID) (machines d))"

text \<open>The loop over the identifiers of an observation that collects the machines they name.\<close>

fun resolve_identity :: "env \<Rightarrow> nat \<Rightarrow> db \<Rightarrow> string list \<Rightarrow> Identifier list \<Rightarrow> string list result" where
  "resolve_identity e k d matches [] = Inr matches"
| "resolve_identity e k d matches ((kind, v) # rest) =
     (case query_row e k (\<lambda>r. mi_Kind r = kind \<and> mi_Value r = v) (machine_identifiers d) of
        Some (Some r) \<Rightarrow> resolve_identity e (k + 1) d (List.insert (mi_MachineID r) matches) rest
      | Some None \<Rightarrow> resolve_identity e (k + 1) d matches rest
      | None \<Rightarrow> Inl (storageError ''resolve machine identity''))"

fun persist_identifiers :: "env \<Rightarrow> nat \<Rightarrow> db \<Rightarrow> string \<Rightarrow> time \<Rightarrow> Identifier list \<Rightarrow> db result" where
  "persist_identifiers e k d machineID now [] = Inr d"
| "persist_identifiers e k d machineID now ((kind, v) # rest) =
     (case (if env_io e k then upsert_identifier d \<lparr>mi_MachineID = machineID, mi_Kind = kind, mi_Value = v,
                mi_FirstSeen = now, mi_LastSeen = now\<rparr> else None) of
        None \<Rightarrow> Inl (storageError ''persist machine identifier'')
      | Some d' \<Rightarrow> persist_identifiers e (k + 1) d' machineID now rest)"

definition new_machine :: "string \<Rightarrow> string \<Rightarrow> string \<Rightarrow> SBState \<Rightarrow> time \<Rightarrow> Machine" where
  "new_machine machineID architecture firmware state now =
     \<lparr>m_ID = machineID, m_Nickname = '''', m_Policy = PolicyPending, m_Architecture = architecture,
      m_Firmware = firmware, m_SecureBootState = state, m_SecureBootObserved = now,
      m_FirstSeen = now, m_LastSeen = now\<rparr>"

definition refresh_machine :: "string \<Rightarrow> string \<Rightarrow> SBState \<Rightarrow> time \<Rightarrow> Machine \<Rightarrow> Machine" where
  "refresh_machine architecture firmware state now m =
     m\<lparr>m_Architecture := (if architecture = '''' then m_Architecture m else architecture),
       m_Firmware := (if firmware = '''' then m_Firmware m else firmware),
       m_SecureBootState := state, m_SecureBootObserved := now, m_LastSeen := now\<rparr>"

definition persist_observation ::
  "env \<Rightarrow> db \<Rightarrow> bool \<Rightarrow> string \<Rightarrow> string \<Rightarrow> string \<Rightarrow> SBState \<Rightarrow> db option" where
  "persist_observation e d created machineID architecture firmware state =
     (if \<not> env_io e 1 then None
      else if created then insert_machine d (new_machine machineID architecture firmware state (env_now e))
      else Some (d\<lparr>machines := update_where (\<lambda>m. m_ID m = machineID)
                    (refresh_machine architecture firmware state (env_now e)) (machines d)\<rparr>))"

definition discover_tx ::
  "env \<Rightarrow> db \<Rightarrow> string \<Rightarrow> string \<Rightarrow> SBState \<Rightarrow> Identifier list \<Rightarrow> string \<Rightarrow> (Machine \<times> bool, db) tx_body" where
  "discover_tx e d architecture firmware state identifiers requestID =
     (case resolve_identity e 10 d [] identifiers of
        Inl err \<Rightarrow> Inl err
      | Inr matches \<Rightarrow>
        if length matches > 1 then
          Inl (Fault MachineIdentityConflict ''machine identifiers resolve to different machines'')
        else let now = env_now e; created = (matches = []) in
        (case (if created then idgen_New e 1 ''m_'' else Some (hd matches)) of
           None \<Rightarrow> Inl (Fault StorageFailure ''could not allocate machine identifier'')
         | Some machineID \<Rightarrow>
           (case persist_observation e d created machineID architecture firmware state of
              None \<Rightarrow> Inl (storageError ''persist machine observation'')
            | Some d1 \<Rightarrow>
              (case persist_identifiers e 20 d1 machineID now identifiers of
                 Inl err \<Rightarrow> Inl err
               | Inr d2 \<Rightarrow>
                 if \<not> env_io e 2 then Inl (storageError ''persist machine event'')
                 else let d3 = appendEventTx d2 (event_row ''machine'' machineID
                        (if created then ''MACHINE_DISCOVERED'' else ''MACHINE_SEEN'') now requestID ''system:pxe''
                        (if created then ''machine discovered'' else ''machine observation refreshed'')) in
                 (case machineByIDTx e 3 d3 machineID of
                    Some (Some m) \<Rightarrow> Inr ((m, created), Some d3)
                  | _ \<Rightarrow> Inl (storageError ''read machine after discovery''))))))"

definition DiscoverMachine :: "env \<Rightarrow> db \<Rightarrow> Observation \<Rightarrow> string \<Rightarrow> (Machine \<times> bool) result \<times> db" where
  "DiscoverMachine e d observation requestID0 =
     (case request_id e 0 (TrimSpace requestID0) of
        None \<Rightarrow> (Inl (Fault StorageFailure ''could not allocate request identifier''), d)
      | Some requestID \<Rightarrow>
        let architecture = TrimSpace (o_Architecture observation);
            firmware = TrimSpace (o_Firmware observation) in
        if length architecture > 64 \<or> length firmware > 64 then
          (Inl (Fault MachineIdentityInvalid ''machine observation metadata is too large''), d)
        else case SecureBootState observation of
          Inl _ \<Rightarrow> (Inl (Fault SecureBootEvidenceInvalid ''machine Secure Boot evidence is invalid''), d)
        | Inr state \<Rightarrow>
          (case Identifiers observation of
             Inl _ \<Rightarrow> (Inl (Fault MachineIdentityInvalid ''machine identity is invalid''), d)
           | Inr identifiers \<Rightarrow>
             transact e 0 ''begin machine discovery'' 4 ''commit machine discovery'' d
               (discover_tx e d architecture firmware state identifiers requestID)))"

definition store_Machine :: "env \<Rightarrow> nat \<Rightarrow> db \<Rightarrow> string \<Rightarrow> Machine result" where
  "store_Machine e k d machineID =
     (case machineByIDTx e k d (TrimSpace machineID) of
        Some None \<Rightarrow> Inl (Fault MachineNotFound ''machine not found'')
      | None \<Rightarrow> Inl (storageError ''read machine'')
      | Some (Some m) \<Rightarrow> Inr m)"

definition nickname_tx :: "env \<Rightarrow> db \<Rightarrow> string \<Rightarrow> string \<Rightarrow> string \<Rightarrow> string \<Rightarrow> (Machine, db) tx_body" where
  "nickname_tx e d machineID nickname requestID actor =
     (case machineByIDTx e 1 d machineID of
        Some None \<Rightarrow> Inl (Fault MachineNotFound ''machine not found'')
      | None \<Rightarrow> Inl (storageError ''read machine before nickname update'')
      | Some (Some current) \<Rightarrow>
        if m_Nickname current = nickname then Inr (current, None)
        else if \<not> env_io e 2 then Inl (storageError ''persist machine nickname'')
        else let d1 = d\<lparr>machines := update_where (\<lambda>m. m_ID m = machineID)
                         (\<lambda>m. m\<lparr>m_Nickname := nickname\<rparr>) (machines d)\<rparr> in
        if \<not> env_io e 3 then Inl (storageError ''persist machine nickname event'')
        else let d2 = appendEventTx d1 (event_row ''machine'' machineID ''MACHINE_NICKNAME_CHANGED''
                        (env_now e) requestID actor ''machine nickname changed'') in
        (case machineByIDTx e 4 d2 machineID of
           Some (Some m) \<Rightarrow> Inr (m, Some d2)
         | _ \<Rightarrow> Inl (storageError ''read machine after nickname update'')))"

definition SetMachineNickname :: "env \<Rightarrow> db \<Rightarrow> string \<Rightarrow> string \<Rightarrow> string \<Rightarrow> string \<Rightarrow> Machine result \<times> db" where
  "SetMachineNickname e d machineID0 nickname0 requestID actor0 =
     (let machineID = TrimSpace machineID0; actor = TrimSpace actor0 in
      if machineID = [] \<or> actor = [] then
        (Inl (Fault MachineIdentityInvalid ''machine and actor are required''), d)
      else case NormalizeNickname nickname0 of
        Inl _ \<Rightarrow> (Inl (Fault MachineIdentityInvalid ''machine nickname is invalid''), d)
      | Inr nickname \<Rightarrow>
        transact e 0 ''begin machine nickname update'' 5 ''commit machine nickname update'' d
          (nickname_tx e d machineID nickname requestID actor))"

definition validPolicy :: "Policy \<Rightarrow> bool" where
  "validPolicy p = (case p of PolicyPending \<Rightarrow> True | PolicyLocal \<Rightarrow> True | PolicyProvision \<Rightarrow> True
     | PolicyBlocked \<Rightarrow> True | PolicyOther s \<Rightarrow> False)"

definition policy_tx :: "env \<Rightarrow> db \<Rightarrow> string \<Rightarrow> Policy \<Rightarrow> string \<Rightarrow> string \<Rightarrow> (Machine, db) tx_body" where
  "policy_tx e d machineID policy requestID actor =
     (case machineByIDTx e 1 d machineID of
        Some None \<Rightarrow> Inl (Fault MachineNotFound ''machine not found'')
      | None \<Rightarrow> Inl (storageError ''read machine policy'')
      | Some (Some current) \<Rightarrow>
        if m_Policy current = policy then Inr (current, None)
        else if \<not> env_io e 2 then Inl (storageError ''update machine policy'')
        else let d1 = d\<lparr>machines := update_where (\<lambda>m. m_ID m = machineID)
                         (\<lambda>m. m\<lparr>m_Policy := policy\<rparr>) (machines d)\<rparr> in
        if \<not> env_io e 3 then Inl (storageError ''persist machine policy event'')
        else Inr (current\<lparr>m_Policy := policy\<rparr>,
               Some (appendEventTx d1 (event_row ''machine'' machineID ''MACHINE_POLICY_CHANGED'' (env_now e)
                 requestID actor (''machine policy changed from '' @ policy_text (m_Policy current)
                   @ '' to '' @ policy_text policy)))))"

definition SetMachinePolicy :: "env \<Rightarrow> db \<Rightarrow> string \<Rightarrow> Policy \<Rightarrow> string \<Rightarrow> string \<Rightarrow> Machine result \<times> db" where
  "SetMachinePolicy e d machineID policy requestID0 actor0 =
     (if \<not> validPolicy policy then (Inl (Fault MachinePolicyInvalid ''machine policy is invalid''), d)
      else let actor = TrimSpace actor0 in
      if actor = [] then (Inl (Fault MachinePolicyInvalid ''machine policy actor is required''), d)
      else case request_id e 0 requestID0 of
        None \<Rightarrow> (Inl (Fault StorageFailure ''could not allocate request identifier''), d)
      | Some requestID \<Rightarrow>
        transact e 0 ''begin machine policy change'' 4 ''commit machine policy change'' d
          (policy_tx e d machineID policy requestID actor))"

section \<open>What the statements keep\<close>

lemma machine_known:
  "db_inv d \<Longrightarrow> m \<in> set (machines d) \<Longrightarrow> known_policy (m_Policy m) \<and> known_secure_boot (m_SecureBootState m)"
  by (auto simp: mach_inv_def dest: db_invD(1))

lemma insert_machine_inv:
  "insert_machine d m = Some d' \<Longrightarrow> TrimSpace (m_ID m) = m_ID m \<Longrightarrow> db_inv d \<Longrightarrow> db_inv d'"
  by (auto simp: insert_machine_def mach_inv_def dest: db_invD(1) intro!: db_inv_machines split: if_splits)

lemma update_machines_inv:
  assumes "db_inv d" and "\<And>m. m_ID (f m) = m_ID m"
    and "\<And>m. m \<in> set (machines d) \<Longrightarrow> p m \<Longrightarrow> known_policy (m_Policy (f m)) \<and> known_secure_boot (m_SecureBootState (f m))"
  shows "db_inv (d\<lparr>machines := update_where p f (machines d)\<rparr>)"
proof (rule db_inv_machines [OF assms(1)])
  have ids: "map m_ID (update_where p f (machines d)) = map m_ID (machines d)"
    by (rule map_update_where) (rule assms(2))
  then have set_ids: "m_ID ` set (update_where p f (machines d)) = m_ID ` set (machines d)"
    by (metis set_map)
  with ids show "mach_inv (update_where p f (machines d)) (machine_identifiers d)"
    using db_invD(1) [OF assms(1)] assms(2,3) by (auto simp: mach_inv_def set_update_where)
  from set_ids show "m_ID ` set (machines d) \<subseteq> m_ID ` set (update_where p f (machines d))" by simp
qed

lemma upsert_identifier_inv:
  assumes "db_inv d" and "upsert_identifier d r = Some d'"
  shows "db_inv d'"
proof -
  have keys: "map (\<lambda>x. (mi_Kind x, mi_Value x)) (update_where p (\<lambda>x. x\<lparr>mi_LastSeen := t\<rparr>) is)
      = map (\<lambda>x. (mi_Kind x, mi_Value x)) is" for p t and "is" :: "IdentifierRow list"
    by (rule map_update_where) simp
  show ?thesis
    using assms(2) db_invD(1) [OF assms(1)]
    by (auto simp: upsert_identifier_def mach_inv_def keys set_update_where split: if_splits
        intro!: db_inv_identifiers [OF assms(1)])
qed

lemma upsert_identifier_frame:
  "upsert_identifier d r = Some d' \<Longrightarrow> machines d' = machines d \<and> installation_specs d' = installation_specs d"
  by (auto simp: upsert_identifier_def split: if_splits)

lemma persist_identifiers_inv:
  "persist_identifiers e k d i t ids = Inr d' \<Longrightarrow> db_inv d \<Longrightarrow> db_inv d'"
  by (induction e k d i t ids rule: persist_identifiers.induct)
    (auto simp: result_simps split: if_splits dest: upsert_identifier_inv)

lemma persist_identifiers_frame:
  "persist_identifiers e k d i t ids = Inr d' \<Longrightarrow> machines d' = machines d \<and> installation_specs d' = installation_specs d"
  by (induction e k d i t ids rule: persist_identifiers.induct)
    (auto simp: result_simps split: if_splits dest: upsert_identifier_frame)

lemma Observe_state_known: "Observe fw sb sm = Inr st \<Longrightarrow> known_secure_boot st"
  by (auto simp: Observe_def Let_def known_secure_boot_def split: if_splits)

lemma validPolicy_known [simp]: "validPolicy p = known_policy p"
  by (simp add: validPolicy_def known_policy_def split: Policy.splits)

lemma persist_observation_inv:
  "persist_observation e d created i a f st = Some d' \<Longrightarrow> known_secure_boot st \<Longrightarrow>
   (created \<Longrightarrow> TrimSpace i = i) \<Longrightarrow> db_inv d \<Longrightarrow> db_inv d'"
  by (auto simp: persist_observation_def refresh_machine_def new_machine_def split: if_splits
      dest: machine_known intro!: update_machines_inv elim!: insert_machine_inv)

lemma machine_id_trimmed: "idgen_New e k ''m_'' = Some i \<Longrightarrow> TrimSpace i = i"
  by (erule idgen_New_trimmed) (simp add: plain_def byte_def space1_def)

section \<open>Every operation keeps the invariant and rolls back on an error\<close>

lemma discover_tx_Inr:
  assumes "discover_tx e d a f st ids rid = Inr ((m, created), x)"
  obtains ms i d1 d2 v where "resolve_identity e 10 d [] ids = Inr ms" "\<not> 1 < length ms"
      "created = (ms = [])" "(if ms = [] then idgen_New e 1 ''m_'' else Some (hd ms)) = Some i"
      "persist_observation e d (ms = []) i a f st = Some d1"
      "persist_identifiers e 20 d1 i (env_now e) ids = Inr d2"
      "x = Some (appendEventTx d2 v)" "machineByIDTx e 3 (appendEventTx d2 v) i = Some (Some m)"
  using assms unfolding discover_tx_def Let_def result_simps by blast

lemma discover_tx_inv:
  assumes "discover_tx e d a f st ids rid = Inr (x, Some d')" "known_secure_boot st" "db_inv d"
  shows "db_inv d'"
proof -
  obtain m created where x: "x = (m, created)" by force
  from assms(1) [unfolded x] obtain ms i d1 d2 v where
    r: "(if ms = [] then idgen_New e 1 ''m_'' else Some (hd ms)) = Some i"
      "persist_observation e d (ms = []) i a f st = Some d1"
      "persist_identifiers e 20 d1 i (env_now e) ids = Inr d2" "Some d' = Some (appendEventTx d2 v)"
    by (rule discover_tx_Inr)
  have "ms = [] \<Longrightarrow> TrimSpace i = i" using r(1) by (auto dest: machine_id_trimmed)
  with r(2) assms(2,3) have "db_inv d1" by (auto intro: persist_observation_inv)
  with r(3) have "db_inv d2" by (rule persist_identifiers_inv)
  with r(4) show ?thesis by auto
qed

lemma DiscoverMachine_inv: "db_inv d \<Longrightarrow> db_inv (snd (DiscoverMachine e d ob rid))"
  by (auto simp: DiscoverMachine_def Let_def SecureBootState_def split: option.splits sum.splits
      dest: Observe_state_known discover_tx_inv)

lemma DiscoverMachine_rollback: "rolled_back d (DiscoverMachine e d ob rid)"
  by (simp add: DiscoverMachine_def Let_def split: option.split sum.split)

lemma nickname_tx_inv: "nickname_tx e d i n rid act = Inr (x, Some d') \<Longrightarrow> db_inv d \<Longrightarrow> db_inv d'"
  by (auto simp: nickname_tx_def Let_def result_simps split: if_splits
      dest: machine_known intro!: update_machines_inv)

lemma SetMachineNickname_inv: "db_inv d \<Longrightarrow> db_inv (snd (SetMachineNickname e d i n rid act))"
  by (auto simp: SetMachineNickname_def Let_def split: sum.splits dest: nickname_tx_inv)

lemma SetMachineNickname_rollback: "rolled_back d (SetMachineNickname e d i n rid act)"
  by (simp add: SetMachineNickname_def Let_def split: option.split sum.split)

lemma policy_tx_inv:
  "policy_tx e d i p rid act = Inr (x, Some d') \<Longrightarrow> known_policy p \<Longrightarrow> db_inv d \<Longrightarrow> db_inv d'"
  by (auto simp: policy_tx_def Let_def result_simps split: if_splits
      dest: machine_known intro!: update_machines_inv)

lemma SetMachinePolicy_inv: "db_inv d \<Longrightarrow> db_inv (snd (SetMachinePolicy e d i p rid act))"
  by (auto simp: SetMachinePolicy_def Let_def split: option.splits dest: policy_tx_inv)

lemma SetMachinePolicy_rollback: "rolled_back d (SetMachinePolicy e d i p rid act)"
  by (simp add: SetMachinePolicy_def Let_def split: option.split sum.split)

interpretation discover: store_operation "\<lambda>e d (ob, rid). DiscoverMachine e d ob rid" db_inv
  by unfold_locales (auto intro: DiscoverMachine_inv DiscoverMachine_rollback)

interpretation set_nickname: store_operation "\<lambda>e d (i, n, rid, act). SetMachineNickname e d i n rid act" db_inv
  by unfold_locales (auto intro: SetMachineNickname_inv SetMachineNickname_rollback)

interpretation set_policy: store_operation "\<lambda>e d (i, p, rid, act). SetMachinePolicy e d i p rid act" db_inv
  by unfold_locales (auto intro: SetMachinePolicy_inv SetMachinePolicy_rollback)

section \<open>The identity of machines\<close>

text \<open>The machine an identifier belongs to.\<close>

definition owner :: "db \<Rightarrow> Identifier \<Rightarrow> string option" where
  "owner d x = map_option mi_MachineID
     (List.find (\<lambda>r. mi_Kind r = fst x \<and> mi_Value r = snd x) (machine_identifiers d))"

lemma resolve_identity_owners:
  "resolve_identity e k d acc ids = Inr ms \<Longrightarrow>
   set ms = set acc \<union> {i. \<exists>x \<in> set ids. owner d x = Some i} \<and> (distinct acc \<longrightarrow> distinct ms)"
  by (induction e k d acc ids rule: resolve_identity.induct)
    (auto simp: owner_def result_simps split: option.splits)

lemma owner_upsert:
  assumes "upsert_identifier d r = Some d'"
  shows "owner d' x = (if x = (mi_Kind r, mi_Value r) \<and> owner d x = None then Some (mi_MachineID r) else owner d x)"
proof (cases "(mi_Kind r, mi_Value r) \<in> (\<lambda>x. (mi_Kind x, mi_Value x)) ` set (machine_identifiers d)")
  case True
  then obtain y where y: "y \<in> set (machine_identifiers d)" "mi_Kind y = mi_Kind r" "mi_Value y = mi_Value r"
    by auto
  then have known: "owner d (mi_Kind r, mi_Value r) \<noteq> None"
    by (auto simp: owner_def find_None_iff)
  have "owner d' x = owner d x"
    using assms True by (auto simp: upsert_identifier_def owner_def find_update_where_key split: if_splits)
  with known show ?thesis by auto
next
  case False
  have "List.find (\<lambda>y. mi_Kind y = mi_Kind r \<and> mi_Value y = mi_Value r) (machine_identifiers d) = None"
    using False unfolding find_None_iff by (metis (mono_tags, lifting) image_eqI)
  with assms False show ?thesis
    by (cases x) (auto simp: upsert_identifier_def owner_def find_append split: if_splits option.splits)
qed

lemma owner_persist:
  "persist_identifiers e k d i t ids = Inr d' \<Longrightarrow>
   owner d' x = (if x \<in> set ids \<and> owner d x = None then Some i else owner d x)"
  by (induction e k d i t ids rule: persist_identifiers.induct)
    (auto simp: result_simps owner_upsert split: if_splits)

lemma owner_frame [simp]: "owner (d\<lparr>machines := ms\<rparr>) = owner d" "owner (appendEventTx d v) = owner d"
  by (simp_all add: owner_def fun_eq_iff)

lemma persist_observation_frame:
  "persist_observation e d c i a f st = Some d1 \<Longrightarrow>
   owner d1 = owner d \<and> machines d1 =
     (if c then machines d @ [new_machine i a f st (env_now e)]
      else update_where (\<lambda>m. m_ID m = i) (refresh_machine a f st (env_now e)) (machines d))
   \<and> (c \<longrightarrow> i \<notin> m_ID ` set (machines d))"
  by (auto simp: persist_observation_def insert_machine_def new_machine_def split: if_splits)

lemma discover_tx_result:
  assumes "discover_tx e d a f st ids rid = Inr ((m, created), Some d')"
  shows "created = (\<forall>x \<in> set ids. owner d x = None)"
    and "\<And>x. x \<in> set ids \<Longrightarrow> owner d' x = Some (m_ID m)"
    and "\<And>x. x \<notin> set ids \<Longrightarrow> owner d' x = owner d x"
    and "machines d' = (if created then machines d @ [new_machine (m_ID m) a f st (env_now e)]
           else update_where (\<lambda>y. m_ID y = m_ID m) (refresh_machine a f st (env_now e)) (machines d))"
    and "created \<Longrightarrow> m_ID m \<notin> m_ID ` set (machines d)"
    and "\<not> created \<Longrightarrow> \<exists>x \<in> set ids. owner d x = Some (m_ID m)"
    and "\<exists>m0. m = scanMachine m0 \<and> List.find (\<lambda>y. m_ID y = m_ID m) (machines d') = Some m0"
proof -
  obtain ms i d1 d2 v where r: "resolve_identity e 10 d [] ids = Inr ms" "\<not> 1 < length ms"
      "created = (ms = [])" "(if ms = [] then idgen_New e 1 ''m_'' else Some (hd ms)) = Some i"
      "persist_observation e d (ms = []) i a f st = Some d1"
      "persist_identifiers e 20 d1 i (env_now e) ids = Inr d2"
      "d' = appendEventTx d2 v" "machineByIDTx e 3 d' i = Some (Some m)"
    using assms by (rule discover_tx_Inr) blast
  from r(8) obtain m0 where m0: "List.find (\<lambda>y. m_ID y = i) (machines d') = Some m0" "m = scanMachine m0"
    by (auto simp: machineByIDTx_def result_simps)
  then have id: "m_ID m = i" by (auto dest!: find_SomeD simp: scanMachine_def)
  note owners = conjunct1 [OF resolve_identity_owners [OF r(1)]]
  note frame = persist_observation_frame [OF r(5)]
  have own: "owner d' x = (if x \<in> set ids \<and> owner d x = None then Some i else owner d x)" for x
    using owner_persist [OF r(6)] frame r(7) by auto
  have known: "j = i" if "x \<in> set ids" "owner d x = Some j" for x j
  proof -
    from that owners have "j \<in> set ms" by auto
    with r(2,4) show ?thesis by (cases ms) (auto split: if_splits)
  qed
  show "created = (\<forall>x \<in> set ids. owner d x = None)"
  proof -
    have "created \<longleftrightarrow> set ms = {}" using r(3) by simp
    also have "\<dots> \<longleftrightarrow> (\<forall>x \<in> set ids. \<forall>i. owner d x \<noteq> Some i)" using owners by auto
    finally show ?thesis by simp
  qed
  show "\<And>x. x \<in> set ids \<Longrightarrow> owner d' x = Some (m_ID m)"
    using own known id by (metis option.exhaust)
  show "\<And>x. x \<notin> set ids \<Longrightarrow> owner d' x = owner d x"
    using own by simp
  show "machines d' = (if created then machines d @ [new_machine (m_ID m) a f st (env_now e)]
           else update_where (\<lambda>y. m_ID y = m_ID m) (refresh_machine a f st (env_now e)) (machines d))"
    using frame id r(3,7) persist_identifiers_frame [OF r(6)] by auto
  show "created \<Longrightarrow> m_ID m \<notin> m_ID ` set (machines d)" using frame id r(3) by simp
  show "\<not> created \<Longrightarrow> \<exists>x \<in> set ids. owner d x = Some (m_ID m)"
    using r(3,4) owners id by (cases ms) (auto split: if_splits)
  show "\<exists>m0. m = scanMachine m0 \<and> List.find (\<lambda>y. m_ID y = m_ID m) (machines d') = Some m0"
    using m0 id by auto
qed

lemma DiscoverMachine_Inr:
  assumes "DiscoverMachine e d ob rid0 = (Inr (m, created), d')"
  obtains a f st ids rid where "Identifiers ob = Inr ids" "SecureBootState ob = Inr st"
    "a = TrimSpace (o_Architecture ob)" "f = TrimSpace (o_Firmware ob)"
    "discover_tx e d a f st ids rid = Inr ((m, created), Some d')"
proof -
  have no_None: "discover_tx e d a f st ids rid \<noteq> Inr (x, None)" for a f st ids rid x
    by (auto simp: discover_tx_def Let_def result_simps)
  from assms show ?thesis
    by (auto simp: DiscoverMachine_def Let_def result_simps no_None split: option.splits sum.splits if_splits
        intro: that)
qed

text \<open>The policy of a machine, \<open>None\<close> for an unknown one.\<close>

definition policy_of :: "db \<Rightarrow> string \<Rightarrow> Policy option" where
  "policy_of d i = map_option m_Policy (List.find (\<lambda>m. m_ID m = i) (machines d))"

lemma policy_of_cong: "machines d' = machines d \<Longrightarrow> policy_of d' = policy_of d"
  by (simp add: policy_of_def fun_eq_iff)

lemma DiscoverMachine_policy_of:
  assumes "DiscoverMachine e d ob rid = (Inr (m, created), d')"
  shows "policy_of d' i = (if created \<and> i = m_ID m then Some PolicyPending else policy_of d i)"
proof -
  obtain a f st ids r where tx: "discover_tx e d a f st ids r = Inr ((m, created), Some d')"
    using assms by (rule DiscoverMachine_Inr)
  show ?thesis
  proof (cases created)
    case True
    with discover_tx_result(5) [OF tx] have "List.find (\<lambda>x. m_ID x = m_ID m) (machines d) = None"
      by (simp add: find_key_None True)
    with True discover_tx_result(4) [OF tx] show ?thesis
      by (auto simp: policy_of_def find_append new_machine_def split: option.splits)
  next
    case False
    with discover_tx_result(4) [OF tx] show ?thesis
      by (simp add: policy_of_def find_update_where_key refresh_machine_def)
  qed
qed

text \<open>Network discovery never decides about provisioning: whatever a client reports, and
  whether the call succeeds or fails, the machines approved for provisioning after the call are
  those approved before it.\<close>

lemma discovery_never_approves:
  "policy_of (snd (DiscoverMachine e d ob rid)) i = Some PolicyProvision \<longleftrightarrow>
   policy_of d i = Some PolicyProvision"
proof (cases "fst (DiscoverMachine e d ob rid)")
  case (Inl f)
  then show ?thesis using DiscoverMachine_rollback [of d e ob rid] by (simp add: rolled_back_def)
next
  case (Inr r)
  obtain m created where r: "r = (m, created)" by force
  with Inr have eq: "DiscoverMachine e d ob rid = (Inr (m, created), snd (DiscoverMachine e d ob rid))"
    by (metis prod.collapse)
  obtain a f st ids r' where tx: "discover_tx e d a f st ids r' =
      Inr ((m, created), Some (snd (DiscoverMachine e d ob rid)))"
    using eq by (rule DiscoverMachine_Inr)
  have "created \<Longrightarrow> policy_of d (m_ID m) = None"
    using discover_tx_result(5) [OF tx] by (simp add: policy_of_def find_key_None)
  with DiscoverMachine_policy_of [OF eq, of i] show ?thesis by auto
qed

text \<open>C22: the identity of a machine is stable: after a discovery has succeeded, every later
  discovery by the same observation, as long as the identifiers still belong to the machine,
  refreshes that machine and creates none, and a new machine starts with the pending policy.\<close>

theorem discovery_identity_stable:
  assumes "DiscoverMachine e d ob rid = (Inr (m, created), d1)"
    and "owner d2 = owner d1"
    and "DiscoverMachine e' d2 ob rid' = (Inr (m', created'), d3)"
  shows "m_ID m' = m_ID m \<and> \<not> created' \<and> (created \<longrightarrow> policy_of d1 (m_ID m) = Some PolicyPending)"
proof -
  obtain a f st ids r where 1: "Identifiers ob = Inr ids"
      "discover_tx e d a f st ids r = Inr ((m, created), Some d1)"
    using assms(1) by (rule DiscoverMachine_Inr)
  obtain a' f' st' r' where 2: "discover_tx e' d2 a' f' st' ids r' = Inr ((m', created'), Some d3)"
    using assms(3) 1(1) by (auto elim!: DiscoverMachine_Inr)
  obtain x where x: "x \<in> set ids" using Identifiers_nonempty [OF 1(1)] by (cases ids) auto
  have own: "owner d2 x = Some (m_ID m)" if "x \<in> set ids" for x
    using discover_tx_result(2) [OF 1(2) that] assms(2) by simp
  have "\<not> created'" using discover_tx_result(1) [OF 2] own [OF x] x by (metis option.distinct(1))
  then obtain y where "y \<in> set ids" "owner d2 y = Some (m_ID m')"
    using discover_tx_result(6) [OF 2] by auto
  with own \<open>\<not> created'\<close> DiscoverMachine_policy_of [OF assms(1), of "m_ID m"] show ?thesis by auto
qed

theorem discovery_identity_stable_witness:
  "let d1 = snd (DiscoverMachine sample_env empty_db sample_observation ''req1'');
       r2 = DiscoverMachine sample_env d1 sample_observation ''req2''
   in m_ID (fst (projr (fst r2))) = m_ID (fst (projr (fst (DiscoverMachine sample_env empty_db sample_observation ''req1''))))"
proof -
  let ?r1 = "DiscoverMachine sample_env empty_db sample_observation ''req1''"
  let ?r2 = "DiscoverMachine sample_env (snd ?r1) sample_observation ''req2''"
  have "isl (fst ?r1) = False" by code_simp
  then have 1: "?r1 = (Inr (fst (projr (fst ?r1)), snd (projr (fst ?r1))), snd ?r1)"
    using succeeded [of ?r1] by simp
  have "isl (fst ?r2) = False" by code_simp
  then have 2: "?r2 = (Inr (fst (projr (fst ?r2)), snd (projr (fst ?r2))), snd ?r2)"
    using succeeded [of ?r2] by simp
  from discovery_identity_stable [OF 1 refl 2] show ?thesis by (simp add: Let_def)
qed

end
