(* ===== verification/Store_Installations.thy ===== *)
theory Store_Installations
  imports Store_Machines
begin

text \<open>
  Installation specifications in the store (internal/store/installations.go and
  installation_queries.go) and the lifecycle events the server itself appends
  (internal/store/lifecycle_server.go), with the reading of the current stage of an
  installation (currentLifecycleStageTx and CurrentLifecycleStage of internal/store/telemetry.go).

  A specification is stored with its four structured parts as JSON. The model keeps the
  specification itself: the parts are marshalled and unmarshalled by the same Go types.
\<close>

section \<open>The current stage\<close>

definition current_stage :: "db \<Rightarrow> string \<Rightarrow> Stage" where
  "current_stage d i =
     (case max_by le_Sequence (filter (\<lambda>v. le_InstallationID v = i) (lifecycle_events d)) of
        None \<Rightarrow> StageNone
      | Some v \<Rightarrow> le_Stage v)"

definition currentLifecycleStageTx :: "env \<Rightarrow> nat \<Rightarrow> db \<Rightarrow> string \<Rightarrow> Stage result" where
  "currentLifecycleStageTx e k d installationID =
     (if \<not> env_io e k then Inl (Fault StorageFailure ''could not read current lifecycle stage'')
      else Inr (current_stage d installationID))"

definition CurrentLifecycleStage :: "env \<Rightarrow> db \<Rightarrow> string \<Rightarrow> Stage result" where
  "CurrentLifecycleStage e d installationID =
     (if \<not> env_io e 0 then Inl (storageError ''read current lifecycle stage'')
      else Inr (current_stage d (TrimSpace installationID)))"

lemma journal_snoc:
  "journal (es @ [v]) i = (if le_InstallationID v = i then journal es i @ [le_Stage v] else journal es i)"
  by (simp add: journal_def)

lemma sorted_map_filter: "sorted_wrt r (map f xs) \<Longrightarrow> sorted_wrt r (map f (filter p xs))"
  by (induction xs) auto

lemma current_stage_journal:
  assumes "db_inv d"
  shows "current_stage d i = last (StageNone # journal (lifecycle_events d) i)"
proof -
  let ?es = "filter (\<lambda>v. le_InstallationID v = i) (lifecycle_events d)"
  have "sorted_wrt (<) (map le_Sequence ?es)"
    using db_invD(5) [OF assms] by (auto simp: life_inv_def intro: sorted_map_filter)
  then show ?thesis
    using max_by_sorted [of le_Sequence ?es]
    by (cases "?es = []") (auto simp: current_stage_def journal_def last_map split: option.splits)
qed

lemma insert_lifecycle_event_inv:
  assumes "db_inv d" and "insert_lifecycle_event d v = Some (d', n)"
    and "SourceAllowed (le_Stage v) (le_Source v)" "CanAdvance (current_stage d (le_InstallationID v)) (le_Stage v)"
  shows "db_inv d'"
proof -
  have ins: "le_InstallationID v \<in> sp_ID ` set (installation_specs d)"
      "event_key v \<notin> event_key ` set (lifecycle_events d)" "n = lifecycle_events_seq d + 1"
      "d' = d\<lparr>lifecycle_events := lifecycle_events d @ [v\<lparr>le_Sequence := n\<rparr>], lifecycle_events_seq := n\<rparr>"
    using assms(2) by (auto simp: insert_lifecycle_event_def Let_def split: if_splits)
  have inv: "life_inv (installation_specs d) (lifecycle_events d) (lifecycle_events_seq d)"
    by (rule db_invD(5) [OF assms(1)])
  have "stage_path (journal (lifecycle_events d @ [v\<lparr>le_Sequence := n\<rparr>]) i)" for i
    using inv assms(4) current_stage_journal [OF assms(1), of i]
    by (auto simp: journal_snoc stage_path_snoc life_inv_def)
  then have "life_inv (installation_specs d) (lifecycle_events d @ [v\<lparr>le_Sequence := n\<rparr>]) n"
    using inv ins(1-3) assms(3) by (force simp: life_inv_def sorted_wrt_append)
  with assms(1) ins(4) show ?thesis by (simp add: db_inv_lifecycle)
qed

section \<open>Server lifecycle events\<close>

definition server_event :: "string \<Rightarrow> Stage \<Rightarrow> string \<Rightarrow> string \<Rightarrow> string \<Rightarrow> time \<Rightarrow> LifecycleEvent" where
  "server_event installationID stage idempotencyKey message requestID occurredAt =
     \<lparr>le_Sequence = 0, le_InstallationID = installationID, le_Stage = stage, le_Source = SourceServer,
      le_ReceivedAt = occurredAt, le_ClientAt = 0, le_RequestID = requestID,
      le_IdempotencyKey = idempotencyKey, le_Message = message, le_ErrorCode = '''', le_Metadata = []\<rparr>"

definition appendServerLifecycleEventTx ::
  "env \<Rightarrow> nat \<Rightarrow> db \<Rightarrow> string \<Rightarrow> Stage \<Rightarrow> string \<Rightarrow> string \<Rightarrow> string \<Rightarrow> time \<Rightarrow> db result" where
  "appendServerLifecycleEventTx e k d installationID stage idempotencyKey message requestID occurredAt0 =
     (if \<not> SourceAllowed stage SourceServer then
        Inl (Fault InstallerTelemetryInvalid ''server is not authorized for lifecycle stage'')
      else case query_row e k (\<lambda>v. le_InstallationID v = installationID \<and> le_IdempotencyKey v = idempotencyKey)
                  (lifecycle_events d) of
        Some (Some existing) \<Rightarrow>
          if le_Stage existing = stage then Inr d
          else Inl (Fault InstallerTelemetryConflict ''server lifecycle idempotency key conflicts with existing stage'')
      | None \<Rightarrow> Inl (Fault StorageFailure ''could not inspect server lifecycle idempotency'')
      | Some None \<Rightarrow>
        (case currentLifecycleStageTx e (k + 1) d installationID of
           Inl err \<Rightarrow> Inl err
         | Inr current \<Rightarrow>
           if \<not> CanAdvance current stage then
             Inl (Fault InstallerTelemetryConflict ''server lifecycle event would regress or skip required state'')
           else let occurredAt = (if IsZero occurredAt0 then env_now e else occurredAt0) in
           (case (if env_io e (k + 2) then insert_lifecycle_event d
                    (server_event installationID stage idempotencyKey message requestID occurredAt) else None) of
              None \<Rightarrow> Inl (Fault StorageFailure ''could not persist server lifecycle event'')
            | Some (d', n) \<Rightarrow> Inr d')))"

lemma insert_lifecycle_event_frame:
  assumes "insert_lifecycle_event d v = Some (d', n)"
  shows "machines d' = machines d" "machine_identifiers d' = machine_identifiers d"
    "installation_specs d' = installation_specs d" "installation_assignments d' = installation_assignments d"
    "lifecycle_credentials d' = lifecycle_credentials d" "log_chunks d' = log_chunks d"
    "boot_trust_keys d' = boot_trust_keys d" "boot_trust_challenges d' = boot_trust_challenges d"
    "operator_users d' = operator_users d" "operator_credentials d' = operator_credentials d"
    "lifecycle_events d' = lifecycle_events d @ [v\<lparr>le_Sequence := n\<rparr>]"
  using assms by (auto simp: insert_lifecycle_event_def Let_def split: if_splits)

text \<open>An appended event, or none when the stage is already recorded under the same key.\<close>

lemma appendServerLifecycleEventTx_Inr:
  assumes "appendServerLifecycleEventTx e k d i st key msg rid t = Inr d'"
  obtains "d' = d" "st \<in> set (journal (lifecycle_events d) i)"
  | v n where "insert_lifecycle_event d v = Some (d', n)" "SourceAllowed (le_Stage v) (le_Source v)"
      "CanAdvance (current_stage d i) st" "le_InstallationID v = i" "le_Stage v = st"
  using assms
  by (auto simp: appendServerLifecycleEventTx_def currentLifecycleStageTx_def server_event_def Let_def
      result_simps journal_def dest!: find_SomeD split: option.splits if_splits)

lemma appendServerLifecycleEventTx_inv:
  assumes "appendServerLifecycleEventTx e k d i st key msg rid t = Inr d'" "db_inv d"
  shows "db_inv d'"
  using assms(1)
  by (rule appendServerLifecycleEventTx_Inr) (use assms(2) in \<open>auto intro: insert_lifecycle_event_inv\<close>)

lemma appendServerLifecycleEventTx_frame:
  assumes "appendServerLifecycleEventTx e k d i st key msg rid t = Inr d'"
  shows "machines d' = machines d" "installation_specs d' = installation_specs d"
    "installation_assignments d' = installation_assignments d"
    "lifecycle_credentials d' = lifecycle_credentials d" "log_chunks d' = log_chunks d"
    "boot_trust_keys d' = boot_trust_keys d" "boot_trust_challenges d' = boot_trust_challenges d"
    "machine_identifiers d' = machine_identifiers d"
  using assms by (auto elim!: appendServerLifecycleEventTx_Inr dest: insert_lifecycle_event_frame)

section \<open>Specifications\<close>

definition create_spec_tx :: "env \<Rightarrow> db \<Rightarrow> Spec \<Rightarrow> string \<Rightarrow> (Spec, db) tx_body" where
  "create_spec_tx e d spec requestID =
     (case (if env_io e 2 then insert_spec d spec else None) of
        None \<Rightarrow> Inl (storageError ''persist installation spec'')
      | Some d1 \<Rightarrow>
        (case appendServerLifecycleEventTx e 10 d1 (sp_ID spec) StageCreated (''server:created:'' @ sp_ID spec)
                ''immutable installation spec created'' requestID (sp_CreatedAt spec) of
           Inl _ \<Rightarrow> Inl (storageError ''persist installation lifecycle creation'')
         | Inr d2 \<Rightarrow>
           if \<not> env_io e 3 then Inl (storageError ''persist installation creation event'')
           else Inr (spec, Some (appendEventTx d2 (event_row ''installation'' (sp_ID spec) ''INSTALLATION_CREATED''
                  (sp_CreatedAt spec) requestID (sp_CreatedBy spec) ''immutable installation spec created'')))))"

definition CreateInstallationSpec :: "golib \<Rightarrow> env \<Rightarrow> db \<Rightarrow> Spec \<Rightarrow> string \<Rightarrow> Spec result \<times> db" where
  "CreateInstallationSpec L e d spec requestID0 =
     (if spec_Validate L spec \<noteq> None then (Inl (Fault InstallationSpecInvalid ''installation spec is invalid''), d)
      else if TrimSpace (sp_ID spec) \<noteq> [] \<or> \<not> IsZero (sp_CreatedAt spec) then
        (Inl (Fault InstallationSpecInvalid ''installation identity and creation time are server assigned''), d)
      else case request_id e 0 requestID0 of
        None \<Rightarrow> (Inl (Fault StorageFailure ''could not allocate request identifier''), d)
      | Some requestID \<Rightarrow>
        (case store_Machine e 0 d (sp_MachineID spec) of
           Inl err \<Rightarrow> (Inl err, d)
         | Inr m \<Rightarrow>
           (case idgen_New e 1 ''i_'' of
              None \<Rightarrow> (Inl (Fault StorageFailure ''could not allocate installation identifier''), d)
            | Some i \<Rightarrow>
              transact e 1 ''begin installation creation'' 4 ''commit installation creation'' d
                (create_spec_tx e d (spec\<lparr>sp_ID := i, sp_CreatedAt := env_now e\<rparr>) requestID))))"

definition InstallationSpec :: "env \<Rightarrow> nat \<Rightarrow> db \<Rightarrow> string \<Rightarrow> Spec result" where
  "InstallationSpec e k d installationID =
     (case query_row e k (\<lambda>s. sp_ID s = TrimSpace installationID) (installation_specs d) of
        Some None \<Rightarrow> Inl (Fault InstallationNotFound ''installation not found'')
      | None \<Rightarrow> Inl (storageError ''read installation spec'')
      | Some (Some spec) \<Rightarrow> Inr spec)"

lemma insert_spec_inv: "insert_spec d s = Some d' \<Longrightarrow> db_inv d \<Longrightarrow> db_inv d'"
  by (auto simp: insert_spec_def spec_inv_def dest: db_invD(2) intro!: db_inv_specs split: if_splits)

lemma create_spec_tx_inv:
  "create_spec_tx e d s rid = Inr (x, Some d') \<Longrightarrow> db_inv d \<Longrightarrow> db_inv d'"
  by (auto simp: create_spec_tx_def result_simps split: if_splits
      dest!: appendServerLifecycleEventTx_inv insert_spec_inv)

lemma CreateInstallationSpec_inv: "db_inv d \<Longrightarrow> db_inv (snd (CreateInstallationSpec L e d s rid))"
  by (auto simp: CreateInstallationSpec_def split: option.splits sum.splits dest: create_spec_tx_inv)

lemma CreateInstallationSpec_rollback: "rolled_back d (CreateInstallationSpec L e d s rid)"
  by (simp add: CreateInstallationSpec_def split: option.split sum.split)

interpretation create_spec: store_operation "\<lambda>e d (s, rid). CreateInstallationSpec L e d s rid" db_inv for L
  by unfold_locales (auto intro: CreateInstallationSpec_inv CreateInstallationSpec_rollback)

end
