(* ===== verification/Store_Assignments.thy ===== *)
theory Store_Assignments
  imports Store_Installations
begin

text \<open>
  Arming, cancelling and consuming the assignment of an installation to its machine:
  internal/store/assignments.go and assignment_consumption.go.
\<close>

section \<open>Operations\<close>

text \<open>scanAssignment: a stored assignment is validated again when it is read.\<close>

definition scanAssignment :: "Assignment option option \<Rightarrow> Assignment result" where
  "scanAssignment row = (case row of
     None \<Rightarrow> Inl (Fault StorageFailure ''could not read installation assignment'')
   | Some None \<Rightarrow> Inl (Fault InstallationAssignmentNotFound ''installation assignment not found'')
   | Some (Some item) \<Rightarrow>
       if assignment_Validate item \<noteq> None then
         Inl (Fault StorageFailure ''stored installation assignment is invalid'')
       else Inr item)"

definition assignmentForInstallationTx :: "env \<Rightarrow> nat \<Rightarrow> db \<Rightarrow> string \<Rightarrow> Assignment result" where
  "assignmentForInstallationTx e k d installationID =
     scanAssignment (query_row e k (\<lambda>a. as_InstallationID a = installationID) (installation_assignments d))"

definition AssignmentForInstallation :: "env \<Rightarrow> nat \<Rightarrow> db \<Rightarrow> string \<Rightarrow> Assignment result" where
  "AssignmentForInstallation e k d installationID =
     assignmentForInstallationTx e k d (TrimSpace installationID)"

definition ActiveAssignmentForMachine :: "env \<Rightarrow> nat \<Rightarrow> db \<Rightarrow> string \<Rightarrow> Assignment result" where
  "ActiveAssignmentForMachine e k d machineID =
     scanAssignment (query_row e k (\<lambda>a. as_MachineID a = TrimSpace machineID \<and> as_State a = StateArmed)
       (installation_assignments d))"

definition armed_item :: "string \<Rightarrow> string \<Rightarrow> string \<Rightarrow> time \<Rightarrow> string \<Rightarrow> Assignment" where
  "armed_item i machineID installationID now actor =
     \<lparr>as_ID = i, as_MachineID = machineID, as_InstallationID = installationID, as_State = StateArmed,
      as_TrustRequirement = TrustRequirementCryptographic, as_ArmedAt = now, as_ArmedBy = actor,
      as_ConsumedAt = 0, as_CancelledAt = 0\<rparr>"

definition persist_armed :: "env \<Rightarrow> db \<Rightarrow> Assignment \<Rightarrow> string \<Rightarrow> (Assignment, db) tx_body" where
  "persist_armed e d item requestID =
     (case (if env_io e 5 then insert_assignment d item else None) of
        None \<Rightarrow> Inl (storageError ''persist armed assignment'')
      | Some d1 \<Rightarrow>
        (case appendServerLifecycleEventTx e 10 d1 (as_InstallationID item) StageQueued
                (''server:queued:'' @ as_InstallationID item)
                ''installation queued for next destructive PXE boot'' requestID (as_ArmedAt item) of
           Inl _ \<Rightarrow> Inl (storageError ''persist installation queued lifecycle event'')
         | Inr d2 \<Rightarrow>
           if \<not> env_io e 6 then Inl (storageError ''persist assignment arm event'')
           else Inr (item, Some (appendEventTx d2 (event_row ''installation'' (as_InstallationID item)
                  ''INSTALLATION_ARMED'' (as_ArmedAt item) requestID (as_ArmedBy item)
                  ''installation armed for machine; cryptographic boot trust remains required for secrets'')))))"

definition arm_tx :: "env \<Rightarrow> db \<Rightarrow> string \<Rightarrow> string \<Rightarrow> string \<Rightarrow> string \<Rightarrow> (Assignment, db) tx_body" where
  "arm_tx e d machineID installationID requestID actor =
     (case query_row e 1 (\<lambda>m. m_ID m = machineID) (machines d) of
        Some None \<Rightarrow> Inl (Fault MachineNotFound ''machine not found'')
      | None \<Rightarrow> Inl (storageError ''read assignment machine'')
      | Some (Some m) \<Rightarrow>
        if m_Policy m \<noteq> PolicyProvision then
          Inl (Fault InstallationAssignmentInvalid ''machine is not operator-approved for provisioning'')
        else case query_row e 2 (\<lambda>s. sp_ID s = installationID) (installation_specs d) of
          Some None \<Rightarrow> Inl (Fault InstallationNotFound ''installation not found'')
        | None \<Rightarrow> Inl (storageError ''read assignment installation'')
        | Some (Some spec) \<Rightarrow>
          if sp_MachineID spec \<noteq> machineID then
            Inl (Fault InstallationAssignmentInvalid ''installation belongs to a different machine'')
          else case query_row e 3 (\<lambda>a. as_InstallationID a = installationID) (installation_assignments d) of
            Some (Some a) \<Rightarrow> Inl (Fault InstallationAssignmentInvalid ''installation has already been assigned'')
          | None \<Rightarrow> Inl (storageError ''check installation assignment history'')
          | Some None \<Rightarrow>
            (case query_row e 4 (\<lambda>a. as_MachineID a = machineID \<and> as_State a = StateArmed)
                    (installation_assignments d) of
               Some (Some a) \<Rightarrow>
                 Inl (Fault InstallationAssignmentConflict ''machine already has an armed installation'')
             | None \<Rightarrow> Inl (storageError ''check active assignment'')
             | Some None \<Rightarrow>
               (case idgen_New e 1 ''a_'' of
                  None \<Rightarrow> Inl (Fault StorageFailure ''could not allocate assignment identifier'')
                | Some i \<Rightarrow>
                  let item = armed_item i machineID installationID (env_now e) actor in
                  if assignment_Validate item \<noteq> None then
                    Inl (Fault InstallationAssignmentInvalid ''assignment is invalid'')
                  else persist_armed e d item requestID)))"

definition ArmInstallation :: "env \<Rightarrow> db \<Rightarrow> string \<Rightarrow> string \<Rightarrow> string \<Rightarrow> string \<Rightarrow> Assignment result \<times> db" where
  "ArmInstallation e d machineID0 installationID0 requestID0 actor0 =
     (let machineID = TrimSpace machineID0; installationID = TrimSpace installationID0;
          actor = TrimSpace actor0 in
      case request_id e 0 requestID0 of
        None \<Rightarrow> (Inl (Fault StorageFailure ''could not allocate request identifier''), d)
      | Some requestID \<Rightarrow>
        if machineID = [] \<or> installationID = [] \<or> actor = [] then
          (Inl (Fault InstallationAssignmentInvalid ''assignment machine, installation and actor are required''), d)
        else transact e 0 ''begin assignment arm'' 7 ''commit assignment arm'' d
          (arm_tx e d machineID installationID requestID actor))"

text \<open>The two ways out of the armed state. Both update the row only while it is armed.\<close>

definition cancel_row :: "time \<Rightarrow> Assignment \<Rightarrow> Assignment" where
  "cancel_row now a = a\<lparr>as_State := StateCancelled, as_CancelledAt := now\<rparr>"

definition consume_row :: "time \<Rightarrow> Assignment \<Rightarrow> Assignment" where
  "consume_row now a = a\<lparr>as_State := StateConsumed, as_ConsumedAt := now\<rparr>"

abbreviation armed_with_id :: "string \<Rightarrow> Assignment \<Rightarrow> bool" where
  "armed_with_id i a \<equiv> as_ID a = i \<and> as_State a = StateArmed"

definition cancel_tx :: "env \<Rightarrow> db \<Rightarrow> string \<Rightarrow> string \<Rightarrow> string \<Rightarrow> (Assignment, db) tx_body" where
  "cancel_tx e d installationID requestID actor =
     (case assignmentForInstallationTx e 1 d installationID of
        Inl err \<Rightarrow> Inl err
      | Inr item \<Rightarrow>
        if as_State item \<noteq> StateArmed then
          Inl (Fault InstallationAssignmentInvalid ''only an armed assignment can be cancelled'')
        else let now = env_now e in
        if \<not> env_io e 2 then Inl (storageError ''cancel assignment'')
        else let d1 = d\<lparr>installation_assignments :=
               update_where (armed_with_id (as_ID item)) (cancel_row now) (installation_assignments d)\<rparr> in
        if \<not> env_io e 3 then Inl (storageError ''persist assignment cancellation event'')
        else Inr (cancel_row now item, Some (appendEventTx d1 (event_row ''installation'' installationID
               ''INSTALLATION_ASSIGNMENT_CANCELLED'' now requestID actor ''installation assignment cancelled''))))"

definition CancelAssignment :: "env \<Rightarrow> db \<Rightarrow> string \<Rightarrow> string \<Rightarrow> string \<Rightarrow> Assignment result \<times> db" where
  "CancelAssignment e d installationID0 requestID0 actor0 =
     (let installationID = TrimSpace installationID0; actor = TrimSpace actor0 in
      case request_id e 0 requestID0 of
        None \<Rightarrow> (Inl (Fault StorageFailure ''could not allocate request identifier''), d)
      | Some requestID \<Rightarrow>
        if installationID = [] \<or> actor = [] then
          (Inl (Fault InstallationAssignmentInvalid ''assignment installation and actor are required''), d)
        else transact e 0 ''begin assignment cancellation'' 4 ''commit assignment cancellation'' d
          (cancel_tx e d installationID requestID actor))"

definition consume_tx :: "env \<Rightarrow> db \<Rightarrow> string \<Rightarrow> string \<Rightarrow> string \<Rightarrow> (Assignment, db) tx_body" where
  "consume_tx e d installationID requestID actor =
     (case assignmentForInstallationTx e 1 d installationID of
        Inl err \<Rightarrow> Inl err
      | Inr item \<Rightarrow>
        if as_State item \<noteq> StateArmed then
          Inl (Fault InstallationAssignmentInvalid ''only an armed assignment can be consumed'')
        else let now = env_now e in
        if \<not> env_io e 2 then Inl (storageError ''consume assignment boot handoff'')
        else let d1 = d\<lparr>installation_assignments :=
               update_where (armed_with_id (as_ID item)) (consume_row now) (installation_assignments d)\<rparr> in
        if \<not> env_io e 3 then Inl (storageError ''read assignment consumption result'')
        else if rows_affected (armed_with_id (as_ID item)) (installation_assignments d) \<noteq> 1 then
          Inl (Fault InstallationAssignmentInvalid ''assignment changed while consuming boot handoff'')
        else if \<not> env_io e 4 then Inl (storageError ''persist assignment consumption event'')
        else Inr (consume_row now item, Some (appendEventTx d1 (event_row ''installation'' installationID
               ''INSTALLATION_ASSIGNMENT_CONSUMED'' now requestID actor
               ''destructive public boot handoff consumed; installer runtime state remains unverified''))))"

definition ConsumeAssignment :: "env \<Rightarrow> db \<Rightarrow> string \<Rightarrow> string \<Rightarrow> string \<Rightarrow> Assignment result \<times> db" where
  "ConsumeAssignment e d installationID0 requestID0 actor0 =
     (let installationID = TrimSpace installationID0; actor = TrimSpace actor0 in
      case request_id e 0 requestID0 of
        None \<Rightarrow> (Inl (Fault StorageFailure ''could not allocate request identifier''), d)
      | Some requestID \<Rightarrow>
        if installationID = [] \<or> actor = [] then
          (Inl (Fault InstallationAssignmentInvalid ''assignment installation and actor are required''), d)
        else transact e 0 ''begin assignment consumption'' 5 ''commit assignment consumption'' d
          (consume_tx e d installationID requestID actor))"

section \<open>What the statements keep\<close>

lemma armed_machines: "as_MachineID ` set (armed_rows t) = {as_MachineID a |a. a \<in> set t \<and> as_State a = StateArmed}"
  by auto

lemma insert_assignment_inv:
  assumes "insert_assignment d a = Some d'" "db_inv d"
    and "(as_InstallationID a, as_MachineID a) \<in> spec_bindings (installation_specs d)" "assignment_Validate a = None"
  shows "db_inv d'"
proof -
  have "asg_inv (installation_specs d) (installation_assignments d @ [a])"
    using assms db_invD(3) [OF assms(2)]
    by (auto simp: insert_assignment_def asg_inv_def split: if_splits)
  with assms(1,2) show ?thesis
    by (auto simp: insert_assignment_def intro: db_inv_assignments split: if_splits)
qed

text \<open>A rewrite that keeps the keys and only ever leaves the armed state.\<close>

lemma armed_update_where:
  assumes "\<And>a. p a \<Longrightarrow> as_State (f a) \<noteq> StateArmed"
  shows "armed_rows (update_where p f t) = filter (\<lambda>a. \<not> p a) (armed_rows t)"
  using assms unfolding update_where_def by (induction t) auto

lemma leave_armed_inv:
  assumes "db_inv d" and keys: "\<And>a. as_ID (f a) = as_ID a \<and> as_InstallationID (f a) = as_InstallationID a \<and>
      as_MachineID (f a) = as_MachineID a"
    and left: "\<And>a. as_State (f a) \<noteq> StateArmed"
    and ok: "\<And>a. as_State a = StateArmed \<Longrightarrow> assignment_Validate a = None \<Longrightarrow> assignment_Validate (f a) = None"
  shows "db_inv (d\<lparr>installation_assignments := update_where (armed_with_id i) f (installation_assignments d)\<rparr>)"
proof -
  let ?t = "installation_assignments d"
  have "map as_ID (update_where (armed_with_id i) f ?t) = map as_ID ?t"
    "map as_InstallationID (update_where (armed_with_id i) f ?t) = map as_InstallationID ?t"
    using keys by (auto intro!: map_update_where)
  moreover have "distinct (map as_MachineID (armed_rows (update_where (armed_with_id i) f ?t)))"
    using db_invD(3) [OF assms(1)] left
    by (simp add: armed_update_where asg_inv_def distinct_map_filter del: filter_filter)
  ultimately have "asg_inv (installation_specs d) (update_where (armed_with_id i) f ?t)"
    using db_invD(3) [OF assms(1)] ok keys by (auto simp: asg_inv_def set_update_where)
  with assms(1) show ?thesis by (rule db_inv_assignments)
qed

lemma cancel_row_valid:
  "as_State a = StateArmed \<Longrightarrow> assignment_Validate a = None \<Longrightarrow> t \<noteq> 0 \<Longrightarrow> assignment_Validate (cancel_row t a) = None"
  by (auto simp: assignment_Validate_def cancel_row_def split: if_splits)

lemma consume_row_valid:
  "as_State a = StateArmed \<Longrightarrow> assignment_Validate a = None \<Longrightarrow> t \<noteq> 0 \<Longrightarrow> assignment_Validate (consume_row t a) = None"
  by (auto simp: assignment_Validate_def consume_row_def split: if_splits)

section \<open>Every operation keeps the invariant and rolls back on an error\<close>

lemma persist_armed_inv:
  "persist_armed e d a rid = Inr (x, Some d') \<Longrightarrow> db_inv d \<Longrightarrow>
   (as_InstallationID a, as_MachineID a) \<in> spec_bindings (installation_specs d) \<Longrightarrow>
   assignment_Validate a = None \<Longrightarrow> db_inv d'"
  by (auto simp: persist_armed_def result_simps split: if_splits
      dest!: insert_assignment_inv appendServerLifecycleEventTx_inv)

lemma arm_tx_Inr:
  assumes "arm_tx e d m i rid act = Inr (a, d')"
  obtains mr s aid where "mr \<in> set (machines d)" "m_ID mr = m" "m_Policy mr = PolicyProvision"
    "List.find (\<lambda>x. m_ID x = m) (machines d) = Some mr"
    "s \<in> set (installation_specs d)" "sp_ID s = i" "sp_MachineID s = m"
    "i \<notin> as_InstallationID ` set (installation_assignments d)"
    "m \<notin> as_MachineID ` set (armed_rows (installation_assignments d))"
    "a = armed_item aid m i (env_now e) act" "assignment_Validate a = None"
    "persist_armed e d a rid = Inr (a, d')"
proof -
  obtain mr s aid where r: "List.find (\<lambda>x. m_ID x = m) (machines d) = Some mr" "\<not> m_Policy mr \<noteq> PolicyProvision"
      "List.find (\<lambda>x. sp_ID x = i) (installation_specs d) = Some s" "\<not> sp_MachineID s \<noteq> m"
      "List.find (\<lambda>x. as_InstallationID x = i) (installation_assignments d) = None"
      "List.find (\<lambda>x. as_MachineID x = m \<and> as_State x = StateArmed) (installation_assignments d) = None"
      "\<not> assignment_Validate (armed_item aid m i (env_now e) act) \<noteq> None"
      "persist_armed e d (armed_item aid m i (env_now e) act) rid = Inr (a, d')"
    using assms unfolding arm_tx_def Let_def result_simps by blast
  have "a = armed_item aid m i (env_now e) act"
    using r(8) by (auto simp: persist_armed_def result_simps)
  moreover have "m \<notin> as_MachineID ` set (armed_rows (installation_assignments d))"
    using r(6) unfolding find_None_iff by auto
  ultimately show ?thesis
    using r that [of mr s aid] find_SomeD [OF r(1)] find_SomeD [OF r(3)] by (simp add: find_key_None)
qed

lemma ArmInstallation_inv: "db_inv d \<Longrightarrow> db_inv (snd (ArmInstallation e d m i rid act))"
  by (force simp: ArmInstallation_def Let_def armed_item_def split: option.splits
      elim!: arm_tx_Inr intro!: transact_db_inv dest: persist_armed_inv)

lemma ArmInstallation_rollback: "rolled_back d (ArmInstallation e d m i rid act)"
  by (simp add: ArmInstallation_def Let_def split: option.split)

lemma scanAssignment_Inr [result_simps]:
  "scanAssignment row = Inr a \<longleftrightarrow> row = Some (Some a) \<and> assignment_Validate a = None"
  by (auto simp: scanAssignment_def result_simps split: option.splits)

lemma cancel_tx_Inr:
  assumes "cancel_tx e d i rid act = Inr (x, r)"
  obtains a v where "List.find (\<lambda>a. as_InstallationID a = i) (installation_assignments d) = Some a"
    "as_State a = StateArmed" "assignment_Validate a = None" "x = cancel_row (env_now e) a"
    "r = Some (appendEventTx (d\<lparr>installation_assignments :=
       update_where (armed_with_id (as_ID a)) (cancel_row (env_now e)) (installation_assignments d)\<rparr>) v)"
  using assms unfolding cancel_tx_def Let_def assignmentForInstallationTx_def result_simps by (auto simp: that)

lemma consume_tx_Inr:
  assumes "consume_tx e d i rid act = Inr (x, r)"
  obtains a v where "List.find (\<lambda>a. as_InstallationID a = i) (installation_assignments d) = Some a"
    "as_State a = StateArmed" "assignment_Validate a = None" "x = consume_row (env_now e) a"
    "r = Some (appendEventTx (d\<lparr>installation_assignments :=
       update_where (armed_with_id (as_ID a)) (consume_row (env_now e)) (installation_assignments d)\<rparr>) v)"
  using assms unfolding consume_tx_def Let_def assignmentForInstallationTx_def result_simps by (auto simp: that)

lemma cancel_tx_inv:
  "cancel_tx e d i rid act = Inr (x, Some d') \<Longrightarrow> clock_ok e \<Longrightarrow> db_inv d \<Longrightarrow> db_inv d'"
  by (erule cancel_tx_Inr) (auto intro!: leave_armed_inv cancel_row_valid simp: cancel_row_def)

lemma consume_tx_inv:
  "consume_tx e d i rid act = Inr (x, Some d') \<Longrightarrow> clock_ok e \<Longrightarrow> db_inv d \<Longrightarrow> db_inv d'"
  by (erule consume_tx_Inr) (auto intro!: leave_armed_inv consume_row_valid simp: consume_row_def)

lemma CancelAssignment_inv: "clock_ok e \<Longrightarrow> db_inv d \<Longrightarrow> db_inv (snd (CancelAssignment e d i rid act))"
  by (auto simp: CancelAssignment_def Let_def split: option.splits dest: cancel_tx_inv)

lemma CancelAssignment_rollback: "rolled_back d (CancelAssignment e d i rid act)"
  by (simp add: CancelAssignment_def Let_def split: option.split)

lemma ConsumeAssignment_inv: "clock_ok e \<Longrightarrow> db_inv d \<Longrightarrow> db_inv (snd (ConsumeAssignment e d i rid act))"
  by (auto simp: ConsumeAssignment_def Let_def split: option.splits dest: consume_tx_inv)

lemma ConsumeAssignment_rollback: "rolled_back d (ConsumeAssignment e d i rid act)"
  by (simp add: ConsumeAssignment_def Let_def split: option.split)

interpretation arm: store_operation "\<lambda>e d (m, i, rid, act). ArmInstallation e d m i rid act" db_inv
  by unfold_locales (auto intro: ArmInstallation_inv ArmInstallation_rollback)

interpretation cancel: store_operation "\<lambda>e d (i, rid, act). CancelAssignment e d i rid act" db_inv
  by unfold_locales (auto intro: CancelAssignment_inv CancelAssignment_rollback)

interpretation consume: store_operation "\<lambda>e d (i, rid, act). ConsumeAssignment e d i rid act" db_inv
  by unfold_locales (auto intro: ConsumeAssignment_inv ConsumeAssignment_rollback)

section \<open>What the operations do\<close>

text \<open>The state of the assignment of an installation, \<open>None\<close> when it has none.\<close>

definition assignment_state :: "db \<Rightarrow> string \<Rightarrow> AssignmentState option" where
  "assignment_state d i =
     map_option as_State (List.find (\<lambda>a. as_InstallationID a = i) (installation_assignments d))"

lemma assignment_state_cong:
  "installation_assignments d' = installation_assignments d \<Longrightarrow> assignment_state d' = assignment_state d"
  by (simp add: assignment_state_def fun_eq_iff)

lemma transact_committed:
  "transact e b bm c cm d body = (Inr x, d') \<Longrightarrow> (\<And>x. body \<noteq> Inr (x, None)) \<Longrightarrow> body = Inr (x, Some d')"
  by (auto simp: result_simps)

lemma update_row_state:
  assumes "db_inv d" "List.find (\<lambda>a. as_InstallationID a = i) (installation_assignments d) = Some a"
    and "as_State a = StateArmed" "\<And>a. as_InstallationID (f a) = as_InstallationID a"
    and "installation_assignments d' = update_where (armed_with_id (as_ID a)) f (installation_assignments d)"
  shows "assignment_state d' j = (if j = i then Some (as_State (f a)) else assignment_state d j)"
proof (cases "j = i")
  case True
  with assms show ?thesis by (simp add: assignment_state_def find_update_where)
next
  case False
  let ?q = "\<lambda>x. as_InstallationID x = j"
  have "\<not> armed_with_id (as_ID a) r" if r: "List.find ?q (installation_assignments d) = Some r" for r
  proof
    assume "armed_with_id (as_ID a) r"
    moreover have "distinct (map as_ID (installation_assignments d))"
      using db_invD(3) [OF assms(1)] by (simp add: asg_inv_def)
    ultimately have "r = a"
      using find_SomeD [OF r] find_SomeD [OF assms(2)] by (auto intro: distinct_key_eq)
    with False find_SomeD [OF r] find_SomeD [OF assms(2)] show False by simp
  qed
  with assms(4,5) False show ?thesis
    by (cases "List.find ?q (installation_assignments d)")
      (auto simp: assignment_state_def find_update_where)
qed

lemma ArmInstallation_Inr:
  assumes "ArmInstallation e d m i rid act = (Inr a, d')"
  obtains rid' where "arm_tx e d (TrimSpace m) (TrimSpace i) rid' (TrimSpace act) = Inr (a, Some d')"
proof -
  have "arm_tx e d m i rid act \<noteq> Inr (x, None)" for m i rid act x
    by (auto simp: persist_armed_def result_simps elim!: arm_tx_Inr)
  with assms that show ?thesis
    by (auto simp: ArmInstallation_def Let_def split: option.splits if_splits dest!: transact_committed)
qed

lemma CancelAssignment_Inr:
  assumes "CancelAssignment e d i rid act = (Inr a, d')"
  obtains rid' where "cancel_tx e d (TrimSpace i) rid' (TrimSpace act) = Inr (a, Some d')"
proof -
  have "cancel_tx e d i rid act \<noteq> Inr (x, None)" for i rid act x
    by (auto elim!: cancel_tx_Inr)
  with assms that show ?thesis
    by (auto simp: CancelAssignment_def Let_def split: option.splits if_splits dest!: transact_committed)
qed

lemma ConsumeAssignment_Inr:
  assumes "ConsumeAssignment e d i rid act = (Inr a, d')"
  obtains rid' where "consume_tx e d (TrimSpace i) rid' (TrimSpace act) = Inr (a, Some d')"
proof -
  have "consume_tx e d i rid act \<noteq> Inr (x, None)" for i rid act x
    by (auto elim!: consume_tx_Inr)
  with assms that show ?thesis
    by (auto simp: ConsumeAssignment_def Let_def split: option.splits if_splits dest!: transact_committed)
qed

lemma ConsumeAssignment_armed:
  "ConsumeAssignment e d i rid act = (Inr a, d') \<Longrightarrow> assignment_state d (TrimSpace i) = Some StateArmed"
  by (auto simp: assignment_state_def elim!: ConsumeAssignment_Inr consume_tx_Inr)

lemma CancelAssignment_armed:
  "CancelAssignment e d i rid act = (Inr a, d') \<Longrightarrow> assignment_state d (TrimSpace i) = Some StateArmed"
  by (auto simp: assignment_state_def elim!: CancelAssignment_Inr cancel_tx_Inr)

lemma ConsumeAssignment_state:
  assumes "db_inv d" "ConsumeAssignment e d i rid act = (Inr a, d')"
  shows "assignment_state d (TrimSpace i) = Some StateArmed"
    and "assignment_state d' j = (if j = TrimSpace i then Some StateConsumed else assignment_state d j)"
proof -
  obtain rid' where tx: "consume_tx e d (TrimSpace i) rid' (TrimSpace act) = Inr (a, Some d')"
    using assms(2) by (rule ConsumeAssignment_Inr)
  obtain b v where b: "List.find (\<lambda>a. as_InstallationID a = TrimSpace i) (installation_assignments d) = Some b"
      "as_State b = StateArmed" "installation_assignments d' =
        update_where (armed_with_id (as_ID b)) (consume_row (env_now e)) (installation_assignments d)"
    using tx by (auto elim!: consume_tx_Inr)
  then show "assignment_state d (TrimSpace i) = Some StateArmed"
    by (simp add: assignment_state_def)
  show "assignment_state d' j = (if j = TrimSpace i then Some StateConsumed else assignment_state d j)"
    using update_row_state [OF assms(1) b(1,2) _ b(3)] by (simp add: consume_row_def)
qed

lemma CancelAssignment_state:
  assumes "db_inv d" "CancelAssignment e d i rid act = (Inr a, d')"
  shows "assignment_state d (TrimSpace i) = Some StateArmed"
    and "assignment_state d' j = (if j = TrimSpace i then Some StateCancelled else assignment_state d j)"
proof -
  obtain rid' where tx: "cancel_tx e d (TrimSpace i) rid' (TrimSpace act) = Inr (a, Some d')"
    using assms(2) by (rule CancelAssignment_Inr)
  obtain b v where b: "List.find (\<lambda>a. as_InstallationID a = TrimSpace i) (installation_assignments d) = Some b"
      "as_State b = StateArmed" "installation_assignments d' =
        update_where (armed_with_id (as_ID b)) (cancel_row (env_now e)) (installation_assignments d)"
    using tx by (auto elim!: cancel_tx_Inr)
  then show "assignment_state d (TrimSpace i) = Some StateArmed"
    by (simp add: assignment_state_def)
  show "assignment_state d' j = (if j = TrimSpace i then Some StateCancelled else assignment_state d j)"
    using update_row_state [OF assms(1) b(1,2) _ b(3)] by (simp add: cancel_row_def)
qed

lemma persist_armed_rows:
  "persist_armed e d a rid = Inr (x, Some d') \<Longrightarrow>
   installation_assignments d' = installation_assignments d @ [a]"
  by (auto simp: persist_armed_def insert_assignment_def result_simps split: if_splits
      dest!: appendServerLifecycleEventTx_frame(3))

lemma ArmInstallation_state:
  assumes "ArmInstallation e d m i rid act = (Inr a, d')"
  shows "policy_of d (TrimSpace m) = Some PolicyProvision"
    and "(TrimSpace i, TrimSpace m) \<in> spec_bindings (installation_specs d)"
    and "assignment_state d (TrimSpace i) = None"
    and "TrimSpace m \<notin> as_MachineID ` set (armed_rows (installation_assignments d))"
    and "installation_assignments d' = installation_assignments d @ [a]"
    and "as_State a = StateArmed" "as_MachineID a = TrimSpace m" "as_InstallationID a = TrimSpace i"
    and "as_TrustRequirement a = TrustRequirementCryptographic" "as_ArmedBy a = TrimSpace act"
proof -
  obtain rid' where tx: "arm_tx e d (TrimSpace m) (TrimSpace i) rid' (TrimSpace act) = Inr (a, Some d')"
    using assms by (rule ArmInstallation_Inr)
  then obtain mr s aid where r: "m_Policy mr = PolicyProvision"
    "List.find (\<lambda>x. m_ID x = TrimSpace m) (machines d) = Some mr"
    "s \<in> set (installation_specs d)" "sp_ID s = TrimSpace i" "sp_MachineID s = TrimSpace m"
    "TrimSpace i \<notin> as_InstallationID ` set (installation_assignments d)"
    "TrimSpace m \<notin> as_MachineID ` set (armed_rows (installation_assignments d))"
    "a = armed_item aid (TrimSpace m) (TrimSpace i) (env_now e) (TrimSpace act)"
    "persist_armed e d a rid' = Inr (a, Some d')"
    by (rule arm_tx_Inr)
  show "policy_of d (TrimSpace m) = Some PolicyProvision" using r(1,2) by (simp add: policy_of_def)
  show "(TrimSpace i, TrimSpace m) \<in> spec_bindings (installation_specs d)" using r(3-5) by force
  show "assignment_state d (TrimSpace i) = None" using r(6) by (simp add: assignment_state_def find_key_None)
  show "TrimSpace m \<notin> as_MachineID ` set (armed_rows (installation_assignments d))" by (rule r(7))
  show "installation_assignments d' = installation_assignments d @ [a]" by (rule persist_armed_rows [OF r(9)])
  show "as_State a = StateArmed" "as_MachineID a = TrimSpace m" "as_InstallationID a = TrimSpace i"
    "as_TrustRequirement a = TrustRequirementCryptographic" "as_ArmedBy a = TrimSpace act"
    using r(8) by (simp_all add: armed_item_def)
qed

section \<open>Properties\<close>

text \<open>C1: arming succeeds only for a machine an operator has approved for provisioning, with an
  installation that was made for this very machine and was never assigned before, while the
  machine has no other armed installation; it adds exactly one assignment, armed, which demands
  cryptographic boot trust and carries the name of the operator.\<close>

theorem arm_requires_approval:
  assumes "ArmInstallation e d m i rid act = (Inr a, d')"
  shows "policy_of d (as_MachineID a) = Some PolicyProvision
    \<and> (as_InstallationID a, as_MachineID a) \<in> spec_bindings (installation_specs d)
    \<and> assignment_state d (as_InstallationID a) = None
    \<and> as_MachineID a \<notin> as_MachineID ` set (armed_rows (installation_assignments d))
    \<and> installation_assignments d' = installation_assignments d @ [a]
    \<and> as_State a = StateArmed \<and> as_TrustRequirement a = ''cryptographic'' \<and> as_ArmedBy a = TrimSpace act"
  using ArmInstallation_state [OF assms] by (simp add: TrustRequirementCryptographic_def)

theorem arm_requires_approval_witness:
  "as_ArmedBy (projr (fst (ArmInstallation sample_env (sample_db\<lparr>installation_assignments := []\<rparr>)
     ''m_1'' ''i_1'' ''req'' ''op''))) = ''op''"
proof -
  let ?r = "ArmInstallation sample_env (sample_db\<lparr>installation_assignments := []\<rparr>) ''m_1'' ''i_1'' ''req'' ''op''"
  have "isl (fst ?r) = False" by code_simp
  from arm_requires_approval [OF succeeded [OF this]] show ?thesis by (simp add: sample_trim)
qed

text \<open>C2: the destructive boot handoff is taken once. Consuming turns exactly the armed
  assignment of the installation into a consumed one; afterwards, whatever the environment, no
  further consumption, no cancellation and no new arming of this installation succeeds.\<close>

theorem handoff_is_one_shot:
  assumes "db_inv d" "ConsumeAssignment e d i rid act = (Inr a, d')"
  shows "assignment_state d (TrimSpace i) = Some StateArmed
    \<and> (\<forall>j. assignment_state d' j = (if j = TrimSpace i then Some StateConsumed else assignment_state d j))
    \<and> (\<forall>e' rid' act'. isl (fst (ConsumeAssignment e' d' i rid' act')))
    \<and> (\<forall>e' rid' act'. isl (fst (CancelAssignment e' d' i rid' act')))
    \<and> (\<forall>e' m rid' act'. isl (fst (ArmInstallation e' d' m i rid' act')))"
proof -
  let ?i = "TrimSpace i"
  have st: "assignment_state d' ?i = Some StateConsumed"
    using ConsumeAssignment_state(2) [OF assms] by simp
  have "isl (fst (ConsumeAssignment e' d' i rid' act'))" for e' rid' act'
    by (rule isl_failed) (use st in \<open>auto dest!: ConsumeAssignment_armed\<close>)
  moreover have "isl (fst (CancelAssignment e' d' i rid' act'))" for e' rid' act'
    by (rule isl_failed) (use st in \<open>auto dest!: CancelAssignment_armed\<close>)
  moreover have "isl (fst (ArmInstallation e' d' m i rid' act'))" for e' m rid' act'
    by (rule isl_failed) (use st in \<open>auto dest!: ArmInstallation_state(3)\<close>)
  ultimately show ?thesis
    using ConsumeAssignment_state [OF assms] by blast
qed

theorem handoff_is_one_shot_witness:
  "assignment_state (snd (ConsumeAssignment sample_env sample_db ''i_1'' ''req'' ''pxe'')) ''i_1'' = Some StateConsumed"
proof -
  let ?r = "ConsumeAssignment sample_env sample_db ''i_1'' ''req'' ''pxe''"
  have "isl (fst ?r) = False" by code_simp
  from handoff_is_one_shot [OF sample_db_inv succeeded [OF this]] show ?thesis
    by (simp add: sample_trim)
qed

end
