(* ===== verification/Store_Telemetry.thy ===== *)
theory Store_Telemetry
  imports Store_Assignments
begin

text \<open>
  Installer telemetry in the store: internal/store/telemetry.go (lifecycle credentials,
  lifecycle events, log chunks) and internal/store/telemetry_auth.go (authentication of a
  request by its code).
\<close>

section \<open>Lifecycle credentials\<close>

definition defaultLifecycleCredentialTTL :: int where
  "defaultLifecycleCredentialTTL = 24 * Hour"

record IssuedCredential =
  ic_Credential :: Credential
  ic_Secret :: string

definition new_credential :: "string \<Rightarrow> string \<Rightarrow> string \<Rightarrow> time \<Rightarrow> time \<Rightarrow> CredentialRow" where
  "new_credential credentialID installationID hash now expiresAt =
     \<lparr>lc_CredentialID = credentialID, lc_InstallationID = installationID, lc_SecretSHA256 = hash,
      lc_CreatedAt = now, lc_ExpiresAt = expiresAt, lc_RevokedAt = None, lc_LastUsedAt = None\<rparr>"

definition issue_tx :: "golib \<Rightarrow> env \<Rightarrow> db \<Rightarrow> string \<Rightarrow> string \<Rightarrow> string \<Rightarrow> int \<Rightarrow> (IssuedCredential, db) tx_body" where
  "issue_tx L e d installationID requestID actor ttl =
     (case query_row e 1 (\<lambda>s. sp_ID s = installationID) (installation_specs d) of
        Some None \<Rightarrow> Inl (Fault InstallationNotFound ''installation not found'')
      | None \<Rightarrow> Inl (storageError ''read lifecycle credential identifier'')
      | Some (Some spec) \<Rightarrow>
        (case query_row e 2 (\<lambda>c. lc_InstallationID c = installationID) (lifecycle_credentials d) of
           Some (Some c) \<Rightarrow>
             Inl (Fault InstallerTelemetryConflict ''installation lifecycle credential already exists'')
         | None \<Rightarrow> Inl (storageError ''check lifecycle credential'')
         | Some None \<Rightarrow>
           (case rand_Read e 0 32 of
              None \<Rightarrow> Inl (Fault StorageFailure ''could not generate lifecycle credential'')
            | Some secretBytes \<Rightarrow>
              let secret = RawURL_Encode secretBytes;
                  now = env_now e; expiresAt = now + ttl;
                  credentialID = sp_LifecycleCredentialID spec in
              (case (if env_io e 3 then insert_lifecycle_credential d
                       (new_credential credentialID installationID (lib_sha256 L secret) now expiresAt) else None) of
                 None \<Rightarrow> Inl (storageError ''persist lifecycle credential'')
               | Some d1 \<Rightarrow>
                 if \<not> env_io e 4 then Inl (storageError ''persist lifecycle credential audit event'')
                 else Inr (\<lparr>ic_Credential = \<lparr>cr_ID = credentialID, cr_InstallationID = installationID,
                        cr_CreatedAt = now, cr_ExpiresAt = expiresAt, cr_RevokedAt = 0, cr_LastUsedAt = 0\<rparr>,
                        ic_Secret = secret\<rparr>,
                      Some (appendEventTx d1 (event_row ''installation'' installationID
                        ''INSTALLER_CREDENTIAL_ISSUED'' now requestID actor
                        ''installation-scoped lifecycle credential issued behind trust boundary'')))))))"

definition IssueLifecycleCredential ::
  "golib \<Rightarrow> env \<Rightarrow> db \<Rightarrow> string \<Rightarrow> string \<Rightarrow> string \<Rightarrow> int \<Rightarrow> IssuedCredential result \<times> db" where
  "IssueLifecycleCredential L e d installationID0 requestID actor0 ttl0 =
     (let installationID = TrimSpace installationID0; actor = TrimSpace actor0 in
      if installationID = [] \<or> actor = [] then
        (Inl (Fault InstallerTelemetryInvalid ''installation and credential issuer are required''), d)
      else let ttl = (if ttl0 \<le> 0 then defaultLifecycleCredentialTTL else ttl0) in
      if ttl < 5 * Minute \<or> ttl > 7 * 24 * Hour then
        (Inl (Fault InstallerTelemetryInvalid ''lifecycle credential lifetime is outside allowed bounds''), d)
      else transact e 0 ''begin lifecycle credential issue'' 5 ''commit lifecycle credential issue'' d
        (issue_tx L e d installationID requestID actor ttl))"

definition credential_of_row :: "CredentialRow \<Rightarrow> Credential" where
  "credential_of_row c = \<lparr>cr_ID = lc_CredentialID c, cr_InstallationID = lc_InstallationID c,
     cr_CreatedAt = lc_CreatedAt c, cr_ExpiresAt = lc_ExpiresAt c,
     cr_RevokedAt = scan_time (lc_RevokedAt c), cr_LastUsedAt = scan_time (lc_LastUsedAt c)\<rparr>"

definition AuthenticateLifecycleCredential ::
  "golib \<Rightarrow> env \<Rightarrow> db \<Rightarrow> string \<Rightarrow> string \<Rightarrow> Credential result \<times> db" where
  "AuthenticateLifecycleCredential L e d installationID0 secret0 =
     (let installationID = TrimSpace installationID0; secret = TrimSpace secret0 in
      if installationID = [] \<or> secret = [] \<or> length secret > 256 then
        (Inl (Fault InstallerCredentialInvalid ''installer credential is invalid''), d)
      else case query_row e 0 (\<lambda>c. lc_InstallationID c = installationID) (lifecycle_credentials d) of
        Some None \<Rightarrow> (Inl (Fault InstallerCredentialInvalid ''installer credential is invalid''), d)
      | None \<Rightarrow> (Inl (storageError ''read lifecycle credential''), d)
      | Some (Some row) \<Rightarrow>
        let actual = lib_sha256 L secret; item = credential_of_row row; now = env_now e in
        if length (lc_SecretSHA256 row) \<noteq> length actual \<or> lc_SecretSHA256 row \<noteq> actual then
          (Inl (Fault InstallerCredentialInvalid ''installer credential is invalid''), d)
        else if \<not> credential_Active item now then
          (Inl (Fault InstallerCredentialExpired ''installer credential is expired or revoked''), d)
        else if \<not> env_io e 1 then (Inl (storageError ''update lifecycle credential last-used time''), d)
        else (Inr (item\<lparr>cr_LastUsedAt := now\<rparr>),
              d\<lparr>lifecycle_credentials := update_where (\<lambda>c. lc_CredentialID c = cr_ID item)
                   (\<lambda>c. c\<lparr>lc_LastUsedAt := Some now\<rparr>) (lifecycle_credentials d)\<rparr>))"

abbreviation unrevoked :: "string \<Rightarrow> CredentialRow \<Rightarrow> bool" where
  "unrevoked installationID c \<equiv> lc_InstallationID c = installationID \<and> lc_RevokedAt c = None"

definition revoke_credentials :: "db \<Rightarrow> string \<Rightarrow> time \<Rightarrow> db" where
  "revoke_credentials d installationID now =
     d\<lparr>lifecycle_credentials := update_where (unrevoked installationID)
         (\<lambda>c. c\<lparr>lc_RevokedAt := Some now\<rparr>) (lifecycle_credentials d)\<rparr>"

text \<open>Revocation is one UPDATE outside a transaction: it is in effect when RowsAffected is read.\<close>

definition RevokeLifecycleCredential :: "env \<Rightarrow> db \<Rightarrow> string \<Rightarrow> string \<Rightarrow> string \<Rightarrow> unit result \<times> db" where
  "RevokeLifecycleCredential e d installationID0 requestID actor0 =
     (let installationID = TrimSpace installationID0; actor = TrimSpace actor0 in
      if installationID = [] \<or> actor = [] then
        (Inl (Fault InstallerTelemetryInvalid ''installation and credential revoker are required''), d)
      else if \<not> env_io e 0 then (Inl (storageError ''revoke lifecycle credential''), d)
      else let d1 = revoke_credentials d installationID (env_now e) in
      if \<not> env_io e 1 then (Inl (storageError ''read lifecycle credential revoke result''), d1)
      else if rows_affected (unrevoked installationID) (lifecycle_credentials d) = 0 then
        (Inl (Fault InstallerCredentialInvalid ''active installer credential not found''), d1)
      else (Inr (), d1))"

section \<open>Lifecycle events\<close>

definition ensureInstallationExistsTx :: "env \<Rightarrow> nat \<Rightarrow> db \<Rightarrow> string \<Rightarrow> fault option" where
  "ensureInstallationExistsTx e k d installationID =
     (case query_row e k (\<lambda>s. sp_ID s = installationID) (installation_specs d) of
        Some None \<Rightarrow> Some (Fault InstallationNotFound ''installation not found'')
      | None \<Rightarrow> Some (Fault StorageFailure ''could not read installation'')
      | Some (Some s) \<Rightarrow> None)"

definition sameOptionalTime :: "time \<Rightarrow> time \<Rightarrow> bool" where
  "sameOptionalTime left right =
     (if IsZero left \<and> IsZero right then True
      else if IsZero left \<noteq> IsZero right then False
      else left = right)"

definition accepted_event :: "Report \<Rightarrow> string \<Rightarrow> time \<Rightarrow> LifecycleEvent" where
  "accepted_event report requestID now =
     \<lparr>le_Sequence = 0, le_InstallationID = r_InstallationID report, le_Stage = r_Stage report,
      le_Source = r_Source report, le_ReceivedAt = now, le_ClientAt = r_ClientAt report,
      le_RequestID = requestID, le_IdempotencyKey = r_IdempotencyKey report,
      le_Message = r_Message report, le_ErrorCode = r_ErrorCode report, le_Metadata = r_Metadata report\<rparr>"

text \<open>The same content under the same key: json.Marshal writes equal maps as equal texts.\<close>

definition same_report :: "LifecycleEvent \<Rightarrow> Report \<Rightarrow> bool" where
  "same_report existing report \<longleftrightarrow>
     \<not> (le_Metadata existing \<noteq> r_Metadata report \<or> le_Stage existing \<noteq> r_Stage report
       \<or> le_Source existing \<noteq> r_Source report \<or> le_Message existing \<noteq> r_Message report
       \<or> le_ErrorCode existing \<noteq> r_ErrorCode report
       \<or> \<not> sameOptionalTime (le_ClientAt existing) (r_ClientAt report))"

text \<open>The projection of an accepted event into the audit log.\<close>

definition lifecycle_audit :: "Report \<Rightarrow> string \<Rightarrow> time \<Rightarrow> AuditEvent" where
  "lifecycle_audit report requestID now =
     (let message = (if TrimSpace (r_Message report) = [] then
            ''authoritative lifecycle stage accepted: '' @ stage_text (r_Stage report)
          else r_Message report) in
      (event_row ''installation'' (r_InstallationID report) (stage_text (r_Stage report)) now requestID
         (''telemetry:'' @ source_text (r_Source report)) message)\<lparr>ev_ErrorCode := r_ErrorCode report\<rparr>)"

definition append_lifecycle_tx :: "env \<Rightarrow> db \<Rightarrow> Report \<Rightarrow> string \<Rightarrow> (LifecycleEvent \<times> bool, db) tx_body" where
  "append_lifecycle_tx e d report requestID =
     (case ensureInstallationExistsTx e 1 d (r_InstallationID report) of
        Some err \<Rightarrow> Inl err
      | None \<Rightarrow>
        (case query_row e 2 (\<lambda>v. le_InstallationID v = r_InstallationID report
                               \<and> le_IdempotencyKey v = r_IdempotencyKey report) (lifecycle_events d) of
           Some (Some existing) \<Rightarrow>
             if \<not> same_report existing report then
               Inl (Fault InstallerTelemetryConflict ''idempotency key was reused with different lifecycle content'')
             else Inr ((existing, True), None)
         | None \<Rightarrow> Inl (Fault StorageFailure ''could not read lifecycle event'')
         | Some None \<Rightarrow>
           (case currentLifecycleStageTx e 3 d (r_InstallationID report) of
              Inl err \<Rightarrow> Inl err
            | Inr current \<Rightarrow>
              if \<not> CanAdvance current (r_Stage report) then
                Inl (Fault InstallerTelemetryConflict ''lifecycle event would regress or skip required state'')
              else let now = env_now e in
              (case (if env_io e 4 then insert_lifecycle_event d (accepted_event report requestID now) else None) of
                 None \<Rightarrow> Inl (storageError ''persist lifecycle event'')
               | Some (d1, sequence) \<Rightarrow>
                 if \<not> env_io e 5 then Inl (storageError ''read lifecycle event sequence'')
                 else if \<not> env_io e 6 then Inl (storageError ''persist lifecycle audit projection'')
                 else let d2 = appendEventTx d1 (lifecycle_audit report requestID now);
                        accepted = (accepted_event report requestID now)\<lparr>le_Sequence := sequence\<rparr> in
                 if Terminal (r_Stage report) then
                   (if \<not> env_io e 7 then Inl (storageError ''revoke terminal lifecycle credential'')
                    else Inr ((accepted, False), Some (revoke_credentials d2 (r_InstallationID report) now)))
                 else Inr ((accepted, False), Some d2)))))"

definition AppendLifecycleEvent :: "env \<Rightarrow> db \<Rightarrow> Report \<Rightarrow> string \<Rightarrow> (LifecycleEvent \<times> bool) result \<times> db" where
  "AppendLifecycleEvent e d report requestID =
     (if report_Validate report \<noteq> None then
        (Inl (Fault InstallerTelemetryInvalid ''lifecycle report is invalid''), d)
      else transact e 0 ''begin lifecycle event'' 8 ''commit lifecycle event'' d
        (append_lifecycle_tx e d report requestID))"

definition RecordServerLifecycle ::
  "env \<Rightarrow> db \<Rightarrow> string \<Rightarrow> Stage \<Rightarrow> string \<Rightarrow> string \<Rightarrow> string \<Rightarrow> (LifecycleEvent \<times> bool) result \<times> db" where
  "RecordServerLifecycle e d installationID stage idempotencyKey message requestID =
     AppendLifecycleEvent e d
       \<lparr>r_InstallationID = installationID, r_Stage = stage, r_Source = SourceServer, r_ClientAt = 0,
        r_IdempotencyKey = idempotencyKey, r_Message = message, r_ErrorCode = '''', r_Metadata = []\<rparr> requestID"

definition list_limit :: "int \<Rightarrow> nat" where
  "list_limit limit = nat (if limit \<le> 0 \<or> limit > 1000 then 200 else limit)"

definition LifecycleEvents :: "env \<Rightarrow> db \<Rightarrow> string \<Rightarrow> int \<Rightarrow> LifecycleEvent list result" where
  "LifecycleEvents e d installationID limit =
     read_rows e 0 ''list lifecycle events'' ''could not read lifecycle event'' ''iterate lifecycle events''
       (take (list_limit limit) (sort_key le_Sequence
         (filter (\<lambda>v. le_InstallationID v = TrimSpace installationID) (lifecycle_events d))))"

section \<open>Log chunks\<close>

text \<open>\<open>COALESCE(MAX(sequence),0)\<close>\<close>

definition last_sequence :: "LogChunk list \<Rightarrow> int" where
  "last_sequence cs = (if cs = [] then 0 else Max (set (map lg_Sequence cs)))"

definition append_chunk_tx :: "env \<Rightarrow> db \<Rightarrow> LogChunk \<Rightarrow> (LogChunk \<times> bool, db) tx_body" where
  "append_chunk_tx e d chunk =
     (case ensureInstallationExistsTx e 1 d (lg_InstallationID chunk) of
        Some err \<Rightarrow> Inl err
      | None \<Rightarrow>
        (case query_row e 2 (\<lambda>c. lg_InstallationID c = lg_InstallationID chunk
                               \<and> lg_IdempotencyKey c = lg_IdempotencyKey chunk) (log_chunks d) of
           Some (Some existing) \<Rightarrow>
             if lg_Sequence existing \<noteq> lg_Sequence chunk \<or> lg_Source existing \<noteq> lg_Source chunk
                \<or> lg_Digest existing \<noteq> lg_Digest chunk
                \<or> \<not> sameOptionalTime (lg_ClientAt existing) (lg_ClientAt chunk) then
               Inl (Fault InstallerTelemetryConflict ''idempotency key was reused with different log content'')
             else Inr ((existing, True), None)
         | None \<Rightarrow> Inl (Fault StorageFailure ''could not read installer log chunk'')
         | Some None \<Rightarrow>
           let stored = chunks_of (log_chunks d) (lg_InstallationID chunk) in
           if \<not> env_io e 3 then Inl (storageError ''read installer log sequence'')
           else if lg_Sequence chunk \<noteq> last_sequence stored + 1 then
             Inl (Fault InstallerTelemetryConflict ''installer log sequence is not contiguous'')
           else if \<not> env_io e 4 then Inl (storageError ''read installer log size'')
           else if log_bytes stored + length (lg_Content chunk) > MaxInstallationLogBytes then
             Inl (Fault InstallerLogLimitExceeded ''installation log storage limit exceeded'')
           else let item = chunk\<lparr>lg_ReceivedAt := env_now e\<rparr> in
           (case (if env_io e 5 then insert_log_chunk d item else None) of
              None \<Rightarrow> Inl (storageError ''persist installer log chunk'')
            | Some (d1, n) \<Rightarrow>
              if \<not> env_io e 6 then Inl (storageError ''read installer log chunk ID'')
              else Inr ((item\<lparr>lg_ID := n\<rparr>, False), Some d1))))"

definition AppendInstallationLogChunk :: "golib \<Rightarrow> env \<Rightarrow> db \<Rightarrow> LogChunk \<Rightarrow> (LogChunk \<times> bool) result \<times> db" where
  "AppendInstallationLogChunk L e d chunk0 =
     (let chunk = chunk0\<lparr>lg_Content := RedactLogContent (lg_Content chunk0)\<rparr> in
      if chunk_Validate chunk \<noteq> None then
        (Inl (Fault InstallerTelemetryInvalid ''installer log chunk is invalid''), d)
      else let chunk = chunk\<lparr>lg_Digest := ''sha256:'' @ hex_encode (lib_sha256 L (lg_Content chunk))\<rparr> in
      transact e 0 ''begin installer log chunk'' 7 ''commit installer log chunk'' d (append_chunk_tx e d chunk))"

definition InstallationLogChunks :: "env \<Rightarrow> db \<Rightarrow> string \<Rightarrow> int \<Rightarrow> LogChunk list result" where
  "InstallationLogChunks e d installationID limit =
     (case read_rows e 0 ''list installer log chunks'' ''could not read installer log chunk''
             ''iterate installer log chunks''
             (take (list_limit limit) (rev (sort_key lg_Sequence
               (chunks_of (log_chunks d) (TrimSpace installationID))))) of
        Inl err \<Rightarrow> Inl err
      | Inr reversed \<Rightarrow> Inr (rev reversed))"

section \<open>Request authentication\<close>

definition telemetryAuthClockSkew :: int where
  "telemetryAuthClockSkew = 5 * Minute"

text \<open>
  The verifier stored for a credential is the digest of its secret, which is the key the client
  signs with. The check of its length repeats a constraint of the table.
\<close>

definition VerifyLifecycleMAC ::
  "golib \<Rightarrow> env \<Rightarrow> db \<Rightarrow> string \<Rightarrow> string \<Rightarrow> string \<Rightarrow> string \<Rightarrow> int \<Rightarrow> string \<Rightarrow> string \<Rightarrow> unit result \<times> db" where
  "VerifyLifecycleMAC L e d installationID0 httpMethod path idempotencyKey unixSeconds body signature =
     (let installationID = TrimSpace installationID0 in
      if installationID = [] then
        (Inl (Fault InstallerCredentialRequired ''installation-scoped authentication is required''), d)
      else case Canonical L httpMethod path idempotencyKey unixSeconds body of
        Inl _ \<Rightarrow> (Inl (Fault InstallerCredentialInvalid ''telemetry authentication input is invalid''), d)
      | Inr canonical \<Rightarrow>
        let requestTime = time_Unix unixSeconds; now = env_now e in
        if requestTime < now - telemetryAuthClockSkew \<or> requestTime > now + telemetryAuthClockSkew then
          (Inl (Fault InstallerCredentialExpired
             ''telemetry authentication timestamp is outside the accepted window''), d)
        else case query_row e 0 (\<lambda>c. lc_InstallationID c = installationID) (lifecycle_credentials d) of
          Some None \<Rightarrow>
            (Inl (Fault InstallerCredentialRequired ''installation lifecycle credential is unavailable''), d)
        | None \<Rightarrow> (Inl (storageError ''read lifecycle verifier for telemetry MAC''), d)
        | Some (Some row) \<Rightarrow>
          if length (lc_SecretSHA256 row) \<noteq> 32 then
            (Inl (Fault StorageFailure ''stored lifecycle verifier is invalid''), d)
          else if lc_RevokedAt row \<noteq> None \<or> \<not> lc_ExpiresAt row > now then
            (Inl (Fault InstallerCredentialExpired
               ''installation lifecycle credential is expired or revoked''), d)
          else if \<not> Verify L (lc_SecretSHA256 row) canonical signature then
            (Inl (Fault InstallerCredentialInvalid ''telemetry request signature is invalid''), d)
          else if \<not> env_io e 1 then
            (Inl (storageError ''touch lifecycle credential after telemetry MAC''), d)
          else (Inr (), d\<lparr>lifecycle_credentials := update_where (\<lambda>c. lc_InstallationID c = installationID)
                  (\<lambda>c. c\<lparr>lc_LastUsedAt := Some now\<rparr>) (lifecycle_credentials d)\<rparr>))"

section \<open>What the statements keep\<close>

lemma insert_lifecycle_credential_inv:
  "insert_lifecycle_credential d c = Some d' \<Longrightarrow> db_inv d \<Longrightarrow> lc_RevokedAt c = None \<Longrightarrow> db_inv d'"
  by (auto simp: insert_lifecycle_credential_def cred_inv_def dest: db_invD(4) intro!: db_inv_credentials
      split: if_splits)

lemma update_credentials_inv:
  assumes "db_inv d" and "\<And>c. lc_CredentialID (f c) = lc_CredentialID c \<and>
      lc_InstallationID (f c) = lc_InstallationID c \<and> lc_SecretSHA256 (f c) = lc_SecretSHA256 c"
    and "\<And>c. lc_RevokedAt c \<noteq> Some 0 \<Longrightarrow> lc_RevokedAt (f c) \<noteq> Some 0"
  shows "db_inv (d\<lparr>lifecycle_credentials := update_where p f (lifecycle_credentials d)\<rparr>)"
proof -
  let ?t = "lifecycle_credentials d"
  have keys: "map lc_CredentialID (update_where p f ?t) = map lc_CredentialID ?t"
    "map lc_InstallationID (update_where p f ?t) = map lc_InstallationID ?t"
    using assms(2) by (auto intro!: map_update_where)
  then have "cred_inv (installation_specs d) (update_where p f ?t)"
    using db_invD(4) [OF assms(1)] assms(2,3) by (auto simp: cred_inv_def set_update_where)
  with assms(1) show ?thesis
    by (rule db_inv_credentials) (metis keys(2) order_refl set_map)
qed

lemma revoke_credentials_inv [intro!]: "t \<noteq> 0 \<Longrightarrow> db_inv d \<Longrightarrow> db_inv (revoke_credentials d i t)"
  by (simp add: revoke_credentials_def update_credentials_inv)

lemma last_sequence_contiguous:
  "map lg_Sequence cs = map int [1..<length cs + 1] \<Longrightarrow> last_sequence cs = int (length cs)"
proof (cases "cs = []")
  case False
  assume "map lg_Sequence cs = map int [1..<length cs + 1]"
  then have "set (map lg_Sequence cs) = int ` {1..<length cs + 1}" by (simp only: set_map set_upt)
  moreover have "Max (int ` {1..<length cs + 1}) = int (length cs)"
    using False by (intro Max_eqI) (auto intro!: imageI simp: Suc_le_eq)
  ultimately show ?thesis using False by (simp add: last_sequence_def)
qed (simp add: last_sequence_def)

lemma insert_log_chunk_inv:
  assumes "insert_log_chunk d c = Some (d', n)" "db_inv d"
    and "no_sensitive_line (lg_Content c)" "NUL \<notin> set (lg_Content c)" "lg_Content c \<noteq> []"
      "length (lg_Content c) \<le> MaxLogChunkBytes"
    and "lg_Sequence c = last_sequence (chunks_of (log_chunks d) (lg_InstallationID c)) + 1"
    and "log_bytes (chunks_of (log_chunks d) (lg_InstallationID c)) + length (lg_Content c) \<le> MaxInstallationLogBytes"
  shows "db_inv d'"
proof -
  let ?cs = "log_chunks d" and ?c = "c\<lparr>lg_ID := n\<rparr>"
  have ins: "lg_InstallationID c \<in> sp_ID ` set (installation_specs d)" "lg_Source c \<in> set log_sources"
      "chunk_key c \<notin> chunk_key ` set ?cs" "d' = d\<lparr>log_chunks := ?cs @ [?c], log_chunks_seq := n\<rparr>"
    using assms(1) by (auto simp: insert_log_chunk_def Let_def split: if_splits)
  have inv: "log_inv (installation_specs d) ?cs" by (rule db_invD(6) [OF assms(2)])
  have "map lg_Sequence (chunks_of (?cs @ [?c]) i) = map int [1..<length (chunks_of (?cs @ [?c]) i) + 1]
      \<and> log_bytes (chunks_of (?cs @ [?c]) i) \<le> MaxInstallationLogBytes" for i
    using inv assms(7,8) last_sequence_contiguous [of "chunks_of ?cs (lg_InstallationID c)"]
    by (auto simp: chunks_of_def log_bytes_def log_inv_def)
  then have "log_inv (installation_specs d) (?cs @ [?c])"
    using inv ins(1-3) assms(3-6) unfolding log_inv_def by (auto; force)
  with assms(2) ins(4) show ?thesis by (simp add: db_inv_logs)
qed

lemma ensureInstallationExistsTx_None [result_simps]:
  "ensureInstallationExistsTx e k d i = None \<longleftrightarrow> env_io e k \<and> i \<in> sp_ID ` set (installation_specs d)"
  by (auto simp: ensureInstallationExistsTx_def query_row_def find_key_None find_None_iff
      dest: find_SomeD split: option.splits)

section \<open>Every operation keeps the invariant\<close>

lemma new_credential_fresh [simp]: "lc_RevokedAt (new_credential c i h t x) = None"
  by (simp add: new_credential_def)

lemma issue_tx_inv: "issue_tx L e d i rid act ttl = Inr (x, Some d') \<Longrightarrow> db_inv d \<Longrightarrow> db_inv d'"
  by (auto simp: issue_tx_def Let_def result_simps intro: insert_lifecycle_credential_inv split: if_splits)

lemma IssueLifecycleCredential_inv: "db_inv d \<Longrightarrow> db_inv (snd (IssueLifecycleCredential L e d i rid act ttl))"
  by (auto simp: IssueLifecycleCredential_def Let_def dest: issue_tx_inv)

lemma IssueLifecycleCredential_rollback: "rolled_back d (IssueLifecycleCredential L e d i rid act ttl)"
  by (simp add: IssueLifecycleCredential_def Let_def)

lemma AuthenticateLifecycleCredential_inv:
  "db_inv d \<Longrightarrow> db_inv (snd (AuthenticateLifecycleCredential L e d i s))"
  by (auto simp: AuthenticateLifecycleCredential_def Let_def intro!: update_credentials_inv split: option.splits)

lemma AuthenticateLifecycleCredential_rollback: "rolled_back d (AuthenticateLifecycleCredential L e d i s)"
  by (simp add: AuthenticateLifecycleCredential_def Let_def split: option.split)

lemma RevokeLifecycleCredential_inv:
  "clock_ok e \<Longrightarrow> db_inv d \<Longrightarrow> db_inv (snd (RevokeLifecycleCredential e d i rid act))"
  by (auto simp: RevokeLifecycleCredential_def Let_def)

lemma append_lifecycle_tx_Inr:
  assumes "append_lifecycle_tx e d r rid = Inr ((v, dup), x)"
  obtains "dup" "x = None" "v \<in> set (lifecycle_events d)" "same_report v r"
      "le_InstallationID v = r_InstallationID r" "le_IdempotencyKey v = r_IdempotencyKey r"
  | d1 n where "\<not> dup" "CanAdvance (current_stage d (r_InstallationID r)) (r_Stage r)"
      "insert_lifecycle_event d (accepted_event r rid (env_now e)) = Some (d1, n)"
      "v = (accepted_event r rid (env_now e))\<lparr>le_Sequence := n\<rparr>"
      "x = Some (if Terminal (r_Stage r) then revoke_credentials (appendEventTx d1 (lifecycle_audit r rid (env_now e)))
             (r_InstallationID r) (env_now e) else appendEventTx d1 (lifecycle_audit r rid (env_now e)))"
proof -
  let ?q = "\<lambda>v. le_InstallationID v = r_InstallationID r \<and> le_IdempotencyKey v = r_IdempotencyKey r"
  have ok: "ensureInstallationExistsTx e 1 d (r_InstallationID r) = None"
    using assms by (cases "ensureInstallationExistsTx e 1 d (r_InstallationID r)") (simp_all add: append_lifecycle_tx_def)
  then have q: "query_row e 2 ?q (lifecycle_events d) = Some (List.find ?q (lifecycle_events d))"
    using assms by (simp add: append_lifecycle_tx_def query_row_def split: if_splits)
  show ?thesis
  proof (cases "List.find ?q (lifecycle_events d)")
    case (Some w)
    with assms ok q have "v = w" "dup" "x = None" "same_report w r"
      by (simp_all add: append_lifecycle_tx_def split: if_splits)
    with that(1) find_SomeD [OF Some] show ?thesis by simp
  next
    case None
    with assms ok q obtain d1 n where ins: "env_io e 3" "env_io e 4"
        "CanAdvance (current_stage d (r_InstallationID r)) (r_Stage r)"
        "insert_lifecycle_event d (accepted_event r rid (env_now e)) = Some (d1, n)"
      unfolding append_lifecycle_tx_def Let_def
      by (auto simp: result_simps currentLifecycleStageTx_def split: if_splits)
    with assms ok q None have "\<not> dup" "v = (accepted_event r rid (env_now e))\<lparr>le_Sequence := n\<rparr>"
        "x = Some (if Terminal (r_Stage r) then revoke_credentials (appendEventTx d1 (lifecycle_audit r rid (env_now e)))
             (r_InstallationID r) (env_now e) else appendEventTx d1 (lifecycle_audit r rid (env_now e)))"
      by (auto simp: append_lifecycle_tx_def Let_def currentLifecycleStageTx_def split: if_splits)
    with ins that(2) show ?thesis by blast
  qed
qed

lemma report_Validate_source: "report_Validate r = None \<Longrightarrow> SourceAllowed (r_Stage r) (r_Source r)"
  by (auto simp: report_Validate_def split: if_splits option.splits)

lemma append_lifecycle_tx_inv:
  "append_lifecycle_tx e d r rid = Inr (x, Some d') \<Longrightarrow> report_Validate r = None \<Longrightarrow> clock_ok e \<Longrightarrow>
   db_inv d \<Longrightarrow> db_inv d'"
proof (cases x)
  fix v dup
  assume tx: "append_lifecycle_tx e d r rid = Inr (x, Some d')" "x = (v, dup)"
    and ok: "report_Validate r = None" "clock_ok e" and inv: "db_inv d"
  from tx(1) [unfolded tx(2)] show "db_inv d'"
  proof (cases rule: append_lifecycle_tx_Inr)
    case (2 d1 n)
    then have "db_inv d1"
      using report_Validate_source [OF ok(1)] inv by (auto intro: insert_lifecycle_event_inv simp: accepted_event_def)
    with 2(5) ok(2) show ?thesis by (auto split: if_splits)
  qed simp
qed

lemma AppendLifecycleEvent_inv: "clock_ok e \<Longrightarrow> db_inv d \<Longrightarrow> db_inv (snd (AppendLifecycleEvent e d r rid))"
  by (auto simp: AppendLifecycleEvent_def dest: append_lifecycle_tx_inv)

lemma AppendLifecycleEvent_rollback: "rolled_back d (AppendLifecycleEvent e d r rid)"
  by (simp add: AppendLifecycleEvent_def)

lemma append_chunk_tx_Inr:
  assumes "append_chunk_tx e d c = Inr ((v, dup), x)"
  obtains "dup" "x = None" "v \<in> set (log_chunks d)" "chunk_key v = chunk_key c"
      "lg_Sequence v = lg_Sequence c" "lg_Digest v = lg_Digest c" "lg_Source v = lg_Source c"
  | d1 n where "\<not> dup" "lg_Sequence c = last_sequence (chunks_of (log_chunks d) (lg_InstallationID c)) + 1"
      "log_bytes (chunks_of (log_chunks d) (lg_InstallationID c)) + length (lg_Content c) \<le> MaxInstallationLogBytes"
      "insert_log_chunk d (c\<lparr>lg_ReceivedAt := env_now e\<rparr>) = Some (d1, n)"
      "v = c\<lparr>lg_ReceivedAt := env_now e, lg_ID := n\<rparr>" "x = Some d1"
proof -
  let ?q = "\<lambda>x. lg_InstallationID x = lg_InstallationID c \<and> lg_IdempotencyKey x = lg_IdempotencyKey c"
  have ok: "ensureInstallationExistsTx e 1 d (lg_InstallationID c) = None"
    using assms by (cases "ensureInstallationExistsTx e 1 d (lg_InstallationID c)") (simp_all add: append_chunk_tx_def)
  then have q: "query_row e 2 ?q (log_chunks d) = Some (List.find ?q (log_chunks d))"
    using assms by (simp add: append_chunk_tx_def query_row_def split: if_splits)
  show ?thesis
  proof (cases "List.find ?q (log_chunks d)")
    case (Some w)
    with assms ok q that(1) find_SomeD [OF Some] show ?thesis
      by (simp add: append_chunk_tx_def split: if_splits)
  next
    case None
    with assms ok q that(2) show ?thesis
      by (auto simp: append_chunk_tx_def Let_def result_simps split: if_splits)
  qed
qed

lemma chunk_Validate_None:
  "chunk_Validate c = None \<Longrightarrow> lg_Content c \<noteq> [] \<and> length (lg_Content c) \<le> MaxLogChunkBytes"
  by (auto simp: chunk_Validate_def split: if_splits option.splits)

lemma chunk_Validate_digest [simp]: "chunk_Validate (c\<lparr>lg_Digest := x\<rparr>) = chunk_Validate c"
  by (simp add: chunk_Validate_def)

lemma append_chunk_tx_inv:
  assumes "append_chunk_tx e d c = Inr (x, Some d')" "chunk_Validate c = None" "db_inv d"
    and "no_sensitive_line (lg_Content c)" "NUL \<notin> set (lg_Content c)"
  shows "db_inv d'"
proof -
  obtain v dup where x: "x = (v, dup)" by force
  from assms(1) [unfolded x] show ?thesis
  proof (cases rule: append_chunk_tx_Inr)
    case (2 d1 n)
    with assms(2-5) show ?thesis
      by (auto intro!: insert_log_chunk_inv [OF 2(4)] dest: chunk_Validate_None)
  qed simp
qed

lemma AppendInstallationLogChunk_inv: "db_inv d \<Longrightarrow> db_inv (snd (AppendInstallationLogChunk L e d c))"
  by (auto simp: AppendInstallationLogChunk_def Let_def
      RedactLogContent_safe RedactLogContent_no_NUL intro!: transact_db_inv elim!: append_chunk_tx_inv)

lemma AppendInstallationLogChunk_rollback: "rolled_back d (AppendInstallationLogChunk L e d c)"
  by (simp add: AppendInstallationLogChunk_def Let_def)

lemma VerifyLifecycleMAC_inv: "db_inv d \<Longrightarrow> db_inv (snd (VerifyLifecycleMAC L e d i hm p k t b s))"
  by (auto simp: VerifyLifecycleMAC_def Let_def intro!: update_credentials_inv split: option.splits sum.splits)

lemma VerifyLifecycleMAC_rollback: "rolled_back d (VerifyLifecycleMAC L e d i hm p k t b s)"
  by (simp add: VerifyLifecycleMAC_def Let_def split: option.split sum.split)

interpretation issue: store_operation "\<lambda>e d (i, rid, act, ttl). IssueLifecycleCredential L e d i rid act ttl" db_inv for L
  by unfold_locales (auto intro: IssueLifecycleCredential_inv IssueLifecycleCredential_rollback)

interpretation authenticate: store_operation "\<lambda>e d (i, s). AuthenticateLifecycleCredential L e d i s" db_inv for L
  by unfold_locales (auto intro: AuthenticateLifecycleCredential_inv AuthenticateLifecycleCredential_rollback)

interpretation revoke_credential: invariant_operation "\<lambda>e d (i, rid, act). RevokeLifecycleCredential e d i rid act" db_inv
  by unfold_locales (auto intro: RevokeLifecycleCredential_inv)

interpretation append_lifecycle: store_operation "\<lambda>e d (r, rid). AppendLifecycleEvent e d r rid" db_inv
  by unfold_locales (auto intro: AppendLifecycleEvent_inv AppendLifecycleEvent_rollback)

interpretation append_chunk: store_operation "\<lambda>e d c. AppendInstallationLogChunk L e d c" db_inv for L
  by unfold_locales (auto intro: AppendInstallationLogChunk_inv AppendInstallationLogChunk_rollback)

interpretation verify_mac: store_operation
  "\<lambda>e d (i, hm, p, k, t, b, s). VerifyLifecycleMAC L e d i hm p k t b s" db_inv for L
  by unfold_locales (auto intro: VerifyLifecycleMAC_inv VerifyLifecycleMAC_rollback)

section \<open>Lifecycle reports: what is accepted\<close>

text \<open>A report that is accepted as new, in terms of the database before.\<close>

lemma AppendLifecycleEvent_new:
  assumes "db_inv d" "AppendLifecycleEvent e d r rid = (Inr (v, False), d')"
  shows "report_Validate r = None"
    and "CanAdvance (last (StageNone # journal (lifecycle_events d) (r_InstallationID r))) (r_Stage r)"
    and "v = (accepted_event r rid (env_now e))\<lparr>le_Sequence := lifecycle_events_seq d + 1\<rparr>"
    and "lifecycle_events d' = lifecycle_events d @ [v]"
    and "events d' = events d @ [(lifecycle_audit r rid (env_now e))\<lparr>ev_Sequence := events_seq d + 1\<rparr>]"
    and "Terminal (r_Stage r) \<Longrightarrow> c \<in> set (lifecycle_credentials d') \<Longrightarrow>
      lc_InstallationID c = r_InstallationID r \<Longrightarrow> lc_RevokedAt c \<noteq> None"
proof -
  from assms(2) show "report_Validate r = None"
    by (simp add: AppendLifecycleEvent_def split: if_splits)
  with assms(2) obtain x where tx: "append_lifecycle_tx e d r rid = Inr ((v, False), x)"
      "x = Some d' \<or> x = None \<and> d' = d"
    by (auto simp: AppendLifecycleEvent_def transact_Inr)
  from tx(1) obtain d1 n where new: "CanAdvance (current_stage d (r_InstallationID r)) (r_Stage r)"
      "insert_lifecycle_event d (accepted_event r rid (env_now e)) = Some (d1, n)"
      "v = (accepted_event r rid (env_now e))\<lparr>le_Sequence := n\<rparr>"
      "x = Some (if Terminal (r_Stage r) then revoke_credentials (appendEventTx d1 (lifecycle_audit r rid (env_now e)))
             (r_InstallationID r) (env_now e) else appendEventTx d1 (lifecycle_audit r rid (env_now e)))"
    by (cases rule: append_lifecycle_tx_Inr) auto
  from new(1) show "CanAdvance (last (StageNone # journal (lifecycle_events d) (r_InstallationID r))) (r_Stage r)"
    by (simp only: current_stage_journal [OF assms(1)])
  from new(2) have ins: "n = lifecycle_events_seq d + 1" "d1 = d\<lparr>lifecycle_events := lifecycle_events d @
      [(accepted_event r rid (env_now e))\<lparr>le_Sequence := n\<rparr>], lifecycle_events_seq := n\<rparr>"
    by (auto simp: insert_lifecycle_event_def Let_def split: if_splits)
  with new(3) show "v = (accepted_event r rid (env_now e))\<lparr>le_Sequence := lifecycle_events_seq d + 1\<rparr>" by simp
  have d': "d' = (if Terminal (r_Stage r) then revoke_credentials (appendEventTx d1 (lifecycle_audit r rid (env_now e)))
             (r_InstallationID r) (env_now e) else appendEventTx d1 (lifecycle_audit r rid (env_now e)))"
    using tx(2) new(4) by auto
  show "lifecycle_events d' = lifecycle_events d @ [v]"
    using new(3) ins(2) by (simp add: d' revoke_credentials_def)
  show "events d' = events d @ [(lifecycle_audit r rid (env_now e))\<lparr>ev_Sequence := events_seq d + 1\<rparr>]"
    using ins(2) by (simp add: d' revoke_credentials_def appendEventTx_def)
  show "Terminal (r_Stage r) \<Longrightarrow> c \<in> set (lifecycle_credentials d') \<Longrightarrow>
      lc_InstallationID c = r_InstallationID r \<Longrightarrow> lc_RevokedAt c \<noteq> None"
    by (auto simp: d' revoke_credentials_def set_update_where split: if_splits)
qed

lemma AppendLifecycleEvent_duplicate:
  assumes "AppendLifecycleEvent e d r rid = (Inr (v, True), d')"
  shows "d' = d" "v \<in> set (lifecycle_events d)" "same_report v r" "event_key v = (r_InstallationID r, r_IdempotencyKey r)"
proof -
  obtain x where tx: "append_lifecycle_tx e d r rid = Inr ((v, True), x)" "x = Some d' \<or> x = None \<and> d' = d"
    using assms by (auto simp: AppendLifecycleEvent_def transact_Inr split: if_splits)
  from tx(1) show "d' = d" "v \<in> set (lifecycle_events d)" "same_report v r"
      "event_key v = (r_InstallationID r, r_IdempotencyKey r)"
    using tx(2) by (cases rule: append_lifecycle_tx_Inr; auto)+
qed

lemma same_report_accepted [simp]: "same_report ((accepted_event r rid t)\<lparr>le_Sequence := n\<rparr>) r"
  by (simp add: same_report_def accepted_event_def sameOptionalTime_def)

lemma AppendLifecycleEvent_valid: "AppendLifecycleEvent e d r rid = (Inr x, d') \<Longrightarrow> report_Validate r = None"
  by (simp add: AppendLifecycleEvent_def split: if_splits)

lemma SourceAllowed_valid: "SourceAllowed stage source \<Longrightarrow> stage_Valid stage \<and> source_Valid source"
  by (cases stage) (auto simp: SourceAllowed_def split: if_splits)

text \<open>What a new event stores, whatever the database; and when a report becomes a new event.\<close>

lemma AppendLifecycleEvent_stores:
  assumes "AppendLifecycleEvent e d r rid = (Inr (v, False), d')"
  shows "v = (accepted_event r rid (env_now e))\<lparr>le_Sequence := lifecycle_events_seq d + 1\<rparr>"
    and "lifecycle_events d' = lifecycle_events d @ [v]"
proof -
  from assms obtain x where tx: "append_lifecycle_tx e d r rid = Inr ((v, False), x)" "x = Some d' \<or> x = None \<and> d' = d"
    by (auto simp: AppendLifecycleEvent_def transact_Inr split: if_splits)
  from tx(1) show "v = (accepted_event r rid (env_now e))\<lparr>le_Sequence := lifecycle_events_seq d + 1\<rparr>"
    by (cases rule: append_lifecycle_tx_Inr) (auto simp: insert_lifecycle_event_def Let_def split: if_splits)
  from tx show "lifecycle_events d' = lifecycle_events d @ [v]"
    by (cases rule: append_lifecycle_tx_Inr)
      (auto simp: insert_lifecycle_event_def Let_def revoke_credentials_def split: if_splits)
qed

lemma AppendLifecycleEvent_next:
  assumes "\<forall>k. env_io e k" "report_Validate r = None" "r_InstallationID r \<in> sp_ID ` set (installation_specs d)"
    and "(r_InstallationID r, r_IdempotencyKey r) \<notin> event_key ` set (lifecycle_events d)"
    and "CanAdvance (current_stage d (r_InstallationID r)) (r_Stage r)"
  shows "\<exists>v. fst (AppendLifecycleEvent e d r rid) = Inr (v, False)"
proof -
  have "stage_Valid (r_Stage r)" "source_Valid (r_Source r)"
    using SourceAllowed_valid [OF report_Validate_source [OF assms(2)]] by simp_all
  then obtain d1 n where "insert_lifecycle_event d (accepted_event r rid (env_now e)) = Some (d1, n)"
    using assms(3,4) by (simp add: insert_lifecycle_event_def accepted_event_def Let_def)
  moreover have "List.find (\<lambda>v. le_InstallationID v = r_InstallationID r \<and> le_IdempotencyKey v = r_IdempotencyKey r) (lifecycle_events d) = None"
    using assms(4) by (force simp: find_None_iff)
  moreover have "ensureInstallationExistsTx e 1 d (r_InstallationID r) = None"
    using assms(1,3) by (simp add: ensureInstallationExistsTx_None)
  ultimately show ?thesis
    using assms(1,2,5)
    by (simp add: AppendLifecycleEvent_def append_lifecycle_tx_def query_row_def transact_def currentLifecycleStageTx_def Let_def)
qed

text \<open>An event that is in the journal with the content of the report answers the report.\<close>

lemma AppendLifecycleEvent_known:
  assumes "db_inv d" "v \<in> set (lifecycle_events d)" "same_report v r" "report_Validate r = None"
    and "event_key v = (r_InstallationID r, r_IdempotencyKey r)" "\<forall>k. env_io e k"
  shows "AppendLifecycleEvent e d r rid = (Inr (v, True), d)"
proof -
  have inv: "distinct (map event_key (lifecycle_events d))" "le_InstallationID v \<in> sp_ID ` set (installation_specs d)"
    using db_invD(5) [OF assms(1)] assms(2) by (auto simp: life_inv_def)
  have "List.find (\<lambda>w. event_key w = event_key v) (lifecycle_events d) = Some v"
    using inv(1) assms(2) by (rule find_key)
  then have "List.find (\<lambda>w. le_InstallationID w = r_InstallationID r \<and> le_IdempotencyKey w = r_IdempotencyKey r)
      (lifecycle_events d) = Some v"
    using assms(5) by simp
  moreover have "ensureInstallationExistsTx e 1 d (r_InstallationID r) = None"
    using inv(2) assms(5,6) by (simp add: ensureInstallationExistsTx_None)
  ultimately show ?thesis
    using assms(3,4,6) by (simp add: AppendLifecycleEvent_def append_lifecycle_tx_def query_row_def transact_def)
qed

section \<open>Credentials: who is authenticated\<close>

lemma query_credential:
  "db_inv d \<Longrightarrow> c \<in> set (lifecycle_credentials d) \<Longrightarrow>
   List.find (\<lambda>x. lc_InstallationID x = lc_InstallationID c) (lifecycle_credentials d) = Some c"
  by (rule find_key) (auto dest!: db_invD(4) simp: cred_inv_def)

lemma VerifyLifecycleMAC_Inr:
  assumes "VerifyLifecycleMAC L e d i hm p k t b s = (Inr (), d')"
  obtains c canonical where "c \<in> set (lifecycle_credentials d)" "lc_InstallationID c = TrimSpace i"
    "lc_RevokedAt c = None" "env_now e < lc_ExpiresAt c" "Canonical L hm p k t b = Inr canonical"
    "\<bar>time_Unix t - env_now e\<bar> \<le> telemetryAuthClockSkew"
    "RawURL_Decode (TrimSpace s) = Some (lib_hmac L (lc_SecretSHA256 c) canonical)"
    "d' = d\<lparr>lifecycle_credentials := update_where (\<lambda>c. lc_InstallationID c = TrimSpace i)
             (\<lambda>c. c\<lparr>lc_LastUsedAt := Some (env_now e)\<rparr>) (lifecycle_credentials d)\<rparr>"
  using assms that
  by (auto simp: VerifyLifecycleMAC_def Verify_def Let_def query_row_def
      split: if_splits option.splits sum.splits dest!: find_SomeD)

lemma AuthenticateLifecycleCredential_Inr:
  "AuthenticateLifecycleCredential L e d i secret = (Inr x, d') \<Longrightarrow>
   \<exists>c \<in> set (lifecycle_credentials d). lc_InstallationID c = TrimSpace i
     \<and> lc_SecretSHA256 c = lib_sha256 L (TrimSpace secret) \<and> env_now e < lc_ExpiresAt c
     \<and> (lc_RevokedAt c = None \<or> lc_RevokedAt c = Some 0)"
  by (auto simp: AuthenticateLifecycleCredential_def Let_def query_row_def credential_Active_def credential_of_row_def
      scan_time_def split: if_splits option.splits dest!: find_SomeD)

lemma Canonical_time: "Canonical L hm p k t b = Inr c \<Longrightarrow> 0 < t"
  by (simp add: Canonical_def Let_def split: if_splits)

lemma VerifyLifecycleMAC_accepts:
  assumes "digests_ok L" "db_inv d" "\<forall>k. env_io e k" "c \<in> set (lifecycle_credentials d)"
    and "lc_InstallationID c = TrimSpace i" "TrimSpace i \<noteq> []" "lc_RevokedAt c = None" "env_now e < lc_ExpiresAt c"
    and "Canonical L hm p k t b = Inr canonical" "\<bar>time_Unix t - env_now e\<bar> \<le> telemetryAuthClockSkew"
    and "RawURL_Decode (TrimSpace s) = Some (lib_hmac L (lc_SecretSHA256 c) canonical)"
  shows "fst (VerifyLifecycleMAC L e d i hm p k t b s) = Inr ()"
  using assms query_credential [OF assms(2,4)] db_invD(4) [OF assms(2)]
  by (auto simp: VerifyLifecycleMAC_def Verify_def query_row_def digests_ok_def cred_inv_def Let_def)

lemma Verify_Sign: "digests_ok L \<Longrightarrow> Verify L key canonical (Sign L key canonical)"
  by (simp add: Verify_def Sign_def RawURL_roundtrip digests_ok_def)

lemma issue_tx_Inr:
  assumes "issue_tx L e d i rid act ttl = Inr (ic, x)"
  obtains spec :: Spec and secret d1 v where "rand_Read e 0 32 = Some secret"
      "i \<notin> lc_InstallationID ` set (lifecycle_credentials d)"
      "insert_lifecycle_credential d (new_credential (sp_LifecycleCredentialID spec) i
         (lib_sha256 L (RawURL_Encode secret)) (env_now e) (env_now e + ttl)) = Some d1"
      "ic = \<lparr>ic_Credential = \<lparr>cr_ID = sp_LifecycleCredentialID spec, cr_InstallationID = i,
                cr_CreatedAt = env_now e, cr_ExpiresAt = env_now e + ttl, cr_RevokedAt = 0, cr_LastUsedAt = 0\<rparr>,
             ic_Secret = RawURL_Encode secret\<rparr>" "x = Some (appendEventTx d1 v)"
proof -
  obtain spec :: Spec and secret d1 v where 1: "rand_Read e 0 32 = Some secret"
      "List.find (\<lambda>c. lc_InstallationID c = i) (lifecycle_credentials d) = None"
      "(if env_io e 3 then insert_lifecycle_credential d (new_credential (sp_LifecycleCredentialID spec) i
         (lib_sha256 L (RawURL_Encode secret)) (env_now e) (env_now e + ttl)) else None) = Some d1"
      "Inr (\<lparr>ic_Credential = \<lparr>cr_ID = sp_LifecycleCredentialID spec, cr_InstallationID = i,
                cr_CreatedAt = env_now e, cr_ExpiresAt = env_now e + ttl, cr_RevokedAt = 0, cr_LastUsedAt = 0\<rparr>,
             ic_Secret = RawURL_Encode secret\<rparr>, Some (appendEventTx d1 v)) = Inr (ic, x)"
    using assms unfolding issue_tx_def Let_def result_simps by blast
  then show ?thesis using that [OF 1(1)] by (auto simp: find_key_None split: if_splits)
qed

text \<open>What issuing a credential adds: one row with the digest of the secret, never the secret.\<close>

lemma IssueLifecycleCredential_Inr:
  assumes "IssueLifecycleCredential L e d i rid act ttl = (Inr ic, d')"
  obtains c where "TrimSpace i \<noteq> []" "lifecycle_credentials d' = lifecycle_credentials d @ [c]"
    "c = new_credential (cr_ID (ic_Credential ic)) (TrimSpace i) (lib_sha256 L (ic_Secret ic))
           (env_now e) (cr_ExpiresAt (ic_Credential ic))"
    "TrimSpace (ic_Secret ic) = ic_Secret ic" "length (ic_Secret ic) = 43"
    "TrimSpace i \<notin> lc_InstallationID ` set (lifecycle_credentials d)"
    "env_now e + 5 * Minute \<le> cr_ExpiresAt (ic_Credential ic)"
    "cr_ExpiresAt (ic_Credential ic) \<le> env_now e + 7 * 24 * Hour"
proof -
  define T where "T = (if ttl \<le> 0 then defaultLifecycleCredentialTTL else ttl)"
  have pre: "TrimSpace i \<noteq> []" "5 * Minute \<le> T" "T \<le> 7 * 24 * Hour"
    "\<exists>x. issue_tx L e d (TrimSpace i) rid (TrimSpace act) T = Inr (ic, x) \<and> (x = Some d' \<or> x = None)"
    using assms by (auto simp: IssueLifecycleCredential_def Let_def transact_Inr T_def [symmetric] split: if_splits)
  from pre(4) obtain x where x: "x = Some d' \<or> x = None"
      and "issue_tx L e d (TrimSpace i) rid (TrimSpace act) T = Inr (ic, x)" by blast
  from this(2) show ?thesis
  proof (rule issue_tx_Inr)
    fix spec :: Spec and secret d1 v
    assume tx: "rand_Read e 0 32 = Some secret" "TrimSpace i \<notin> lc_InstallationID ` set (lifecycle_credentials d)"
      "insert_lifecycle_credential d (new_credential (sp_LifecycleCredentialID spec) (TrimSpace i)
         (lib_sha256 L (RawURL_Encode secret)) (env_now e) (env_now e + T)) = Some d1"
      "ic = \<lparr>ic_Credential = \<lparr>cr_ID = sp_LifecycleCredentialID spec, cr_InstallationID = TrimSpace i,
                cr_CreatedAt = env_now e, cr_ExpiresAt = env_now e + T, cr_RevokedAt = 0, cr_LastUsedAt = 0\<rparr>,
             ic_Secret = RawURL_Encode secret\<rparr>" "x = Some (appendEventTx d1 v)"
    then have "lifecycle_credentials d' = lifecycle_credentials d @ [new_credential (sp_LifecycleCredentialID spec)
        (TrimSpace i) (lib_sha256 L (RawURL_Encode secret)) (env_now e) (env_now e + T)]"
      using x by (auto simp: insert_lifecycle_credential_def split: if_splits)
    with that [OF pre(1)] tx pre(2,3) length_rand_Read [OF tx(1)] show ?thesis
      by (simp add: length_RawURL_Encode)
  qed
qed

section \<open>Properties\<close>

text \<open>C4: a lifecycle report that is accepted as new is valid and advances the installation by one
  allowed step: its stage is appended to the journal of this installation and to no other, the
  stored event carries the content of the report with the time of the server, and the audit log
  grows by its projection.\<close>

theorem lifecycle_report_accepted:
  assumes "db_inv d" "AppendLifecycleEvent e d r rid = (Inr (v, False), d')"
  shows "report_Validate r = None \<and> SourceAllowed (r_Stage r) (r_Source r)
    \<and> CanAdvance (last (StageNone # journal (lifecycle_events d) (r_InstallationID r))) (r_Stage r)
    \<and> (\<forall>i. journal (lifecycle_events d') i =
         journal (lifecycle_events d) i @ (if i = r_InstallationID r then [r_Stage r] else []))
    \<and> lifecycle_events d' = lifecycle_events d @ [v] \<and> same_report v r \<and> le_ReceivedAt v = env_now e
    \<and> (\<exists>a. events d' = events d @ [a] \<and> ev_EntityID a = r_InstallationID r
         \<and> ev_Type a = stage_text (r_Stage r) \<and> ev_Actor a = ''telemetry:'' @ source_text (r_Source r))"
proof -
  note new = AppendLifecycleEvent_new [OF assms]
  have "journal (lifecycle_events d') i =
      journal (lifecycle_events d) i @ (if i = r_InstallationID r then [r_Stage r] else [])" for i
    using new(3,4) by (simp add: journal_snoc accepted_event_def)
  moreover have "same_report v r" "le_ReceivedAt v = env_now e"
    unfolding new(3) by (simp_all add: accepted_event_def same_report_def sameOptionalTime_def)
  ultimately show ?thesis
    using new(1,2,4,5) report_Validate_source [OF new(1)]
    by (auto simp: lifecycle_audit_def event_row_def Let_def)
qed

theorem lifecycle_report_accepted_witness:
  "journal (lifecycle_events (snd (AppendLifecycleEvent sample_env sample_live_db
      (sample_report StageInstallerStarted SourceInstaller '''') ''req''))) ''i_1'' =
    [StageCreated, StageQueued, StagePXEBooted, StageInstallerStarted]"
proof -
  let ?r = "AppendLifecycleEvent sample_env sample_live_db (sample_report StageInstallerStarted SourceInstaller '''') ''req''"
  have "map_sum (\<lambda>f. ()) snd (fst ?r) = Inr False" by code_simp
  then obtain v where "?r = (Inr (v, False), snd ?r)" by (cases ?r; cases "fst ?r") auto
  from lifecycle_report_accepted [OF sample_live_db_inv this, THEN conjunct2, THEN conjunct2, THEN conjunct2,
      THEN conjunct1, THEN spec, of "''i_1''"]
  have "journal (lifecycle_events (snd ?r)) ''i_1'' =
      journal (lifecycle_events sample_live_db) ''i_1'' @ [StageInstallerStarted]"
    by simp
  then show ?thesis by (simp add: sample_live_db_def journal_def sample_event_def)
qed

text \<open>C16: reports are idempotent. A report that was accepted, as new or as a repetition, is answered
  when it is sent again with the same event, marked as a duplicate, and without any change to the
  database, under whatever request identifier and at whatever time.\<close>

theorem lifecycle_retry_idempotent:
  assumes "db_inv d" "AppendLifecycleEvent e d r rid = (Inr (v, dup), d')" "clock_ok e" "\<forall>k. env_io e' k"
  shows "AppendLifecycleEvent e' d' r rid' = (Inr (v, True), d')"
proof -
  have inv: "db_inv d'" using AppendLifecycleEvent_inv [of e d r rid] assms by simp
  have "v \<in> set (lifecycle_events d') \<and> same_report v r \<and> event_key v = (r_InstallationID r, r_IdempotencyKey r)"
  proof (cases dup)
    case True
    with assms(2) have "AppendLifecycleEvent e d r rid = (Inr (v, True), d')" by simp
    from AppendLifecycleEvent_duplicate [OF this] show ?thesis by simp
  next
    case False
    with assms(2) have "AppendLifecycleEvent e d r rid = (Inr (v, False), d')" by simp
    from AppendLifecycleEvent_new(3,4) [OF assms(1) this] show ?thesis
      by (auto simp: accepted_event_def same_report_def sameOptionalTime_def)
  qed
  with AppendLifecycleEvent_known [OF inv] AppendLifecycleEvent_valid [OF assms(2)] assms(4) show ?thesis by blast
qed

theorem lifecycle_retry_idempotent_witness:
  "let r = sample_report StageInstallerStarted SourceInstaller '''';
       d' = snd (AppendLifecycleEvent sample_env sample_live_db r ''req'')
   in snd (AppendLifecycleEvent sample_env d' r ''again'') = d'"
proof -
  let ?r = "AppendLifecycleEvent sample_env sample_live_db (sample_report StageInstallerStarted SourceInstaller '''') ''req''"
  have "isl (fst ?r) = False" by code_simp
  then obtain v dup where "?r = (Inr (v, dup), snd ?r)" by (metis succeeded surj_pair)
  from lifecycle_retry_idempotent [OF sample_live_db_inv this, of sample_env] show ?thesis
    by (simp add: sample_env_def)
qed

text \<open>C15: SUCCESS and FAILED are final. When such a report is accepted, every credential of the
  installation is revoked, so no request for it is authenticated any more, and no later report is
  accepted as new.\<close>

theorem terminal_report_closes_installation:
  assumes "db_inv d" "AppendLifecycleEvent e d r rid = (Inr (v, False), d')" "clock_ok e" "Terminal (r_Stage r)"
    and "TrimSpace i = r_InstallationID r"
  shows "isl (fst (VerifyLifecycleMAC L e' d' i hm p k t b s))
    \<and> isl (fst (AuthenticateLifecycleCredential L e' d' i secret))
    \<and> (\<forall>r' v' d''. r_InstallationID r' = r_InstallationID r \<longrightarrow>
         AppendLifecycleEvent e' d' r' rid' \<noteq> (Inr (v', False), d''))"
proof (intro conjI allI impI)
  note new = AppendLifecycleEvent_new [OF assms(1,2)]
  have inv: "db_inv d'" using AppendLifecycleEvent_inv [of e d r rid] assms by simp
  have revoked: "lc_RevokedAt c \<noteq> None" "lc_RevokedAt c \<noteq> Some 0"
    if "c \<in> set (lifecycle_credentials d')" "lc_InstallationID c = TrimSpace i" for c
    using new(6) [OF assms(4) that(1)] that assms(5) db_invD(4) [OF inv] by (auto simp: cred_inv_def)
  show "isl (fst (VerifyLifecycleMAC L e' d' i hm p k t b s))"
  proof (rule isl_failed)
    fix x d''
    assume "VerifyLifecycleMAC L e' d' i hm p k t b s = (Inr x, d'')"
    then have "VerifyLifecycleMAC L e' d' i hm p k t b s = (Inr (), d'')" by simp
    then show False by (rule VerifyLifecycleMAC_Inr) (simp add: revoked)
  qed
  show "isl (fst (AuthenticateLifecycleCredential L e' d' i secret))"
    by (rule isl_failed) (use revoked in \<open>blast dest!: AuthenticateLifecycleCredential_Inr\<close>)
  fix r' :: Report and v' d''
  assume same: "r_InstallationID r' = r_InstallationID r"
  show "AppendLifecycleEvent e' d' r' rid' \<noteq> (Inr (v', False), d'')"
  proof
    assume "AppendLifecycleEvent e' d' r' rid' = (Inr (v', False), d'')"
    from AppendLifecycleEvent_new(2) [OF inv this] same
    have "CanAdvance (last (StageNone # journal (lifecycle_events d') (r_InstallationID r))) (r_Stage r')" by simp
    moreover have "journal (lifecycle_events d') (r_InstallationID r) =
        journal (lifecycle_events d) (r_InstallationID r) @ [r_Stage r]"
      using new(3,4) by (simp add: journal_snoc accepted_event_def)
    ultimately show False using terminal_stuck [OF assms(4)] by simp
  qed
qed

theorem terminal_report_closes_installation_witness:
  "isl (fst (VerifyLifecycleMAC (sample_lib 0) sample_env (snd (AppendLifecycleEvent sample_env sample_live_db
      (sample_report StageFailed SourceInstaller ''E1'') ''req'')) ''i_1'' ''POST'' ''/'' ''k'' 1 '''' ''s''))"
proof -
  let ?r = "AppendLifecycleEvent sample_env sample_live_db (sample_report StageFailed SourceInstaller ''E1'') ''req''"
  have "map_sum (\<lambda>f. ()) snd (fst ?r) = Inr False" by code_simp
  then obtain v where "?r = (Inr (v, False), snd ?r)" by (cases ?r; cases "fst ?r") auto
  from terminal_report_closes_installation [OF sample_live_db_inv this, of "''i_1''"] show ?thesis
    by (simp add: Terminal_def sample_trim sample_env_def)
qed

text \<open>C13: a request is authenticated only with the code of this very request: the installation has a
  credential that is neither revoked nor expired, the time stamp is within five minutes of the
  server's clock, and the signature decodes to the HMAC, under the verifier stored for the
  credential, of the canonical text of method, path, idempotency key, time and body. The only
  change is the last-used time of that credential.\<close>

theorem telemetry_request_authentic:
  assumes "VerifyLifecycleMAC L e d i hm p k t b s = (Inr (), d')"
  shows "\<exists>c canonical. c \<in> set (lifecycle_credentials d) \<and> lc_InstallationID c = TrimSpace i
    \<and> lc_RevokedAt c = None \<and> env_now e < lc_ExpiresAt c \<and> \<bar>time_Unix t - env_now e\<bar> \<le> 5 * Minute
    \<and> Canonical L hm p k t b = Inr canonical
    \<and> RawURL_Decode (TrimSpace s) = Some (lib_hmac L (lc_SecretSHA256 c) canonical)
    \<and> d' = d\<lparr>lifecycle_credentials := update_where (\<lambda>c. lc_InstallationID c = TrimSpace i)
             (\<lambda>c. c\<lparr>lc_LastUsedAt := Some (env_now e)\<rparr>) (lifecycle_credentials d)\<rparr>"
  using assms by (rule VerifyLifecycleMAC_Inr) (auto simp: telemetryAuthClockSkew_def)

definition sample_signature :: "nat \<Rightarrow> string" where
  "sample_signature n = Sign (sample_lib n) (sample_digest ''secret'')
     (projr (Canonical (sample_lib n) ''POST'' ''/x'' ''k'' 1764403200 ''body''))"

lemma sample_canonical:
  "\<exists>canonical. Canonical (sample_lib n) ''POST'' ''/x'' ''k'' 1764403200 ''body'' = Inr canonical"
  by (simp add: Canonical_def Let_def sample_trim ToUpper_def in_range_def byte_def)

lemma sample_request_accepted:
  "fst (VerifyLifecycleMAC (sample_lib n) sample_env sample_live_db ''i_1'' ''POST'' ''/x'' ''k'' 1764403200 ''body''
    (sample_signature n)) = Inr ()"
proof -
  obtain canonical where "Canonical (sample_lib n) ''POST'' ''/x'' ''k'' 1764403200 ''body'' = Inr canonical"
    using sample_canonical by blast
  then show ?thesis
    by (intro VerifyLifecycleMAC_accepts [OF sample_lib_digests sample_live_db_inv, where c = sample_credential])
      (simp_all add: sample_live_db_def sample_credential_fields sample_trim telemetryAuthClockSkew_def duration_defs
        time_Unix_def sample_signature_def Sign_def RawURL_roundtrip)
qed

theorem telemetry_request_authentic_witness:
  "\<exists>c \<in> set (lifecycle_credentials sample_live_db). lc_InstallationID c = ''i_1'' \<and> lc_RevokedAt c = None"
proof -
  let ?r = "VerifyLifecycleMAC (sample_lib 0) sample_env sample_live_db ''i_1'' ''POST'' ''/x'' ''k'' 1764403200 ''body''
    (sample_signature 0)"
  have "?r = (Inr (), snd ?r)" using sample_request_accepted by (simp add: prod_eq_iff)
  from telemetry_request_authentic [OF this] show ?thesis by (auto simp: sample_trim)
qed

text \<open>C14: what is issued is accepted. The secret that issuing a credential returns is not stored;
  until the credential expires, the holder of the secret is authenticated with it directly, and
  every well formed request it signs within the accepted window is accepted.\<close>

theorem issued_credential_accepted:
  assumes "digests_ok L" "db_inv d" "IssueLifecycleCredential L e d i rid act ttl = (Inr ic, d')" "clock_ok e"
    and "\<forall>k. env_io e' k" "env_now e' < cr_ExpiresAt (ic_Credential ic)"
    and "Canonical L hm p k t b = Inr canonical" "\<bar>time_Unix t - env_now e'\<bar> \<le> 5 * Minute"
  shows "fst (VerifyLifecycleMAC L e' d' i hm p k t b (Sign L (KeyFromSecret L (ic_Secret ic)) canonical)) = Inr ()
    \<and> \<not> isl (fst (AuthenticateLifecycleCredential L e' d' i (ic_Secret ic)))"
  using assms(3)
proof (rule IssueLifecycleCredential_Inr)
  fix c
  assume c: "TrimSpace i \<noteq> []" "lifecycle_credentials d' = lifecycle_credentials d @ [c]"
    "c = new_credential (cr_ID (ic_Credential ic)) (TrimSpace i) (lib_sha256 L (ic_Secret ic))
           (env_now e) (cr_ExpiresAt (ic_Credential ic))"
    "TrimSpace (ic_Secret ic) = ic_Secret ic" "length (ic_Secret ic) = 43"
    "TrimSpace i \<notin> lc_InstallationID ` set (lifecycle_credentials d)"
  have inv: "db_inv d'" using IssueLifecycleCredential_inv [OF assms(2), of L e i rid act ttl] assms(3) by simp
  have fields: "lc_InstallationID c = TrimSpace i" "lc_RevokedAt c = None" "lc_CreatedAt c = env_now e"
    "lc_ExpiresAt c = cr_ExpiresAt (ic_Credential ic)" "lc_SecretSHA256 c = lib_sha256 L (ic_Secret ic)"
    by (simp_all add: c(3) new_credential_def)
  have "c \<in> set (lifecycle_credentials d')" using c(2) by simp
  note find = query_credential [OF inv this] and mem = this
  have "ic_Secret ic \<noteq> []" using c(5) by auto
  have "RawURL_Decode (TrimSpace (Sign L (KeyFromSecret L (ic_Secret ic)) canonical)) =
      Some (lib_hmac L (lc_SecretSHA256 c) canonical)"
    by (simp add: Sign_def KeyFromSecret_def RawURL_roundtrip fields(5))
  then have "fst (VerifyLifecycleMAC L e' d' i hm p k t b (Sign L (KeyFromSecret L (ic_Secret ic)) canonical)) = Inr ()"
    using assms mem fields c(1) inv by (intro VerifyLifecycleMAC_accepts) (auto simp: telemetryAuthClockSkew_def)
  moreover have "\<not> isl (fst (AuthenticateLifecycleCredential L e' d' i (ic_Secret ic)))"
    using find fields c \<open>ic_Secret ic \<noteq> []\<close> assms(4-6)
    by (simp add: AuthenticateLifecycleCredential_def Let_def query_row_def credential_Active_def credential_of_row_def)
  ultimately show ?thesis by blast
qed

lemma sample_issue_succeeds:
  "isl (fst (IssueLifecycleCredential (sample_lib n) sample_env sample_db ''i_1'' ''req'' ''op'' 0)) = False"
  "env_now sample_env < cr_ExpiresAt (ic_Credential (projr (fst
     (IssueLifecycleCredential (sample_lib n) sample_env sample_db ''i_1'' ''req'' ''op'' 0))))"
  by (simp_all add: IssueLifecycleCredential_def Let_def sample_trim defaultLifecycleCredentialTTL_def duration_defs
      issue_tx_def query_row_def rand_Read_def insert_lifecycle_credential_def transact_def sample_env_def
      sample_db_def empty_db_def sample_spec_def sample_lib_def new_credential_def del: upt_Suc)

theorem issued_credential_accepted_witness:
  "let r = IssueLifecycleCredential (sample_lib 0) sample_env sample_db ''i_1'' ''req'' ''op'' 0
   in \<not> isl (fst (AuthenticateLifecycleCredential (sample_lib 0) sample_env (snd r) ''i_1'' (ic_Secret (projr (fst r)))))"
proof -
  let ?r = "IssueLifecycleCredential (sample_lib 0) sample_env sample_db ''i_1'' ''req'' ''op'' 0"
  note r = succeeded [OF sample_issue_succeeds(1) [of 0]]
  obtain canonical where "Canonical (sample_lib 0) ''POST'' ''/x'' ''k'' 1764403200 ''body'' = Inr canonical"
    using sample_canonical by blast
  from issued_credential_accepted [OF sample_lib_digests sample_db_inv r _ _ sample_issue_succeeds(2) this]
  show ?thesis by (simp add: time_Unix_def duration_defs)
qed

section \<open>Log chunks\<close>

lemma AppendInstallationLogChunk_new:
  assumes "AppendInstallationLogChunk L e d c = (Inr (v, False), d')"
  shows "chunk_Validate (c\<lparr>lg_Content := RedactLogContent (lg_Content c)\<rparr>) = None"
    and "lg_Sequence c = last_sequence (chunks_of (log_chunks d) (lg_InstallationID c)) + 1"
    and "log_bytes (chunks_of (log_chunks d) (lg_InstallationID c)) + length (RedactLogContent (lg_Content c))
      \<le> MaxInstallationLogBytes"
    and "log_chunks d' = log_chunks d @ [v]"
    and "lg_InstallationID v = lg_InstallationID c" "lg_Sequence v = lg_Sequence c"
      "lg_Content v = RedactLogContent (lg_Content c)" "lg_ReceivedAt v = env_now e"
proof -
  let ?c = "c\<lparr>lg_Content := RedactLogContent (lg_Content c),
      lg_Digest := ''sha256:'' @ hex_encode (lib_sha256 L (RedactLogContent (lg_Content c)))\<rparr>"
  obtain x where tx: "append_chunk_tx e d ?c = Inr ((v, False), x)" "x = Some d' \<or> x = None \<and> d' = d"
      and ok: "chunk_Validate (c\<lparr>lg_Content := RedactLogContent (lg_Content c)\<rparr>) = None"
    using assms by (auto simp: AppendInstallationLogChunk_def Let_def transact_Inr split: if_splits)
  show "chunk_Validate (c\<lparr>lg_Content := RedactLogContent (lg_Content c)\<rparr>) = None" by (rule ok)
  from tx(1) obtain d1 n where new:
      "lg_Sequence ?c = last_sequence (chunks_of (log_chunks d) (lg_InstallationID ?c)) + 1"
      "log_bytes (chunks_of (log_chunks d) (lg_InstallationID ?c)) + length (lg_Content ?c) \<le> MaxInstallationLogBytes"
      "insert_log_chunk d (?c\<lparr>lg_ReceivedAt := env_now e\<rparr>) = Some (d1, n)"
      "v = ?c\<lparr>lg_ReceivedAt := env_now e, lg_ID := n\<rparr>" "x = Some d1"
    by (cases rule: append_chunk_tx_Inr) auto
  then show "lg_Sequence c = last_sequence (chunks_of (log_chunks d) (lg_InstallationID c)) + 1"
    "log_bytes (chunks_of (log_chunks d) (lg_InstallationID c)) + length (RedactLogContent (lg_Content c))
      \<le> MaxInstallationLogBytes"
    "lg_InstallationID v = lg_InstallationID c" "lg_Sequence v = lg_Sequence c"
    "lg_Content v = RedactLogContent (lg_Content c)" "lg_ReceivedAt v = env_now e" by simp_all
  show "log_chunks d' = log_chunks d @ [v]"
    using new(3-5) tx(2) by (auto simp: insert_log_chunk_def Let_def split: if_splits)
qed

text \<open>The log of an installation is gapless, bounded and free of secrets. A chunk that is stored
  carries the next number of its installation and extends this log only; every line with a
  credential marker, in whatever letter case, has been replaced, NUL bytes are gone, and the log
  stays within sixteen mebibytes.\<close>

theorem log_chunk_stored:
  assumes "db_inv d" "AppendInstallationLogChunk L e d c = (Inr (v, False), d')"
  shows "lg_Sequence v = int (length (chunks_of (log_chunks d) (lg_InstallationID c))) + 1
    \<and> (\<forall>i. chunks_of (log_chunks d') i = chunks_of (log_chunks d) i @ (if i = lg_InstallationID c then [v] else []))
    \<and> lg_Content v = RedactLogContent (lg_Content c) \<and> no_sensitive_line (lg_Content v) \<and> NUL \<notin> set (lg_Content v)
    \<and> log_bytes (chunks_of (log_chunks d') (lg_InstallationID c)) \<le> MaxInstallationLogBytes"
proof -
  note new = AppendInstallationLogChunk_new [OF assms(2)]
  have "last_sequence (chunks_of (log_chunks d) i) = int (length (chunks_of (log_chunks d) i))" for i
    using db_invD(6) [OF assms(1)] last_sequence_contiguous by (auto simp: log_inv_def)
  moreover have "chunks_of (log_chunks d') i =
      chunks_of (log_chunks d) i @ (if i = lg_InstallationID c then [v] else [])" for i
    using new(4,5) by (simp add: chunks_of_def)
  ultimately show ?thesis
    using new(2,3,6,7) RedactLogContent_safe RedactLogContent_no_NUL by (simp add: log_bytes_def)
qed

definition sample_chunk :: LogChunk where
  "sample_chunk = \<lparr>lg_ID = 0, lg_InstallationID = ''i_1'', lg_Sequence = 1, lg_Source = SourceInstaller, lg_ReceivedAt = 0,
     lg_ClientAt = 0, lg_RequestID = ''req'', lg_IdempotencyKey = ''k'', lg_Content = ''ok'' @ [LF] @ ''Password=x'', lg_Digest = ''''\<rparr>"

lemma sample_chunk_redacted: "RedactLogContent (lg_Content sample_chunk) = ''ok'' @ [LF] @ redacted_line"
  by code_simp

lemma sample_chunk_accepted:
  "map_sum (\<lambda>f. ()) snd (fst (AppendInstallationLogChunk (sample_lib n) sample_env sample_live_db sample_chunk)) = Inr False"
proof -
  have key: "ValidateIdempotencyKey ''k'' = None" by code_simp
  show ?thesis
    unfolding AppendInstallationLogChunk_def Let_def sample_chunk_redacted
    by (simp add: sample_chunk_def chunk_Validate_def sample_trim log_sources_def key redacted_line_def MaxLogChunkBytes_def
      append_chunk_tx_def ensureInstallationExistsTx_def query_row_def last_sequence_def chunks_of_def log_bytes_def
      MaxInstallationLogBytes_def insert_log_chunk_def transact_def sample_live_db_def sample_db_def empty_db_def sample_spec_def)
qed

theorem log_chunk_stored_witness:
  "map lg_Content (chunks_of (log_chunks (snd (AppendInstallationLogChunk (sample_lib 0) sample_env sample_live_db sample_chunk)))
     ''i_1'') = [''ok'' @ [LF] @ redacted_line]"
proof -
  let ?r = "AppendInstallationLogChunk (sample_lib 0) sample_env sample_live_db sample_chunk"
  obtain v where "?r = (Inr (v, False), snd ?r)" using sample_chunk_accepted [of 0] by (cases ?r; cases "fst ?r") auto
  note stored = log_chunk_stored [OF sample_live_db_inv this]
  have "lg_InstallationID sample_chunk = ''i_1''" "log_chunks sample_live_db = []"
    by (simp_all add: sample_chunk_def sample_live_db_def sample_db_def empty_db_def)
  with stored [THEN conjunct2, THEN conjunct1, THEN spec, of "''i_1''"]
    stored [THEN conjunct2, THEN conjunct2, THEN conjunct1] sample_chunk_redacted
  show ?thesis by (simp add: chunks_of_def)
qed

lemma sort_key_sorted: "sorted (map f xs) \<Longrightarrow> sort_key f xs = xs"
  by (induction xs) (simp_all add: insort_is_Cons)

text \<open>
  reading the log gives its newest part, in order: the query takes the last chunks by descending
  number and the code turns them around, which for a gapless log is the end of the list of chunks
  as they were stored. A limit outside 1 to 1000 counts as 200.\<close>

theorem log_tail:
  assumes "db_inv d" "\<forall>k. env_io e k"
  shows "InstallationLogChunks e d i limit = Inr (let cs = chunks_of (log_chunks d) (TrimSpace i);
      n = (if 0 < limit \<and> limit \<le> 1000 then nat limit else 200) in drop (length cs - n) cs)"
proof -
  let ?cs = "chunks_of (log_chunks d) (TrimSpace i)"
  have "map lg_Sequence ?cs = map int [1..<length ?cs + 1]"
    using db_invD(6) [OF assms(1)] by (simp add: log_inv_def)
  moreover have "sorted (map int [1..<length ?cs + 1])"
    using sorted_upt [of 1 "length ?cs + 1"] by (simp add: sorted_map del: upt_Suc sorted_upt)
  ultimately have "sort_key lg_Sequence ?cs = ?cs"
    by (simp add: sort_key_sorted)
  then show ?thesis
    using assms(2) by (simp add: InstallationLogChunks_def read_rows_def list_limit_def take_rev Let_def)
qed

theorem log_tail_witness:
  "InstallationLogChunks sample_env sample_live_db ''i_1'' 5 = Inr []"
  using log_tail [OF sample_live_db_inv, of sample_env "''i_1''" 5]
  by (simp add: chunks_of_def sample_live_db_def sample_db_def empty_db_def)

end
