(* ===== verification/Store_Boot_Trust.thy ===== *)
theory Store_Boot_Trust
  imports Store_Telemetry
begin

text \<open>
  Boot trust in the store (internal/store/boot_trust.go): enrolment, approval and revocation of
  the keys of a machine, challenges, and the release of the lifecycle credential of an
  installation, encrypted to the key whose signature answered the challenge.
\<close>

section \<open>Queries\<close>

definition bootTrustChallengeTTL :: int where "bootTrustChallengeTTL = 2 * Minute"

definition lifecycleCredentialOAEPLabel :: string where
  "lifecycleCredentialOAEPLabel = ''AegisPXE lifecycle credential v1''"

definition trustBindingTx :: "env \<Rightarrow> nat \<Rightarrow> db \<Rightarrow> string \<Rightarrow> (string \<times> AssignmentState) result" where
  "trustBindingTx e k d installationID =
     (if \<not> env_io e k then Inl (Fault StorageFailure ''could not read installation trust binding'')
      else case List.find (\<lambda>s. sp_ID s = TrimSpace installationID) (installation_specs d) of
        None \<Rightarrow> Inl (Fault InstallationAssignmentNotFound ''installation assignment not found'')
      | Some s \<Rightarrow>
        (case List.find (\<lambda>a. as_InstallationID a = sp_ID s) (installation_assignments d) of
           None \<Rightarrow> Inl (Fault InstallationAssignmentNotFound ''installation assignment not found'')
         | Some a \<Rightarrow> Inr (sp_MachineID s, as_State a)))"

definition requireProvisionPolicyTx :: "env \<Rightarrow> nat \<Rightarrow> db \<Rightarrow> string \<Rightarrow> fault option" where
  "requireProvisionPolicyTx e k d machineID =
     (case query_row e k (\<lambda>m. m_ID m = machineID) (machines d) of
        Some None \<Rightarrow> Some (Fault MachineNotFound ''machine not found'')
      | None \<Rightarrow> Some (Fault StorageFailure ''could not read machine policy for boot trust'')
      | Some (Some m) \<Rightarrow>
          if m_Policy m \<noteq> PolicyProvision then
            Some (Fault BootTrustEnrollmentRequired ''machine is not approved for provisioning'')
          else None)"

definition bootTrustKeyTx :: "env \<Rightarrow> nat \<Rightarrow> db \<Rightarrow> string \<Rightarrow> string \<Rightarrow> Key result" where
  "bootTrustKeyTx e k d machineID fingerprint =
     (case query_row e k (\<lambda>x. k_MachineID x = TrimSpace machineID \<and> k_Fingerprint x = TrimSpace fingerprint)
             (boot_trust_keys d) of
        Some None \<Rightarrow> Inl (Fault BootTrustEnrollmentRequired ''boot trust key not enrolled'')
      | None \<Rightarrow> Inl (Fault StorageFailure ''could not read boot trust key'')
      | Some (Some item) \<Rightarrow> Inr item)"

definition challenge_of_row :: "ChallengeRow \<Rightarrow> Challenge" where
  "challenge_of_row r = \<lparr>c_ID = ch_ID r, c_InstallationID = ch_InstallationID r, c_MachineID = ch_MachineID r,
     c_KeyFingerprint = ch_KeyFingerprint r, c_Nonce = ch_Nonce r, c_CreatedAt = ch_CreatedAt r,
     c_ExpiresAt = ch_ExpiresAt r, c_UsedAt = scan_time (ch_UsedAt r), c_ResponseCipher = ch_ResponseCipher r,
     c_CredentialExpiry = scan_time (ch_CredentialExpiresAt r)\<rparr>"

definition bootTrustChallengeTx :: "env \<Rightarrow> nat \<Rightarrow> db \<Rightarrow> string \<Rightarrow> string \<Rightarrow> Challenge result" where
  "bootTrustChallengeTx e k d installationID challengeID =
     (case query_row e k (\<lambda>r. ch_ID r = challengeID \<and> ch_InstallationID r = installationID)
             (boot_trust_challenges d) of
        Some None \<Rightarrow> Inl (Fault BootTrustProofInvalid ''boot trust challenge not found'')
      | None \<Rightarrow> Inl (Fault StorageFailure ''could not read boot trust challenge'')
      | Some (Some r) \<Rightarrow> Inr (challenge_of_row r))"

section \<open>Keys\<close>

definition pending_key :: "string \<Rightarrow> string \<Rightarrow> string \<Rightarrow> string \<Rightarrow> time \<Rightarrow> Key" where
  "pending_key fingerprint machineID publicKeyPEM ekFingerprint now =
     \<lparr>k_Fingerprint = fingerprint, k_MachineID = machineID, k_PublicKeyPEM = publicKeyPEM,
      k_EKFingerprint = ekFingerprint, k_State = KeyPending, k_FirstSeenAt = now, k_LastSeenAt = now,
      k_ApprovedAt = 0, k_ApprovedBy = '''', k_RevokedAt = 0, k_RevokedBy = ''''\<rparr>"

definition touch_key :: "string \<Rightarrow> time \<Rightarrow> Key \<Rightarrow> Key" where
  "touch_key ekFingerprint now k =
     k\<lparr>k_LastSeenAt := now,
       k_EKFingerprint := (if k_EKFingerprint k = '''' then ekFingerprint else k_EKFingerprint k)\<rparr>"

definition enroll_key :: "env \<Rightarrow> db \<Rightarrow> string \<Rightarrow> string \<Rightarrow> Key \<Rightarrow> (Key \<times> bool, db) tx_body" where
  "enroll_key e d installationID requestID item =
     (case query_row e 4 (\<lambda>x. k_Fingerprint x = k_Fingerprint item) (boot_trust_keys d) of
        None \<Rightarrow> Inl (storageError ''check boot trust key uniqueness'')
      | Some other \<Rightarrow>
        if (case other of Some x \<Rightarrow> k_MachineID x \<noteq> k_MachineID item | None \<Rightarrow> False) then
          Inl (Fault BootTrustKeyInvalid ''boot trust key is already bound to another machine'')
        else case (if env_io e 5 then insert_boot_trust_key d item else None) of
          None \<Rightarrow> Inl (storageError ''persist boot trust key'')
        | Some d1 \<Rightarrow>
          if \<not> env_io e 6 then Inl (storageError ''persist boot trust discovery event'')
          else Inr ((item, True), Some (appendEventTx d1 (event_row ''installation'' installationID
                 ''BOOT_TRUST_KEY_DISCOVERED'' (env_now e) requestID ''boottrust:client''
                 ''TPM-bound boot trust key awaits operator approval''))))"

definition register_tx :: "env \<Rightarrow> db \<Rightarrow> string \<Rightarrow> string \<Rightarrow> string \<Rightarrow> string \<Rightarrow> string \<Rightarrow> (Key \<times> bool, db) tx_body" where
  "register_tx e d installationID publicKeyPEM fingerprint ekFingerprint requestID =
     (case trustBindingTx e 1 d installationID of
        Inl err \<Rightarrow> Inl err
      | Inr (machineID, assignmentState) \<Rightarrow>
        if assignmentState = StateCancelled then
          Inl (Fault BootTrustEnrollmentRequired ''cancelled installation cannot enroll boot trust'')
        else case requireProvisionPolicyTx e 2 d machineID of
          Some err \<Rightarrow> Inl err
        | None \<Rightarrow>
          let now = env_now e in
          (case bootTrustKeyTx e 3 d machineID fingerprint of
             Inr existing \<Rightarrow>
               if k_PublicKeyPEM existing \<noteq> publicKeyPEM
                  \<or> k_EKFingerprint existing \<noteq> '''' \<and> ekFingerprint \<noteq> '''' \<and> k_EKFingerprint existing \<noteq> ekFingerprint then
                 Inl (Fault BootTrustKeyInvalid ''boot trust fingerprint collision or binding mismatch'')
               else if k_State existing = KeyRevoked then
                 Inl (Fault BootTrustEnrollmentRequired ''boot trust key was revoked'')
               else if \<not> env_io e 7 then Inl (storageError ''touch boot trust enrollment'')
               else Inr ((touch_key ekFingerprint now existing, False),
                      Some (d\<lparr>boot_trust_keys := update_where
                        (\<lambda>x. k_Fingerprint x = fingerprint \<and> k_MachineID x = machineID)
                        (touch_key ekFingerprint now) (boot_trust_keys d)\<rparr>))
           | Inl err \<Rightarrow>
               if Code err \<noteq> BootTrustEnrollmentRequired then Inl err
               else enroll_key e d installationID requestID
                      (pending_key fingerprint machineID publicKeyPEM ekFingerprint now)))"

definition RegisterBootTrustKey ::
  "golib \<Rightarrow> env \<Rightarrow> db \<Rightarrow> string \<Rightarrow> string \<Rightarrow> string \<Rightarrow> string \<Rightarrow> (Key \<times> bool) result \<times> db" where
  "RegisterBootTrustKey L e d installationID0 publicKeyPEM0 ekFingerprint0 requestID =
     (let installationID = TrimSpace installationID0; publicKeyPEM = TrimSpace publicKeyPEM0;
          ekFingerprint = TrimSpace ekFingerprint0 in
      case ParseRSAPublicKeyPEM L publicKeyPEM of
        Inl _ \<Rightarrow> (Inl (Fault BootTrustKeyInvalid ''boot trust key is invalid''), d)
      | Inr (publicKey, fingerprint) \<Rightarrow>
        if ValidateEKFingerprint ekFingerprint \<noteq> None then
          (Inl (Fault BootTrustKeyInvalid ''TPM endorsement fingerprint is invalid''), d)
        else let body = register_tx e d installationID publicKeyPEM fingerprint ekFingerprint requestID in
          transact e 0 ''begin boot trust enrollment'' 8
            (case body of Inr ((_, False), _) \<Rightarrow> ''commit boot trust enrollment refresh''
             | _ \<Rightarrow> ''commit boot trust enrollment'') d body)"

definition approve_row :: "time \<Rightarrow> string \<Rightarrow> Key \<Rightarrow> Key" where
  "approve_row now actor k = k\<lparr>k_State := KeyApproved, k_ApprovedAt := now, k_ApprovedBy := actor\<rparr>"

definition revoke_row :: "time \<Rightarrow> string \<Rightarrow> Key \<Rightarrow> Key" where
  "revoke_row now actor k = k\<lparr>k_State := KeyRevoked, k_RevokedAt := now, k_RevokedBy := actor\<rparr>"

text \<open>
  The UPDATE that approves a key cannot violate the index on the approved key of a machine:
  the query before it has shown that there is none, or that it is this very key.
\<close>

definition approve_tx :: "env \<Rightarrow> db \<Rightarrow> string \<Rightarrow> string \<Rightarrow> string \<Rightarrow> string \<Rightarrow> (Key, db) tx_body" where
  "approve_tx e d machineID fingerprint requestID actor =
     (case bootTrustKeyTx e 1 d machineID fingerprint of
        Inl err \<Rightarrow> Inl err
      | Inr item \<Rightarrow>
        if k_State item = KeyRevoked then
          Inl (Fault BootTrustEnrollmentRequired ''revoked boot trust key cannot be approved'')
        else if k_State item = KeyApproved then Inr (item, None)
        else case query_row e 2 (\<lambda>x. k_MachineID x = machineID \<and> k_State x = KeyApproved) (boot_trust_keys d) of
          None \<Rightarrow> Inl (storageError ''check approved boot trust key'')
        | Some approved \<Rightarrow>
          if (case approved of Some x \<Rightarrow> k_Fingerprint x \<noteq> fingerprint | None \<Rightarrow> False) then
            Inl (Fault BootTrustEnrollmentRequired ''machine already has a different approved boot trust key'')
          else let now = env_now e in
          if \<not> env_io e 3 then Inl (storageError ''approve boot trust key'')
          else let d1 = d\<lparr>boot_trust_keys := update_where
                 (\<lambda>x. k_MachineID x = machineID \<and> k_Fingerprint x = fingerprint \<and> k_State x = KeyPending)
                 (approve_row now actor) (boot_trust_keys d)\<rparr> in
          if \<not> env_io e 4 then Inl (storageError ''persist boot trust approval event'')
          else Inr (approve_row now actor item, Some (appendEventTx d1 (event_row ''machine'' machineID
                 ''BOOT_TRUST_KEY_APPROVED'' now requestID actor ''TPM-bound boot trust key explicitly approved''))))"

definition ApproveBootTrustKey :: "env \<Rightarrow> db \<Rightarrow> string \<Rightarrow> string \<Rightarrow> string \<Rightarrow> string \<Rightarrow> Key result \<times> db" where
  "ApproveBootTrustKey e d machineID0 fingerprint0 requestID actor0 =
     (let machineID = TrimSpace machineID0; fingerprint = TrimSpace fingerprint0; actor = TrimSpace actor0 in
      if machineID = [] \<or> fingerprint = [] \<or> actor = [] then
        (Inl (Fault BootTrustKeyInvalid ''machine, fingerprint and actor are required''), d)
      else transact e 0 ''begin boot trust approval'' 5 ''commit boot trust approval'' d
        (approve_tx e d machineID fingerprint requestID actor))"

definition revoke_tx :: "env \<Rightarrow> db \<Rightarrow> string \<Rightarrow> string \<Rightarrow> string \<Rightarrow> string \<Rightarrow> (Key, db) tx_body" where
  "revoke_tx e d machineID fingerprint requestID actor =
     (case bootTrustKeyTx e 1 d machineID fingerprint of
        Inl err \<Rightarrow> Inl err
      | Inr item \<Rightarrow>
        if k_State item = KeyRevoked then Inr (item, None)
        else let now = env_now e in
        if \<not> env_io e 2 then Inl (storageError ''revoke boot trust key'')
        else let d1 = d\<lparr>boot_trust_keys := update_where
               (\<lambda>x. k_MachineID x = machineID \<and> k_Fingerprint x = fingerprint)
               (revoke_row now actor) (boot_trust_keys d)\<rparr> in
        if \<not> env_io e 3 then Inl (storageError ''persist boot trust revocation event'')
        else Inr (revoke_row now actor item, Some (appendEventTx d1 (event_row ''machine'' machineID
               ''BOOT_TRUST_KEY_REVOKED'' now requestID actor ''TPM-bound boot trust key revoked''))))"

definition RevokeBootTrustKey :: "env \<Rightarrow> db \<Rightarrow> string \<Rightarrow> string \<Rightarrow> string \<Rightarrow> string \<Rightarrow> Key result \<times> db" where
  "RevokeBootTrustKey e d machineID0 fingerprint0 requestID actor0 =
     (let machineID = TrimSpace machineID0; fingerprint = TrimSpace fingerprint0; actor = TrimSpace actor0 in
      transact e 0 ''begin boot trust revocation'' 4 ''commit boot trust revocation'' d
        (revoke_tx e d machineID fingerprint requestID actor))"

section \<open>Challenges\<close>

definition new_challenge :: "string \<Rightarrow> string \<Rightarrow> string \<Rightarrow> string \<Rightarrow> string \<Rightarrow> time \<Rightarrow> ChallengeRow" where
  "new_challenge i installationID machineID fingerprint nonce now =
     \<lparr>ch_ID = i, ch_InstallationID = installationID, ch_MachineID = machineID, ch_KeyFingerprint = fingerprint,
      ch_Nonce = nonce, ch_CreatedAt = now, ch_ExpiresAt = now + bootTrustChallengeTTL, ch_UsedAt = None,
      ch_ResponseCipher = '''', ch_CredentialExpiresAt = None\<rparr>"

definition challenge_tx :: "env \<Rightarrow> db \<Rightarrow> string \<Rightarrow> string \<Rightarrow> (Challenge, db) tx_body" where
  "challenge_tx e d installationID fingerprint =
     (case trustBindingTx e 1 d installationID of
        Inl err \<Rightarrow> Inl err
      | Inr (machineID, assignmentState) \<Rightarrow>
        if assignmentState = StateCancelled then
          Inl (Fault BootTrustEnrollmentRequired ''installation assignment is cancelled'')
        else case requireProvisionPolicyTx e 2 d machineID of
          Some err \<Rightarrow> Inl err
        | None \<Rightarrow>
          (case bootTrustKeyTx e 3 d machineID fingerprint of
             Inl _ \<Rightarrow> Inl (Fault BootTrustEnrollmentRequired ''approved boot trust key is required'')
           | Inr key \<Rightarrow>
             if k_State key \<noteq> KeyApproved then
               Inl (Fault BootTrustEnrollmentRequired ''approved boot trust key is required'')
             else case idgen_New e 0 ''btc_'' of
               None \<Rightarrow> Inl (Fault StorageFailure ''could not allocate boot trust challenge'')
             | Some i \<Rightarrow>
               (case rand_Read e 1 32 of
                  None \<Rightarrow> Inl (Fault StorageFailure ''could not generate boot trust challenge'')
                | Some nonce \<Rightarrow>
                  let row = new_challenge i installationID machineID fingerprint nonce (env_now e) in
                  (case (if env_io e 4 then insert_challenge d row else None) of
                     None \<Rightarrow> Inl (storageError ''persist boot trust challenge'')
                   | Some d1 \<Rightarrow> Inr (challenge_of_row row, Some d1)))))"

definition CreateBootTrustChallenge :: "env \<Rightarrow> db \<Rightarrow> string \<Rightarrow> string \<Rightarrow> string \<Rightarrow> Challenge result \<times> db" where
  "CreateBootTrustChallenge e d installationID0 fingerprint0 requestID =
     (let installationID = TrimSpace installationID0; fingerprint = TrimSpace fingerprint0 in
      transact e 0 ''begin boot trust challenge'' 5 ''commit boot trust challenge'' d
        (challenge_tx e d installationID fingerprint))"

section \<open>Release of the lifecycle credential\<close>

definition release_of :: "Challenge \<Rightarrow> Release" where
  "release_of c = \<lparr>rl_ChallengeID = c_ID c, rl_Ciphertext = c_ResponseCipher c,
     rl_Algorithm = ''RSA-OAEP-SHA256'', rl_CredentialExpiry = c_CredentialExpiry c, rl_Duplicate = True\<rparr>"

text \<open>
  The checks a proof has to pass, in the order of the code, with the machine and the public key
  it was proved for.
\<close>

definition check_proof :: "golib \<Rightarrow> env \<Rightarrow> db \<Rightarrow> Challenge \<Rightarrow> string \<Rightarrow> string \<Rightarrow> (string \<times> pkix_key) result" where
  "check_proof L e d challenge installationID signature =
     (if \<not> c_ExpiresAt challenge > env_now e then
        Inl (Fault BootTrustChallengeExpired ''boot trust challenge expired'')
      else case trustBindingTx e 2 d installationID of
        Inl err \<Rightarrow> Inl err
      | Inr (machineID, assignmentState) \<Rightarrow>
        if machineID \<noteq> c_MachineID challenge \<or> assignmentState = StateCancelled then
          Inl (Fault BootTrustProofInvalid ''boot trust challenge binding is no longer valid'')
        else case requireProvisionPolicyTx e 3 d machineID of
          Some err \<Rightarrow> Inl err
        | None \<Rightarrow>
          (case bootTrustKeyTx e 4 d machineID (c_KeyFingerprint challenge) of
             Inl _ \<Rightarrow> Inl (Fault BootTrustEnrollmentRequired ''approved boot trust key is required'')
           | Inr key \<Rightarrow>
             if k_State key \<noteq> KeyApproved then
               Inl (Fault BootTrustEnrollmentRequired ''approved boot trust key is required'')
             else case ParseRSAPublicKeyPEM L (k_PublicKeyPEM key) of
               Inl _ \<Rightarrow> Inl (Fault BootTrustKeyInvalid ''stored boot trust key is invalid'')
             | Inr (publicKey, fingerprint) \<Rightarrow>
               if fingerprint \<noteq> c_KeyFingerprint challenge then
                 Inl (Fault BootTrustKeyInvalid ''stored boot trust key is invalid'')
               else case CanonicalChallenge challenge of
                 Inl _ \<Rightarrow> Inl (Fault BootTrustProofInvalid ''boot trust challenge is invalid'')
               | Inr canonical \<Rightarrow>
                 if \<not> lib_rsa_verify L publicKey (lib_sha256 L canonical) signature then
                   Inl (Fault BootTrustProofInvalid ''boot trust signature did not verify'')
                 else Inr (machineID, publicKey)))"

definition use_challenge :: "db \<Rightarrow> string \<Rightarrow> time \<Rightarrow> string \<Rightarrow> time \<Rightarrow> db" where
  "use_challenge d challengeID now ciphertext credentialExpiry =
     d\<lparr>boot_trust_challenges := update_where (\<lambda>r. ch_ID r = challengeID \<and> ch_UsedAt r = None)
         (\<lambda>r. r\<lparr>ch_UsedAt := Some now, ch_ResponseCipher := ciphertext,
              ch_CredentialExpiresAt := Some credentialExpiry\<rparr>) (boot_trust_challenges d)\<rparr>"

definition release_tx ::
  "golib \<Rightarrow> env \<Rightarrow> db \<Rightarrow> Challenge \<Rightarrow> string \<Rightarrow> string \<Rightarrow> pkix_key \<Rightarrow> string \<Rightarrow> (Release, db) tx_body" where
  "release_tx L e d challenge installationID machineID publicKey requestID =
     (case query_row e 5 (\<lambda>s. sp_ID s = installationID \<and> sp_MachineID s = machineID) (installation_specs d) of
        Some None \<Rightarrow> Inl (Fault InstallationNotFound ''installation not found'')
      | None \<Rightarrow> Inl (storageError ''read lifecycle credential identifier for trust release'')
      | Some (Some spec) \<Rightarrow>
        (case query_row e 6 (\<lambda>c. lc_InstallationID c = installationID) (lifecycle_credentials d) of
           Some (Some c) \<Rightarrow> Inl (Fault InstallerTelemetryConflict
             ''installation lifecycle credential already exists and cannot be re-revealed'')
         | None \<Rightarrow> Inl (storageError ''check lifecycle credential before trust release'')
         | Some None \<Rightarrow>
           (case rand_Read e 0 32 of
              None \<Rightarrow> Inl (Fault StorageFailure ''could not generate lifecycle credential'')
            | Some secretBytes \<Rightarrow>
              let secret = RawURL_Encode secretBytes; now = env_now e;
                  credentialExpiry = now + defaultLifecycleCredentialTTL in
              (case (case env_rand e 1 of None \<Rightarrow> None
                     | Some rnd \<Rightarrow> lib_rsa_encrypt L publicKey rnd secret (lifecycleCredentialOAEPLabel @ [NUL])) of
                 None \<Rightarrow> Inl (Fault BootTrustKeyInvalid
                   ''could not encrypt lifecycle credential to boot trust key'')
               | Some ciphertext \<Rightarrow>
                 (case (if env_io e 7 then insert_lifecycle_credential d (new_credential
                          (sp_LifecycleCredentialID spec) installationID (lib_sha256 L secret) now credentialExpiry)
                        else None) of
                    None \<Rightarrow> Inl (storageError ''persist trust-released lifecycle credential'')
                  | Some d1 \<Rightarrow>
                    if \<not> env_io e 8 then Inl (storageError ''consume boot trust challenge'')
                    else let d2 = use_challenge d1 (c_ID challenge) now ciphertext credentialExpiry in
                    if \<not> env_io e 9 then Inl (storageError ''persist boot trust verification event'')
                    else Inr (\<lparr>rl_ChallengeID = c_ID challenge, rl_Ciphertext = ciphertext,
                             rl_Algorithm = ''RSA-OAEP-SHA256'', rl_CredentialExpiry = credentialExpiry,
                             rl_Duplicate = False\<rparr>,
                           Some (appendEventTx d2 (event_row ''installation'' installationID ''BOOT_TRUST_VERIFIED''
                             now requestID ''boottrust:tpm''
                             ''TPM-bound proof verified; encrypted lifecycle credential released''))))))))"

definition complete_tx :: "golib \<Rightarrow> env \<Rightarrow> db \<Rightarrow> string \<Rightarrow> string \<Rightarrow> string \<Rightarrow> string \<Rightarrow> (Release, db) tx_body" where
  "complete_tx L e d installationID challengeID signature requestID =
     (case bootTrustChallengeTx e 1 d installationID challengeID of
        Inl err \<Rightarrow> Inl err
      | Inr challenge \<Rightarrow>
        if \<not> IsZero (c_UsedAt challenge) then
          (if c_ResponseCipher challenge = [] \<or> IsZero (c_CredentialExpiry challenge) then
             Inl (Fault BootTrustReplayRejected ''used challenge has no reusable response'')
           else Inr (release_of challenge, None))
        else case check_proof L e d challenge installationID signature of
          Inl err \<Rightarrow> Inl err
        | Inr (machineID, publicKey) \<Rightarrow>
            release_tx L e d challenge installationID machineID publicKey requestID)"

definition CompleteBootTrustChallenge ::
  "golib \<Rightarrow> env \<Rightarrow> db \<Rightarrow> string \<Rightarrow> string \<Rightarrow> string \<Rightarrow> string \<Rightarrow> Release result \<times> db" where
  "CompleteBootTrustChallenge L e d installationID0 challengeID0 signature requestID =
     (let installationID = TrimSpace installationID0; challengeID = TrimSpace challengeID0 in
      if installationID = [] \<or> challengeID = [] \<or> signature = [] \<or> length signature > 1024 then
        (Inl (Fault BootTrustProofInvalid ''boot trust proof is invalid''), d)
      else transact e 0 ''begin boot trust proof'' 10 ''commit boot trust proof'' d
        (complete_tx L e d installationID challengeID signature requestID))"

section \<open>What the statements keep\<close>

lemma update_keys_inv:
  assumes "db_inv d" and keys: "\<And>k. k_Fingerprint (f k) = k_Fingerprint k \<and> k_MachineID (f k) = k_MachineID k"
    and states: "\<And>k. k \<in> set (boot_trust_keys d) \<Longrightarrow> p k \<Longrightarrow> k_State (f k) \<in> set [KeyPending, KeyApproved, KeyRevoked]"
    and approved: "distinct (map k_MachineID (approved_rows (update_where p f (boot_trust_keys d))))"
  shows "db_inv (d\<lparr>boot_trust_keys := update_where p f (boot_trust_keys d)\<rparr>)"
proof (rule db_inv_keys [OF assms(1)])
  let ?t = "boot_trust_keys d"
  have fps: "map k_Fingerprint (update_where p f ?t) = map k_Fingerprint ?t"
    using keys by (auto intro!: map_update_where)
  then show "key_inv (machines d) (update_where p f ?t)"
    using db_invD(7) [OF assms(1)] keys states approved
    by (auto simp: key_inv_def set_update_where)
  have "map (\<lambda>k. (k_Fingerprint k, k_MachineID k)) (update_where p f ?t) =
      map (\<lambda>k. (k_Fingerprint k, k_MachineID k)) ?t"
    by (rule map_update_where) (simp add: keys)
  from arg_cong [OF this, of set] show "key_bindings ?t \<subseteq> key_bindings (update_where p f ?t)"
    by simp
qed

lemma key_state_known: "db_inv d \<Longrightarrow> k \<in> set (boot_trust_keys d) \<Longrightarrow> k_State k \<in> set [KeyPending, KeyApproved, KeyRevoked]"
  by (auto simp: key_inv_def dest!: db_invD(7))

lemma touch_keys_inv:
  assumes "db_inv d"
  shows "db_inv (d\<lparr>boot_trust_keys := update_where p (touch_key ek t) (boot_trust_keys d)\<rparr>)"
proof (rule update_keys_inv [OF assms])
  show "distinct (map k_MachineID (approved_rows (update_where p (touch_key ek t) (boot_trust_keys d))))"
    using db_invD(7) [OF assms]
    by (simp add: filter_update_where map_update_where touch_key_def key_inv_def)
qed (auto simp: touch_key_def dest: key_state_known [OF assms])

lemma revoke_keys_inv:
  assumes "db_inv d"
  shows "db_inv (d\<lparr>boot_trust_keys := update_where p (revoke_row t act) (boot_trust_keys d)\<rparr>)"
proof (rule update_keys_inv [OF assms])
  have "approved_rows (update_where p (revoke_row t act) ks) = filter (\<lambda>k. \<not> p k) (approved_rows ks)" for ks
    unfolding update_where_def by (induction ks) (auto simp: revoke_row_def)
  then show "distinct (map k_MachineID (approved_rows (update_where p (revoke_row t act) (boot_trust_keys d))))"
    using db_invD(7) [OF assms] by (simp add: key_inv_def distinct_map_filter del: filter_filter)
qed (auto simp: revoke_row_def)

lemma approve_key_inv:
  assumes "db_inv d" and none: "m \<notin> k_MachineID ` set (approved_rows (boot_trust_keys d))"
  shows "db_inv (d\<lparr>boot_trust_keys := update_where
      (\<lambda>x. k_MachineID x = m \<and> k_Fingerprint x = fp \<and> k_State x = KeyPending) (approve_row t act) (boot_trust_keys d)\<rparr>)"
    (is "db_inv (d\<lparr>boot_trust_keys := ?u\<rparr>)")
proof (rule update_keys_inv [OF assms(1)])
  let ?t = "boot_trust_keys d"
  have inv: "key_inv (machines d) ?t" by (rule db_invD(7) [OF assms(1)])
  have "map k_Fingerprint ?u = map k_Fingerprint ?t"
    by (rule map_update_where) (simp add: approve_row_def)
  then have fps: "distinct (map k_Fingerprint ?u)" using inv by (simp add: key_inv_def)
  then have "distinct (approved_rows ?u)" by (intro distinct_filter) (simp add: distinct_map)
  moreover have "inj_on k_MachineID (set (approved_rows ?u))"
  proof (rule inj_onI)
    fix x y
    assume x: "x \<in> set (approved_rows ?u)" and y: "y \<in> set (approved_rows ?u)" and eq: "k_MachineID x = k_MachineID y"
    have kind: "z \<in> set (approved_rows ?t) \<or> k_MachineID z = m \<and> k_Fingerprint z = fp"
      if "z \<in> set (approved_rows ?u)" for z
      using that by (auto simp: set_update_where approve_row_def split: if_splits)
    have old: "inj_on k_MachineID (set (approved_rows ?t))" using inv by (simp add: key_inv_def distinct_map)
    consider "x \<in> set (approved_rows ?t)" "y \<in> set (approved_rows ?t)"
      | "k_Fingerprint x = fp" "k_Fingerprint y = fp"
      using kind [OF x] kind [OF y] none eq by (metis image_eqI)
    then show "x = y"
    proof cases
      case 1
      with old eq show ?thesis by (auto dest: inj_onD)
    next
      case 2
      with fps x y show ?thesis by (auto intro: distinct_key_eq)
    qed
  qed
  ultimately show "distinct (map k_MachineID (approved_rows ?u))" by (simp add: distinct_map)
qed (auto simp: approve_row_def)

lemma insert_boot_trust_key_inv: "insert_boot_trust_key d k = Some d' \<Longrightarrow> db_inv d \<Longrightarrow> db_inv d'"
  by (auto simp: insert_boot_trust_key_def key_inv_def dest: db_invD(7) intro!: db_inv_keys split: if_splits)

lemma insert_challenge_inv:
  assumes "insert_challenge d c = Some d'" "db_inv d"
    and "(ch_InstallationID c, ch_MachineID c) \<in> spec_bindings (installation_specs d)"
      "(ch_KeyFingerprint c, ch_MachineID c) \<in> key_bindings (boot_trust_keys d)" "ch_UsedAt c = None"
  shows "db_inv d'"
proof -
  have "chal_inv (installation_specs d) (boot_trust_keys d) (lifecycle_credentials d) (boot_trust_challenges d @ [c])"
    using assms db_invD(8) [OF assms(2)] by (auto simp: insert_challenge_def chal_inv_def split: if_splits)
  with assms(1,2) show ?thesis
    by (auto simp: insert_challenge_def intro: db_inv_challenges split: if_splits)
qed

lemma use_challenge_inv:
  assumes "db_inv d" and "\<And>r. r \<in> set (boot_trust_challenges d) \<Longrightarrow> ch_ID r = c \<Longrightarrow>
      ch_InstallationID r \<in> lc_InstallationID ` set (lifecycle_credentials d)"
  shows "db_inv (use_challenge d c t x y)"
proof -
  let ?p = "\<lambda>r. ch_ID r = c \<and> ch_UsedAt r = None"
  let ?f = "\<lambda>r. r\<lparr>ch_UsedAt := Some t, ch_ResponseCipher := x, ch_CredentialExpiresAt := Some y\<rparr>"
  have ids: "map ch_ID (update_where ?p ?f (boot_trust_challenges d)) = map ch_ID (boot_trust_challenges d)"
    by (rule map_update_where) simp
  have "chal_inv (installation_specs d) (boot_trust_keys d) (lifecycle_credentials d)
      (update_where ?p ?f (boot_trust_challenges d))"
    using assms(2) db_invD(8) [OF assms(1)] unfolding chal_inv_def ids
    by (auto simp: set_update_where)
  with assms(1) show ?thesis unfolding use_challenge_def by (rule db_inv_challenges)
qed

section \<open>What the queries and checks establish\<close>

lemma trustBindingTx_Inr:
  "trustBindingTx e k d i = Inr (m, st) \<Longrightarrow>
   (TrimSpace i, m) \<in> spec_bindings (installation_specs d) \<and> assignment_state d (TrimSpace i) = Some st"
  using find_SomeD [of "\<lambda>s. sp_ID s = TrimSpace i" "installation_specs d"]
  by (auto simp: trustBindingTx_def assignment_state_def split: if_splits option.splits) force

lemma requireProvisionPolicyTx_None:
  "requireProvisionPolicyTx e k d m = None \<Longrightarrow> policy_of d m = Some PolicyProvision"
  by (auto simp: requireProvisionPolicyTx_def policy_of_def query_row_def split: if_splits option.splits)

lemma bootTrustKeyTx_Inr:
  "bootTrustKeyTx e n d m fp = Inr k \<Longrightarrow>
   k \<in> set (boot_trust_keys d) \<and> k_MachineID k = TrimSpace m \<and> k_Fingerprint k = TrimSpace fp"
  by (auto simp: bootTrustKeyTx_def result_simps dest!: find_SomeD)

lemma bootTrustChallengeTx_Inr:
  "bootTrustChallengeTx e k d i c = Inr x \<Longrightarrow>
   \<exists>r \<in> set (boot_trust_challenges d). ch_ID r = c \<and> ch_InstallationID r = i \<and> x = challenge_of_row r"
  by (auto simp: bootTrustChallengeTx_def result_simps dest!: find_SomeD)

lemma machine_of_spec_trimmed:
  assumes "db_inv d" "(i, m) \<in> spec_bindings (installation_specs d)"
  shows "TrimSpace m = m"
  using assms db_invD(1,2) [OF assms(1)] by (force simp: mach_inv_def spec_inv_def)

text \<open>What a proof that is accepted has shown.\<close>

lemma check_proof_Inr:
  assumes "check_proof L e d c i s = Inr (m, pk)"
  obtains st k canonical where "c_ExpiresAt c > env_now e"
    "(TrimSpace i, m) \<in> spec_bindings (installation_specs d)" "m = c_MachineID c"
    "assignment_state d (TrimSpace i) = Some st" "st \<noteq> StateCancelled"
    "policy_of d m = Some PolicyProvision"
    "k \<in> set (boot_trust_keys d)" "k_MachineID k = TrimSpace m" "k_Fingerprint k = TrimSpace (c_KeyFingerprint c)"
    "k_State k = KeyApproved" "ParseRSAPublicKeyPEM L (k_PublicKeyPEM k) = Inr (pk, c_KeyFingerprint c)"
    "CanonicalChallenge c = Inr canonical" "lib_rsa_verify L pk (lib_sha256 L canonical) s"
proof -
  obtain st where 1: "c_ExpiresAt c > env_now e" "trustBindingTx e 2 d i = Inr (m, st)"
      "m = c_MachineID c" "st \<noteq> StateCancelled" "requireProvisionPolicyTx e 3 d m = None"
    using assms by (auto simp: check_proof_def split: if_splits sum.splits prod.splits option.splits)
  obtain k where 2: "bootTrustKeyTx e 4 d m (c_KeyFingerprint c) = Inr k" "k_State k = KeyApproved"
    using assms 1 by (auto simp: check_proof_def split: if_splits sum.splits)
  have 3: "ParseRSAPublicKeyPEM L (k_PublicKeyPEM k) = Inr (pk, c_KeyFingerprint c)"
      "\<exists>canonical. CanonicalChallenge c = Inr canonical \<and> lib_rsa_verify L pk (lib_sha256 L canonical) s"
    using assms 1 2 by (auto simp: check_proof_def split: if_splits sum.splits prod.splits)
  from 3(2) obtain canonical where "CanonicalChallenge c = Inr canonical"
      "lib_rsa_verify L pk (lib_sha256 L canonical) s" by auto
  with that 1 2(2) 3(1) trustBindingTx_Inr [OF 1(2)] requireProvisionPolicyTx_None [OF 1(5)]
    bootTrustKeyTx_Inr [OF 2(1)] show ?thesis by blast
qed

lemma release_tx_Inr:
  assumes "release_tx L e d c i m pk rid = Inr (r, x)"
  obtains spec secret rnd ct d1 v where "spec \<in> set (installation_specs d)" "sp_ID spec = i" "sp_MachineID spec = m"
    "i \<notin> lc_InstallationID ` set (lifecycle_credentials d)"
    "rand_Read e 0 32 = Some secret" "env_rand e 1 = Some rnd"
    "lib_rsa_encrypt L pk rnd (RawURL_Encode secret) (lifecycleCredentialOAEPLabel @ [NUL]) = Some ct"
    "insert_lifecycle_credential d (new_credential (sp_LifecycleCredentialID spec) i
       (lib_sha256 L (RawURL_Encode secret)) (env_now e) (env_now e + defaultLifecycleCredentialTTL)) = Some d1"
    "x = Some (appendEventTx (use_challenge d1 (c_ID c) (env_now e) ct
       (env_now e + defaultLifecycleCredentialTTL)) v)"
    "rl_Ciphertext r = ct" "rl_ChallengeID r = c_ID c" "rl_Algorithm r = ''RSA-OAEP-SHA256''" "\<not> rl_Duplicate r"
    "rl_CredentialExpiry r = env_now e + defaultLifecycleCredentialTTL"
proof -
  obtain spec secret ct d1 v where 1:
      "List.find (\<lambda>s. sp_ID s = i \<and> sp_MachineID s = m) (installation_specs d) = Some spec"
      "List.find (\<lambda>c. lc_InstallationID c = i) (lifecycle_credentials d) = None" "rand_Read e 0 32 = Some secret"
      "(case env_rand e 1 of None \<Rightarrow> None | Some rnd \<Rightarrow>
         lib_rsa_encrypt L pk rnd (RawURL_Encode secret) (lifecycleCredentialOAEPLabel @ [NUL])) = Some ct"
      "(if env_io e 7 then insert_lifecycle_credential d (new_credential (sp_LifecycleCredentialID spec) i
         (lib_sha256 L (RawURL_Encode secret)) (env_now e) (env_now e + defaultLifecycleCredentialTTL)) else None) = Some d1"
      "Inr (\<lparr>rl_ChallengeID = c_ID c, rl_Ciphertext = ct, rl_Algorithm = ''RSA-OAEP-SHA256'',
         rl_CredentialExpiry = env_now e + defaultLifecycleCredentialTTL, rl_Duplicate = False\<rparr>,
         Some (appendEventTx (use_challenge d1 (c_ID c) (env_now e) ct
           (env_now e + defaultLifecycleCredentialTTL)) v)) = Inr (r, x)"
    using assms unfolding release_tx_def Let_def result_simps by blast
  obtain rnd where 2: "env_rand e 1 = Some rnd"
      "lib_rsa_encrypt L pk rnd (RawURL_Encode secret) (lifecycleCredentialOAEPLabel @ [NUL]) = Some ct"
    using 1(4) by (auto split: option.splits)
  have 3: "insert_lifecycle_credential d (new_credential (sp_LifecycleCredentialID spec) i
       (lib_sha256 L (RawURL_Encode secret)) (env_now e) (env_now e + defaultLifecycleCredentialTTL)) = Some d1"
    using 1(5) by (auto split: if_splits)
  have fresh: "i \<notin> lc_InstallationID ` set (lifecycle_credentials d)" using 1(2) by (simp add: find_key_None)
  show ?thesis
    by (rule that [OF _ _ _ fresh 1(3) 2 3, where v = v]) (use find_SomeD [OF 1(1)] 1(6) in auto)
qed

section \<open>Every operation keeps the invariant and rolls back on an error\<close>

lemma enroll_key_Inr:
  assumes "enroll_key e d i rid item = Inr (x, r)"
  obtains d1 v where "insert_boot_trust_key d item = Some d1" "r = Some (appendEventTx d1 v)" "x = (item, True)"
    "\<forall>k \<in> set (boot_trust_keys d). k_Fingerprint k = k_Fingerprint item \<longrightarrow> k_MachineID k = k_MachineID item"
proof -
  obtain d1 v where "insert_boot_trust_key d item = Some d1" "r = Some (appendEventTx d1 v)" "x = (item, True)"
    using assms by (auto simp: enroll_key_def result_simps split: if_splits)
  moreover from this(1) have "k_Fingerprint item \<notin> k_Fingerprint ` set (boot_trust_keys d)"
    by (auto simp: insert_boot_trust_key_def split: if_splits)
  ultimately show ?thesis using that by (metis image_eqI)
qed

lemma register_tx_Inr:
  assumes "register_tx e d i pem fp ek rid = Inr ((k, new), r)"
  obtains m st where "trustBindingTx e 1 d i = Inr (m, st)" "st \<noteq> StateCancelled"
      "requireProvisionPolicyTx e 2 d m = None"
      "\<not> new" "k_State k \<noteq> KeyRevoked"
      "r = Some (d\<lparr>boot_trust_keys := update_where (\<lambda>x. k_Fingerprint x = fp \<and> k_MachineID x = m)
             (touch_key ek (env_now e)) (boot_trust_keys d)\<rparr>)"
  | m st where "trustBindingTx e 1 d i = Inr (m, st)" "st \<noteq> StateCancelled"
      "requireProvisionPolicyTx e 2 d m = None" "new"
      "enroll_key e d i rid (pending_key fp m pem ek (env_now e)) = Inr ((k, True), r)"
proof -
  obtain m st where 1: "trustBindingTx e 1 d i = Inr (m, st)" "st \<noteq> StateCancelled"
      "requireProvisionPolicyTx e 2 d m = None"
    using assms by (auto simp: register_tx_def split: sum.splits prod.splits option.splits if_splits)
  show ?thesis
  proof (cases "bootTrustKeyTx e 3 d m fp")
    case (Inr old)
    with assms 1 that(1) [OF 1] show ?thesis
      by (auto simp: register_tx_def Let_def touch_key_def split: if_splits)
  next
    case (Inl err)
    with assms 1 have "enroll_key e d i rid (pending_key fp m pem ek (env_now e)) = Inr ((k, new), r)"
      by (auto simp: register_tx_def Let_def split: if_splits)
    moreover from this have new by (auto elim: enroll_key_Inr)
    ultimately show ?thesis using that(2) [OF 1] by simp
  qed
qed

lemma register_tx_inv:
  assumes "register_tx e d i pem fp ek rid = Inr (x, Some d')" "db_inv d"
  shows "db_inv d'"
proof -
  obtain k new where x: "x = (k, new)" by force
  from assms(1) [unfolded x] show ?thesis
    by (cases rule: register_tx_Inr)
      (use assms(2) in \<open>auto intro: touch_keys_inv insert_boot_trust_key_inv elim!: enroll_key_Inr\<close>)
qed

lemma RegisterBootTrustKey_inv: "db_inv d \<Longrightarrow> db_inv (snd (RegisterBootTrustKey L e d i pem ek rid))"
  by (auto simp: RegisterBootTrustKey_def Let_def split: sum.splits prod.splits dest: register_tx_inv)

lemma RegisterBootTrustKey_rollback: "rolled_back d (RegisterBootTrustKey L e d i pem ek rid)"
  by (simp add: RegisterBootTrustKey_def Let_def split: sum.split prod.split)

lemma approve_tx_Inr:
  assumes "approve_tx e d m fp rid act = Inr (k, r)" "db_inv d" "TrimSpace m = m" "TrimSpace fp = fp"
  obtains "r = None" "k \<in> set (boot_trust_keys d)" "k_State k = KeyApproved" "k_MachineID k = m" "k_Fingerprint k = fp"
  | old v where "old \<in> set (boot_trust_keys d)" "k_State old = KeyPending" "k_MachineID old = m" "k_Fingerprint old = fp"
      "k = approve_row (env_now e) act old" "m \<notin> k_MachineID ` set (approved_rows (boot_trust_keys d))"
      "r = Some (appendEventTx (d\<lparr>boot_trust_keys := update_where
         (\<lambda>x. k_MachineID x = m \<and> k_Fingerprint x = fp \<and> k_State x = KeyPending)
         (approve_row (env_now e) act) (boot_trust_keys d)\<rparr>) v)"
proof -
  let ?q = "\<lambda>x. k_MachineID x = m \<and> k_State x = KeyApproved"
  obtain old where old: "bootTrustKeyTx e 1 d m fp = Inr old"
    using assms(1) by (auto simp: approve_tx_def split: sum.splits)
  note found = bootTrustKeyTx_Inr [OF old, unfolded assms(3,4)]
  consider "k_State old = KeyApproved" | "k_State old = KeyPending"
    using assms(1) old key_state_known [OF assms(2)] found by (auto simp: approve_tx_def split: if_splits)
  then show ?thesis
  proof cases
    case 1
    with assms(1) old found that(1) show ?thesis by (simp add: approve_tx_def)
  next
    case 2
    have none: "m \<notin> k_MachineID ` set (approved_rows (boot_trust_keys d))"
    proof (cases "List.find ?q (boot_trust_keys d)")
      case None
      then show ?thesis unfolding find_None_iff by auto
    next
      case (Some y)
      with assms(1) old 2 have "k_Fingerprint y = fp" by (auto simp: approve_tx_def query_row_def split: if_splits)
      then have "y = old" using db_invD(7) [OF assms(2)] found find_SomeD [OF Some]
        by (auto simp: key_inv_def intro: distinct_key_eq)
      with 2 find_SomeD [OF Some] show ?thesis by simp
    qed
    with assms(1) old 2 found that(2) show ?thesis
      by (auto simp: approve_tx_def Let_def query_row_def split: if_splits)
  qed
qed

lemma approve_tx_inv:
  assumes "approve_tx e d (TrimSpace m) (TrimSpace fp) rid act = Inr (k, Some d')" "db_inv d"
  shows "db_inv d'"
  using assms(1) by (rule approve_tx_Inr) (use assms(2) in \<open>auto intro: approve_key_inv\<close>)

lemma ApproveBootTrustKey_inv: "db_inv d \<Longrightarrow> db_inv (snd (ApproveBootTrustKey e d m fp rid act))"
  by (auto simp: ApproveBootTrustKey_def Let_def dest: approve_tx_inv)

lemma ApproveBootTrustKey_rollback: "rolled_back d (ApproveBootTrustKey e d m fp rid act)"
  by (simp add: ApproveBootTrustKey_def Let_def)

lemma revoke_tx_Inr:
  assumes "revoke_tx e d m fp rid act = Inr (k, r)"
  obtains "r = None" "k_State k = KeyRevoked"
  | v where "k_State k = KeyRevoked" "r = Some (appendEventTx (d\<lparr>boot_trust_keys := update_where
         (\<lambda>x. k_MachineID x = m \<and> k_Fingerprint x = fp) (revoke_row (env_now e) act) (boot_trust_keys d)\<rparr>) v)"
proof -
  obtain old where old: "bootTrustKeyTx e 1 d m fp = Inr old"
    using assms by (auto simp: revoke_tx_def split: sum.splits)
  from assms old that show ?thesis
    by (cases "k_State old = KeyRevoked") (auto simp: revoke_tx_def Let_def revoke_row_def split: if_splits)
qed

lemma revoke_tx_inv: "revoke_tx e d m fp rid act = Inr (k, Some d') \<Longrightarrow> db_inv d \<Longrightarrow> db_inv d'"
  by (erule revoke_tx_Inr) (auto intro: revoke_keys_inv)

lemma RevokeBootTrustKey_inv: "db_inv d \<Longrightarrow> db_inv (snd (RevokeBootTrustKey e d m fp rid act))"
  by (auto simp: RevokeBootTrustKey_def Let_def dest: revoke_tx_inv)

lemma RevokeBootTrustKey_rollback: "rolled_back d (RevokeBootTrustKey e d m fp rid act)"
  by (simp add: RevokeBootTrustKey_def Let_def)

lemma challenge_tx_Inr:
  assumes "challenge_tx e d i fp = Inr (c, r)"
  obtains m st k row d1 where "trustBindingTx e 1 d i = Inr (m, st)" "st \<noteq> StateCancelled"
    "policy_of d m = Some PolicyProvision" "k \<in> set (boot_trust_keys d)" "k_MachineID k = TrimSpace m"
    "k_Fingerprint k = TrimSpace fp" "k_State k = KeyApproved"
    "ch_InstallationID row = i" "ch_MachineID row = m" "ch_KeyFingerprint row = fp" "ch_UsedAt row = None"
    "ch_ExpiresAt row = env_now e + bootTrustChallengeTTL"
    "c = challenge_of_row row" "insert_challenge d row = Some d1" "r = Some d1"
proof -
  obtain m st k where 1: "trustBindingTx e 1 d i = Inr (m, st)" "st \<noteq> StateCancelled"
      "requireProvisionPolicyTx e 2 d m = None" "bootTrustKeyTx e 3 d m fp = Inr k" "k_State k = KeyApproved"
    using assms by (auto simp: challenge_tx_def split: sum.splits prod.splits option.splits if_splits)
  obtain j nonce where 2: "idgen_New e 0 ''btc_'' = Some j" "rand_Read e 1 32 = Some nonce"
    using assms 1 by (auto simp: challenge_tx_def split: option.splits)
  from assms 1 2 obtain d1 where
    3: "insert_challenge d (new_challenge j i m fp nonce (env_now e)) = Some d1" "r = Some d1"
      "c = challenge_of_row (new_challenge j i m fp nonce (env_now e))"
    by (auto simp: challenge_tx_def Let_def split: option.splits if_splits)
  show ?thesis
    using that [OF 1(1,2) requireProvisionPolicyTx_None [OF 1(3)] _ _ _ 1(5) _ _ _ _ _ 3(3,1,2)]
      bootTrustKeyTx_Inr [OF 1(4)] by (simp add: new_challenge_def)
qed

lemma challenge_tx_inv:
  assumes "challenge_tx e d (TrimSpace i) (TrimSpace fp) = Inr (c, Some d')" "db_inv d"
  shows "db_inv d'"
  using assms(1)
proof (rule challenge_tx_Inr)
  fix m st k row d1
  assume r: "trustBindingTx e 1 d (TrimSpace i) = Inr (m, st)" "k \<in> set (boot_trust_keys d)"
    "k_MachineID k = TrimSpace m" "k_Fingerprint k = TrimSpace (TrimSpace fp)"
    "ch_InstallationID row = TrimSpace i" "ch_MachineID row = m" "ch_KeyFingerprint row = TrimSpace fp"
    "ch_UsedAt row = None" "insert_challenge d row = Some d1" "Some d' = Some d1"
  have bind: "(TrimSpace i, m) \<in> spec_bindings (installation_specs d)"
    using trustBindingTx_Inr [OF r(1)] by simp
  then have "TrimSpace m = m" by (rule machine_of_spec_trimmed [OF assms(2)])
  with r(2-4) have "(TrimSpace fp, m) \<in> key_bindings (boot_trust_keys d)" by force
  with r bind have "db_inv d1" by (intro insert_challenge_inv [OF r(9) assms(2)]) simp_all
  with r show ?thesis by simp
qed

lemma CreateBootTrustChallenge_inv: "db_inv d \<Longrightarrow> db_inv (snd (CreateBootTrustChallenge e d i fp rid))"
  by (auto simp: CreateBootTrustChallenge_def Let_def dest: challenge_tx_inv)

lemma CreateBootTrustChallenge_rollback: "rolled_back d (CreateBootTrustChallenge e d i fp rid)"
  by (simp add: CreateBootTrustChallenge_def Let_def)

lemma insert_lifecycle_credential_frame:
  "insert_lifecycle_credential d c = Some d1 \<Longrightarrow>
   d1 = d\<lparr>lifecycle_credentials := lifecycle_credentials d @ [c]\<rparr>"
  by (auto simp: insert_lifecycle_credential_def split: if_splits)

text \<open>A completed challenge: the stored response of a used one, or a proof and a release.\<close>

lemma complete_tx_Inr:
  assumes "complete_tx L e d i c s rid = Inr (r, x)"
  obtains row where "row \<in> set (boot_trust_challenges d)" "ch_ID row = c" "ch_InstallationID row = i"
      "ch_UsedAt row \<noteq> None" "ch_ResponseCipher row \<noteq> []" "r = release_of (challenge_of_row row)" "x = None"
  | row m pk where "row \<in> set (boot_trust_challenges d)" "ch_ID row = c" "ch_InstallationID row = i"
      "c_UsedAt (challenge_of_row row) = 0" "check_proof L e d (challenge_of_row row) i s = Inr (m, pk)"
      "release_tx L e d (challenge_of_row row) i m pk rid = Inr (r, x)"
proof -
  obtain ch where ch: "bootTrustChallengeTx e 1 d i c = Inr ch"
    using assms by (auto simp: complete_tx_def split: sum.splits)
  then obtain row where row: "row \<in> set (boot_trust_challenges d)" "ch_ID row = c" "ch_InstallationID row = i"
      "ch = challenge_of_row row"
    using bootTrustChallengeTx_Inr by blast
  show ?thesis
  proof (cases "c_UsedAt ch = 0")
    case True
    with assms ch row that(2) show ?thesis
      by (auto simp: complete_tx_def split: sum.splits prod.splits)
  next
    case False
    then have "ch_UsedAt row \<noteq> None" using row(4) by (cases "ch_UsedAt row") (auto simp: challenge_of_row_def)
    with False assms ch row that(1) show ?thesis
      by (auto simp: complete_tx_def challenge_of_row_def split: if_splits)
  qed
qed

lemma release_tx_inv:
  assumes "release_tx L e d (challenge_of_row row) i m pk rid = Inr (r, Some d')" "db_inv d"
    and "row \<in> set (boot_trust_challenges d)" "ch_InstallationID row = i"
  shows "db_inv d'"
  using assms(1)
proof (rule release_tx_Inr)
  fix spec secret ct d1 v
  let ?c = "new_credential (sp_LifecycleCredentialID spec) i (lib_sha256 L (RawURL_Encode secret))
      (env_now e) (env_now e + defaultLifecycleCredentialTTL)"
  assume ins: "insert_lifecycle_credential d ?c = Some d1"
    and x: "Some d' = Some (appendEventTx (use_challenge d1 (c_ID (challenge_of_row row)) (env_now e) ct
       (env_now e + defaultLifecycleCredentialTTL)) v)"
  have d1: "d1 = d\<lparr>lifecycle_credentials := lifecycle_credentials d @ [?c]\<rparr>"
    by (rule insert_lifecycle_credential_frame [OF ins])
  have "db_inv (use_challenge d1 (ch_ID row) (env_now e) ct (env_now e + defaultLifecycleCredentialTTL))"
  proof (rule use_challenge_inv)
    show "db_inv d1" by (rule insert_lifecycle_credential_inv [OF ins assms(2)]) (simp add: new_credential_def)
    fix y assume "y \<in> set (boot_trust_challenges d1)" "ch_ID y = ch_ID row"
    then have "y = row"
      using assms(3) d1 db_invD(8) [OF assms(2)] by (auto simp: chal_inv_def intro: distinct_key_eq)
    with assms(4) d1 show "ch_InstallationID y \<in> lc_InstallationID ` set (lifecycle_credentials d1)"
      by (simp add: new_credential_def)
  qed
  with x show ?thesis by (auto simp: challenge_of_row_def)
qed

lemma complete_tx_inv: "complete_tx L e d i c s rid = Inr (r, Some d') \<Longrightarrow> db_inv d \<Longrightarrow> db_inv d'"
  by (erule complete_tx_Inr) (auto intro: release_tx_inv)

lemma CompleteBootTrustChallenge_inv: "db_inv d \<Longrightarrow> db_inv (snd (CompleteBootTrustChallenge L e d i c s rid))"
  by (auto simp: CompleteBootTrustChallenge_def Let_def dest: complete_tx_inv)

lemma CompleteBootTrustChallenge_rollback: "rolled_back d (CompleteBootTrustChallenge L e d i c s rid)"
  by (simp add: CompleteBootTrustChallenge_def Let_def)

interpretation register_key: store_operation "\<lambda>e d (i, pem, ek, rid). RegisterBootTrustKey L e d i pem ek rid" db_inv for L
  by unfold_locales (auto intro: RegisterBootTrustKey_inv RegisterBootTrustKey_rollback)

interpretation approve_key: store_operation "\<lambda>e d (m, fp, rid, act). ApproveBootTrustKey e d m fp rid act" db_inv
  by unfold_locales (auto intro: ApproveBootTrustKey_inv ApproveBootTrustKey_rollback)

interpretation revoke_key: store_operation "\<lambda>e d (m, fp, rid, act). RevokeBootTrustKey e d m fp rid act" db_inv
  by unfold_locales (auto intro: RevokeBootTrustKey_inv RevokeBootTrustKey_rollback)

interpretation challenge: store_operation "\<lambda>e d (i, fp, rid). CreateBootTrustChallenge e d i fp rid" db_inv
  by unfold_locales (auto intro: CreateBootTrustChallenge_inv CreateBootTrustChallenge_rollback)

interpretation complete: store_operation
  "\<lambda>e d (i, c, s, rid). CompleteBootTrustChallenge L e d i c s rid" db_inv for L
  by unfold_locales (auto intro: CompleteBootTrustChallenge_inv CompleteBootTrustChallenge_rollback)

end
