(* ===== verification/Store_Deletion.thy ===== *)
theory Store_Deletion
  imports Store_Boot_Trust
begin

text \<open>
  Deletion of installations and machines (internal/store/deletion.go). The DELETE statements of
  an installation's dependent rows run before the one on the specification, whose foreign keys
  restrict deletion while rows refer to it; identifiers of a machine are deleted with it by the
  schema.
\<close>

section \<open>Statements\<close>

definition dependent_rows :: "db \<Rightarrow> string \<Rightarrow> bool" where
  "dependent_rows d i \<longleftrightarrow>
     i \<in> ch_InstallationID ` set (boot_trust_challenges d) \<or> i \<in> lg_InstallationID ` set (log_chunks d)
   \<or> i \<in> le_InstallationID ` set (lifecycle_events d) \<or> i \<in> lc_InstallationID ` set (lifecycle_credentials d)
   \<or> i \<in> as_InstallationID ` set (installation_assignments d)"

text \<open>The six statements on dependent rows, one after the other.\<close>

definition delete_dependent_rows :: "db \<Rightarrow> string \<Rightarrow> db" where
  "delete_dependent_rows d i =
     d\<lparr>boot_trust_challenges := delete_where (\<lambda>r. ch_InstallationID r = i) (boot_trust_challenges d),
       log_chunks := delete_where (\<lambda>r. lg_InstallationID r = i) (log_chunks d),
       lifecycle_events := delete_where (\<lambda>r. le_InstallationID r = i) (lifecycle_events d),
       lifecycle_credentials := delete_where (\<lambda>r. lc_InstallationID r = i) (lifecycle_credentials d),
       installation_assignments := delete_where (\<lambda>r. as_InstallationID r = i) (installation_assignments d),
       events := delete_where (\<lambda>v. ev_EntityType v = ''installation'' \<and> ev_EntityID v = i) (events d)\<rparr>"

text \<open>\<open>DELETE FROM installation_specs\<close>, restricted by the tables that refer to it.\<close>

definition delete_spec :: "db \<Rightarrow> string \<Rightarrow> db option" where
  "delete_spec d i =
     (if i \<in> sp_ID ` set (installation_specs d) \<and> dependent_rows d i then None
      else Some (d\<lparr>installation_specs := delete_where (\<lambda>s. sp_ID s = i) (installation_specs d)\<rparr>))"

definition delete_keys :: "db \<Rightarrow> string \<Rightarrow> db option" where
  "delete_keys d m =
     (if \<exists>k \<in> set (boot_trust_keys d). k_MachineID k = m
           \<and> k_Fingerprint k \<in> ch_KeyFingerprint ` set (boot_trust_challenges d) then None
      else Some (d\<lparr>boot_trust_keys := delete_where (\<lambda>k. k_MachineID k = m) (boot_trust_keys d)\<rparr>))"

definition delete_machine_row :: "db \<Rightarrow> string \<Rightarrow> db option" where
  "delete_machine_row d m =
     (if m \<in> m_ID ` set (machines d)
         \<and> (m \<in> sp_MachineID ` set (installation_specs d) \<or> m \<in> as_MachineID ` set (installation_assignments d)
            \<or> m \<in> k_MachineID ` set (boot_trust_keys d) \<or> m \<in> ch_MachineID ` set (boot_trust_challenges d)) then None
      else Some (d\<lparr>machines := delete_where (\<lambda>x. m_ID x = m) (machines d),
                   machine_identifiers := delete_where (\<lambda>x. mi_MachineID x = m) (machine_identifiers d)\<rparr>))"

section \<open>Operations\<close>

definition delete_installation_tx :: "env \<Rightarrow> db \<Rightarrow> string \<Rightarrow> string \<Rightarrow> string \<Rightarrow> (unit, db) tx_body" where
  "delete_installation_tx e d installationID requestID actor =
     (case query_row e 1 (\<lambda>s. sp_ID s = installationID) (installation_specs d) of
        Some None \<Rightarrow> Inl (Fault InstallationNotFound ''installation not found'')
      | None \<Rightarrow> Inl (storageError ''read installation before deletion'')
      | Some (Some spec) \<Rightarrow>
        (case query_row e 2 (\<lambda>a. as_InstallationID a = installationID) (installation_assignments d) of
           None \<Rightarrow> Inl (storageError ''read assignment before installation deletion'')
         | Some assigned \<Rightarrow>
           if (case assigned of Some a \<Rightarrow> as_State a = StateArmed | None \<Rightarrow> False) then
             Inl (Fault InstallationDeleteConflict ''armed installation must be cancelled before deletion'')
           else if \<not> (\<forall>k \<in> set [10, 11, 12, 13, 14, 15]. env_io e k) then
             Inl (storageError ''delete installation dependent state'')
           else let d1 = delete_dependent_rows d installationID in
           (case (if env_io e 3 then delete_spec d1 installationID else None) of
              None \<Rightarrow> Inl (storageError ''delete installation spec'')
            | Some d2 \<Rightarrow>
              if \<not> env_io e 4 \<or> rows_affected (\<lambda>s. sp_ID s = installationID) (installation_specs d1) \<noteq> 1 then
                Inl (Fault StorageFailure ''installation deletion did not affect exactly one row'')
              else if \<not> env_io e 5 then Inl (storageError ''persist installation deletion audit event'')
              else Inr ((), Some (appendEventTx d2 (event_row ''system'' installationID ''INSTALLATION_DELETED''
                     (env_now e) requestID actor ''installation and correlated runtime history deleted''))))))"

definition DeleteInstallation :: "env \<Rightarrow> db \<Rightarrow> string \<Rightarrow> string \<Rightarrow> string \<Rightarrow> unit result \<times> db" where
  "DeleteInstallation e d installationID0 requestID actor0 =
     (let installationID = TrimSpace installationID0; actor = TrimSpace actor0 in
      if installationID = [] \<or> actor = [] then
        (Inl (Fault InstallationSpecInvalid ''installation and actor are required''), d)
      else transact e 0 ''begin installation deletion'' 6 ''commit installation deletion'' d
        (delete_installation_tx e d installationID requestID actor))"

definition delete_machine_tx :: "env \<Rightarrow> db \<Rightarrow> string \<Rightarrow> string \<Rightarrow> string \<Rightarrow> (unit, db) tx_body" where
  "delete_machine_tx e d machineID requestID actor =
     (case query_row e 1 (\<lambda>m. m_ID m = machineID) (machines d) of
        Some None \<Rightarrow> Inl (Fault MachineNotFound ''machine not found'')
      | None \<Rightarrow> Inl (storageError ''read machine before deletion'')
      | Some (Some m) \<Rightarrow>
        if \<not> env_io e 2 then Inl (storageError ''count machine installations before deletion'')
        else if rows_affected (\<lambda>s. sp_MachineID s = machineID) (installation_specs d) \<noteq> 0 then
          Inl (Fault MachineDeleteConflict ''delete the machine installations before deleting the machine'')
        else if \<not> env_io e 3 then Inl (storageError ''check armed assignments before machine deletion'')
        else if rows_affected (\<lambda>a. as_MachineID a = machineID \<and> as_State a = StateArmed)
                  (installation_assignments d) \<noteq> 0 then
          Inl (Fault MachineDeleteConflict ''machine still has an armed installation assignment'')
        else case (if env_io e 4 then delete_keys d machineID else None) of
          None \<Rightarrow> Inl (storageError ''delete machine boot trust keys'')
        | Some d1 \<Rightarrow>
          if \<not> env_io e 5 then Inl (storageError ''delete machine events'')
          else let d2 = d1\<lparr>events := delete_where
                 (\<lambda>v. ev_EntityType v = ''machine'' \<and> ev_EntityID v = machineID) (events d1)\<rparr> in
          (case (if env_io e 6 then delete_machine_row d2 machineID else None) of
             None \<Rightarrow> Inl (storageError ''delete machine'')
           | Some d3 \<Rightarrow>
             if \<not> env_io e 7 \<or> rows_affected (\<lambda>x. m_ID x = machineID) (machines d2) \<noteq> 1 then
               Inl (Fault StorageFailure ''machine deletion did not affect exactly one row'')
             else let message = (if m_Nickname m \<noteq> '''' then
                      ''machine inventory deleted; previous nickname: '' @ m_Nickname m
                    else ''machine inventory deleted'') in
             if \<not> env_io e 8 then Inl (storageError ''persist machine deletion audit event'')
             else Inr ((), Some (appendEventTx d3 (event_row ''system'' machineID ''MACHINE_DELETED''
                    (env_now e) requestID actor message)))))"

definition DeleteMachine :: "env \<Rightarrow> db \<Rightarrow> string \<Rightarrow> string \<Rightarrow> string \<Rightarrow> unit result \<times> db" where
  "DeleteMachine e d machineID0 requestID actor0 =
     (let machineID = TrimSpace machineID0; actor = TrimSpace actor0 in
      if machineID = [] \<or> actor = [] then (Inl (Fault MachineIdentityInvalid ''machine and actor are required''), d)
      else transact e 0 ''begin machine deletion'' 9 ''commit machine deletion'' d
        (delete_machine_tx e d machineID requestID actor))"

section \<open>What the operations keep\<close>

lemma journal_delete [simp]:
  "journal (delete_where (\<lambda>v. le_InstallationID v = i) es) j = (if j = i then [] else journal es j)"
  unfolding journal_def delete_where_def by (induction es) auto

lemma chunks_delete [simp]:
  "chunks_of (delete_where (\<lambda>c. lg_InstallationID c = i) cs) j = (if j = i then [] else chunks_of cs j)"
  unfolding chunks_of_def delete_where_def by (induction cs) auto

lemma armed_delete:
  "distinct (map as_MachineID (armed_rows t)) \<Longrightarrow> distinct (map as_MachineID (armed_rows (delete_where p t)))"
  unfolding delete_where_def by (induction t) auto

lemma approved_delete:
  "distinct (map k_MachineID (approved_rows t)) \<Longrightarrow> distinct (map k_MachineID (approved_rows (delete_where p t)))"
  unfolding delete_where_def by (induction t) auto

lemmas deletion_simps = set_delete_where distinct_map_delete_where sorted_map_delete_where
  armed_delete approved_delete

lemma delete_dependent_rows_inv:
  assumes "db_inv d"
  shows "db_inv (delete_dependent_rows d i)"
proof -
  let ?d = "delete_dependent_rows d i"
  have "asg_inv (installation_specs d) (installation_assignments ?d)"
    using db_invD(3) [OF assms] by (auto simp: asg_inv_def delete_dependent_rows_def deletion_simps)
  moreover have "cred_inv (installation_specs d) (lifecycle_credentials ?d)"
    using db_invD(4) [OF assms] by (auto simp: cred_inv_def delete_dependent_rows_def deletion_simps)
  moreover have "life_inv (installation_specs d) (lifecycle_events ?d) (lifecycle_events_seq d)"
    using db_invD(5) [OF assms] by (auto simp: life_inv_def delete_dependent_rows_def deletion_simps)
  moreover have "log_inv (installation_specs d) (log_chunks ?d)"
    using db_invD(6) [OF assms]
    by (auto simp: log_inv_def delete_dependent_rows_def log_bytes_def deletion_simps simp del: upt_Suc)
  moreover have "chal_inv (installation_specs d) (boot_trust_keys d) (lifecycle_credentials ?d) (boot_trust_challenges ?d)"
    using db_invD(8) [OF assms] unfolding chal_inv_def
    by (auto simp: delete_dependent_rows_def deletion_simps)
  moreover have "event_inv (events ?d) (events_seq d)"
    using assms by (auto simp: db_inv_def event_inv_def delete_dependent_rows_def deletion_simps)
  ultimately show ?thesis
    using assms by (simp add: db_inv_def delete_dependent_rows_def)
qed

lemma dependent_rows_deleted: "\<not> dependent_rows (delete_dependent_rows d i) i"
  by (auto simp: dependent_rows_def delete_dependent_rows_def set_delete_where)

lemma delete_spec_inv:
  assumes "delete_spec d i = Some d'" "db_inv d" "\<not> dependent_rows d i"
  shows "db_inv d'"
proof -
  let ?ss = "delete_where (\<lambda>s. sp_ID s = i) (installation_specs d)"
  have d': "d' = d\<lparr>installation_specs := ?ss\<rparr>"
    using assms(1) by (auto simp: delete_spec_def split: if_splits)
  have kept: "(j, m) \<in> spec_bindings (installation_specs d) \<Longrightarrow> j \<noteq> i \<Longrightarrow> (j, m) \<in> spec_bindings ?ss" for j m
    by (auto simp: set_delete_where image_iff)
  have ids: "j \<in> sp_ID ` set (installation_specs d) \<Longrightarrow> j \<noteq> i \<Longrightarrow> j \<in> sp_ID ` set ?ss" for j
    by (auto simp: set_delete_where image_iff)
  have free: "r \<in> set (boot_trust_challenges d) \<Longrightarrow> ch_InstallationID r \<noteq> i"
      "c \<in> set (log_chunks d) \<Longrightarrow> lg_InstallationID c \<noteq> i"
      "v \<in> set (lifecycle_events d) \<Longrightarrow> le_InstallationID v \<noteq> i"
      "l \<in> set (lifecycle_credentials d) \<Longrightarrow> lc_InstallationID l \<noteq> i"
      "a \<in> set (installation_assignments d) \<Longrightarrow> as_InstallationID a \<noteq> i" for r c v l a
    using assms(3) by (auto simp: dependent_rows_def)
  have "spec_inv (machines d) ?ss"
    using db_invD(2) [OF assms(2)] by (auto simp: spec_inv_def deletion_simps)
  moreover have "asg_inv ?ss (installation_assignments d)"
    using db_invD(3) [OF assms(2)] by (simp add: asg_inv_def free kept)
  moreover have "cred_inv ?ss (lifecycle_credentials d)"
    using db_invD(4) [OF assms(2)] by (simp add: cred_inv_def free ids)
  moreover have "life_inv ?ss (lifecycle_events d) (lifecycle_events_seq d)"
    using db_invD(5) [OF assms(2)] by (simp add: life_inv_def free ids)
  moreover have "log_inv ?ss (log_chunks d)"
    using db_invD(6) [OF assms(2)] by (simp add: log_inv_def free ids del: upt_Suc)
  moreover have "chal_inv ?ss (boot_trust_keys d) (lifecycle_credentials d) (boot_trust_challenges d)"
    using db_invD(8) [OF assms(2)] by (simp add: chal_inv_def free kept)
  ultimately show ?thesis using assms(2) d' by (simp add: db_inv_def)
qed

lemma delete_keys_inv:
  assumes "delete_keys d m = Some d'" "db_inv d"
  shows "db_inv d'"
proof -
  let ?ks = "delete_where (\<lambda>k. k_MachineID k = m) (boot_trust_keys d)"
  have d': "d' = d\<lparr>boot_trust_keys := ?ks\<rparr>"
    and free: "\<forall>k \<in> set (boot_trust_keys d). k_MachineID k = m \<longrightarrow>
      k_Fingerprint k \<notin> ch_KeyFingerprint ` set (boot_trust_challenges d)"
    using assms(1) by (auto simp: delete_keys_def split: if_splits)
  have "key_inv (machines d) ?ks"
    using db_invD(7) [OF assms(2)] by (auto simp: key_inv_def deletion_simps)
  moreover have "(ch_KeyFingerprint c, ch_MachineID c) \<in> key_bindings ?ks"
    if c: "c \<in> set (boot_trust_challenges d)" for c
  proof -
    obtain k where k: "k \<in> set (boot_trust_keys d)" "ch_KeyFingerprint c = k_Fingerprint k"
        "ch_MachineID c = k_MachineID k"
      using db_invD(8) [OF assms(2)] c by (auto simp: chal_inv_def)
    with free c have "k_MachineID k \<noteq> m" by (metis image_eqI)
    with k show ?thesis by (auto simp: set_delete_where)
  qed
  then have "chal_inv (installation_specs d) ?ks (lifecycle_credentials d) (boot_trust_challenges d)"
    using db_invD(8) [OF assms(2)] by (simp add: chal_inv_def)
  ultimately show ?thesis using assms(2) d' by (simp add: db_inv_def)
qed

lemma delete_machine_row_inv:
  assumes "delete_machine_row d m = Some d'" "db_inv d"
  shows "db_inv d'"
proof (cases "m \<in> m_ID ` set (machines d)")
  case False
  then have "\<forall>x \<in> set (machine_identifiers d). mi_MachineID x \<noteq> m"
    using db_invD(1) [OF assms(2)] by (auto simp: mach_inv_def)
  moreover from False have "delete_where (\<lambda>x. m_ID x = m) (machines d) = machines d"
    by (intro delete_where_none) auto
  ultimately show ?thesis
    using False assms by (simp add: delete_machine_row_def delete_where_none)
next
  case True
  let ?ms = "delete_where (\<lambda>x. m_ID x = m) (machines d)"
  let ?is = "delete_where (\<lambda>x. mi_MachineID x = m) (machine_identifiers d)"
  have d': "d' = d\<lparr>machines := ?ms, machine_identifiers := ?is\<rparr>"
    and free: "m \<notin> sp_MachineID ` set (installation_specs d)" "m \<notin> k_MachineID ` set (boot_trust_keys d)"
    using assms(1) True by (auto simp: delete_machine_row_def split: if_splits)
  have kept: "j \<in> m_ID ` set (machines d) \<Longrightarrow> j \<noteq> m \<Longrightarrow> j \<in> m_ID ` set ?ms" for j
    by (auto simp: set_delete_where)
  have "mach_inv ?ms ?is"
    using db_invD(1) [OF assms(2)] kept by (auto simp: mach_inv_def deletion_simps)
  moreover have "spec_inv ?ms (installation_specs d)"
    using db_invD(2) [OF assms(2)] free kept unfolding spec_inv_def by (metis image_eqI)
  moreover have "key_inv ?ms (boot_trust_keys d)"
    using db_invD(7) [OF assms(2)] free kept unfolding key_inv_def by (metis image_eqI)
  ultimately show ?thesis using assms(2) d' by (simp add: db_inv_def)
qed

lemma delete_events_inv [intro!]: "db_inv d \<Longrightarrow> db_inv (d\<lparr>events := delete_where p (events d)\<rparr>)"
  by (auto simp: db_inv_def event_inv_def deletion_simps)

lemma delete_installation_tx_Inr:
  assumes "delete_installation_tx e d i rid act = Inr (x, r)"
  obtains d2 v where "i \<in> sp_ID ` set (installation_specs d)" "assignment_state d i \<noteq> Some StateArmed"
    "delete_spec (delete_dependent_rows d i) i = Some d2" "r = Some (appendEventTx d2 v)" "ev_EntityType v = ''system''"
    "ev_EntityID v = i" "ev_Actor v = act" "ev_Type v = ''INSTALLATION_DELETED''"
proof -
  obtain s a d2 where 1: "List.find (\<lambda>s. sp_ID s = i) (installation_specs d) = Some s"
      "List.find (\<lambda>a. as_InstallationID a = i) (installation_assignments d) = a"
      "\<not> (case a of Some a \<Rightarrow> as_State a = StateArmed | None \<Rightarrow> False)"
      "(if env_io e 3 then delete_spec (delete_dependent_rows d i) i else None) = Some d2"
      "Inr ((), Some (appendEventTx d2 (event_row ''system'' i ''INSTALLATION_DELETED''
         (env_now e) rid act ''installation and correlated runtime history deleted''))) = Inr (x, r)"
    using assms unfolding delete_installation_tx_def Let_def result_simps by blast
  from 1(4) have "delete_spec (delete_dependent_rows d i) i = Some d2" by (simp split: if_splits)
  moreover have "assignment_state d i \<noteq> Some StateArmed" using 1(2,3) by (auto simp: assignment_state_def)
  ultimately show ?thesis
    using that [of d2] find_SomeD [OF 1(1)] 1(5) by (auto simp: event_row_def)
qed

lemma delete_installation_tx_inv:
  "delete_installation_tx e d i rid act = Inr (x, Some d') \<Longrightarrow> db_inv d \<Longrightarrow> db_inv d'"
  by (erule delete_installation_tx_Inr)
    (auto intro: delete_spec_inv [OF _ delete_dependent_rows_inv dependent_rows_deleted])

lemma DeleteInstallation_inv: "db_inv d \<Longrightarrow> db_inv (snd (DeleteInstallation e d i rid act))"
  by (auto simp: DeleteInstallation_def Let_def dest: delete_installation_tx_inv)

lemma DeleteInstallation_rollback: "rolled_back d (DeleteInstallation e d i rid act)"
  by (simp add: DeleteInstallation_def Let_def)

lemma delete_machine_tx_Inr:
  assumes "delete_machine_tx e d m rid act = Inr (x, r)"
  obtains d1 d3 v where "m \<in> m_ID ` set (machines d)" "m \<notin> sp_MachineID ` set (installation_specs d)"
    "delete_keys d m = Some d1"
    "delete_machine_row (d1\<lparr>events := delete_where
       (\<lambda>v. ev_EntityType v = ''machine'' \<and> ev_EntityID v = m) (events d1)\<rparr>) m = Some d3"
    "r = Some (appendEventTx d3 v)" "ev_EntityType v = ''system''"
    "ev_EntityID v = m" "ev_Actor v = act" "ev_Type v = ''MACHINE_DELETED''"
proof -
  obtain w d1 d3 msg where 1: "List.find (\<lambda>s. m_ID s = m) (machines d) = Some w"
      "\<not> rows_affected (\<lambda>s. sp_MachineID s = m) (installation_specs d) \<noteq> 0"
      "(if env_io e 4 then delete_keys d m else None) = Some d1"
      "(if env_io e 6 then delete_machine_row (d1\<lparr>events := delete_where
       (\<lambda>v. ev_EntityType v = ''machine'' \<and> ev_EntityID v = m) (events d1)\<rparr>) m else None) = Some d3"
      "Inr ((), Some (appendEventTx d3 (event_row ''system'' m ''MACHINE_DELETED'' (env_now e) rid act msg))) = Inr (x, r)"
    using assms unfolding delete_machine_tx_def Let_def result_simps by blast
  have "m \<notin> sp_MachineID ` set (installation_specs d)" using 1(2) by (auto simp: rows_affected_def filter_empty_conv)
  moreover from 1(3,4) have "delete_keys d m = Some d1" "delete_machine_row (d1\<lparr>events := delete_where
       (\<lambda>v. ev_EntityType v = ''machine'' \<and> ev_EntityID v = m) (events d1)\<rparr>) m = Some d3"
    by (simp_all split: if_splits)
  ultimately show ?thesis
    using that [of d1 d3] find_SomeD [OF 1(1)] 1(5) by (auto simp: event_row_def)
qed

lemma delete_machine_tx_inv:
  "delete_machine_tx e d m rid act = Inr (x, Some d') \<Longrightarrow> db_inv d \<Longrightarrow> db_inv d'"
  by (erule delete_machine_tx_Inr) (auto dest!: delete_machine_row_inv delete_keys_inv)

lemma DeleteMachine_inv: "db_inv d \<Longrightarrow> db_inv (snd (DeleteMachine e d m rid act))"
  by (auto simp: DeleteMachine_def Let_def dest: delete_machine_tx_inv)

lemma DeleteMachine_rollback: "rolled_back d (DeleteMachine e d m rid act)"
  by (simp add: DeleteMachine_def Let_def)

interpretation delete_installation: store_operation "\<lambda>e d (i, rid, act). DeleteInstallation e d i rid act" db_inv
  by unfold_locales (auto intro: DeleteInstallation_inv DeleteInstallation_rollback)

interpretation delete_machine: store_operation "\<lambda>e d (m, rid, act). DeleteMachine e d m rid act" db_inv
  by unfold_locales (auto intro: DeleteMachine_inv DeleteMachine_rollback)

end
