(* ===== verification/Store_Operators.thy ===== *)
theory Store_Operators
  imports Samples
begin

text \<open>
  Operator users and their passkeys in the store (internal/store/operator_users.go). A WebAuthn
  credential is a value of a package outside the repository: it is given by its identifier and
  its JSON text, \<open>None\<close> when json.Marshal fails.
\<close>

section \<open>Queries\<close>

definition webAuthnHandleBytes :: nat where "webAuthnHandleBytes = 64"

definition operatorUserByExternal :: "env \<Rightarrow> nat \<Rightarrow> db \<Rightarrow> string \<Rightarrow> string \<Rightarrow> User option option" where
  "operatorUserByExternal e k d provider subject =
     query_row e k (\<lambda>u. u_Provider u = provider \<and> u_Subject u = subject) (operator_users d)"

definition operatorUserByID :: "env \<Rightarrow> nat \<Rightarrow> db \<Rightarrow> string \<Rightarrow> User option option" where
  "operatorUserByID e k d userID = query_row e k (\<lambda>u. u_ID u = userID) (operator_users d)"

definition OperatorUserByExternalIdentity :: "env \<Rightarrow> db \<Rightarrow> string \<Rightarrow> string \<Rightarrow> User result" where
  "OperatorUserByExternalIdentity e d provider subject =
     (case operatorUserByExternal e 0 d (TrimSpace provider) (TrimSpace subject) of
        Some None \<Rightarrow> Inl (Fault OperatorUserNotFound ''operator user not found'')
      | None \<Rightarrow> Inl (storageError ''query operator user'')
      | Some (Some user) \<Rightarrow> Inr user)"

definition OperatorUser :: "env \<Rightarrow> nat \<Rightarrow> db \<Rightarrow> string \<Rightarrow> User result" where
  "OperatorUser e k d userID =
     (case operatorUserByID e k d (TrimSpace userID) of
        Some None \<Rightarrow> Inl (Fault OperatorUserNotFound ''operator user not found'')
      | None \<Rightarrow> Inl (storageError ''query operator user'')
      | Some (Some user) \<Rightarrow> Inr user)"

abbreviation live_admin :: "User \<Rightarrow> bool" where
  "live_admin u \<equiv> u_Role u = RoleAdmin \<and> u_Status u \<noteq> StatusBlocked"

definition admin_count :: "db \<Rightarrow> nat" where
  "admin_count d = length (filter live_admin (operator_users d))"

definition HasOperatorAdmin :: "env \<Rightarrow> db \<Rightarrow> bool result" where
  "HasOperatorAdmin e d =
     (if \<not> env_io e 0 then Inl (storageError ''count operator admins'') else Inr (admin_count d > 0))"

section \<open>Operations\<close>

definition pending_user :: "string \<Rightarrow> string \<Rightarrow> string \<Rightarrow> string \<Rightarrow> string \<Rightarrow> string \<Rightarrow> time \<Rightarrow> User" where
  "pending_user userID provider subject displayName email handle now =
     \<lparr>u_ID = userID, u_Provider = provider, u_Subject = subject, u_DisplayName = displayName, u_Email = email,
      u_Role = RoleOther '''', u_Status = StatusPendingReview, u_WebAuthnHandle = handle, u_CreatedAt = now,
      u_UpdatedAt = now, u_ApprovedAt = 0, u_ApprovedBy = ''''\<rparr>"

definition resolve_tx :: "env \<Rightarrow> db \<Rightarrow> string \<Rightarrow> string \<Rightarrow> string \<Rightarrow> string \<Rightarrow> string \<Rightarrow> (User \<times> bool, db) tx_body" where
  "resolve_tx e d provider subject displayName email requestID =
     (case operatorUserByExternal e 1 d provider subject of
        Some (Some user) \<Rightarrow> Inr ((user, False), None)
      | None \<Rightarrow> Inl (storageError ''resolve operator identity'')
      | Some None \<Rightarrow>
        (case idgen_New e 0 ''u_'' of
           None \<Rightarrow> Inl (storageError ''generate operator user id'')
         | Some userID \<Rightarrow>
           (case rand_Read e 1 webAuthnHandleBytes of
              None \<Rightarrow> Inl (storageError ''generate webauthn user handle'')
            | Some handle \<Rightarrow>
              let now = env_now e; user = pending_user userID provider subject displayName email handle now in
              (case (if env_io e 2 then insert_user d user else None) of
                 None \<Rightarrow> Inl (storageError ''insert operator user'')
               | Some d1 \<Rightarrow>
                 if \<not> env_io e 3 then Inl (storageError ''audit operator discovery'')
                 else Inr ((user, True), Some (appendEventTx d1 (event_row ''operator_user'' userID
                        ''OPERATOR_USER_DISCOVERED'' now (TrimSpace requestID) ''system:identity''
                        ''trusted external identity discovered'')))))))"

definition ResolveOperatorUser ::
  "env \<Rightarrow> db \<Rightarrow> string \<Rightarrow> string \<Rightarrow> string \<Rightarrow> string \<Rightarrow> string \<Rightarrow> (User \<times> bool) result \<times> db" where
  "ResolveOperatorUser e d provider0 subject0 displayName0 email0 requestID =
     (let provider = TrimSpace provider0; subject = TrimSpace subject0;
          displayName1 = TrimSpace displayName0; email = TrimSpace email0 in
      if ValidateExternalIdentity provider subject \<noteq> None then
        (Inl (Fault OperatorAuthenticationFailed ''external operator identity is invalid''), d)
      else let displayName = (if displayName1 = [] then subject else displayName1) in
      if length displayName > 160 \<or> length email > 254 \<or> containsControl displayName \<or> containsControl email then
        (Inl (Fault OperatorAuthenticationFailed ''external operator identity metadata is invalid''), d)
      else transact e 0 ''begin operator identity transaction'' 4 ''commit operator identity'' d
        (resolve_tx e d provider subject displayName email requestID))"

text \<open>Approval of a pending user with a role, as in ClaimInitialAdmin and ApproveOperatorUser.\<close>

definition approve_user :: "Role \<Rightarrow> time \<Rightarrow> string \<Rightarrow> User \<Rightarrow> User" where
  "approve_user role now actor u =
     u\<lparr>u_Role := role, u_Status := StatusEnrollmentRequired, u_ApprovedAt := now, u_ApprovedBy := actor,
       u_UpdatedAt := now\<rparr>"

definition set_user :: "db \<Rightarrow> string \<Rightarrow> (User \<Rightarrow> User) \<Rightarrow> db" where
  "set_user d userID f = d\<lparr>operator_users := update_where (\<lambda>u. u_ID u = userID) f (operator_users d)\<rparr>"

text \<open>The user read back after the commit: this read can fail with the change in effect.\<close>

definition read_back :: "env \<Rightarrow> nat \<Rightarrow> string result \<times> db \<Rightarrow> User result \<times> db" where
  "read_back e k r = (case fst r of Inl err \<Rightarrow> (Inl err, snd r) | Inr userID \<Rightarrow> (OperatorUser e k (snd r) userID, snd r))"

definition claim_tx :: "env \<Rightarrow> db \<Rightarrow> string \<Rightarrow> string \<Rightarrow> string \<Rightarrow> (string, db) tx_body" where
  "claim_tx e d userID requestID actor =
     (if \<not> env_io e 1 then Inl (storageError ''count initial admins'')
      else if admin_count d \<noteq> 0 then Inl (Fault OperatorAuthorizationDenied ''initial admin already exists'')
      else case operatorUserByID e 2 d (TrimSpace userID) of
        Some None \<Rightarrow> Inl (Fault OperatorUserNotFound ''operator user not found'')
      | None \<Rightarrow> Inl (storageError ''load initial admin candidate'')
      | Some (Some user) \<Rightarrow>
        if u_Status user \<noteq> StatusPendingReview then
          Inl (Fault OperatorAuthorizationDenied ''initial admin candidate is not pending'')
        else let now = env_now e in
        if \<not> env_io e 3 then Inl (storageError ''claim initial admin'')
        else let d1 = set_user d (u_ID user) (approve_user RoleAdmin now (TrimSpace actor)) in
        if \<not> env_io e 4 then Inl (storageError ''audit initial admin claim'')
        else Inr (u_ID user, Some (appendEventTx d1 (event_row ''operator_user'' (u_ID user)
               ''OPERATOR_INITIAL_ADMIN_CLAIMED'' now (TrimSpace requestID) (TrimSpace actor)
               ''initial administrator claimed''))))"

definition ClaimInitialAdmin :: "env \<Rightarrow> db \<Rightarrow> string \<Rightarrow> string \<Rightarrow> string \<Rightarrow> User result \<times> db" where
  "ClaimInitialAdmin e d userID requestID actor =
     read_back e 6 (transact e 0 ''begin initial admin claim'' 5 ''commit initial admin claim'' d
       (claim_tx e d userID requestID actor))"

definition approve_user_tx :: "env \<Rightarrow> db \<Rightarrow> string \<Rightarrow> Role \<Rightarrow> string \<Rightarrow> string \<Rightarrow> (string, db) tx_body" where
  "approve_user_tx e d userID role requestID actor =
     (case operatorUserByID e 1 d (TrimSpace userID) of
        Some None \<Rightarrow> Inl (Fault OperatorUserNotFound ''operator user not found'')
      | None \<Rightarrow> Inl (storageError ''load operator approval target'')
      | Some (Some user) \<Rightarrow>
        if u_Status user \<noteq> StatusPendingReview then
          Inl (Fault OperatorAuthorizationDenied ''operator user is not pending review'')
        else let now = env_now e in
        if \<not> env_io e 2 then Inl (storageError ''approve operator user'')
        else let d1 = set_user d (u_ID user) (approve_user role now (TrimSpace actor)) in
        if \<not> env_io e 3 then Inl (storageError ''audit operator approval'')
        else Inr (u_ID user, Some (appendEventTx d1 (event_row ''operator_user'' (u_ID user)
               ''OPERATOR_USER_APPROVED'' now (TrimSpace requestID) (TrimSpace actor)
               (''operator user approved as '' @ role_text role)))))"

definition ApproveOperatorUser :: "env \<Rightarrow> db \<Rightarrow> string \<Rightarrow> Role \<Rightarrow> string \<Rightarrow> string \<Rightarrow> User result \<times> db" where
  "ApproveOperatorUser e d userID role requestID actor =
     (if ValidateRole role \<noteq> None then (Inl (Fault OperatorAuthorizationDenied ''operator role is invalid''), d)
      else read_back e 5 (transact e 0 ''begin operator approval'' 4 ''commit operator approval'' d
        (approve_user_tx e d userID role requestID actor)))"

definition block_user :: "time \<Rightarrow> User \<Rightarrow> User" where
  "block_user now u = u\<lparr>u_Status := StatusBlocked, u_UpdatedAt := now\<rparr>"

definition block_tx :: "env \<Rightarrow> db \<Rightarrow> string \<Rightarrow> string \<Rightarrow> string \<Rightarrow> (string, db) tx_body" where
  "block_tx e d userID requestID actor =
     (case operatorUserByID e 1 d (TrimSpace userID) of
        Some None \<Rightarrow> Inl (Fault OperatorUserNotFound ''operator user not found'')
      | None \<Rightarrow> Inl (storageError ''load operator block target'')
      | Some (Some user) \<Rightarrow>
        if live_admin user \<and> \<not> env_io e 2 then Inl (storageError ''count active admins'')
        else if live_admin user \<and> admin_count d \<le> 1 then
          Inl (Fault OperatorAuthorizationDenied ''last administrator cannot be blocked'')
        else let now = env_now e in
        if \<not> env_io e 3 then Inl (storageError ''block operator user'')
        else let d1 = set_user d (u_ID user) (block_user now) in
        if \<not> env_io e 4 then Inl (storageError ''audit operator block'')
        else Inr (u_ID user, Some (appendEventTx d1 (event_row ''operator_user'' (u_ID user)
               ''OPERATOR_USER_BLOCKED'' now (TrimSpace requestID) (TrimSpace actor) ''operator user blocked''))))"

definition BlockOperatorUser :: "env \<Rightarrow> db \<Rightarrow> string \<Rightarrow> string \<Rightarrow> string \<Rightarrow> User result \<times> db" where
  "BlockOperatorUser e d userID requestID actor =
     read_back e 6 (transact e 0 ''begin operator block'' 5 ''commit operator block'' d
       (block_tx e d userID requestID actor))"

text \<open>
  The upsert on (user, relying party, credential): a credential that another user has for the
  same relying party violates the other uniqueness constraint of the table.
\<close>

definition upsert_operator_credential :: "db \<Rightarrow> OperatorCredentialRow \<Rightarrow> db option" where
  "upsert_operator_credential d r =
     (if \<exists>x \<in> set (operator_credentials d). oc_UserID x = oc_UserID r \<and> oc_RPID x = oc_RPID r
           \<and> oc_CredentialID x = oc_CredentialID r then
        Some (d\<lparr>operator_credentials := update_where
          (\<lambda>x. oc_UserID x = oc_UserID r \<and> oc_RPID x = oc_RPID r \<and> oc_CredentialID x = oc_CredentialID r)
          (\<lambda>x. x\<lparr>oc_CredentialJSON := oc_CredentialJSON r, oc_UpdatedAt := oc_UpdatedAt r,
               oc_LastUsedAt := oc_LastUsedAt r\<rparr>) (operator_credentials d)\<rparr>)
      else if (oc_RPID r, oc_CredentialID r) \<in> (\<lambda>x. (oc_RPID x, oc_CredentialID x)) ` set (operator_credentials d)
           \<or> oc_UserID r \<notin> u_ID ` set (operator_users d) then None
      else Some (d\<lparr>operator_credentials := operator_credentials d @ [r]\<rparr>))"

definition activate_user :: "time \<Rightarrow> User \<Rightarrow> User" where
  "activate_user now u = u\<lparr>u_Status := StatusActive, u_UpdatedAt := now\<rparr>"

definition save_credential_tx ::
  "env \<Rightarrow> db \<Rightarrow> string \<Rightarrow> string \<Rightarrow> string \<Rightarrow> string \<Rightarrow> string \<Rightarrow> string \<Rightarrow> bool \<Rightarrow> (unit, db) tx_body" where
  "save_credential_tx e d userID rpID credentialID payload requestID actor enrollment =
     (let now = env_now e in
      case operatorUserByID e 1 d (TrimSpace userID) of
        Some None \<Rightarrow> Inl (Fault OperatorUserNotFound ''operator user not found'')
      | None \<Rightarrow> Inl (storageError ''load credential owner'')
      | Some (Some user) \<Rightarrow>
        if enrollment \<and> u_Status user \<noteq> StatusEnrollmentRequired then
          Inl (Fault OperatorAuthorizationDenied ''operator user is not awaiting passkey enrollment'')
        else case (if env_io e 2 then upsert_operator_credential d
                     \<lparr>oc_UserID = u_ID user, oc_RPID = TrimSpace rpID, oc_CredentialID = credentialID,
                      oc_CredentialJSON = payload, oc_CreatedAt = now, oc_UpdatedAt = now, oc_LastUsedAt = now\<rparr>
                   else None) of
          None \<Rightarrow> Inl (storageError ''save operator credential'')
        | Some d1 \<Rightarrow>
          if \<not> enrollment then Inr ((), Some d1)
          else if \<not> env_io e 3 then Inl (storageError ''activate operator user'')
          else let d2 = set_user d1 (u_ID user) (activate_user now) in
          if \<not> env_io e 4 then Inl (storageError ''audit passkey enrollment'')
          else Inr ((), Some (appendEventTx d2 (event_row ''operator_user'' (u_ID user)
                 ''OPERATOR_PASSKEY_ENROLLED'' now (TrimSpace requestID) (TrimSpace actor)
                 ''operator passkey enrolled''))))"

definition SaveOperatorCredential ::
  "env \<Rightarrow> db \<Rightarrow> string \<Rightarrow> string \<Rightarrow> string \<times> string option \<Rightarrow> string \<Rightarrow> string \<Rightarrow> bool \<Rightarrow> unit result \<times> db" where
  "SaveOperatorCredential e d userID rpID credential requestID actor enrollment =
     (case snd credential of
        None \<Rightarrow> (Inl (storageError ''encode operator credential''), d)
      | Some payload \<Rightarrow>
        transact e 0 ''begin operator credential save'' 5 ''commit operator credential'' d
          (save_credential_tx e d userID rpID (fst credential) payload requestID actor enrollment))"

section \<open>What the statements keep\<close>

lemma update_users_inv:
  assumes "db_inv d" and keys: "\<And>u. u_ID (f u) = u_ID u \<and> u_Provider (f u) = u_Provider u \<and>
      u_Subject (f u) = u_Subject u \<and> u_WebAuthnHandle (f u) = u_WebAuthnHandle u"
    and ok: "\<And>u. u \<in> set (operator_users d) \<Longrightarrow> u_ID u = i \<Longrightarrow>
      u_Status (f u) \<in> set [StatusPendingReview, StatusEnrollmentRequired, StatusActive, StatusBlocked] \<and>
      (u_Status (f u) \<in> set [StatusEnrollmentRequired, StatusActive] \<longrightarrow> ValidateRole (u_Role (f u)) = None) \<and>
      u_Status (f u) \<noteq> StatusPendingReview"
  shows "db_inv (set_user d i f)"
proof -
  let ?t = "operator_users d" and ?p = "\<lambda>u. u_ID u = i"
  have maps: "map u_ID (update_where ?p f ?t) = map u_ID ?t"
    "map (\<lambda>u. (u_Provider u, u_Subject u)) (update_where ?p f ?t) = map (\<lambda>u. (u_Provider u, u_Subject u)) ?t"
    "map u_WebAuthnHandle (update_where ?p f ?t) = map u_WebAuthnHandle ?t"
    using keys by (auto intro!: map_update_where)
  have ids: "u_ID ` set (update_where ?p f ?t) = u_ID ` set ?t"
    using arg_cong [OF maps(1), of set] by simp
  have "user_inv (update_where ?p f ?t) (operator_credentials d)"
    using db_invD(9) [OF assms(1)] ok unfolding user_inv_def maps ids
    by (auto simp: set_update_where)
  then show ?thesis
    using assms(1) by (simp add: set_user_def db_inv_def)
qed

lemma insert_user_inv:
  "insert_user d u = Some d' \<Longrightarrow> u_Status u = StatusPendingReview \<Longrightarrow> u_Role u \<noteq> RoleAdmin \<Longrightarrow> db_inv d \<Longrightarrow> db_inv d'"
  by (auto simp: insert_user_def db_inv_def user_inv_def split: if_splits)

lemma user_inv_credentials:
  "user_inv us ocs \<Longrightarrow> distinct (map (\<lambda>x. (oc_RPID x, oc_CredentialID x)) ocs') \<Longrightarrow>
   \<forall>x \<in> set ocs'. oc_UserID x \<in> u_ID ` set us \<Longrightarrow> user_inv us ocs'"
  unfolding user_inv_def by blast

lemma db_inv_operator_credentials:
  "db_inv d \<Longrightarrow> user_inv (operator_users d) ocs \<Longrightarrow> db_inv (d\<lparr>operator_credentials := ocs\<rparr>)"
  by (simp add: db_inv_def)

lemma upsert_operator_credential_inv:
  assumes "upsert_operator_credential d r = Some d'" "db_inv d"
  shows "db_inv d'"
proof -
  let ?k = "\<lambda>x. (oc_RPID x, oc_CredentialID x)"
  let ?g = "\<lambda>x. x\<lparr>oc_CredentialJSON := oc_CredentialJSON r, oc_UpdatedAt := oc_UpdatedAt r,
               oc_LastUsedAt := oc_LastUsedAt r\<rparr>"
  note inv = db_invD(9) [OF assms(2)]
  have keys: "map ?k (update_where p ?g t) = map ?k t" for p t
    by (rule map_update_where) simp
  have owners: "u \<in> u_ID ` set (operator_users d)" if "x \<in> set (operator_credentials d)"
      "oc_UserID x = u" for x u
    using inv that by (auto simp: user_inv_def)
  have "user_inv (operator_users d) (operator_credentials d')"
    by (rule user_inv_credentials [OF inv])
      (use assms(1) owners inv [unfolded user_inv_def] in
        \<open>auto simp: upsert_operator_credential_def keys set_update_where split: if_splits\<close>)
  moreover have "d' = d\<lparr>operator_credentials := operator_credentials d'\<rparr>"
    using assms(1) by (auto simp: upsert_operator_credential_def split: if_splits)
  ultimately show ?thesis using db_inv_operator_credentials [OF assms(2)] by metis
qed

lemma upsert_operator_credential_users:
  "upsert_operator_credential d r = Some d' \<Longrightarrow> operator_users d' = operator_users d"
  by (auto simp: upsert_operator_credential_def split: if_splits)

section \<open>Every operation keeps the invariant\<close>

lemma resolve_tx_inv: "resolve_tx e d p s n m rid = Inr (x, Some d') \<Longrightarrow> db_inv d \<Longrightarrow> db_inv d'"
  by (auto simp: resolve_tx_def Let_def result_simps pending_user_def split: if_splits option.splits
      elim!: insert_user_inv)

lemma ResolveOperatorUser_inv: "db_inv d \<Longrightarrow> db_inv (snd (ResolveOperatorUser e d p s n m rid))"
  by (auto simp: ResolveOperatorUser_def Let_def dest: resolve_tx_inv)

lemma ResolveOperatorUser_rollback: "rolled_back d (ResolveOperatorUser e d p s n m rid)"
  by (simp add: ResolveOperatorUser_def Let_def)

lemma read_back_snd [simp]: "snd (read_back e k r) = snd r"
  by (simp add: read_back_def split: sum.split)

lemma operatorUserByID_Some [result_simps]:
  "operatorUserByID e k d i = Some r \<longleftrightarrow> env_io e k \<and> List.find (\<lambda>u. u_ID u = i) (operator_users d) = r"
  by (simp add: operatorUserByID_def query_row_Some)

lemma claim_tx_Inr:
  assumes "claim_tx e d i rid act = Inr (x, r)"
  obtains u v where "u \<in> set (operator_users d)" "x = u_ID u" "u_ID u = TrimSpace i" "u_Status u = StatusPendingReview" "admin_count d = 0"
    "r = Some (appendEventTx (set_user d (u_ID u) (approve_user RoleAdmin (env_now e) (TrimSpace act))) v)"
  using assms unfolding claim_tx_def Let_def result_simps
  by (elim conjE exE) (rule that, auto dest: find_SomeD)

lemma approve_user_tx_Inr:
  assumes "approve_user_tx e d i role rid act = Inr (x, r)"
  obtains u v where "u \<in> set (operator_users d)" "x = u_ID u" "u_ID u = TrimSpace i" "u_Status u = StatusPendingReview"
    "r = Some (appendEventTx (set_user d (u_ID u) (approve_user role (env_now e) (TrimSpace act))) v)"
  using assms unfolding approve_user_tx_def Let_def result_simps
  by (elim conjE exE) (rule that, auto dest: find_SomeD)

lemma block_tx_Inr:
  assumes "block_tx e d i rid act = Inr (x, r)"
  obtains u v where "u \<in> set (operator_users d)" "x = u_ID u" "u_ID u = TrimSpace i" "live_admin u \<longrightarrow> admin_count d > 1"
    "r = Some (appendEventTx (set_user d (u_ID u) (block_user (env_now e))) v)"
  using assms unfolding block_tx_def Let_def result_simps
  by (elim conjE exE) (rule that, auto dest: find_SomeD)

lemma approve_user_inv:
  "db_inv d \<Longrightarrow> ValidateRole role = None \<Longrightarrow> db_inv (set_user d i (approve_user role t act))"
  by (rule update_users_inv) (auto simp: approve_user_def)

lemma block_user_inv: "db_inv d \<Longrightarrow> db_inv (set_user d i (block_user t))"
  by (rule update_users_inv) (auto simp: block_user_def)

lemma claim_tx_inv: "claim_tx e d i rid act = Inr (x, Some d') \<Longrightarrow> db_inv d \<Longrightarrow> db_inv d'"
  by (erule claim_tx_Inr) (auto intro!: approve_user_inv simp: ValidateRole_def)

lemma approve_user_tx_inv:
  "approve_user_tx e d i role rid act = Inr (x, Some d') \<Longrightarrow> ValidateRole role = None \<Longrightarrow> db_inv d \<Longrightarrow> db_inv d'"
  by (erule approve_user_tx_Inr) (auto intro!: approve_user_inv)

lemma block_tx_inv: "block_tx e d i rid act = Inr (x, Some d') \<Longrightarrow> db_inv d \<Longrightarrow> db_inv d'"
  by (erule block_tx_Inr) (auto intro!: block_user_inv)

lemma ClaimInitialAdmin_inv: "db_inv d \<Longrightarrow> db_inv (snd (ClaimInitialAdmin e d i rid act))"
  by (auto simp: ClaimInitialAdmin_def dest: claim_tx_inv)

lemma ApproveOperatorUser_inv: "db_inv d \<Longrightarrow> db_inv (snd (ApproveOperatorUser e d i role rid act))"
  by (auto simp: ApproveOperatorUser_def dest: approve_user_tx_inv)

lemma BlockOperatorUser_inv: "db_inv d \<Longrightarrow> db_inv (snd (BlockOperatorUser e d i rid act))"
  by (auto simp: BlockOperatorUser_def dest: block_tx_inv)

lemma save_credential_tx_Inr:
  assumes "save_credential_tx e d i rp cid payload rid act enrollment = Inr (x, r)"
  obtains u row d1 v where "u \<in> set (operator_users d)" "u_ID u = TrimSpace i" "oc_UserID row = u_ID u"
    "enrollment \<longrightarrow> u_Status u = StatusEnrollmentRequired" "upsert_operator_credential d row = Some d1"
    "r = Some (if enrollment then appendEventTx (set_user d1 (u_ID u) (activate_user (env_now e))) v else d1)"
proof -
  obtain u d1 where 1: "List.find (\<lambda>u. u_ID u = TrimSpace i) (operator_users d) = Some u" "env_io e 1" "env_io e 2"
      "\<not> (enrollment \<and> u_Status u \<noteq> StatusEnrollmentRequired)"
      "upsert_operator_credential d \<lparr>oc_UserID = u_ID u, oc_RPID = TrimSpace rp, oc_CredentialID = cid,
         oc_CredentialJSON = payload, oc_CreatedAt = env_now e, oc_UpdatedAt = env_now e,
         oc_LastUsedAt = env_now e\<rparr> = Some d1"
    using assms unfolding save_credential_tx_def Let_def result_simps by (auto split: if_splits)
  show ?thesis
    by (rule that [OF _ _ _ _ 1(5)])
      (use assms 1 find_SomeD [OF 1(1)] in
        \<open>auto simp: save_credential_tx_def Let_def operatorUserByID_def query_row_def split: if_splits\<close>)
qed

lemma save_credential_tx_inv:
  assumes "save_credential_tx e d i rp cid payload rid act enrollment = Inr (x, Some d')" "db_inv d"
  shows "db_inv d'"
  using assms(1)
proof (rule save_credential_tx_Inr)
  fix u row d1 v
  assume u: "u \<in> set (operator_users d)" "enrollment \<longrightarrow> u_Status u = StatusEnrollmentRequired"
    and ups: "upsert_operator_credential d row = Some d1"
    and d': "Some d' = Some (if enrollment then appendEventTx (set_user d1 (u_ID u) (activate_user (env_now e))) v else d1)"
  have inv: "db_inv d1" by (rule upsert_operator_credential_inv [OF ups assms(2)])
  have "db_inv (set_user d1 (u_ID u) (activate_user (env_now e)))" if enrollment
  proof (rule update_users_inv [OF inv])
    fix w assume "w \<in> set (operator_users d1)" "u_ID w = u_ID u"
    then have "w = u"
      using u(1) db_invD(9) [OF assms(2)] upsert_operator_credential_users [OF ups]
      by (auto simp: user_inv_def intro: distinct_key_eq)
    with u that db_invD(9) [OF assms(2)]
    show "u_Status (activate_user (env_now e) w) \<in> set [StatusPendingReview, StatusEnrollmentRequired, StatusActive, StatusBlocked] \<and>
      (u_Status (activate_user (env_now e) w) \<in> set [StatusEnrollmentRequired, StatusActive] \<longrightarrow>
        ValidateRole (u_Role (activate_user (env_now e) w)) = None) \<and>
      u_Status (activate_user (env_now e) w) \<noteq> StatusPendingReview"
      by (auto simp: activate_user_def user_inv_def)
  qed (simp add: activate_user_def)
  with inv d' show ?thesis by (auto split: if_splits)
qed

lemma SaveOperatorCredential_inv: "db_inv d \<Longrightarrow> db_inv (snd (SaveOperatorCredential e d i rp c rid act enrollment))"
  by (auto simp: SaveOperatorCredential_def split: option.splits dest: save_credential_tx_inv)

lemma SaveOperatorCredential_rollback: "rolled_back d (SaveOperatorCredential e d i rp c rid act enrollment)"
  by (simp add: SaveOperatorCredential_def split: option.split)

interpretation resolve_user: store_operation "\<lambda>e d (p, s, n, m, rid). ResolveOperatorUser e d p s n m rid" db_inv
  by unfold_locales (auto intro: ResolveOperatorUser_inv ResolveOperatorUser_rollback)

interpretation claim_admin: invariant_operation "\<lambda>e d (i, rid, act). ClaimInitialAdmin e d i rid act" db_inv
  by unfold_locales (auto intro: ClaimInitialAdmin_inv)

interpretation approve_user: invariant_operation
  "\<lambda>e d (i, role, rid, act). ApproveOperatorUser e d i role rid act" db_inv
  by unfold_locales (auto intro: ApproveOperatorUser_inv)

interpretation block_user: invariant_operation "\<lambda>e d (i, rid, act). BlockOperatorUser e d i rid act" db_inv
  by unfold_locales (auto intro: BlockOperatorUser_inv)

interpretation save_credential: store_operation
  "\<lambda>e d (i, rp, c, rid, act, enrollment). SaveOperatorCredential e d i rp c rid act enrollment" db_inv
  by unfold_locales (auto intro: SaveOperatorCredential_inv SaveOperatorCredential_rollback)

section \<open>Administrators\<close>

lemma admin_count_set_user:
  assumes "db_inv d" "u \<in> set (operator_users d)"
  shows "admin_count (set_user d (u_ID u) f) + of_bool (live_admin u) = admin_count d + of_bool (live_admin (f u))"
  using assms count_update_key [of u_ID "operator_users d" u live_admin f] db_invD(9) [OF assms(1)]
  by (simp add: admin_count_def set_user_def user_inv_def)

lemma admin_count_pos: "u \<in> set (operator_users d) \<Longrightarrow> live_admin u \<Longrightarrow> admin_count d > 0"
  by (auto simp: admin_count_def filter_empty_conv)

lemma admin_count_cong: "operator_users d' = operator_users d \<Longrightarrow> admin_count d' = admin_count d"
  by (simp add: admin_count_def)

lemma admin_count_appendEventTx [simp]: "admin_count (appendEventTx d v) = admin_count d"
  by (simp add: admin_count_def)

lemma transact_cases:
  obtains "snd (transact e b bm c cm d body) = d"
  | x where "body = Inr (x, Some (snd (transact e b bm c cm d body)))"
  using transact_snd [of e b bm c cm d body] by blast

text \<open>Blocking never takes the last administrator away, whatever is asked and whatever
  fails: an installation of the service that has a live administrator keeps one.\<close>

lemma block_keeps_an_admin:
  assumes "db_inv d" "admin_count d > 0"
  shows "admin_count (snd (BlockOperatorUser e d i rid act)) > 0"
proof (cases rule: transact_cases [of e 0 "''begin operator block''" 5 "''commit operator block''" d "block_tx e d i rid act"])
  case 1
  with assms show ?thesis by (simp add: BlockOperatorUser_def)
next
  case (2 x)
  then obtain u v where u: "u \<in> set (operator_users d)" "live_admin u \<longrightarrow> admin_count d > 1"
      "snd (BlockOperatorUser e d i rid act) = appendEventTx (set_user d (u_ID u) (block_user (env_now e))) v"
    by (auto simp: BlockOperatorUser_def elim!: block_tx_Inr)
  with admin_count_set_user [OF assms(1) u(1), of "block_user (env_now e)"] assms(2) show ?thesis
    by (cases "live_admin u") (simp_all add: block_user_def)
qed

text \<open>The first administrator can be claimed only while there is none, only by a user who
  waits for review, and afterwards there is exactly one.\<close>

theorem initial_admin_claimed_once:
  assumes "db_inv d" "ClaimInitialAdmin e d i rid act = (Inr u, d')"
  shows "admin_count d = 0 \<and> admin_count d' = 1 \<and> u \<in> set (operator_users d') \<and> u_Role u = RoleAdmin
       \<and> u_Status u = StatusEnrollmentRequired
       \<and> (\<exists>w \<in> set (operator_users d). u_ID w = u_ID u \<and> u_Status w = StatusPendingReview)"
proof -
  let ?tx = "transact e 0 ''begin initial admin claim'' 5 ''commit initial admin claim'' d (claim_tx e d i rid act)"
  obtain x where x: "?tx = (Inr x, d')" "OperatorUser e 6 d' x = Inr u"
    using assms(2) by (cases "fst ?tx") (auto simp: ClaimInitialAdmin_def read_back_def prod_eq_iff)
  then obtain w v where w: "w \<in> set (operator_users d)" "x = u_ID w" "u_ID w = TrimSpace i"
      "u_Status w = StatusPendingReview" "admin_count d = 0"
      "d' = appendEventTx (set_user d (u_ID w) (approve_user RoleAdmin (env_now e) (TrimSpace act))) v"
    by (auto simp: result_simps elim!: claim_tx_Inr)
  let ?w = "approve_user RoleAdmin (env_now e) (TrimSpace act) w"
  have one: "admin_count d' = 1"
    using admin_count_set_user [OF assms(1) w(1), of "approve_user RoleAdmin (env_now e) (TrimSpace act)"] w
      admin_count_pos [OF w(1)] by (cases "u_Role w = RoleAdmin") (simp_all add: approve_user_def)
  have u: "u \<in> set (operator_users d')" "u_ID u = u_ID w"
    using x(2) w(2,3) by (auto simp: OperatorUser_def result_simps dest!: find_SomeD)
  have "?w \<in> set (operator_users d')" using w(1,6) by (auto simp: set_user_def set_update_where)
  moreover have "distinct (map u_ID (operator_users d'))"
    using db_invD(9) [OF ClaimInitialAdmin_inv [OF assms(1), of e i rid act]] assms(2) by (simp add: user_inv_def)
  ultimately have "u = ?w" using u by (auto intro: distinct_key_eq simp: approve_user_def)
  with one u w show ?thesis by (auto simp: approve_user_def)
qed

theorem initial_admin_claimed_once_witness:
  "admin_count (snd (ClaimInitialAdmin sample_env sample_new_db ''u_2'' ''req'' ''bootstrap'')) = 1"
proof -
  let ?r = "ClaimInitialAdmin sample_env sample_new_db ''u_2'' ''req'' ''bootstrap''"
  have "isl (fst ?r) = False" by code_simp
  from initial_admin_claimed_once [OF sample_new_db_inv succeeded [OF this]] show ?thesis by simp
qed

end
