(* ===== verification/System.thy ===== *)
theory System
  imports Store_Deletion Store_Operators
begin

text \<open>
  The store as a whole: what each operation may change, the step relation of a database under
  any sequence of calls, and what holds of every database the service can reach from the empty
  one. The HTTP handlers and the operator interface change the database through these
  operations only.
\<close>

section \<open>Frames\<close>

datatype table = TMachines | TSpecs | TAssignments | TUsers | TCredentials | TLifecycle | TLogs | TKeys | TChallenges

text \<open>All tables but those named, and the audit log, are as they were.\<close>

definition changes_only :: "table set \<Rightarrow> db \<Rightarrow> db \<Rightarrow> bool" where
  "changes_only ts d d' \<longleftrightarrow>
     (TMachines \<notin> ts \<longrightarrow> machines d' = machines d \<and> machine_identifiers d' = machine_identifiers d)
   \<and> (TSpecs \<notin> ts \<longrightarrow> installation_specs d' = installation_specs d)
   \<and> (TAssignments \<notin> ts \<longrightarrow> installation_assignments d' = installation_assignments d)
   \<and> (TUsers \<notin> ts \<longrightarrow> operator_users d' = operator_users d \<and> operator_credentials d' = operator_credentials d)
   \<and> (TCredentials \<notin> ts \<longrightarrow> lifecycle_credentials d' = lifecycle_credentials d)
   \<and> (TLifecycle \<notin> ts \<longrightarrow> lifecycle_events d' = lifecycle_events d)
   \<and> (TLogs \<notin> ts \<longrightarrow> log_chunks d' = log_chunks d)
   \<and> (TKeys \<notin> ts \<longrightarrow> boot_trust_keys d' = boot_trust_keys d)
   \<and> (TChallenges \<notin> ts \<longrightarrow> boot_trust_challenges d' = boot_trust_challenges d)"

lemma changes_refl [simp]: "changes_only ts d d"
  by (simp add: changes_only_def)

lemma changes_event [simp]: "changes_only ts d (appendEventTx d' v) = changes_only ts d d'"
  by (simp add: changes_only_def)

lemma changes_updates [simp]:
  "TMachines \<in> ts \<Longrightarrow> changes_only ts d (d'\<lparr>machines := x1\<rparr>) = changes_only ts d d'"
  "TMachines \<in> ts \<Longrightarrow> changes_only ts d (d'\<lparr>machine_identifiers := x2\<rparr>) = changes_only ts d d'"
  "TSpecs \<in> ts \<Longrightarrow> changes_only ts d (d'\<lparr>installation_specs := x3\<rparr>) = changes_only ts d d'"
  "TAssignments \<in> ts \<Longrightarrow> changes_only ts d (d'\<lparr>installation_assignments := x4\<rparr>) = changes_only ts d d'"
  "TUsers \<in> ts \<Longrightarrow> changes_only ts d (d'\<lparr>operator_users := x5\<rparr>) = changes_only ts d d'"
  "TUsers \<in> ts \<Longrightarrow> changes_only ts d (d'\<lparr>operator_credentials := x6\<rparr>) = changes_only ts d d'"
  "TCredentials \<in> ts \<Longrightarrow> changes_only ts d (d'\<lparr>lifecycle_credentials := x7\<rparr>) = changes_only ts d d'"
  "TKeys \<in> ts \<Longrightarrow> changes_only ts d (d'\<lparr>boot_trust_keys := x8\<rparr>) = changes_only ts d d'"
  "TChallenges \<in> ts \<Longrightarrow> changes_only ts d (d'\<lparr>boot_trust_challenges := x9\<rparr>) = changes_only ts d d'"
  by (auto simp: changes_only_def)

lemma changes_transact [intro!]:
  "(\<And>x d'. body = Inr (x, Some d') \<Longrightarrow> changes_only ts d d') \<Longrightarrow>
   changes_only ts d (snd (transact e b bm c cm d body))"
  by (rule transact_keeps [of "changes_only ts d"]) auto

lemma changes_trans: "changes_only ts d d1 \<Longrightarrow> changes_only ts d1 d2 \<Longrightarrow> changes_only ts d d2"
  by (auto simp: changes_only_def)

lemma upsert_identifier_changes: "upsert_identifier d r = Some d' \<Longrightarrow> changes_only {TMachines} d d'"
  by (auto simp: upsert_identifier_def changes_only_def split: if_splits)

lemma persist_identifiers_changes:
  "persist_identifiers e k d i t ids = Inr d' \<Longrightarrow> changes_only {TMachines} d d'"
  by (induction e k d i t ids rule: persist_identifiers.induct)
    (auto simp: result_simps split: if_splits dest: upsert_identifier_changes intro: changes_trans)

lemma persist_observation_changes:
  "persist_observation e d c i a f st = Some d' \<Longrightarrow> changes_only {TMachines} d d'"
  by (auto simp: persist_observation_def insert_machine_def changes_only_def split: if_splits)

lemma discover_tx_changes:
  "discover_tx e d a f st ids rid = Inr (x, Some d') \<Longrightarrow> changes_only {TMachines} d d'"
  by (cases x, simp, erule discover_tx_Inr)
    (auto dest!: persist_observation_changes persist_identifiers_changes intro: changes_trans)

lemma DiscoverMachine_changes: "changes_only {TMachines} d (snd (DiscoverMachine e d ob rid))"
  by (auto simp: DiscoverMachine_def Let_def split: option.splits sum.splits dest: discover_tx_changes)

lemma nickname_tx_changes:
  "nickname_tx e d i n rid act = Inr (x, Some d') \<Longrightarrow> changes_only {TMachines} d d'"
  by (auto simp: nickname_tx_def Let_def result_simps split: if_splits)

lemma SetMachineNickname_changes: "changes_only {TMachines} d (snd (SetMachineNickname e d i n rid act))"
  by (auto simp: SetMachineNickname_def Let_def split: sum.splits dest: nickname_tx_changes)

lemma policy_tx_changes:
  "policy_tx e d i p rid act = Inr (x, Some d') \<Longrightarrow> changes_only {TMachines} d d'"
  by (auto simp: policy_tx_def Let_def result_simps split: if_splits)

lemma SetMachinePolicy_changes: "changes_only {TMachines} d (snd (SetMachinePolicy e d i p rid act))"
  by (auto simp: SetMachinePolicy_def Let_def split: option.splits dest: policy_tx_changes)

lemma appendServer_changes:
  "appendServerLifecycleEventTx e k d i st key msg rid t = Inr d' \<Longrightarrow> changes_only {TLifecycle} d d'"
  by (erule appendServerLifecycleEventTx_Inr) (auto simp: changes_only_def insert_lifecycle_event_frame)

lemma changes_mono: "changes_only ts d d' \<Longrightarrow> ts \<subseteq> ts' \<Longrightarrow> changes_only ts' d d'"
  unfolding changes_only_def by (intro conjI impI) (simp_all add: subset_iff, metis+)

lemma create_spec_tx_changes:
  assumes "create_spec_tx e d s rid = Inr (x, Some d')"
  shows "changes_only {TSpecs, TLifecycle} d d'"
proof -
  obtain d1 d2 v where 1: "insert_spec d s = Some d1" "d' = appendEventTx d2 v"
      "appendServerLifecycleEventTx e 10 d1 (sp_ID s) StageCreated (''server:created:'' @ sp_ID s)
         ''immutable installation spec created'' rid (sp_CreatedAt s) = Inr d2"
    using assms by (auto simp: create_spec_tx_def result_simps split: if_splits)
  from 1(1) have "changes_only {TSpecs, TLifecycle} d d1" by (auto simp: insert_spec_def split: if_splits)
  moreover from appendServer_changes [OF 1(3)] have "changes_only {TSpecs, TLifecycle} d1 d2"
    by (rule changes_mono) simp
  ultimately show ?thesis using 1(2) by (auto intro: changes_trans)
qed

lemma CreateInstallationSpec_changes:
  "changes_only {TSpecs, TLifecycle} d (snd (CreateInstallationSpec L e d s rid))"
  by (auto simp: CreateInstallationSpec_def split: option.splits sum.splits dest: create_spec_tx_changes)

lemma persist_armed_changes:
  assumes "persist_armed e d a rid = Inr (x, Some d')"
  shows "changes_only {TAssignments, TLifecycle} d d'"
proof -
  obtain d1 d2 v where 1: "insert_assignment d a = Some d1" "d' = appendEventTx d2 v"
      "appendServerLifecycleEventTx e 10 d1 (as_InstallationID a) StageQueued (''server:queued:'' @ as_InstallationID a)
         ''installation queued for next destructive PXE boot'' rid (as_ArmedAt a) = Inr d2"
    using assms by (auto simp: persist_armed_def result_simps split: if_splits)
  from 1(1) have "changes_only {TAssignments, TLifecycle} d d1"
    by (auto simp: insert_assignment_def split: if_splits)
  moreover from appendServer_changes [OF 1(3)] have "changes_only {TAssignments, TLifecycle} d1 d2"
    by (rule changes_mono) simp
  ultimately show ?thesis using 1(2) by (auto intro: changes_trans)
qed

lemma ArmInstallation_changes:
  "changes_only {TAssignments, TLifecycle} d (snd (ArmInstallation e d m i rid act))"
  by (auto simp: ArmInstallation_def Let_def split: option.splits elim!: arm_tx_Inr dest: persist_armed_changes)

lemma CancelAssignment_changes: "changes_only {TAssignments} d (snd (CancelAssignment e d i rid act))"
  by (auto simp: CancelAssignment_def Let_def split: option.splits elim!: cancel_tx_Inr)

lemma ConsumeAssignment_changes: "changes_only {TAssignments} d (snd (ConsumeAssignment e d i rid act))"
  by (auto simp: ConsumeAssignment_def Let_def split: option.splits elim!: consume_tx_Inr)

lemma issue_tx_changes: "issue_tx L e d i rid act ttl = Inr (x, Some d') \<Longrightarrow> changes_only {TCredentials} d d'"
  by (auto simp: issue_tx_def Let_def result_simps split: if_splits dest!: insert_lifecycle_credential_frame)

lemma IssueLifecycleCredential_changes:
  "changes_only {TCredentials} d (snd (IssueLifecycleCredential L e d i rid act ttl))"
  by (auto simp: IssueLifecycleCredential_def Let_def dest: issue_tx_changes)

lemma AuthenticateLifecycleCredential_changes:
  "changes_only {TCredentials} d (snd (AuthenticateLifecycleCredential L e d i s))"
  by (auto simp: AuthenticateLifecycleCredential_def Let_def changes_only_def split: option.splits)

lemma revoke_credentials_changes: "changes_only {TCredentials} d (revoke_credentials d i t)"
  by (simp add: revoke_credentials_def changes_only_def)

lemma RevokeLifecycleCredential_changes:
  "changes_only {TCredentials} d (snd (RevokeLifecycleCredential e d i rid act))"
  by (auto simp: RevokeLifecycleCredential_def Let_def revoke_credentials_changes)

lemma append_lifecycle_tx_changes:
  assumes "append_lifecycle_tx e d r rid = Inr (x, Some d')"
  shows "changes_only {TLifecycle, TCredentials} d d'"
proof (cases x)
  case (Pair v dup)
  from assms [unfolded Pair] show ?thesis
    by (cases rule: append_lifecycle_tx_Inr)
      (auto simp: changes_only_def revoke_credentials_def dest: insert_lifecycle_event_frame)
qed

lemma AppendLifecycleEvent_changes:
  "changes_only {TLifecycle, TCredentials} d (snd (AppendLifecycleEvent e d r rid))"
  by (auto simp: AppendLifecycleEvent_def dest: append_lifecycle_tx_changes)

lemma append_chunk_tx_changes:
  assumes "append_chunk_tx e d c = Inr (x, Some d')"
  shows "changes_only {TLogs} d d'"
proof (cases x)
  case (Pair v dup)
  from assms [unfolded Pair] show ?thesis
    by (cases rule: append_chunk_tx_Inr)
      (auto simp: changes_only_def insert_log_chunk_def Let_def split: if_splits)
qed

lemma AppendInstallationLogChunk_changes: "changes_only {TLogs} d (snd (AppendInstallationLogChunk L e d c))"
  by (auto simp: AppendInstallationLogChunk_def Let_def dest: append_chunk_tx_changes)

lemma VerifyLifecycleMAC_changes: "changes_only {TCredentials} d (snd (VerifyLifecycleMAC L e d i hm p k t b s))"
  by (auto simp: VerifyLifecycleMAC_def Let_def changes_only_def split: option.splits sum.splits)

lemma register_tx_changes:
  assumes "register_tx e d i pem fp ek rid = Inr (x, Some d')"
  shows "changes_only {TKeys} d d'"
proof (cases x)
  case (Pair k new)
  from assms [unfolded Pair] show ?thesis
    by (cases rule: register_tx_Inr)
      (auto simp: changes_only_def insert_boot_trust_key_def elim!: enroll_key_Inr split: if_splits)
qed

lemma RegisterBootTrustKey_changes: "changes_only {TKeys} d (snd (RegisterBootTrustKey L e d i pem ek rid))"
  by (auto simp: RegisterBootTrustKey_def Let_def split: sum.splits prod.splits dest: register_tx_changes)

lemma approve_tx_changes: "approve_tx e d m fp rid act = Inr (x, Some d') \<Longrightarrow> changes_only {TKeys} d d'"
  by (auto simp: approve_tx_def Let_def result_simps split: if_splits)

lemma ApproveBootTrustKey_changes: "changes_only {TKeys} d (snd (ApproveBootTrustKey e d m fp rid act))"
  by (auto simp: ApproveBootTrustKey_def Let_def dest: approve_tx_changes)

lemma RevokeBootTrustKey_changes: "changes_only {TKeys} d (snd (RevokeBootTrustKey e d m fp rid act))"
  by (auto simp: RevokeBootTrustKey_def Let_def elim!: revoke_tx_Inr)

lemma CreateBootTrustChallenge_changes: "changes_only {TChallenges} d (snd (CreateBootTrustChallenge e d i fp rid))"
  by (auto simp: CreateBootTrustChallenge_def Let_def insert_challenge_def elim!: challenge_tx_Inr split: if_splits)

lemma CompleteBootTrustChallenge_changes:
  "changes_only {TChallenges, TCredentials} d (snd (CompleteBootTrustChallenge L e d i c s rid))"
  by (auto simp: CompleteBootTrustChallenge_def Let_def use_challenge_def elim!: complete_tx_Inr release_tx_Inr
      dest!: insert_lifecycle_credential_frame)

lemma delete_installation_tx_changes:
  "delete_installation_tx e d i rid act = Inr (x, Some d') \<Longrightarrow>
   changes_only {TSpecs, TAssignments, TCredentials, TLifecycle, TLogs, TChallenges} d d'"
  by (erule delete_installation_tx_Inr)
    (auto simp: delete_spec_def delete_dependent_rows_def changes_only_def split: if_splits)

lemma DeleteInstallation_changes:
  "changes_only {TSpecs, TAssignments, TCredentials, TLifecycle, TLogs, TChallenges} d
     (snd (DeleteInstallation e d i rid act))"
  by (auto simp: DeleteInstallation_def Let_def dest: delete_installation_tx_changes)

lemma delete_machine_tx_changes:
  "delete_machine_tx e d m rid act = Inr (x, Some d') \<Longrightarrow> changes_only {TMachines, TKeys} d d'"
  by (erule delete_machine_tx_Inr)
    (auto simp: delete_keys_def delete_machine_row_def changes_only_def split: if_splits)

lemma DeleteMachine_changes: "changes_only {TMachines, TKeys} d (snd (DeleteMachine e d m rid act))"
  by (auto simp: DeleteMachine_def Let_def dest: delete_machine_tx_changes)

lemma insert_user_changes: "insert_user d u = Some d' \<Longrightarrow> changes_only {TUsers} d d'"
  by (auto simp: insert_user_def changes_only_def split: if_splits)

lemma ResolveOperatorUser_changes: "changes_only {TUsers} d (snd (ResolveOperatorUser e d p s n m rid))"
  by (auto simp: ResolveOperatorUser_def Let_def resolve_tx_def result_simps dest: insert_user_changes
      split: if_splits option.splits)

lemma set_user_changes [simp]: "changes_only {TUsers} d (set_user d i f)"
  by (simp add: set_user_def changes_only_def)

lemma ClaimInitialAdmin_changes: "changes_only {TUsers} d (snd (ClaimInitialAdmin e d i rid act))"
  by (auto simp: ClaimInitialAdmin_def elim!: claim_tx_Inr)

lemma ApproveOperatorUser_changes: "changes_only {TUsers} d (snd (ApproveOperatorUser e d i role rid act))"
  by (auto simp: ApproveOperatorUser_def elim!: approve_user_tx_Inr)

lemma BlockOperatorUser_changes: "changes_only {TUsers} d (snd (BlockOperatorUser e d i rid act))"
  by (auto simp: BlockOperatorUser_def elim!: block_tx_Inr)

lemma upsert_operator_credential_changes:
  "upsert_operator_credential d r = Some d' \<Longrightarrow> changes_only {TUsers} d d'"
  by (auto simp: upsert_operator_credential_def changes_only_def split: if_splits)

lemma SaveOperatorCredential_changes:
  "changes_only {TUsers} d (snd (SaveOperatorCredential e d i rp c rid act enrollment))"
  by (auto simp: SaveOperatorCredential_def split: option.splits elim!: save_credential_tx_Inr
      dest!: upsert_operator_credential_changes intro: changes_trans)

section \<open>Steps and reachable databases\<close>

inductive store_step :: "golib \<Rightarrow> db \<Rightarrow> db \<Rightarrow> bool" for L where
  st_discover: "clock_ok e \<Longrightarrow> store_step L d (snd (DiscoverMachine e d ob rid))"
| st_nickname: "clock_ok e \<Longrightarrow> store_step L d (snd (SetMachineNickname e d m n rid act))"
| st_policy: "clock_ok e \<Longrightarrow> store_step L d (snd (SetMachinePolicy e d m p rid act))"
| st_create: "clock_ok e \<Longrightarrow> store_step L d (snd (CreateInstallationSpec L e d s rid))"
| st_arm: "clock_ok e \<Longrightarrow> store_step L d (snd (ArmInstallation e d m i rid act))"
| st_cancel: "clock_ok e \<Longrightarrow> store_step L d (snd (CancelAssignment e d i rid act))"
| st_consume: "clock_ok e \<Longrightarrow> store_step L d (snd (ConsumeAssignment e d i rid act))"
| st_issue: "clock_ok e \<Longrightarrow> store_step L d (snd (IssueLifecycleCredential L e d i rid act ttl))"
| st_authenticate: "clock_ok e \<Longrightarrow> store_step L d (snd (AuthenticateLifecycleCredential L e d i secret))"
| st_revoke_credential: "clock_ok e \<Longrightarrow> store_step L d (snd (RevokeLifecycleCredential e d i rid act))"
| st_lifecycle: "clock_ok e \<Longrightarrow> store_step L d (snd (AppendLifecycleEvent e d r rid))"
| st_log: "clock_ok e \<Longrightarrow> store_step L d (snd (AppendInstallationLogChunk L e d c))"
| st_mac: "clock_ok e \<Longrightarrow> store_step L d (snd (VerifyLifecycleMAC L e d i hm path key t b sig))"
| st_register: "clock_ok e \<Longrightarrow> store_step L d (snd (RegisterBootTrustKey L e d i pem ek rid))"
| st_approve_key: "clock_ok e \<Longrightarrow> store_step L d (snd (ApproveBootTrustKey e d m fp rid act))"
| st_revoke_key: "clock_ok e \<Longrightarrow> store_step L d (snd (RevokeBootTrustKey e d m fp rid act))"
| st_challenge: "clock_ok e \<Longrightarrow> store_step L d (snd (CreateBootTrustChallenge e d i fp rid))"
| st_complete: "clock_ok e \<Longrightarrow> store_step L d (snd (CompleteBootTrustChallenge L e d i ch sig rid))"
| st_delete_installation: "clock_ok e \<Longrightarrow> store_step L d (snd (DeleteInstallation e d i rid act))"
| st_delete_machine: "clock_ok e \<Longrightarrow> store_step L d (snd (DeleteMachine e d m rid act))"
| st_resolve: "clock_ok e \<Longrightarrow> store_step L d (snd (ResolveOperatorUser e d provider subject name email rid))"
| st_claim: "clock_ok e \<Longrightarrow> store_step L d (snd (ClaimInitialAdmin e d u rid act))"
| st_approve_user: "clock_ok e \<Longrightarrow> store_step L d (snd (ApproveOperatorUser e d u role rid act))"
| st_block: "clock_ok e \<Longrightarrow> store_step L d (snd (BlockOperatorUser e d u rid act))"
| st_save_credential:
    "clock_ok e \<Longrightarrow> store_step L d (snd (SaveOperatorCredential e d u rp cred rid act enrollment))"

inductive reachable :: "golib \<Rightarrow> db \<Rightarrow> bool" for L where
  reach_empty: "reachable L empty_db"
| reach_step: "reachable L d \<Longrightarrow> store_step L d d' \<Longrightarrow> reachable L d'"

lemmas operation_invs = DiscoverMachine_inv SetMachineNickname_inv SetMachinePolicy_inv CreateInstallationSpec_inv
  ArmInstallation_inv CancelAssignment_inv ConsumeAssignment_inv IssueLifecycleCredential_inv
  AuthenticateLifecycleCredential_inv RevokeLifecycleCredential_inv AppendLifecycleEvent_inv
  AppendInstallationLogChunk_inv VerifyLifecycleMAC_inv RegisterBootTrustKey_inv ApproveBootTrustKey_inv
  RevokeBootTrustKey_inv CreateBootTrustChallenge_inv CompleteBootTrustChallenge_inv DeleteInstallation_inv
  DeleteMachine_inv ResolveOperatorUser_inv ClaimInitialAdmin_inv ApproveOperatorUser_inv BlockOperatorUser_inv
  SaveOperatorCredential_inv

lemmas operation_frames = DiscoverMachine_changes SetMachineNickname_changes SetMachinePolicy_changes
  CreateInstallationSpec_changes ArmInstallation_changes CancelAssignment_changes ConsumeAssignment_changes
  IssueLifecycleCredential_changes AuthenticateLifecycleCredential_changes RevokeLifecycleCredential_changes
  AppendLifecycleEvent_changes AppendInstallationLogChunk_changes VerifyLifecycleMAC_changes
  RegisterBootTrustKey_changes ApproveBootTrustKey_changes RevokeBootTrustKey_changes
  CreateBootTrustChallenge_changes CompleteBootTrustChallenge_changes DeleteInstallation_changes
  DeleteMachine_changes ResolveOperatorUser_changes ClaimInitialAdmin_changes ApproveOperatorUser_changes
  BlockOperatorUser_changes SaveOperatorCredential_changes

lemma step_inv: "store_step L d d' \<Longrightarrow> db_inv d \<Longrightarrow> db_inv d'"
  by (erule store_step.cases) (simp_all add: operation_invs)

lemma reachable_inv: "reachable L d \<Longrightarrow> db_inv d"
  by (induction rule: reachable.induct) (auto intro: db_inv_empty step_inv)

text \<open>An outcome that reports an error has left the database alone.\<close>

lemma rolled_back_cases:
  assumes "rolled_back d r"
  obtains "snd r = d" | x where "r = (Inr x, snd r)"
  using assms by (cases r; cases "fst r") (auto simp: rolled_back_def)

subsection \<open>Assignments\<close>

lemma assignment_state_frame:
  "changes_only ts d d' \<Longrightarrow> TAssignments \<notin> ts \<Longrightarrow> assignment_state d' = assignment_state d"
  by (rule assignment_state_cong) (simp add: changes_only_def)

lemma Arm_states:
  "assignment_state (snd (ArmInstallation e d m i rid act)) j = assignment_state d j \<or>
   assignment_state d j = None \<and> assignment_state (snd (ArmInstallation e d m i rid act)) j = Some StateArmed"
proof (cases rule: rolled_back_cases [OF ArmInstallation_rollback [of d e m i rid act]])
  case (2 a)
  note arm = ArmInstallation_state [OF 2]
  then have "assignment_state d (as_InstallationID a) = None" by simp
  with arm(5,6) show ?thesis
    by (auto simp: assignment_state_def find_append split: option.splits)
qed simp

lemma Cancel_states:
  assumes "db_inv d"
  shows "assignment_state (snd (CancelAssignment e d i rid act)) j = assignment_state d j \<or>
    assignment_state d j = Some StateArmed \<and>
    assignment_state (snd (CancelAssignment e d i rid act)) j = Some StateCancelled"
proof (cases rule: rolled_back_cases [OF CancelAssignment_rollback [of d e i rid act]])
  case (2 a)
  with CancelAssignment_state [OF assms 2] show ?thesis by auto
qed simp

lemma Consume_states:
  assumes "db_inv d"
  shows "assignment_state (snd (ConsumeAssignment e d i rid act)) j = assignment_state d j \<or>
    assignment_state d j = Some StateArmed \<and>
    assignment_state (snd (ConsumeAssignment e d i rid act)) j = Some StateConsumed"
proof (cases rule: rolled_back_cases [OF ConsumeAssignment_rollback [of d e i rid act]])
  case (2 a)
  with ConsumeAssignment_state [OF assms 2] show ?thesis by auto
qed simp

lemma DeleteInstallation_assignments:
  "installation_assignments (snd (DeleteInstallation e d i rid act)) = installation_assignments d \<or>
   installation_assignments (snd (DeleteInstallation e d i rid act)) =
     delete_where (\<lambda>a. as_InstallationID a = TrimSpace i) (installation_assignments d)
   \<and> assignment_state d (TrimSpace i) \<noteq> Some StateArmed"
proof (cases "TrimSpace i = [] \<or> TrimSpace act = []")
  case False
  let ?tx = "transact e 0 ''begin installation deletion'' 6 ''commit installation deletion'' d
    (delete_installation_tx e d (TrimSpace i) rid (TrimSpace act))"
  have eq: "DeleteInstallation e d i rid act = ?tx" using False by (simp add: DeleteInstallation_def Let_def)
  show ?thesis
    unfolding eq
  proof (cases rule: transact_cases [of e 0 "''begin installation deletion''" 6 "''commit installation deletion''" d
        "delete_installation_tx e d (TrimSpace i) rid (TrimSpace act)"])
    case (2 x)
    then show "installation_assignments (snd ?tx) = installation_assignments d \<or>
      installation_assignments (snd ?tx) =
        delete_where (\<lambda>a. as_InstallationID a = TrimSpace i) (installation_assignments d)
      \<and> assignment_state d (TrimSpace i) \<noteq> Some StateArmed"
      by (rule delete_installation_tx_Inr)
        (auto simp: delete_spec_def delete_dependent_rows_def split: if_splits)
  qed simp
qed (auto simp: DeleteInstallation_def Let_def)

lemma Delete_states:
  "assignment_state (snd (DeleteInstallation e d i rid act)) j = assignment_state d j \<or>
   assignment_state d j \<noteq> Some StateArmed \<and> assignment_state (snd (DeleteInstallation e d i rid act)) j = None"
  using DeleteInstallation_assignments [of e d i rid act]
  by (cases "j = TrimSpace i") (auto simp: assignment_state_def find_delete_where find_delete_where_gone)

lemma assignment_next:
  assumes "store_step L d d'" "db_inv d"
  shows "assignment_state d' i = assignment_state d i
    \<or> assignment_state d i = None \<and> assignment_state d' i = Some StateArmed
    \<or> assignment_state d i = Some StateArmed \<and> assignment_state d' i \<in> {Some StateCancelled, Some StateConsumed}
    \<or> assignment_state d i \<noteq> Some StateArmed \<and> assignment_state d' i = None"
  using assms(1)
proof cases
  case st_arm then show ?thesis using Arm_states by blast
next
  case st_cancel then show ?thesis using Cancel_states [OF assms(2)] by blast
next
  case st_consume then show ?thesis using Consume_states [OF assms(2)] by blast
next
  case st_delete_installation then show ?thesis using Delete_states by metis
qed (use operation_frames [THEN assignment_state_frame] in \<open>simp_all\<close>)

interpretation assignment_history: tracked_state assignment_step assignment_rank db_inv "store_step L" assignment_state for L
proof
  fix d d' :: db and k s t
  show "db_inv d \<Longrightarrow> store_step L d d' \<Longrightarrow> db_inv d'" by (rule step_inv)
  show "db_inv d \<Longrightarrow> store_step L d d' \<Longrightarrow> assignment_state d k = Some s \<Longrightarrow> assignment_state d' k = Some t \<Longrightarrow>
      s = t \<or> assignment_step s t"
    using assignment_next [of L d d' k] by (auto simp: assignment_step_def)
qed

subsection \<open>Boot trust keys\<close>

definition key_state :: "db \<Rightarrow> string \<Rightarrow> KeyState option" where
  "key_state d fp = map_option k_State (List.find (\<lambda>k. k_Fingerprint k = fp) (boot_trust_keys d))"

lemma key_state_frame: "changes_only ts d d' \<Longrightarrow> TKeys \<notin> ts \<Longrightarrow> key_state d' = key_state d"
  by (simp add: key_state_def changes_only_def fun_eq_iff)

text \<open>What one rewriting of rows does to the state of a key.\<close>

lemma key_state_update:
  assumes "\<And>k. k_Fingerprint (f k) = k_Fingerprint k" "boot_trust_keys d' = update_where p f (boot_trust_keys d)"
  shows "key_state d' fp = key_state d fp \<or>
    (\<exists>k \<in> set (boot_trust_keys d). p k \<and> key_state d fp = Some (k_State k) \<and> key_state d' fp = Some (k_State (f k)))"
proof (cases "List.find (\<lambda>k. k_Fingerprint k = fp) (boot_trust_keys d)")
  case None
  then show ?thesis using assms by (simp add: key_state_def find_update_where)
next
  case (Some k)
  then show ?thesis using assms find_SomeD [OF Some] by (auto simp: key_state_def find_update_where)
qed

text \<open>An operation that may commit ends in the database it started with or in that of its body.\<close>

lemma RegisterBootTrustKey_outcome:
  "Q d \<Longrightarrow> (\<And>i pem fp ek x d'. register_tx e d i pem fp ek rid = Inr (x, Some d') \<Longrightarrow> Q d') \<Longrightarrow>
   Q (snd (RegisterBootTrustKey L e d i pem ek rid))"
  by (auto simp: RegisterBootTrustKey_def Let_def split: sum.split intro!: transact_keeps [of Q])

lemma ApproveBootTrustKey_outcome:
  "Q d \<Longrightarrow> (\<And>m fp act x d'. approve_tx e d m fp rid act = Inr (x, Some d') \<Longrightarrow> Q d') \<Longrightarrow>
   Q (snd (ApproveBootTrustKey e d m f rid act))"
  by (auto simp: ApproveBootTrustKey_def Let_def intro!: transact_keeps [of Q])

lemma DeleteInstallation_outcome:
  "Q d \<Longrightarrow> (\<And>x d'. TrimSpace act \<noteq> [] \<Longrightarrow>
     delete_installation_tx e d (TrimSpace i) rid (TrimSpace act) = Inr (x, Some d') \<Longrightarrow> Q d') \<Longrightarrow>
   Q (snd (DeleteInstallation e d i rid act))"
  by (auto simp: DeleteInstallation_def Let_def intro!: transact_keeps [of Q])

lemma DeleteMachine_outcome:
  "Q d \<Longrightarrow> (\<And>x d'. TrimSpace act \<noteq> [] \<Longrightarrow>
     delete_machine_tx e d (TrimSpace m) rid (TrimSpace act) = Inr (x, Some d') \<Longrightarrow> Q d') \<Longrightarrow>
   Q (snd (DeleteMachine e d m rid act))"
  by (auto simp: DeleteMachine_def Let_def intro!: transact_keeps [of Q])

lemma RegisterBootTrustKey_states:
  "key_state (snd (RegisterBootTrustKey L e d i pem ek rid)) fp = key_state d fp \<or>
   key_state d fp = None \<and> key_state (snd (RegisterBootTrustKey L e d i pem ek rid)) fp = Some KeyPending"
proof -
  have tx: "key_state d' fp = key_state d fp \<or> key_state d fp = None \<and> key_state d' fp = Some KeyPending"
    if "register_tx e d i' pem' fp' ek' rid = Inr (x, Some d')" for i' pem' fp' ek' x d'
  proof (cases x)
    case (Pair k new)
    from that [unfolded Pair] show ?thesis
    proof (cases rule: register_tx_Inr)
      case (1 m st)
      then have "boot_trust_keys d' = update_where (\<lambda>x. k_Fingerprint x = fp' \<and> k_MachineID x = m)
          (touch_key ek' (env_now e)) (boot_trust_keys d)" by simp
      from key_state_update [OF _ this, of fp] show ?thesis by (auto simp: touch_key_def)
    next
      case (2 m st)
      from 2(5) show ?thesis
        by (rule enroll_key_Inr) (auto simp: insert_boot_trust_key_def pending_key_def key_state_def find_append
            find_key_None split: if_splits option.splits dest: find_SomeD)
    qed
  qed
  show ?thesis by (rule RegisterBootTrustKey_outcome) (auto dest: tx)
qed

lemma ApproveBootTrustKey_states:
  "key_state (snd (ApproveBootTrustKey e d m f rid act)) fp = key_state d fp \<or>
   key_state d fp = Some KeyPending \<and> key_state (snd (ApproveBootTrustKey e d m f rid act)) fp = Some KeyApproved"
proof -
  have tx: "key_state d' fp = key_state d fp \<or> key_state d fp = Some KeyPending \<and> key_state d' fp = Some KeyApproved"
    if "approve_tx e d m' f' rid act' = Inr (x, Some d')" for m' f' act' x d'
  proof -
    have "boot_trust_keys d' = update_where (\<lambda>x. k_MachineID x = m' \<and> k_Fingerprint x = f' \<and> k_State x = KeyPending)
       (approve_row (env_now e) act') (boot_trust_keys d)"
      using that by (auto simp: approve_tx_def Let_def result_simps split: if_splits)
    from key_state_update [OF _ this, of fp] show ?thesis by (auto simp: approve_row_def)
  qed
  show ?thesis by (rule ApproveBootTrustKey_outcome) (auto dest: tx)
qed

lemma RevokeBootTrustKey_states:
  "key_state (snd (RevokeBootTrustKey e d m f rid act)) fp = key_state d fp \<or>
   key_state (snd (RevokeBootTrustKey e d m f rid act)) fp = Some KeyRevoked"
proof -
  have tx: "key_state d' fp = key_state d fp \<or> key_state d' fp = Some KeyRevoked"
    if "revoke_tx e d m' f' rid act' = Inr (x, Some d')" for m' f' act' x d'
  proof -
    have "boot_trust_keys d' = update_where (\<lambda>x. k_MachineID x = m' \<and> k_Fingerprint x = f')
       (revoke_row (env_now e) act') (boot_trust_keys d)"
      using that by (auto elim!: revoke_tx_Inr)
    from key_state_update [OF _ this, of fp] show ?thesis by (auto simp: revoke_row_def)
  qed
  show ?thesis
    unfolding RevokeBootTrustKey_def Let_def
    by (rule transact_keeps [of "\<lambda>d'. key_state d' fp = key_state d fp \<or> key_state d' fp = Some KeyRevoked"])
      (auto dest: tx)
qed

lemma DeleteMachine_keys:
  "\<exists>p. boot_trust_keys (snd (DeleteMachine e d m rid act)) = delete_where p (boot_trust_keys d)"
proof -
  have "\<exists>p. boot_trust_keys d' = delete_where p (boot_trust_keys d)"
    if "delete_machine_tx e d m' rid act' = Inr (x, Some d')" for m' act' x d'
    using that by (rule delete_machine_tx_Inr) (auto simp: delete_keys_def delete_machine_row_def split: if_splits)
  moreover have "\<exists>p. boot_trust_keys d = delete_where p (boot_trust_keys d)"
    by (rule exI [of _ "\<lambda>_. False"]) (simp add: delete_where_none)
  ultimately show ?thesis
    by (intro DeleteMachine_outcome [of "\<lambda>d'. \<exists>p. boot_trust_keys d' = delete_where p (boot_trust_keys d)" d]) auto
qed

lemma key_state_delete:
  assumes "distinct (map k_Fingerprint t)"
  shows "List.find (\<lambda>k. k_Fingerprint k = fp) (delete_where p t) = List.find (\<lambda>k. k_Fingerprint k = fp) t
     \<or> List.find (\<lambda>k. k_Fingerprint k = fp) (delete_where p t) = None"
  using assms by (induction t) (auto simp: delete_where_def find_key_None)

lemma key_next:
  assumes "store_step L d d'" "db_inv d" "key_state d fp = Some s" "key_state d' fp = Some t"
  shows "s = t \<or> key_step s t"
  using assms(1)
proof cases
  case st_register then show ?thesis using RegisterBootTrustKey_states assms(3,4) by (metis option.distinct(1) option.inject)
next
  case st_approve_key
  then show ?thesis using ApproveBootTrustKey_states assms(3,4) by (metis key_step_def option.inject)
next
  case st_revoke_key
  then show ?thesis using RevokeBootTrustKey_states assms(3,4) by (metis key_step_def option.inject)
next
  case (st_delete_machine e m rid act)
  have "distinct (map k_Fingerprint (boot_trust_keys d))"
    using db_invD(7) [OF assms(2)] by (simp add: key_inv_def)
  then have "key_state d' fp = key_state d fp \<or> key_state d' fp = None"
    using DeleteMachine_keys [of e d m rid act] key_state_delete [of "boot_trust_keys d" fp] st_delete_machine
    unfolding key_state_def by (metis option.simps(8))
  with assms(3,4) show ?thesis by simp
qed (use operation_frames [THEN key_state_frame] assms(3,4) in \<open>simp_all\<close>)

interpretation key_history: tracked_state key_step key_rank db_inv "store_step L" key_state for L
  by unfold_locales (auto intro: step_inv dest: key_next)

end
