(* ===== verification/Audit_Trail.thy ===== *)
theory Audit_Trail
  imports System
begin

text \<open>
  The audit log over the steps of the store: no operation changes or removes an event that is in
  the log, and the operations that decide what a machine will boot write to it.
\<close>

section \<open>The log only grows\<close>

definition grows :: "db \<Rightarrow> db \<Rightarrow> bool" where
  "grows d d' \<longleftrightarrow> (\<exists>vs. events d' = events d @ vs)"

lemma grows_refl [simp]: "grows d d"
  by (simp add: grows_def)

lemma grows_trans: "grows d d1 \<Longrightarrow> grows d1 d2 \<Longrightarrow> grows d d2"
  by (auto simp: grows_def)

lemma grows_event [intro!]: "grows d d' \<Longrightarrow> grows d (appendEventTx d' v)"
  by (auto simp: grows_def appendEventTx_def)

lemma grows_same: "events d' = events d \<Longrightarrow> grows d d'"
  by (simp add: grows_def)

lemma grows_updates [simp]:
  "grows d (d'\<lparr>machines := x1\<rparr>) = grows d d'" "grows d (d'\<lparr>machine_identifiers := x2\<rparr>) = grows d d'"
  "grows d (d'\<lparr>installation_specs := x3\<rparr>) = grows d d'" "grows d (d'\<lparr>installation_assignments := x4\<rparr>) = grows d d'"
  "grows d (d'\<lparr>operator_users := x5\<rparr>) = grows d d'" "grows d (d'\<lparr>operator_credentials := x6\<rparr>) = grows d d'"
  "grows d (d'\<lparr>lifecycle_credentials := x7\<rparr>) = grows d d'" "grows d (d'\<lparr>boot_trust_keys := x8\<rparr>) = grows d d'"
  "grows d (d'\<lparr>boot_trust_challenges := x9\<rparr>) = grows d d'" "grows d (d'\<lparr>lifecycle_events := y1\<rparr>) = grows d d'"
  "grows d (d'\<lparr>lifecycle_events_seq := y2\<rparr>) = grows d d'" "grows d (d'\<lparr>log_chunks := y3\<rparr>) = grows d d'"
  "grows d (d'\<lparr>log_chunks_seq := y4\<rparr>) = grows d d'"
  by (simp_all add: grows_def)

lemma grows_transact [intro!]:
  "(\<And>x d'. body = Inr (x, Some d') \<Longrightarrow> grows d d') \<Longrightarrow> grows d (snd (transact e b bm c cm d body))"
  by (rule transact_keeps [of "grows d"]) auto

lemma insert_grows:
  "insert_machine d m = Some d' \<Longrightarrow> grows d d'"
  "upsert_identifier d r = Some d' \<Longrightarrow> grows d d'"
  "insert_spec d s = Some d' \<Longrightarrow> grows d d'"
  "insert_assignment d a = Some d' \<Longrightarrow> grows d d'"
  "insert_lifecycle_credential d c = Some d' \<Longrightarrow> grows d d'"
  "insert_lifecycle_event d v = Some (d', n) \<Longrightarrow> grows d d'"
  "insert_log_chunk d l = Some (d', n) \<Longrightarrow> grows d d'"
  "insert_boot_trust_key d k = Some d' \<Longrightarrow> grows d d'"
  "insert_challenge d ch = Some d' \<Longrightarrow> grows d d'"
  "insert_user d u = Some d' \<Longrightarrow> grows d d'"
  "upsert_operator_credential d oc = Some d' \<Longrightarrow> grows d d'"
  by (auto simp: insert_machine_def upsert_identifier_def insert_spec_def insert_assignment_def
      insert_lifecycle_credential_def insert_lifecycle_event_def insert_log_chunk_def insert_boot_trust_key_def
      insert_challenge_def insert_user_def upsert_operator_credential_def Let_def split: if_splits)

lemma persist_identifiers_grows: "persist_identifiers e k d i t ids = Inr d' \<Longrightarrow> grows d d'"
  by (induction e k d i t ids rule: persist_identifiers.induct)
    (auto simp: result_simps split: if_splits dest: insert_grows intro: grows_trans)

lemma persist_observation_grows: "persist_observation e d c i a f st = Some d' \<Longrightarrow> grows d d'"
  by (auto simp: persist_observation_def dest: insert_grows split: if_splits)

lemma discover_tx_grows: "discover_tx e d a f st ids rid = Inr (x, Some d') \<Longrightarrow> grows d d'"
  by (cases x, simp, erule discover_tx_Inr)
    (auto dest!: persist_observation_grows persist_identifiers_grows intro: grows_trans)

lemma DiscoverMachine_grows: "grows d (snd (DiscoverMachine e d ob rid))"
  by (auto simp: DiscoverMachine_def Let_def split: option.splits sum.splits dest: discover_tx_grows)

lemma nickname_tx_grows: "nickname_tx e d i n rid act = Inr (x, Some d') \<Longrightarrow> grows d d'"
  by (auto simp: nickname_tx_def Let_def result_simps split: if_splits)

lemma SetMachineNickname_grows: "grows d (snd (SetMachineNickname e d i n rid act))"
  by (auto simp: SetMachineNickname_def Let_def split: sum.splits dest: nickname_tx_grows)

lemma policy_tx_grows: "policy_tx e d i p rid act = Inr (x, Some d') \<Longrightarrow> grows d d'"
  by (auto simp: policy_tx_def Let_def result_simps split: if_splits)

lemma SetMachinePolicy_grows: "grows d (snd (SetMachinePolicy e d i p rid act))"
  by (auto simp: SetMachinePolicy_def Let_def split: option.splits dest: policy_tx_grows)

lemma appendServer_grows: "appendServerLifecycleEventTx e k d i st key msg rid t = Inr d' \<Longrightarrow> grows d d'"
  by (erule appendServerLifecycleEventTx_Inr) (auto dest: insert_grows)

lemma create_spec_tx_grows: "create_spec_tx e d s rid = Inr (x, Some d') \<Longrightarrow> grows d d'"
  by (auto simp: create_spec_tx_def result_simps split: if_splits dest!: insert_grows appendServer_grows intro: grows_trans)

lemma CreateInstallationSpec_grows: "grows d (snd (CreateInstallationSpec L e d s rid))"
  by (auto simp: CreateInstallationSpec_def split: option.splits sum.splits dest: create_spec_tx_grows)

lemma persist_armed_grows: "persist_armed e d a rid = Inr (x, Some d') \<Longrightarrow> grows d d'"
  by (auto simp: persist_armed_def result_simps split: if_splits dest!: insert_grows appendServer_grows intro: grows_trans)

lemma ArmInstallation_grows: "grows d (snd (ArmInstallation e d m i rid act))"
  by (auto simp: ArmInstallation_def Let_def split: option.splits elim!: arm_tx_Inr dest: persist_armed_grows)

lemma CancelAssignment_grows: "grows d (snd (CancelAssignment e d i rid act))"
  by (auto simp: CancelAssignment_def Let_def split: option.splits elim!: cancel_tx_Inr)

lemma ConsumeAssignment_grows: "grows d (snd (ConsumeAssignment e d i rid act))"
  by (auto simp: ConsumeAssignment_def Let_def split: option.splits elim!: consume_tx_Inr)

lemma issue_tx_grows: "issue_tx L e d i rid act ttl = Inr (x, Some d') \<Longrightarrow> grows d d'"
  by (auto simp: issue_tx_def Let_def result_simps split: if_splits dest!: insert_grows)

lemma IssueLifecycleCredential_grows: "grows d (snd (IssueLifecycleCredential L e d i rid act ttl))"
  by (auto simp: IssueLifecycleCredential_def Let_def dest: issue_tx_grows)

lemma AuthenticateLifecycleCredential_grows: "grows d (snd (AuthenticateLifecycleCredential L e d i s))"
  by (auto simp: AuthenticateLifecycleCredential_def Let_def split: option.splits)

lemma revoke_credentials_grows [simp]: "grows d (revoke_credentials d' i t) = grows d d'"
  by (simp add: revoke_credentials_def)

lemma RevokeLifecycleCredential_grows: "grows d (snd (RevokeLifecycleCredential e d i rid act))"
  by (auto simp: RevokeLifecycleCredential_def Let_def)

lemma append_lifecycle_tx_grows: "append_lifecycle_tx e d r rid = Inr (x, Some d') \<Longrightarrow> grows d d'"
proof (cases x)
  case (Pair v dup)
  assume "append_lifecycle_tx e d r rid = Inr (x, Some d')"
  from this [unfolded Pair] show ?thesis
    by (cases rule: append_lifecycle_tx_Inr) (auto dest: insert_grows)
qed

lemma AppendLifecycleEvent_grows: "grows d (snd (AppendLifecycleEvent e d r rid))"
  by (auto simp: AppendLifecycleEvent_def dest: append_lifecycle_tx_grows)

lemma append_chunk_tx_grows: "append_chunk_tx e d c = Inr (x, Some d') \<Longrightarrow> grows d d'"
proof (cases x)
  case (Pair v dup)
  assume "append_chunk_tx e d c = Inr (x, Some d')"
  from this [unfolded Pair] show ?thesis
    by (cases rule: append_chunk_tx_Inr) (auto dest: insert_grows)
qed

lemma AppendInstallationLogChunk_grows: "grows d (snd (AppendInstallationLogChunk L e d c))"
  by (auto simp: AppendInstallationLogChunk_def Let_def dest: append_chunk_tx_grows)

lemma VerifyLifecycleMAC_grows: "grows d (snd (VerifyLifecycleMAC L e d i hm p k t b s))"
  by (auto simp: VerifyLifecycleMAC_def Let_def split: option.splits sum.splits)

lemma register_tx_grows: "register_tx e d i pem fp ek rid = Inr (x, Some d') \<Longrightarrow> grows d d'"
proof (cases x)
  case (Pair k new)
  assume "register_tx e d i pem fp ek rid = Inr (x, Some d')"
  from this [unfolded Pair] show ?thesis
    by (cases rule: register_tx_Inr) (auto dest: insert_grows elim!: enroll_key_Inr)
qed

lemma RegisterBootTrustKey_grows: "grows d (snd (RegisterBootTrustKey L e d i pem ek rid))"
  by (auto simp: RegisterBootTrustKey_def Let_def split: sum.splits prod.splits dest: register_tx_grows)

lemma approve_tx_grows: "approve_tx e d m fp rid act = Inr (x, Some d') \<Longrightarrow> grows d d'"
  by (auto simp: approve_tx_def Let_def result_simps split: if_splits)

lemma ApproveBootTrustKey_grows: "grows d (snd (ApproveBootTrustKey e d m fp rid act))"
  by (auto simp: ApproveBootTrustKey_def Let_def dest: approve_tx_grows)

lemma RevokeBootTrustKey_grows: "grows d (snd (RevokeBootTrustKey e d m fp rid act))"
  by (auto simp: RevokeBootTrustKey_def Let_def elim!: revoke_tx_Inr)

lemma CreateBootTrustChallenge_grows: "grows d (snd (CreateBootTrustChallenge e d i fp rid))"
  by (auto simp: CreateBootTrustChallenge_def Let_def dest: insert_grows elim!: challenge_tx_Inr)

lemma CompleteBootTrustChallenge_grows: "grows d (snd (CompleteBootTrustChallenge L e d i c s rid))"
  by (auto simp: CompleteBootTrustChallenge_def Let_def use_challenge_def elim!: complete_tx_Inr release_tx_Inr
      dest!: insert_grows)

text \<open>Deleting an entity takes its own events along and leaves an event of the system.\<close>

definition forgets :: "string \<Rightarrow> string \<Rightarrow> string \<Rightarrow> string \<Rightarrow> db \<Rightarrow> db \<Rightarrow> bool" where
  "forgets kind i act ty d d' \<longleftrightarrow>
     (\<exists>v. events d' = delete_where (\<lambda>w. ev_EntityType w = kind \<and> ev_EntityID w = i) (events d) @ [v]
       \<and> ev_EntityType v = ''system'' \<and> ev_EntityID v = i \<and> ev_Actor v = act \<and> ev_Type v = ty)"

lemma DeleteInstallation_events:
  "grows d (snd (DeleteInstallation e d i rid act)) \<or> TrimSpace act \<noteq> [] \<and>
   forgets ''installation'' (TrimSpace i) (TrimSpace act) ''INSTALLATION_DELETED'' d (snd (DeleteInstallation e d i rid act))"
    (is "?Q (snd (DeleteInstallation e d i rid act))")
proof (rule DeleteInstallation_outcome [of ?Q d])
  fix x d'
  assume act: "TrimSpace act \<noteq> []"
  assume "delete_installation_tx e d (TrimSpace i) rid (TrimSpace act) = Inr (x, Some d')"
  then show "?Q d'"
    by (rule delete_installation_tx_Inr)
      (use act in \<open>auto simp: forgets_def delete_spec_def delete_dependent_rows_def appendEventTx_def split: if_splits\<close>)
qed simp

lemma DeleteMachine_events:
  "grows d (snd (DeleteMachine e d m rid act)) \<or> TrimSpace act \<noteq> [] \<and>
   forgets ''machine'' (TrimSpace m) (TrimSpace act) ''MACHINE_DELETED'' d (snd (DeleteMachine e d m rid act))"
    (is "?Q (snd (DeleteMachine e d m rid act))")
proof (rule DeleteMachine_outcome [of ?Q d])
  fix x d'
  assume act: "TrimSpace act \<noteq> []"
  assume "delete_machine_tx e d (TrimSpace m) rid (TrimSpace act) = Inr (x, Some d')"
  then show "?Q d'"
    by (rule delete_machine_tx_Inr)
      (use act in \<open>auto simp: forgets_def delete_keys_def delete_machine_row_def appendEventTx_def split: if_splits\<close>)
qed simp

lemma ResolveOperatorUser_grows: "grows d (snd (ResolveOperatorUser e d p s n m rid))"
  by (auto simp: ResolveOperatorUser_def Let_def resolve_tx_def result_simps dest: insert_grows
      split: if_splits option.splits)

lemma set_user_grows [simp]: "grows d (set_user d' i f) = grows d d'"
  by (simp add: set_user_def)

lemma ClaimInitialAdmin_grows: "grows d (snd (ClaimInitialAdmin e d i rid act))"
  by (auto simp: ClaimInitialAdmin_def elim!: claim_tx_Inr)

lemma ApproveOperatorUser_grows: "grows d (snd (ApproveOperatorUser e d i role rid act))"
  by (auto simp: ApproveOperatorUser_def elim!: approve_user_tx_Inr)

lemma BlockOperatorUser_grows: "grows d (snd (BlockOperatorUser e d i rid act))"
  by (auto simp: BlockOperatorUser_def elim!: block_tx_Inr)

lemma SaveOperatorCredential_grows: "grows d (snd (SaveOperatorCredential e d i rp c rid act enrollment))"
  by (auto simp: SaveOperatorCredential_def split: option.splits elim!: save_credential_tx_Inr
      dest!: insert_grows intro: grows_trans)

lemmas operation_grows = DiscoverMachine_grows SetMachineNickname_grows SetMachinePolicy_grows
  CreateInstallationSpec_grows ArmInstallation_grows CancelAssignment_grows ConsumeAssignment_grows
  IssueLifecycleCredential_grows AuthenticateLifecycleCredential_grows RevokeLifecycleCredential_grows
  AppendLifecycleEvent_grows AppendInstallationLogChunk_grows VerifyLifecycleMAC_grows
  RegisterBootTrustKey_grows ApproveBootTrustKey_grows RevokeBootTrustKey_grows
  CreateBootTrustChallenge_grows CompleteBootTrustChallenge_grows
  ResolveOperatorUser_grows ClaimInitialAdmin_grows ApproveOperatorUser_grows
  BlockOperatorUser_grows SaveOperatorCredential_grows

lemma step_events:
  assumes "store_step L d d'"
  shows "grows d d' \<or> (\<exists>i act. act \<noteq> [] \<and> (forgets ''installation'' i act ''INSTALLATION_DELETED'' d d'
      \<or> forgets ''machine'' i act ''MACHINE_DELETED'' d d'))"
  using assms
proof cases
  case st_delete_installation
  then show ?thesis using DeleteInstallation_events by blast
next
  case st_delete_machine
  then show ?thesis using DeleteMachine_events by blast
qed (simp_all add: operation_grows)

text \<open>The events that belong neither to an installation nor to a machine, or to one of them only.\<close>

definition system_events :: "db \<Rightarrow> AuditEvent list" where
  "system_events d = filter (\<lambda>v. ev_EntityType v \<noteq> ''installation'' \<and> ev_EntityType v \<noteq> ''machine'') (events d)"

lemma filter_forgets:
  assumes "forgets kind i act ty d d'" "\<And>v. ev_EntityType v = kind \<Longrightarrow> ev_EntityID v = i \<Longrightarrow> \<not> p v"
  shows "\<exists>vs. filter p (events d') = filter p (events d) @ vs"
proof -
  have "filter p (delete_where (\<lambda>w. ev_EntityType w = kind \<and> ev_EntityID w = i) es) = filter p es" for es
    using assms(2) unfolding delete_where_def by (induction es) auto
  with assms(1) show ?thesis by (auto simp: forgets_def)
qed

lemma step_system_events:
  assumes "store_step L d d'"
  shows "\<exists>vs. system_events d' = system_events d @ vs"
  using step_events [OF assms]
proof (elim disjE exE conjE)
  show "grows d d' \<Longrightarrow> ?thesis" by (auto simp: grows_def system_events_def)
qed (auto simp: system_events_def dest!: filter_forgets [where p = "\<lambda>v. ev_EntityType v \<noteq> ''installation'' \<and> ev_EntityType v \<noteq> ''machine''"])

section \<open>Properties\<close>

text \<open>C20: the audit log is append-only. A step of the store appends events, possibly none, and removes
  none, unless it deletes an installation or a machine: then the events of this entity go and an
  event of the kind \<open>system\<close> with the name of an operator takes their place. The events that belong to
  neither installations nor machines, these included, are never changed or removed in any run.\<close>

theorem audit_log_append_only:
  assumes "successively (store_step L) (d # ds)"
  shows "(\<forall>d' \<in> set ds. \<exists>vs. system_events d' = system_events d @ vs)
    \<and> (\<forall>d'. store_step L (last (d # ds)) d' \<longrightarrow> (\<exists>vs. events d' = events (last (d # ds)) @ vs)
         \<or> (\<exists>i act. act \<noteq> [] \<and> (forgets ''installation'' i act ''INSTALLATION_DELETED'' (last (d # ds)) d'
              \<or> forgets ''machine'' i act ''MACHINE_DELETED'' (last (d # ds)) d')))"
proof (intro conjI ballI allI impI)
  fix d'
  assume "d' \<in> set ds"
  with assms show "\<exists>vs. system_events d' = system_events d @ vs"
  proof (induction ds arbitrary: d)
    case (Cons d1 ds)
    then have "store_step L d d1" by simp
    then obtain us where us: "system_events d1 = system_events d @ us" using step_system_events by blast
    show ?case
    proof (cases "d' = d1")
      case True
      with us show ?thesis by simp
    next
      case False
      with Cons obtain vs where "system_events d' = system_events d1 @ vs" by auto
      with us show ?thesis by simp
    qed
  qed simp
next
  fix d'
  assume "store_step L (last (d # ds)) d'"
  from step_events [OF this] show "(\<exists>vs. events d' = events (last (d # ds)) @ vs)
         \<or> (\<exists>i act. act \<noteq> [] \<and> (forgets ''installation'' i act ''INSTALLATION_DELETED'' (last (d # ds)) d'
              \<or> forgets ''machine'' i act ''MACHINE_DELETED'' (last (d # ds)) d'))"
    unfolding grows_def .
qed

theorem audit_log_append_only_witness:
  "\<exists>vs. system_events (snd (DeleteMachine sample_env sample_db ''m_1'' ''req'' ''op'')) = system_events sample_db @ vs"
proof -
  have "store_step (sample_lib 0) sample_db (snd (DeleteMachine sample_env sample_db ''m_1'' ''req'' ''op''))"
    by (rule st_delete_machine) simp
  then have "successively (store_step (sample_lib 0)) [sample_db, snd (DeleteMachine sample_env sample_db ''m_1'' ''req'' ''op'')]"
    by simp
  from audit_log_append_only [OF this] show ?thesis by simp
qed

end
