(* ===== verification/Boot_Trust_Properties.thy ===== *)
theory Boot_Trust_Properties
  imports Store_Boot_Trust
begin

text \<open>
  What the boot trust protocol of internal/store/boot_trust.go promises: a lifecycle credential
  leaves the server only as an answer to a proof of possession of an approved key, once per
  installation, and encrypted to that key.
\<close>

section \<open>Completing a challenge\<close>

lemma release_of_fields [simp]: "rl_Duplicate (release_of c)" "rl_Ciphertext (release_of c) = c_ResponseCipher c"
  by (simp_all add: release_of_def)

text \<open>A first release, taken apart.\<close>

lemma CompleteBootTrustChallenge_first:
  assumes "CompleteBootTrustChallenge L e d i c s rid = (Inr r, d')" "\<not> rl_Duplicate r"
  obtains row m pk where "row \<in> set (boot_trust_challenges d)" "ch_ID row = TrimSpace c"
    "ch_InstallationID row = TrimSpace i" "c_UsedAt (challenge_of_row row) = 0"
    "check_proof L e d (challenge_of_row row) (TrimSpace i) s = Inr (m, pk)"
    "release_tx L e d (challenge_of_row row) (TrimSpace i) m pk rid = Inr (r, Some d')"
proof -
  from assms(1) obtain x where "complete_tx L e d (TrimSpace i) (TrimSpace c) s rid = Inr (r, x)"
      and x: "x = Some d' \<or> x = None \<and> d' = d"
    by (auto simp: CompleteBootTrustChallenge_def Let_def transact_Inr split: if_splits)
  from this(1) show ?thesis
  proof (cases rule: complete_tx_Inr)
    case 1
    with assms(2) show ?thesis by simp
  next
    case (2 row m pk)
    from 2(6) obtain y where "x = Some y" by (rule release_tx_Inr) auto
    with x 2 that show ?thesis by auto
  qed
qed

lemma CompleteBootTrustChallenge_repeated:
  assumes "CompleteBootTrustChallenge L e d i c s rid = (Inr r, d')" "rl_Duplicate r"
  obtains row where "row \<in> set (boot_trust_challenges d)" "ch_ID row = TrimSpace c"
    "ch_InstallationID row = TrimSpace i" "ch_UsedAt row \<noteq> None" "d' = d" "r = release_of (challenge_of_row row)"
    "ch_ResponseCipher row \<noteq> []"
proof -
  from assms(1) obtain x where "complete_tx L e d (TrimSpace i) (TrimSpace c) s rid = Inr (r, x)"
      and x: "x = Some d' \<or> x = None \<and> d' = d"
    by (auto simp: CompleteBootTrustChallenge_def Let_def transact_Inr split: if_splits)
  from this(1) show ?thesis
  proof (cases rule: complete_tx_Inr)
    case (1 row)
    with x that show ?thesis by (auto simp: challenge_of_row_def)
  next
    case (2 row m pk)
    from 2(6) show ?thesis by (rule release_tx_Inr) (use assms(2) in auto)
  qed
qed

text \<open>
  A repetition looks at nothing but the challenge: every signature of an acceptable length gets it.
\<close>

lemma CompleteBootTrustChallenge_any_signature:
  assumes "CompleteBootTrustChallenge L e d i c s rid = (Inr r, d')" "rl_Duplicate r" "s' \<noteq> []" "length s' \<le> 1024"
  shows "CompleteBootTrustChallenge L e d i c s' rid = (Inr r, d)"
proof -
  have i: "TrimSpace i \<noteq> []" "TrimSpace c \<noteq> []"
    and run: "transact e 0 ''begin boot trust proof'' 10 ''commit boot trust proof'' d
      (complete_tx L e d (TrimSpace i) (TrimSpace c) s rid) = (Inr r, d')"
    using assms(1) by (auto simp: CompleteBootTrustChallenge_def Let_def split: if_splits)
  then obtain x where tx: "complete_tx L e d (TrimSpace i) (TrimSpace c) s rid = Inr (r, x)" by (auto simp: transact_Inr)
  then obtain ch where ch: "bootTrustChallengeTx e 1 d (TrimSpace i) (TrimSpace c) = Inr ch"
    by (auto simp: complete_tx_def split: sum.splits)
  have used: "c_UsedAt ch \<noteq> 0"
  proof
    assume "c_UsedAt ch = 0"
    with tx ch obtain m pk where "release_tx L e d ch (TrimSpace i) m pk rid = Inr (r, x)"
      by (auto simp: complete_tx_def split: sum.splits prod.splits)
    then show False by (rule release_tx_Inr) (use assms(2) in auto)
  qed
  with tx ch have "complete_tx L e d (TrimSpace i) (TrimSpace c) s' rid = complete_tx L e d (TrimSpace i) (TrimSpace c) s rid"
    by (simp add: complete_tx_def)
  moreover have "d' = d" using assms(1,2) by (rule CompleteBootTrustChallenge_repeated)
  ultimately show ?thesis
    using i run assms(3,4) by (simp add: CompleteBootTrustChallenge_def Let_def)
qed

section \<open>Properties\<close>

lemma first_release_proved:
  assumes "CompleteBootTrustChallenge L e d i c s rid = (Inr r, d')" "\<not> rl_Duplicate r"
  shows "\<exists>row m k pk canonical secret rnd.
    row \<in> set (boot_trust_challenges d) \<and> ch_ID row = TrimSpace c \<and> ch_InstallationID row = TrimSpace i
    \<and> ch_UsedAt row \<in> {None, Some 0} \<and> env_now e < ch_ExpiresAt row \<and> ch_MachineID row = m
    \<and> (TrimSpace i, m) \<in> spec_bindings (installation_specs d) \<and> policy_of d m = Some PolicyProvision
    \<and> assignment_state d (TrimSpace i) \<noteq> None \<and> assignment_state d (TrimSpace i) \<noteq> Some StateCancelled
    \<and> k \<in> set (boot_trust_keys d) \<and> k_MachineID k = TrimSpace m \<and> k_State k = KeyApproved
    \<and> ParseRSAPublicKeyPEM L (k_PublicKeyPEM k) = Inr (pk, ch_KeyFingerprint row)
    \<and> CanonicalChallenge (challenge_of_row row) = Inr canonical \<and> lib_rsa_verify L pk (lib_sha256 L canonical) s
    \<and> rand_Read e 0 32 = Some secret
    \<and> lib_rsa_encrypt L pk rnd (RawURL_Encode secret) (lifecycleCredentialOAEPLabel @ [NUL]) = Some (rl_Ciphertext r)
    \<and> (\<exists>cred. lifecycle_credentials d' = lifecycle_credentials d @ [cred] \<and> lc_InstallationID cred = TrimSpace i
         \<and> lc_SecretSHA256 cred = lib_sha256 L (RawURL_Encode secret) \<and> lc_ExpiresAt cred = env_now e + 24 * Hour)"
  using assms
proof (rule CompleteBootTrustChallenge_first)
  fix row m pk
  assume row: "row \<in> set (boot_trust_challenges d)" "ch_ID row = TrimSpace c" "ch_InstallationID row = TrimSpace i"
    and unused: "c_UsedAt (challenge_of_row row) = 0"
    and "check_proof L e d (challenge_of_row row) (TrimSpace i) s = Inr (m, pk)"
    and rel: "release_tx L e d (challenge_of_row row) (TrimSpace i) m pk rid = Inr (r, Some d')"
  from this(5) obtain k canonical where pr: "env_now e < ch_ExpiresAt row" "m = ch_MachineID row"
      "(TrimSpace i, m) \<in> spec_bindings (installation_specs d)"
      "assignment_state d (TrimSpace i) \<noteq> None" "assignment_state d (TrimSpace i) \<noteq> Some StateCancelled"
      "policy_of d m = Some PolicyProvision" "k \<in> set (boot_trust_keys d)" "k_MachineID k = TrimSpace m"
      "k_State k = KeyApproved" "ParseRSAPublicKeyPEM L (k_PublicKeyPEM k) = Inr (pk, ch_KeyFingerprint row)"
      "CanonicalChallenge (challenge_of_row row) = Inr canonical" "lib_rsa_verify L pk (lib_sha256 L canonical) s"
    by (rule check_proof_Inr) (auto simp: challenge_of_row_def)
  from rel obtain cred secret rnd where "rand_Read e 0 32 = Some secret"
      "lib_rsa_encrypt L pk rnd (RawURL_Encode secret) (lifecycleCredentialOAEPLabel @ [NUL]) = Some (rl_Ciphertext r)"
      "lifecycle_credentials d' = lifecycle_credentials d @ [cred]" "lc_InstallationID cred = TrimSpace i"
      "lc_SecretSHA256 cred = lib_sha256 L (RawURL_Encode secret)" "lc_ExpiresAt cred = env_now e + 24 * Hour"
    by (rule release_tx_Inr)
      (auto dest!: insert_lifecycle_credential_frame simp: use_challenge_def new_credential_def
        defaultLifecycleCredentialTTL_def)
  moreover have "ch_UsedAt row \<in> {None, Some 0}" using unused by (cases "ch_UsedAt row") (simp_all add: challenge_of_row_def)
  ultimately show ?thesis using row pr by blast
qed

text \<open>C3: a lifecycle credential is released only against a proof, and what was released is
  repeated to anyone who knows the challenge. A release answers a challenge of this very
  installation. A first release proves that the challenge is unused and not expired; the
  installation's machine is approved for provisioning and its assignment is not cancelled; the
  signature verifies, over the canonical text of this very challenge, under a key of this machine
  that an operator has approved. What is returned is a fresh secret encrypted to that key; the
  database gets one credential, for this installation, with the digest of the secret. A release
  marked as duplicate belongs to a used challenge, is its stored response and changes nothing; the
  signature is not verified then, every other of one to 1024 bytes gets the same answer.\<close>

theorem credential_release_needs_proof:
  assumes "CompleteBootTrustChallenge L e d i c s rid = (Inr r, d')"
  shows "if rl_Duplicate r
    then (\<exists>row. row \<in> set (boot_trust_challenges d) \<and> ch_ID row = TrimSpace c \<and> ch_InstallationID row = TrimSpace i
           \<and> ch_UsedAt row \<noteq> None \<and> r = release_of (challenge_of_row row) \<and> rl_Ciphertext r \<noteq> [])
       \<and> d' = d
       \<and> (\<forall>s'. s' \<noteq> [] \<and> length s' \<le> 1024 \<longrightarrow> CompleteBootTrustChallenge L e d i c s' rid = (Inr r, d))
    else \<exists>row m k pk canonical secret rnd.
      row \<in> set (boot_trust_challenges d) \<and> ch_ID row = TrimSpace c \<and> ch_InstallationID row = TrimSpace i
      \<and> ch_UsedAt row \<in> {None, Some 0} \<and> env_now e < ch_ExpiresAt row \<and> ch_MachineID row = m
      \<and> (TrimSpace i, m) \<in> spec_bindings (installation_specs d) \<and> policy_of d m = Some PolicyProvision
      \<and> assignment_state d (TrimSpace i) \<noteq> None \<and> assignment_state d (TrimSpace i) \<noteq> Some StateCancelled
      \<and> k \<in> set (boot_trust_keys d) \<and> k_MachineID k = TrimSpace m \<and> k_State k = KeyApproved
      \<and> ParseRSAPublicKeyPEM L (k_PublicKeyPEM k) = Inr (pk, ch_KeyFingerprint row)
      \<and> CanonicalChallenge (challenge_of_row row) = Inr canonical \<and> lib_rsa_verify L pk (lib_sha256 L canonical) s
      \<and> rand_Read e 0 32 = Some secret
      \<and> lib_rsa_encrypt L pk rnd (RawURL_Encode secret) (lifecycleCredentialOAEPLabel @ [NUL]) = Some (rl_Ciphertext r)
      \<and> (\<exists>cred. lifecycle_credentials d' = lifecycle_credentials d @ [cred] \<and> lc_InstallationID cred = TrimSpace i
           \<and> lc_SecretSHA256 cred = lib_sha256 L (RawURL_Encode secret) \<and> lc_ExpiresAt cred = env_now e + 24 * Hour)"
proof (cases "rl_Duplicate r")
  case True
  with assms obtain row where "row \<in> set (boot_trust_challenges d)" "ch_ID row = TrimSpace c" "ch_InstallationID row = TrimSpace i"
    "ch_UsedAt row \<noteq> None" "d' = d" "r = release_of (challenge_of_row row)" "ch_ResponseCipher row \<noteq> []"
    by (rule CompleteBootTrustChallenge_repeated)
  then have "(\<exists>row. row \<in> set (boot_trust_challenges d) \<and> ch_ID row = TrimSpace c \<and> ch_InstallationID row = TrimSpace i
      \<and> ch_UsedAt row \<noteq> None \<and> r = release_of (challenge_of_row row) \<and> rl_Ciphertext r \<noteq> []) \<and> d' = d"
    by (auto simp: challenge_of_row_def)
  with True CompleteBootTrustChallenge_any_signature [OF assms True] show ?thesis by simp
next
  case False
  with first_release_proved [OF assms False] show ?thesis by simp
qed

subsection \<open>A machine with an approved key and an open challenge\<close>

definition sample_modulus :: nat where "sample_modulus = 2 ^ 2047"

lemma BitLen_power: "BitLen (2 ^ n) = Suc n"
  by (induction n) (simp_all add: BitLen.simps)

lemma BitLen_sample [simp]: "BitLen sample_modulus = 2048"
  unfolding sample_modulus_def BitLen_power by simp

definition sample_fingerprint :: string where
  "sample_fingerprint = ''sha256:'' @ hex_encode (sample_digest ''pem'')"

definition sample_challenge :: ChallengeRow where
  "sample_challenge = \<lparr>ch_ID = ''btc_1'', ch_InstallationID = ''i_1'', ch_MachineID = ''m_1'',
     ch_KeyFingerprint = sample_fingerprint, ch_Nonce = replicate 32 (CHR ''n''), ch_CreatedAt = 1,
     ch_ExpiresAt = 64000000000000000000, ch_UsedAt = None, ch_ResponseCipher = '''', ch_CredentialExpiresAt = None\<rparr>"

definition sample_trust_db :: db where
  "sample_trust_db = sample_db\<lparr>boot_trust_keys := [sample_key\<lparr>k_Fingerprint := sample_fingerprint\<rparr>],
     boot_trust_challenges := [sample_challenge]\<rparr>"

definition sample_proof :: string where
  "sample_proof = sample_digest (projr (CanonicalChallenge (challenge_of_row sample_challenge)))"

lemma sample_trust_db_inv: "db_inv sample_trust_db"
  using sample_db_inv
  by (simp add: db_inv_def sample_trust_db_def sample_db_def empty_db_def key_inv_def sample_key_def chal_inv_def
      sample_challenge_def sample_machine_def sample_spec_def)

lemma sample_fingerprint_trim [simp]: "TrimSpace sample_fingerprint = sample_fingerprint"
  unfolding sample_fingerprint_def by (rule TrimSpace_tagged_hex) (simp add: plain_def byte_def space1_def)

lemma sample_fingerprint_nonempty [simp]: "sample_fingerprint \<noteq> []"
  by (simp add: sample_fingerprint_def)

lemma sample_parse: "ParseRSAPublicKeyPEM (sample_lib sample_modulus) ''pem'' = Inr (RSAKey sample_modulus 65537, sample_fingerprint)"
  by (simp add: ParseRSAPublicKeyPEM_def Let_def sample_trim MaxPublicKeyPEMBytes_def sample_lib_def sample_fingerprint_def)

lemma sample_canonical_challenge:
  "\<exists>canonical. CanonicalChallenge (challenge_of_row sample_challenge) = Inr canonical"
  by (simp add: CanonicalChallenge_def challenge_of_row_def sample_challenge_def sample_trim)

lemma sample_release:
  "map_sum (\<lambda>f. ()) rl_Duplicate (fst (CompleteBootTrustChallenge (sample_lib sample_modulus) sample_env sample_trust_db
     ''i_1'' ''btc_1'' sample_proof ''req'')) = Inr False"
proof -
  obtain canonical where c: "CanonicalChallenge (challenge_of_row sample_challenge) = Inr canonical"
    using sample_canonical_challenge by blast
  have "check_proof (sample_lib sample_modulus) sample_env sample_trust_db (challenge_of_row sample_challenge) ''i_1''
      sample_proof = Inr (''m_1'', RSAKey sample_modulus 65537)"
    using c sample_parse
    by (simp add: check_proof_def trustBindingTx_def requireProvisionPolicyTx_def bootTrustKeyTx_def query_row_def
        sample_trust_db_def sample_db_def empty_db_def sample_spec_def sample_assignment_def sample_machine_def
        sample_key_def sample_trim sample_proof_def sample_lib_def)
      (simp add: sample_challenge_def challenge_of_row_def sample_trim)
  moreover have "sample_proof \<noteq> []" "length sample_proof \<le> 1024"
    using length_sample_digest by (auto simp: sample_proof_def simp flip: length_greater_0_conv)
  moreover have "List.find (\<lambda>r. ch_ID r = ''btc_1'' \<and> ch_InstallationID r = ''i_1'') (boot_trust_challenges sample_trust_db) =
      Some sample_challenge" "c_UsedAt (challenge_of_row sample_challenge) = 0"
    by (simp_all add: sample_trust_db_def sample_challenge_def challenge_of_row_def)
  ultimately show ?thesis
    by (simp add: CompleteBootTrustChallenge_def Let_def complete_tx_def bootTrustChallengeTx_def query_row_def sample_trim
        release_tx_def rand_Read_def insert_lifecycle_credential_def transact_def sample_trust_db_def sample_db_def
        empty_db_def sample_spec_def sample_lib_def new_credential_def del: upt_Suc)
qed

lemma sample_release_cases:
  obtains r where "CompleteBootTrustChallenge (sample_lib sample_modulus) sample_env sample_trust_db ''i_1'' ''btc_1''
      sample_proof ''req'' = (Inr r, snd (CompleteBootTrustChallenge (sample_lib sample_modulus) sample_env sample_trust_db
      ''i_1'' ''btc_1'' sample_proof ''req''))" "\<not> rl_Duplicate r"
  using sample_release
  by (cases "CompleteBootTrustChallenge (sample_lib sample_modulus) sample_env sample_trust_db ''i_1'' ''btc_1'' sample_proof ''req''";
      cases "fst (CompleteBootTrustChallenge (sample_lib sample_modulus) sample_env sample_trust_db ''i_1'' ''btc_1'' sample_proof ''req'')")
    auto

theorem credential_release_needs_proof_witness:
  "map lc_InstallationID (lifecycle_credentials (snd (CompleteBootTrustChallenge (sample_lib sample_modulus) sample_env
     sample_trust_db ''i_1'' ''btc_1'' sample_proof ''req''))) = [''i_1'']"
proof (rule sample_release_cases)
  fix r
  let ?r = "CompleteBootTrustChallenge (sample_lib sample_modulus) sample_env sample_trust_db ''i_1'' ''btc_1'' sample_proof ''req''"
  assume "?r = (Inr r, snd ?r)" "\<not> rl_Duplicate r"
  with credential_release_needs_proof [OF this(1)] obtain cred
    where "lifecycle_credentials (snd ?r) = lifecycle_credentials sample_trust_db @ [cred]" "lc_InstallationID cred = ''i_1''"
    by (auto simp: sample_trim)
  then show ?thesis by (simp add: sample_trust_db_def sample_db_def empty_db_def)
qed

section \<open>Answering a used challenge again\<close>

text \<open>
  a response that was lost can be asked for again. Completing a released challenge once more,
  whatever the time and the signature, gives the very same ciphertext and expiry, marked as a
  repetition, and changes nothing.\<close>

theorem release_replay_is_identical:
  assumes "db_inv d" "clock_ok e" "CompleteBootTrustChallenge L e d i c s rid = (Inr r, d')" "\<not> rl_Duplicate r"
    and "rl_Ciphertext r \<noteq> []" "env_now e + 24 * Hour \<noteq> 0" "\<forall>k. env_io e' k" "s' \<noteq> []" "length s' \<le> 1024"
  shows "CompleteBootTrustChallenge L e' d' i c s' rid' = (Inr (r\<lparr>rl_Duplicate := True\<rparr>), d')"
  using assms(3,4)
proof (rule CompleteBootTrustChallenge_first)
  fix row m pk
  assume row: "row \<in> set (boot_trust_challenges d)" "ch_ID row = TrimSpace c" "ch_InstallationID row = TrimSpace i"
    and rel: "release_tx L e d (challenge_of_row row) (TrimSpace i) m pk rid = Inr (r, Some d')"
  let ?t = "env_now e + defaultLifecycleCredentialTTL"
  let ?row = "row\<lparr>ch_UsedAt := Some (env_now e), ch_ResponseCipher := rl_Ciphertext r, ch_CredentialExpiresAt := Some ?t\<rparr>"
  have r: "TrimSpace i \<notin> lc_InstallationID ` set (lifecycle_credentials d)"
      "boot_trust_challenges d' = update_where (\<lambda>x. ch_ID x = ch_ID row \<and> ch_UsedAt x = None)
        (\<lambda>x. x\<lparr>ch_UsedAt := Some (env_now e), ch_ResponseCipher := rl_Ciphertext r, ch_CredentialExpiresAt := Some ?t\<rparr>)
        (boot_trust_challenges d)"
      "rl_ChallengeID r = ch_ID row" "rl_Algorithm r = ''RSA-OAEP-SHA256''" "rl_CredentialExpiry r = ?t"
    using rel by (rule release_tx_Inr, auto dest!: insert_lifecycle_credential_frame
        simp: use_challenge_def challenge_of_row_def)+
  have inv: "distinct (map ch_ID (boot_trust_challenges d))" "ch_UsedAt row = None"
    using db_invD(8) [OF assms(1)] row r(1) unfolding chal_inv_def by metis+
  have "List.find (\<lambda>x. ch_ID x = TrimSpace c \<and> ch_InstallationID x = TrimSpace i) (boot_trust_challenges d) = Some row"
    by (rule find_unique [OF row(1)]) (use row inv in \<open>auto intro: distinct_key_eq\<close>)
  then have "List.find (\<lambda>x. ch_ID x = TrimSpace c \<and> ch_InstallationID x = TrimSpace i) (boot_trust_challenges d') = Some ?row"
    using row inv(2) unfolding r(2) by (simp add: find_update_where)
  moreover have "TrimSpace i \<noteq> []" "TrimSpace c \<noteq> []"
    using assms(3) by (auto simp: CompleteBootTrustChallenge_def Let_def split: if_splits)
  ultimately show ?thesis
    using assms(2,5-9) r(3-5) row(2)
    by (cases r) (simp add: CompleteBootTrustChallenge_def Let_def complete_tx_def bootTrustChallengeTx_def query_row_def
        challenge_of_row_def release_of_def transact_def defaultLifecycleCredentialTTL_def)
qed

lemma sample_ciphertext_nonempty:
  assumes "CompleteBootTrustChallenge (sample_lib n) e d i c s rid = (Inr r, d')" "\<not> rl_Duplicate r"
  shows "rl_Ciphertext r \<noteq> []"
  using assms by (rule CompleteBootTrustChallenge_first) (erule release_tx_Inr, auto simp: sample_lib_def)

theorem release_replay_is_identical_witness:
  "let L = sample_lib sample_modulus; r = CompleteBootTrustChallenge L sample_env sample_trust_db ''i_1'' ''btc_1'' sample_proof ''req''
   in snd (CompleteBootTrustChallenge L sample_env (snd r) ''i_1'' ''btc_1'' ''forged'' ''again'') = snd r"
proof (rule sample_release_cases)
  fix r
  let ?r = "CompleteBootTrustChallenge (sample_lib sample_modulus) sample_env sample_trust_db ''i_1'' ''btc_1'' sample_proof ''req''"
  assume r: "?r = (Inr r, snd ?r)" "\<not> rl_Duplicate r"
  from release_replay_is_identical [OF sample_trust_db_inv _ r sample_ciphertext_nonempty [OF r], of sample_env "''forged''"]
  show ?thesis by (simp add: duration_defs)
qed

text \<open>C5: at most one release per installation. After a first release no challenge of the same
  installation, however many were open and whatever they prove, releases another credential: every
  later completion either fails or repeats a stored response without changing the database.\<close>

theorem released_once_per_installation:
  assumes "CompleteBootTrustChallenge L e d i c s rid = (Inr r, d')" "\<not> rl_Duplicate r"
    and "CompleteBootTrustChallenge L' e' d' i c' s' rid' = (Inr r', d'')"
  shows "rl_Duplicate r' \<and> d'' = d'"
proof -
  have known: "TrimSpace i \<in> lc_InstallationID ` set (lifecycle_credentials d')"
    using assms(1,2)
    by (rule CompleteBootTrustChallenge_first) (erule release_tx_Inr, auto dest!: insert_lifecycle_credential_frame
        simp: use_challenge_def new_credential_def)
  have "rl_Duplicate r'"
  proof (rule ccontr)
    assume "\<not> rl_Duplicate r'"
    with assms(3) show False
      by (rule CompleteBootTrustChallenge_first) (use known in \<open>auto elim!: release_tx_Inr\<close>)
  qed
  with assms(3) show ?thesis by (auto elim: CompleteBootTrustChallenge_repeated)
qed

theorem released_once_per_installation_witness:
  "let L = sample_lib sample_modulus; r = CompleteBootTrustChallenge L sample_env sample_trust_db ''i_1'' ''btc_1'' sample_proof ''req'';
       again = CompleteBootTrustChallenge L sample_env (snd r) ''i_1'' ''btc_1'' sample_proof ''again''
   in isl (fst again) \<or> snd again = snd r"
proof (rule sample_release_cases)
  fix r
  let ?L = "sample_lib sample_modulus"
  let ?r = "CompleteBootTrustChallenge ?L sample_env sample_trust_db ''i_1'' ''btc_1'' sample_proof ''req''"
  let ?again = "CompleteBootTrustChallenge ?L sample_env (snd ?r) ''i_1'' ''btc_1'' sample_proof ''again''"
  assume r: "?r = (Inr r, snd ?r)" "\<not> rl_Duplicate r"
  have "isl (fst ?again) \<or> ?again = (Inr (projr (fst ?again)), snd ?again)" using succeeded [of ?again] by blast
  with released_once_per_installation [OF r, of ?L sample_env "''btc_1''" sample_proof "''again''"] show ?thesis
    unfolding Let_def by blast
qed

section \<open>Revoked keys\<close>

lemma RevokeBootTrustKey_revokes:
  assumes "RevokeBootTrustKey e d m fp rid act = (Inr k, d')"
  shows "\<exists>x \<in> set (boot_trust_keys d'). k_Fingerprint x = TrimSpace fp \<and> k_State x = KeyRevoked"
proof -
  let ?q = "\<lambda>x. k_MachineID x = TrimSpace m \<and> k_Fingerprint x = TrimSpace fp"
  obtain x where tx: "revoke_tx e d (TrimSpace m) (TrimSpace fp) rid (TrimSpace act) = Inr (k, x)"
      "x = Some d' \<or> x = None \<and> d' = d"
    using assms by (auto simp: RevokeBootTrustKey_def Let_def transact_Inr)
  obtain old where old: "bootTrustKeyTx e 1 d (TrimSpace m) (TrimSpace fp) = Inr old"
    using tx(1) by (auto simp: revoke_tx_def split: sum.splits)
  note found = bootTrustKeyTx_Inr [OF old, unfolded TrimSpace_idem]
  show ?thesis
  proof (cases "k_State old = KeyRevoked")
    case True
    with tx old have "d' = d" by (simp add: revoke_tx_def)
    with found True show ?thesis by blast
  next
    case False
    with tx old have "boot_trust_keys d' = update_where ?q (revoke_row (env_now e) (TrimSpace act)) (boot_trust_keys d)"
      by (auto simp: revoke_tx_def Let_def split: if_splits)
    with found have "revoke_row (env_now e) (TrimSpace act) old \<in> set (boot_trust_keys d')"
      by (force simp: set_update_where)
    moreover have "k_Fingerprint (revoke_row (env_now e) (TrimSpace act) old) = TrimSpace fp"
        "k_State (revoke_row (env_now e) (TrimSpace act) old) = KeyRevoked"
      using found by (simp_all add: revoke_row_def)
    ultimately show ?thesis by blast
  qed
qed

text \<open>C18: revocation takes effect at once on everything that is not released yet. After an operator
  has revoked a key, no challenge is made for it and an open challenge made for it is answered with
  an error, whoever signs. A challenge of the key that was used before gives at most its stored
  response again; no credential is added and the database stays as it is.\<close>

theorem revoked_key_releases_nothing_new:
  assumes "db_inv d" "RevokeBootTrustKey e d m fp rid act = (Inr k, d')"
  shows "isl (fst (CreateBootTrustChallenge e' d' i fp rid'))
    \<and> (\<forall>row. row \<in> set (boot_trust_challenges d') \<and> ch_ID row = TrimSpace c \<and> ch_KeyFingerprint row = TrimSpace fp \<longrightarrow>
         (ch_UsedAt row = None \<longrightarrow> isl (fst (CompleteBootTrustChallenge L e' d' i c s rid')))
         \<and> (\<forall>r d''. CompleteBootTrustChallenge L e' d' i c s rid' = (Inr r, d'') \<longrightarrow>
              rl_Duplicate r \<and> r = release_of (challenge_of_row row) \<and> d'' = d'))"
proof -
  have inv: "db_inv d'" using RevokeBootTrustKey_inv [OF assms(1), of e m fp rid act] assms(2) by simp
  note revoked = RevokeBootTrustKey_revokes [OF assms(2)]
  have only: "k_State y \<noteq> KeyApproved" if "y \<in> set (boot_trust_keys d')" "k_Fingerprint y = TrimSpace fp" for y
    using that revoked db_invD(7) [OF inv] by (auto simp: key_inv_def dest: distinct_key_eq)
  have "isl (fst (CreateBootTrustChallenge e' d' i fp rid'))"
    by (rule isl_failed) (use only in \<open>auto simp: CreateBootTrustChallenge_def Let_def transact_Inr elim!: challenge_tx_Inr\<close>)
  moreover have "rl_Duplicate r \<and> r = release_of (challenge_of_row row) \<and> d'' = d' \<and> ch_UsedAt row \<noteq> None"
    if "row \<in> set (boot_trust_challenges d')" "ch_ID row = TrimSpace c"
      "ch_KeyFingerprint row = TrimSpace fp" "CompleteBootTrustChallenge L e' d' i c s rid' = (Inr r, d'')" for row r d''
  proof -
    have same: "row' = row" if "row' \<in> set (boot_trust_challenges d')" "ch_ID row' = TrimSpace c" for row'
      using that \<open>row \<in> _\<close> \<open>ch_ID row = _\<close> db_invD(8) [OF inv] by (auto simp: chal_inv_def intro: distinct_key_eq)
    have dup: "rl_Duplicate r"
    proof (rule ccontr)
      assume "\<not> rl_Duplicate r"
      with that(4) show False
      proof (rule CompleteBootTrustChallenge_first)
        fix row' m' pk
        assume row': "row' \<in> set (boot_trust_challenges d')" "ch_ID row' = TrimSpace c"
          and chk: "check_proof L e' d' (challenge_of_row row') (TrimSpace i) s = Inr (m', pk)"
        from chk same [OF row'] that(3) only show False by (auto simp: challenge_of_row_def elim!: check_proof_Inr)
      qed
    qed
    with that(4) show ?thesis by (rule CompleteBootTrustChallenge_repeated) (use same dup in auto)
  qed
  moreover have "isl x" if "\<And>r. x \<noteq> Inr r" for x :: "Release result" using that by (cases x) auto
  ultimately show ?thesis by (metis prod.collapse)
qed

theorem revoked_key_releases_nothing_new_witness:
  "isl (fst (CreateBootTrustChallenge sample_env (snd (RevokeBootTrustKey sample_env sample_db ''m_1'' ''sha256:00'' ''req'' ''op''))
     ''i_1'' ''sha256:00'' ''req''))"
proof -
  let ?r = "RevokeBootTrustKey sample_env sample_db ''m_1'' ''sha256:00'' ''req'' ''op''"
  have "isl (fst ?r) = False" by code_simp
  from revoked_key_releases_nothing_new [OF sample_db_inv succeeded [OF this], THEN conjunct1] show ?thesis .
qed

section \<open>The text of a challenge\<close>

text \<open>
  a signature answers one challenge only. Challenges with the same canonical text, whose
  identifiers carry no line break, agree in identifier, installation, machine, key and nonce.\<close>

theorem challenge_text_determines_challenge:
  assumes "CanonicalChallenge a = Inr t" "CanonicalChallenge b = Inr t"
    and "\<forall>x \<in> {a, b}. \<forall>s \<in> {c_ID x, c_InstallationID x, c_MachineID x, c_KeyFingerprint x}. LF \<notin> set s"
  shows "c_ID a = c_ID b \<and> c_InstallationID a = c_InstallationID b \<and> c_MachineID a = c_MachineID b
    \<and> c_KeyFingerprint a = c_KeyFingerprint b \<and> c_Nonce a = c_Nonce b"
proof -
  define lines where "lines c = [''AEGISPXE-BOOT-TRUST-V1'', c_ID c, c_InstallationID c, c_MachineID c,
      c_KeyFingerprint c, RawURL_Encode (c_Nonce c)]" for c :: Challenge
  have canon: "t = join_with [LF] (lines c) @ [LF]" if "CanonicalChallenge c = Inr t" for c
    using that unfolding CanonicalChallenge_def lines_def by (simp split: if_splits)
  have free: "\<forall>l \<in> set (lines c). LF \<notin> set l" if "c \<in> {a, b}" for c
    using that assms(3) RawURL_Encode_no_LF by (auto simp: lines_def)
  have "join_with [LF] (lines a) @ [LF] = join_with [LF] (lines b) @ [LF]"
    using canon [OF assms(1)] canon [OF assms(2)] by metis
  then have "lines a = lines b"
    using free [of a] free [of b] by (intro join_LF_inj) (simp_all, simp_all add: lines_def)
  then show ?thesis unfolding lines_def by (auto dest: RawURL_Encode_inj)
qed

theorem challenge_text_determines_challenge_witness:
  "CanonicalChallenge (challenge_of_row sample_challenge) \<noteq>
   CanonicalChallenge (challenge_of_row (sample_challenge\<lparr>ch_ID := ''btc_2''\<rparr>))"
proof
  let ?a = "challenge_of_row sample_challenge" and ?b = "challenge_of_row (sample_challenge\<lparr>ch_ID := ''btc_2''\<rparr>)"
  obtain t where t: "CanonicalChallenge ?a = Inr t" using sample_canonical_challenge by blast
  assume "CanonicalChallenge ?a = CanonicalChallenge ?b"
  with t have t': "CanonicalChallenge ?b = Inr t" by simp
  have "LF \<notin> set sample_fingerprint" using hex_encode_no_LF by (simp add: sample_fingerprint_def)
  with challenge_text_determines_challenge [OF t t'] show False
    by (simp add: challenge_of_row_def sample_challenge_def)
qed

end
