(* ===== verification/System_Properties.thy ===== *)
theory System_Properties
  imports Audit_Trail Boot_Trust_Properties
begin

text \<open>
  What holds of every database the service can reach, and along every run of the store: the
  properties that need all operations at once.
\<close>

section \<open>Machines are approved by operators only\<close>

lemma policy_of_frame: "changes_only ts d d' \<Longrightarrow> TMachines \<notin> ts \<Longrightarrow> policy_of d' = policy_of d"
  by (rule policy_of_cong) (simp add: changes_only_def)

lemma SetMachineNickname_policy_of: "policy_of (snd (SetMachineNickname e d m n rid act)) i = policy_of d i"
proof -
  have "policy_of d' i = policy_of d i" if "nickname_tx e d m' n' rid' act' = Inr (x, Some d')" for m' n' rid' act' x d'
  proof -
    have "machines d' = update_where (\<lambda>m. m_ID m = m') (\<lambda>m. m\<lparr>m_Nickname := n'\<rparr>) (machines d)"
      using that by (auto simp: nickname_tx_def Let_def result_simps split: if_splits)
    then show ?thesis by (simp add: policy_of_def find_update_where_key)
  qed
  then show ?thesis
    by (auto simp: SetMachineNickname_def Let_def split: sum.split
        intro!: transact_keeps [of "\<lambda>d'. policy_of d' i = policy_of d i"])
qed

lemma DeleteMachine_policy_of:
  "policy_of (snd (DeleteMachine e d m rid act)) i = policy_of d i \<or> policy_of (snd (DeleteMachine e d m rid act)) i = None"
proof (rule DeleteMachine_outcome [of "\<lambda>d'. policy_of d' i = policy_of d i \<or> policy_of d' i = None" d])
  fix x d'
  assume "delete_machine_tx e d (TrimSpace m) rid (TrimSpace act) = Inr (x, Some d')"
  then have "machines d' = delete_where (\<lambda>x. m_ID x = TrimSpace m) (machines d)"
    by (rule delete_machine_tx_Inr) (auto simp: delete_keys_def delete_machine_row_def split: if_splits)
  then show "policy_of d' i = policy_of d i \<or> policy_of d' i = None"
    by (cases "i = TrimSpace m") (auto simp: policy_of_def find_delete_where find_delete_where_gone)
qed simp

lemma SetMachinePolicy_outcome:
  "Q d \<Longrightarrow> (\<And>rid' x d'. TrimSpace act \<noteq> [] \<Longrightarrow> policy_tx e d m p rid' (TrimSpace act) = Inr (x, Some d') \<Longrightarrow> Q d') \<Longrightarrow>
   Q (snd (SetMachinePolicy e d m p rid act))"
  by (auto simp: SetMachinePolicy_def Let_def split: option.split intro!: transact_keeps [of Q])

lemma SetMachinePolicy_policy_of:
  "policy_of (snd (SetMachinePolicy e d m p rid act)) i = policy_of d i \<or>
   i = m \<and> policy_of (snd (SetMachinePolicy e d m p rid act)) i = Some p \<and> TrimSpace act \<noteq> [] \<and>
   (\<exists>v. events (snd (SetMachinePolicy e d m p rid act)) = events d @ [v] \<and> ev_EntityID v = m
      \<and> ev_Type v = ''MACHINE_POLICY_CHANGED'' \<and> ev_Actor v = TrimSpace act)"
    (is "?Q (snd (SetMachinePolicy e d m p rid act))")
proof -
  have "?Q d'" if tx: "policy_tx e d m p rid' (TrimSpace act) = Inr (x, Some d')" "TrimSpace act \<noteq> []" for rid' x d'
  proof -
    obtain msg where d': "d' = appendEventTx (d\<lparr>machines := update_where (\<lambda>x. m_ID x = m) (\<lambda>m. m\<lparr>m_Policy := p\<rparr>) (machines d)\<rparr>)
        (event_row ''machine'' m ''MACHINE_POLICY_CHANGED'' (env_now e) rid' (TrimSpace act) msg)"
      using tx(1) by (auto simp: policy_tx_def Let_def result_simps split: if_splits)
    have "policy_of d' i = (if i = m then map_option (\<lambda>_. p) (policy_of d i) else policy_of d i)"
      by (auto simp: d' policy_of_def find_update_where option.map_comp comp_def dest: find_SomeD
          intro!: arg_cong [of _ _ "\<lambda>f. map_option f _"] option.map_cong0 split: option.splits)
    with d' tx(2) show ?thesis by (cases "policy_of d i") (auto simp: appendEventTx_def event_row_def)
  qed
  then show ?thesis by (intro SetMachinePolicy_outcome [of ?Q d]) simp_all
qed

lemma policy_next:
  assumes "store_step L d d'" "policy_of d' i = Some PolicyProvision" "policy_of d i \<noteq> Some PolicyProvision"
  shows "\<exists>e rid act. d' = snd (SetMachinePolicy e d i PolicyProvision rid act) \<and> TrimSpace act \<noteq> []
    \<and> (\<exists>v. events d' = events d @ [v] \<and> ev_EntityID v = i \<and> ev_Type v = ''MACHINE_POLICY_CHANGED''
         \<and> ev_Actor v = TrimSpace act)"
  using assms(1)
proof cases
  case st_discover
  then show ?thesis using assms(2,3) discovery_never_approves by blast
next
  case st_nickname
  then show ?thesis using assms(2,3) SetMachineNickname_policy_of by simp
next
  case (st_policy e m p rid act)
  then have "i = m" "p = PolicyProvision" "TrimSpace act \<noteq> []"
    "\<exists>v. events d' = events d @ [v] \<and> ev_EntityID v = m \<and> ev_Type v = ''MACHINE_POLICY_CHANGED'' \<and> ev_Actor v = TrimSpace act"
    using SetMachinePolicy_policy_of [of e d m p rid act i] assms(2,3) by auto
  with st_policy show ?thesis by blast
next
  case st_delete_machine
  then show ?thesis using assms(2,3) DeleteMachine_policy_of by (metis option.distinct(1))
qed (use operation_frames [THEN policy_of_frame] assms(2,3) in \<open>simp_all\<close>)

section \<open>Administrators\<close>

lemma admin_frame: "changes_only ts d d' \<Longrightarrow> TUsers \<notin> ts \<Longrightarrow> admin_count d' = admin_count d"
  by (rule admin_count_cong) (simp add: changes_only_def)

text \<open>Making an administrator of a user, or changing one who is none, loses none.\<close>

lemma admin_count_update:
  assumes "db_inv d" "u \<in> set (operator_users d)" "live_admin u \<longrightarrow> live_admin (f u)"
  shows "admin_count d \<le> admin_count (set_user d (u_ID u) f)"
  using admin_count_set_user [OF assms(1,2), of f] assms(3) by (cases "live_admin u") simp_all

lemma ResolveOperatorUser_admin: "admin_count d \<le> admin_count (snd (ResolveOperatorUser e d p s n m rid))"
proof -
  have "admin_count d \<le> admin_count d'" if "insert_user d u = Some d'" for u d'
    using that by (auto simp: insert_user_def admin_count_def split: if_splits)
  then show ?thesis
    by (auto simp: ResolveOperatorUser_def Let_def resolve_tx_def result_simps
        intro!: transact_keeps [of "\<lambda>d'. admin_count d \<le> admin_count d'"] split: if_splits option.splits)
qed

lemma ClaimInitialAdmin_admin: "db_inv d \<Longrightarrow> admin_count d \<le> admin_count (snd (ClaimInitialAdmin e d i rid act))"
  unfolding ClaimInitialAdmin_def read_back_snd
  by (rule transact_keeps [of "\<lambda>d'. admin_count d \<le> admin_count d'"]) (auto elim!: claim_tx_Inr)

lemma ApproveOperatorUser_admin:
  assumes "db_inv d"
  shows "admin_count d \<le> admin_count (snd (ApproveOperatorUser e d i role rid act))"
proof -
  have "admin_count d \<le> admin_count d'" if "approve_user_tx e d i role rid act = Inr (x, Some d')" for x d'
    using that
  proof (rule approve_user_tx_Inr)
    fix u v
    assume u: "u \<in> set (operator_users d)" "u_Status u = StatusPendingReview"
      "Some d' = Some (appendEventTx (set_user d (u_ID u) (approve_user role (env_now e) (TrimSpace act))) v)"
    then have "u_Role u \<noteq> RoleAdmin" using db_invD(9) [OF assms] by (auto simp: user_inv_def)
    with u admin_count_update [OF assms u(1), of "approve_user role (env_now e) (TrimSpace act)"]
    show ?thesis by simp
  qed
  then show ?thesis
    unfolding ApproveOperatorUser_def
    by (auto intro!: transact_keeps [of "\<lambda>d'. admin_count d \<le> admin_count d'"])
qed

lemma SaveOperatorCredential_admin:
  assumes "db_inv d"
  shows "admin_count d \<le> admin_count (snd (SaveOperatorCredential e d i rp c rid act enrollment))"
proof -
  have "admin_count d \<le> admin_count d'"
    if "save_credential_tx e d i rp cid payload rid act enrollment = Inr (x, Some d')" for cid payload x d'
    using that
  proof (rule save_credential_tx_Inr)
    fix u row d1 v
    assume u: "u \<in> set (operator_users d)" and ups: "upsert_operator_credential d row = Some d1"
      and d': "Some d' = Some (if enrollment then appendEventTx (set_user d1 (u_ID u) (activate_user (env_now e))) v else d1)"
    have users: "operator_users d1 = operator_users d" by (rule upsert_operator_credential_users [OF ups])
    have "admin_count d1 \<le> admin_count (set_user d1 (u_ID u) (activate_user (env_now e)))"
      by (rule admin_count_update [OF upsert_operator_credential_inv [OF ups assms]])
        (use u users in \<open>simp_all add: activate_user_def\<close>)
    with d' admin_count_cong [OF users] show ?thesis by (auto split: if_splits)
  qed
  then show ?thesis
    by (auto simp: SaveOperatorCredential_def split: option.split
        intro!: transact_keeps [of "\<lambda>d'. admin_count d \<le> admin_count d'"])
qed

lemma admin_next:
  assumes "store_step L d d'" "db_inv d" "admin_count d > 0"
  shows "admin_count d' > 0"
  using assms(1)
proof cases
  case st_resolve then show ?thesis using ResolveOperatorUser_admin assms(3) by (metis order.strict_trans2)
next
  case st_claim then show ?thesis using ClaimInitialAdmin_admin [OF assms(2)] assms(3) by (metis order.strict_trans2)
next
  case st_approve_user then show ?thesis using ApproveOperatorUser_admin [OF assms(2)] assms(3) by (metis order.strict_trans2)
next
  case st_block then show ?thesis using block_keeps_an_admin [OF assms(2,3)] by simp
next
  case st_save_credential then show ?thesis using SaveOperatorCredential_admin [OF assms(2)] assms(3) by (metis order.strict_trans2)
qed (use operation_frames [THEN admin_frame] assms(3) in \<open>simp_all\<close>)

section \<open>Specifications\<close>

definition spec_of :: "db \<Rightarrow> string \<Rightarrow> Spec option" where
  "spec_of d i = List.find (\<lambda>s. sp_ID s = i) (installation_specs d)"

lemma spec_of_frame: "changes_only ts d d' \<Longrightarrow> TSpecs \<notin> ts \<Longrightarrow> spec_of d' = spec_of d"
  by (simp add: spec_of_def changes_only_def fun_eq_iff)

lemma CreateInstallationSpec_specs:
  "\<exists>xs. installation_specs (snd (CreateInstallationSpec L e d s rid)) = installation_specs d @ xs"
proof -
  have "\<exists>xs. installation_specs d' = installation_specs d @ xs" if tx: "create_spec_tx e d s' rid' = Inr (x, Some d')" for s' rid' x d'
  proof -
    obtain d1 d2 v where 1: "insert_spec d s' = Some d1" "d' = appendEventTx d2 v"
      "appendServerLifecycleEventTx e 10 d1 (sp_ID s') StageCreated (''server:created:'' @ sp_ID s')
         ''immutable installation spec created'' rid' (sp_CreatedAt s') = Inr d2"
      using tx by (auto simp: create_spec_tx_def result_simps split: if_splits)
    from appendServer_changes [OF 1(3)] have "installation_specs d2 = installation_specs d1" by (simp add: changes_only_def)
    with 1 show ?thesis by (auto simp: insert_spec_def split: if_splits)
  qed
  then show ?thesis
    by (auto simp: CreateInstallationSpec_def split: option.split sum.split
        intro!: transact_keeps [of "\<lambda>d'. \<exists>xs. installation_specs d' = installation_specs d @ xs"])
qed

lemma DeleteInstallation_specs:
  "installation_specs (snd (DeleteInstallation e d i rid act)) = installation_specs d \<or>
   installation_specs (snd (DeleteInstallation e d i rid act)) = delete_where (\<lambda>s. sp_ID s = TrimSpace i) (installation_specs d)"
    (is "?Q (snd (DeleteInstallation e d i rid act))")
proof -
  have "?Q d'" if "delete_installation_tx e d (TrimSpace i) rid (TrimSpace act) = Inr (x, Some d')" for x d'
    using that by (rule delete_installation_tx_Inr)
      (auto simp: delete_spec_def delete_dependent_rows_def split: if_splits)
  then show ?thesis by (intro DeleteInstallation_outcome [of ?Q d]) simp_all
qed

lemma spec_next:
  assumes "store_step L d d'" "spec_of d i = Some s"
  shows "spec_of d' i = Some s \<or> spec_of d' i = None"
  using assms(1)
proof cases
  case (st_create e sp rid)
  then show ?thesis using assms(2) CreateInstallationSpec_specs [of L e d sp rid]
    by (auto simp: spec_of_def find_append)
next
  case (st_delete_installation e j rid act)
  then show ?thesis using assms(2) DeleteInstallation_specs [of e d j rid act]
    by (cases "i = TrimSpace j") (auto simp: spec_of_def find_delete_where find_delete_where_gone)
qed (use operation_frames [THEN spec_of_frame] assms(2) in \<open>simp_all\<close>)

section \<open>Properties\<close>

lemma reachable_run: "reachable L d \<Longrightarrow> successively (store_step L) (d # ds) \<Longrightarrow> x \<in> set (d # ds) \<Longrightarrow> reachable L x"
  by (induction ds arbitrary: d) (auto intro: reach_step)

text \<open>C6: referential integrity and exclusivity. In every reachable database an assignment belongs to
  an installation that was made for its machine and demands cryptographic trust; a machine has at
  most one armed assignment and at most one approved key; an installation has at most one
  credential; a challenge belongs to an installation and a key of the same machine, and one that
  was used has released the credential of its installation.\<close>

theorem reachable_integrity:
  assumes "reachable L d"
  shows "(\<forall>a \<in> set (installation_assignments d). (as_InstallationID a, as_MachineID a) \<in> spec_bindings (installation_specs d)
        \<and> as_MachineID a \<in> m_ID ` set (machines d) \<and> as_TrustRequirement a = ''cryptographic'')
    \<and> (\<forall>a b. a \<in> set (armed_rows (installation_assignments d)) \<and> b \<in> set (armed_rows (installation_assignments d))
        \<and> as_MachineID a = as_MachineID b \<longrightarrow> a = b)
    \<and> (\<forall>k l. k \<in> set (approved_rows (boot_trust_keys d)) \<and> l \<in> set (approved_rows (boot_trust_keys d))
        \<and> k_MachineID k = k_MachineID l \<longrightarrow> k = l)
    \<and> distinct (map lc_InstallationID (lifecycle_credentials d))
    \<and> (\<forall>c \<in> set (boot_trust_challenges d). (ch_InstallationID c, ch_MachineID c) \<in> spec_bindings (installation_specs d)
        \<and> (ch_KeyFingerprint c, ch_MachineID c) \<in> key_bindings (boot_trust_keys d)
        \<and> (ch_UsedAt c \<noteq> None \<longrightarrow> ch_InstallationID c \<in> lc_InstallationID ` set (lifecycle_credentials d)))"
proof (intro conjI)
  have inv: "db_inv d" by (rule reachable_inv [OF assms])
  note asg = db_invD(3) [OF inv, unfolded asg_inv_def] and key = db_invD(7) [OF inv, unfolded key_inv_def]
  show "\<forall>a \<in> set (installation_assignments d). (as_InstallationID a, as_MachineID a) \<in> spec_bindings (installation_specs d)
        \<and> as_MachineID a \<in> m_ID ` set (machines d) \<and> as_TrustRequirement a = ''cryptographic''"
    using asg db_invD(2) [OF inv]
    by (auto simp: spec_inv_def assignment_Validate_def TrustRequirementCryptographic_def split: if_splits)
  show "\<forall>a b. a \<in> set (armed_rows (installation_assignments d)) \<and> b \<in> set (armed_rows (installation_assignments d))
        \<and> as_MachineID a = as_MachineID b \<longrightarrow> a = b"
    using asg by (blast dest: distinct_key_eq)
  show "\<forall>k l. k \<in> set (approved_rows (boot_trust_keys d)) \<and> l \<in> set (approved_rows (boot_trust_keys d))
        \<and> k_MachineID k = k_MachineID l \<longrightarrow> k = l"
    using key by (blast dest: distinct_key_eq)
  show "distinct (map lc_InstallationID (lifecycle_credentials d))"
    using db_invD(4) [OF inv] by (simp add: cred_inv_def)
  show "\<forall>c \<in> set (boot_trust_challenges d). (ch_InstallationID c, ch_MachineID c) \<in> spec_bindings (installation_specs d)
        \<and> (ch_KeyFingerprint c, ch_MachineID c) \<in> key_bindings (boot_trust_keys d)
        \<and> (ch_UsedAt c \<noteq> None \<longrightarrow> ch_InstallationID c \<in> lc_InstallationID ` set (lifecycle_credentials d))"
    using db_invD(8) [OF inv] unfolding chal_inv_def by blast
qed

text \<open>A database reached in two steps, with one machine known.\<close>

definition sample_reached :: db where
  "sample_reached = snd (DiscoverMachine sample_env empty_db sample_observation ''req1'')"

lemma sample_reached: "reachable L sample_reached"
  unfolding sample_reached_def by (rule reach_step [OF reach_empty st_discover]) simp

theorem reachable_integrity_witness:
  "distinct (map lc_InstallationID (lifecycle_credentials sample_reached))"
  using reachable_integrity [OF sample_reached [of "sample_lib 0"]] by blast

text \<open>C7: in every reachable database the lifecycle of every installation is a path of allowed stages:
  each stage was reported by a source that may report it, no stage occurs twice, there are at most
  twelve, nothing follows SUCCESS or FAILED, and SUCCESS is reached only through every step of the
  installation in order.\<close>

theorem reachable_journals:
  assumes "reachable L d"
  shows "(\<forall>v \<in> set (lifecycle_events d). SourceAllowed (le_Stage v) (le_Source v))
    \<and> (\<forall>i. let j = journal (lifecycle_events d) i in
         successively CanAdvance (StageNone # j) \<and> distinct j \<and> length j \<le> 12
       \<and> (\<forall>s \<in> set (butlast j). \<not> Terminal s)
       \<and> (StageSuccess \<in> set j \<longrightarrow> (\<exists>ts. j = ts @ install_chain @ [StageValidating, StageSuccess]
            \<or> j = ts @ install_chain @ [StageFirstBoot, StageValidating, StageSuccess])))"
proof (intro conjI allI)
  have inv: "life_inv (installation_specs d) (lifecycle_events d) (lifecycle_events_seq d)"
    by (rule db_invD(5) [OF reachable_inv [OF assms]])
  then show "\<forall>v \<in> set (lifecycle_events d). SourceAllowed (le_Stage v) (le_Source v)" by (simp add: life_inv_def)
  fix i
  let ?j = "journal (lifecycle_events d) i"
  have path: "stage_path ?j" using inv by (simp add: life_inv_def)
  have open_stages: "\<forall>s \<in> set (butlast ?j). \<not> Terminal s" by (rule stage_path_open [OF path])
  have chain: "\<exists>ts. ?j = ts @ install_chain @ [StageValidating, StageSuccess]
            \<or> ?j = ts @ install_chain @ [StageFirstBoot, StageValidating, StageSuccess]" if "StageSuccess \<in> set ?j"
  proof -
    from that have ne: "?j = butlast ?j @ [last ?j]" by (cases "?j = []") auto
    then have "set ?j = insert (last ?j) (set (butlast ?j))" by (intro set_butlast_last) auto
    with open_stages that have "last ?j = StageSuccess" by (auto simp: Terminal_def)
    with ne path success_chain [of "butlast ?j"] show ?thesis by simp
  qed
  show "let j = ?j in successively CanAdvance (StageNone # j) \<and> distinct j \<and> length j \<le> 12
       \<and> (\<forall>s \<in> set (butlast j). \<not> Terminal s)
       \<and> (StageSuccess \<in> set j \<longrightarrow> (\<exists>ts. j = ts @ install_chain @ [StageValidating, StageSuccess]
            \<or> j = ts @ install_chain @ [StageFirstBoot, StageValidating, StageSuccess]))"
    using path open_stages chain stage_path_bound [OF path] stages.path_distinct [of "StageNone # ?j"]
    by (simp add: stage_path_def Let_def)
qed

theorem reachable_journals_witness: "distinct (journal (lifecycle_events sample_reached) ''i_1'')"
  using reachable_journals [OF sample_reached [of "sample_lib 0"], THEN conjunct2, THEN spec, of "''i_1''"]
  by (simp add: Let_def)

text \<open>C17: in every reachable database the stored log of an installation is numbered without gaps from
  one on, no chunk exceeds 128 KiB and no log 16 MiB, and no stored line carries a credential
  marker.\<close>

theorem reachable_logs:
  assumes "reachable L d"
  shows "(\<forall>i. map lg_Sequence (chunks_of (log_chunks d) i) = map int [1..<length (chunks_of (log_chunks d) i) + 1]
         \<and> log_bytes (chunks_of (log_chunks d) i) \<le> 16 * 1024 * 1024)
    \<and> (\<forall>c \<in> set (log_chunks d). no_sensitive_line (lg_Content c) \<and> length (lg_Content c) \<le> 128 * 1024)"
  using db_invD(6) [OF reachable_inv [OF assms]]
  by (auto simp: log_inv_def MaxInstallationLogBytes_def MaxLogChunkBytes_def)

theorem reachable_logs_witness: "log_bytes (chunks_of (log_chunks sample_reached) ''i_1'') \<le> 16 * 1024 * 1024"
  using reachable_logs [OF sample_reached [of "sample_lib 0"]] by blast

text \<open>C12: assignments and keys only move forward, in every run of the store. As long as the row is
  there, a consumed assignment stays consumed and a cancelled one cancelled, so neither is ever
  armed again, and a revoked key stays revoked.\<close>

theorem no_way_back:
  assumes "db_inv d" "successively (store_step L) (d # ds)" "d' \<in> set ds"
  shows "(assignment_state d i \<in> {Some StateConsumed, Some StateCancelled} \<and> (\<forall>x \<in> set ds. assignment_state x i \<noteq> None) \<longrightarrow>
      assignment_state d' i = assignment_state d i)
    \<and> (key_state d fp = Some KeyRevoked \<and> (\<forall>x \<in> set ds. key_state x fp \<noteq> None) \<longrightarrow> key_state d' fp = Some KeyRevoked)"
proof (intro conjI impI)
  assume "assignment_state d i \<in> {Some StateConsumed, Some StateCancelled} \<and> (\<forall>x \<in> set ds. assignment_state x i \<noteq> None)"
  then obtain s where s: "assignment_state d i = Some s" "\<forall>x \<in> set ds. assignment_state x i \<noteq> None"
      "\<And>t. \<not> assignment_step s t"
    by (auto simp: assignment_step_def)
  from assignment_history.run_final [OF assms(2,1) s assms(3)] s(1)
  show "assignment_state d' i = assignment_state d i" by simp
next
  assume "key_state d fp = Some KeyRevoked \<and> (\<forall>x \<in> set ds. key_state x fp \<noteq> None)"
  then have k: "key_state d fp = Some KeyRevoked" "\<forall>x \<in> set ds. key_state x fp \<noteq> None" by auto
  show "key_state d' fp = Some KeyRevoked"
    by (rule key_history.run_final [OF assms(2,1) k _ assms(3)]) (simp add: key_step_def)
qed

theorem no_way_back_witness:
  "let d = snd (ConsumeAssignment sample_env sample_db ''i_1'' ''req'' ''pxe'');
       d' = snd (CancelAssignment sample_env d ''i_1'' ''req'' ''op'')
   in assignment_state d' ''i_1'' = Some StateConsumed"
proof -
  define d where "d = snd (ConsumeAssignment sample_env sample_db ''i_1'' ''req'' ''pxe'')"
  define d' where "d' = snd (CancelAssignment sample_env d ''i_1'' ''req'' ''op'')"
  have inv: "db_inv d" unfolding d_def by (rule ConsumeAssignment_inv) (simp_all add: sample_db_inv)
  have "store_step (sample_lib 0) d d'" unfolding d'_def by (rule st_cancel) simp
  then have run: "successively (store_step (sample_lib 0)) [d, d']" by simp
  have "assignment_state d ''i_1'' = Some StateConsumed" unfolding d_def by code_simp
  moreover have "assignment_state d' j \<noteq> None" if "assignment_state d j \<noteq> None" for j
    unfolding d'_def using Cancel_states [OF inv] that by (metis option.distinct(1))
  ultimately have "assignment_state d' ''i_1'' = Some StateConsumed" using no_way_back [OF inv run, of d' "''i_1''"] by simp
  then show ?thesis unfolding d'_def d_def Let_def by assumption
qed

text \<open>C8: only an operator approves a machine. If a step of the store makes a machine approved for
  provisioning, the step is a policy change with a named actor, and it has written that actor to
  the audit log.\<close>

theorem approval_needs_operator:
  assumes "store_step L d d'" "policy_of d' i = Some PolicyProvision" "policy_of d i \<noteq> Some PolicyProvision"
  shows "\<exists>e rid act. d' = snd (SetMachinePolicy e d i PolicyProvision rid act) \<and> TrimSpace act \<noteq> []
    \<and> (\<exists>v. events d' = events d @ [v] \<and> ev_EntityID v = i \<and> ev_Type v = ''MACHINE_POLICY_CHANGED''
         \<and> ev_Actor v = TrimSpace act)"
  using assms by (rule policy_next)

theorem approval_needs_operator_witness:
  "let d = sample_db\<lparr>machines := [sample_machine\<lparr>m_Policy := PolicyLocal\<rparr>]\<rparr>;
       d' = snd (SetMachinePolicy sample_env d ''m_1'' PolicyProvision ''req'' ''op'')
   in length (events d') = 1"
proof -
  let ?d = "sample_db\<lparr>machines := [sample_machine\<lparr>m_Policy := PolicyLocal\<rparr>]\<rparr>"
  let ?d' = "snd (SetMachinePolicy sample_env ?d ''m_1'' PolicyProvision ''req'' ''op'')"
  have "store_step (sample_lib 0) ?d ?d'" by (rule st_policy) simp
  moreover have "policy_of ?d' ''m_1'' = Some PolicyProvision" by code_simp
  moreover have "policy_of ?d ''m_1'' \<noteq> Some PolicyProvision" by code_simp
  ultimately have "\<exists>v. events ?d' = events ?d @ [v]" using approval_needs_operator [of "sample_lib 0" ?d ?d' "''m_1''"] by blast
  then show ?thesis by (auto simp: sample_db_def empty_db_def)
qed

text \<open>C21: the service never loses its last administrator: a run that starts with a live administrator
  has one in all its databases.\<close>

theorem administrators_remain:
  assumes "db_inv d" "successively (store_step L) (d # ds)" "admin_count d > 0"
  shows "\<forall>x \<in> set ds. admin_count x > 0"
  using assms
proof (induction ds arbitrary: d)
  case (Cons d1 ds)
  then have "admin_count d1 > 0" "db_inv d1" by (auto intro: admin_next step_inv)
  with Cons show ?case by auto
qed simp

theorem administrators_remain_witness:
  "admin_count (snd (BlockOperatorUser sample_env sample_db ''u_1'' ''req'' ''op'')) > 0"
proof -
  let ?d' = "snd (BlockOperatorUser sample_env sample_db ''u_1'' ''req'' ''op'')"
  have "store_step (sample_lib 0) sample_db ?d'" by (rule st_block) simp
  then have run: "successively (store_step (sample_lib 0)) [sample_db, ?d']" by simp
  have "admin_count sample_db > 0" by code_simp
  with administrators_remain [OF sample_db_inv run] show ?thesis by simp
qed

text \<open>
  a specification is immutable: in every run, what is stored under the identifier of an
  installation is the specification as it was created until it is deleted.\<close>

theorem specification_immutable:
  assumes "successively (store_step L) (d # ds)" "spec_of d i = Some s" "\<forall>x \<in> set ds. spec_of x i \<noteq> None"
  shows "\<forall>x \<in> set ds. spec_of x i = Some s"
  using assms
proof (induction ds arbitrary: d)
  case (Cons d1 ds)
  then have "spec_of d1 i = Some s" using spec_next [of L d d1 i s] by auto
  with Cons show ?case by auto
qed simp

theorem specification_immutable_witness:
  "spec_of (snd (CancelAssignment sample_env sample_db ''i_1'' ''req'' ''op'')) ''i_1'' = Some sample_spec"
proof -
  let ?d' = "snd (CancelAssignment sample_env sample_db ''i_1'' ''req'' ''op'')"
  have "store_step (sample_lib 0) sample_db ?d'" by (rule st_cancel) simp
  then have run: "successively (store_step (sample_lib 0)) [sample_db, ?d']" by simp
  have "spec_of ?d' ''i_1'' \<noteq> None"
    using CancelAssignment_changes [THEN spec_of_frame] by (simp add: spec_of_def sample_db_def empty_db_def sample_spec_def)
  with specification_immutable [OF run, of "''i_1''" sample_spec] show ?thesis
    by (simp add: spec_of_def sample_db_def sample_spec_def)
qed

text \<open>C19: a failed operation changes nothing. Whatever fails on the way, a statement, a check or the
  commit, an operation that reports an error has left the whole database as it was; this holds of
  every operation of the store but the four that can report an error after their change is in
  effect (revoking a credential, claiming the first administrator, approving and blocking a user).\<close>

theorem failed_operations_change_nothing:
  "rolled_back d (DiscoverMachine e d ob rid) \<and> rolled_back d (SetMachineNickname e d m n rid act)
   \<and> rolled_back d (SetMachinePolicy e d m p rid act) \<and> rolled_back d (CreateInstallationSpec L e d s rid)
   \<and> rolled_back d (ArmInstallation e d m i rid act) \<and> rolled_back d (CancelAssignment e d i rid act)
   \<and> rolled_back d (ConsumeAssignment e d i rid act) \<and> rolled_back d (IssueLifecycleCredential L e d i rid act ttl)
   \<and> rolled_back d (AuthenticateLifecycleCredential L e d i secret) \<and> rolled_back d (AppendLifecycleEvent e d r rid)
   \<and> rolled_back d (AppendInstallationLogChunk L e d c) \<and> rolled_back d (VerifyLifecycleMAC L e d i hm path key t b sig)
   \<and> rolled_back d (RegisterBootTrustKey L e d i pem ek rid) \<and> rolled_back d (ApproveBootTrustKey e d m fp rid act)
   \<and> rolled_back d (RevokeBootTrustKey e d m fp rid act) \<and> rolled_back d (CreateBootTrustChallenge e d i fp rid)
   \<and> rolled_back d (CompleteBootTrustChallenge L e d i ch sig rid) \<and> rolled_back d (DeleteInstallation e d i rid act)
   \<and> rolled_back d (DeleteMachine e d m rid act) \<and> rolled_back d (ResolveOperatorUser e d provider subject name email rid)
   \<and> rolled_back d (SaveOperatorCredential e d u rp cred rid act enrollment)"
  by (intro conjI DiscoverMachine_rollback SetMachineNickname_rollback SetMachinePolicy_rollback
      CreateInstallationSpec_rollback ArmInstallation_rollback CancelAssignment_rollback ConsumeAssignment_rollback
      IssueLifecycleCredential_rollback AuthenticateLifecycleCredential_rollback AppendLifecycleEvent_rollback
      AppendInstallationLogChunk_rollback VerifyLifecycleMAC_rollback RegisterBootTrustKey_rollback
      ApproveBootTrustKey_rollback RevokeBootTrustKey_rollback CreateBootTrustChallenge_rollback
      CompleteBootTrustChallenge_rollback DeleteInstallation_rollback DeleteMachine_rollback
      ResolveOperatorUser_rollback SaveOperatorCredential_rollback)

text \<open>C23: deleting an installation deletes it completely and nothing else. It succeeds only while
  the installation is not armed. Afterwards its specification, its assignment, its journal, its log
  chunks, its credentials, its challenges and its audit events are gone, and each of these tables
  has exactly the rows of the other installations, unchanged and in their order; the audit log has
  one more event, which records the deletion and its actor. Machines, their identifiers and keys,
  and operators with their credentials are as before, and so are the states that the other
  installations' operations read: specification, assignment, journal and logs.\<close>

theorem deletion_is_complete:
  assumes "db_inv d" "DeleteInstallation e d i rid act = (Inr u, d')"
  shows "assignment_state d (TrimSpace i) \<noteq> Some StateArmed \<and> spec_of d' (TrimSpace i) = None \<and> \<not> dependent_rows d' (TrimSpace i)
    \<and> installation_specs d' = filter (\<lambda>s. sp_ID s \<noteq> TrimSpace i) (installation_specs d)
    \<and> installation_assignments d' = filter (\<lambda>a. as_InstallationID a \<noteq> TrimSpace i) (installation_assignments d)
    \<and> lifecycle_events d' = filter (\<lambda>v. le_InstallationID v \<noteq> TrimSpace i) (lifecycle_events d)
    \<and> log_chunks d' = filter (\<lambda>c. lg_InstallationID c \<noteq> TrimSpace i) (log_chunks d)
    \<and> lifecycle_credentials d' = filter (\<lambda>c. lc_InstallationID c \<noteq> TrimSpace i) (lifecycle_credentials d)
    \<and> boot_trust_challenges d' = filter (\<lambda>c. ch_InstallationID c \<noteq> TrimSpace i) (boot_trust_challenges d)
    \<and> (\<exists>v. events d' = filter (\<lambda>w. \<not> (ev_EntityType w = ''installation'' \<and> ev_EntityID w = TrimSpace i)) (events d) @ [v]
         \<and> ev_EntityType v = ''system'' \<and> ev_EntityID v = TrimSpace i \<and> ev_Type v = ''INSTALLATION_DELETED'' \<and> ev_Actor v = TrimSpace act)
    \<and> (\<forall>j. j \<noteq> TrimSpace i \<longrightarrow> spec_of d' j = spec_of d j \<and> assignment_state d' j = assignment_state d j
         \<and> journal (lifecycle_events d') j = journal (lifecycle_events d) j \<and> chunks_of (log_chunks d') j = chunks_of (log_chunks d) j)
    \<and> changes_only {TSpecs, TAssignments, TCredentials, TLifecycle, TLogs, TChallenges} d d'"
proof -
  let ?i = "TrimSpace i"
  obtain x where tx: "delete_installation_tx e d ?i rid (TrimSpace act) = Inr ((), x)" "x = Some d' \<or> x = None \<and> d' = d"
    using assms(2) by (auto simp: DeleteInstallation_def Let_def transact_Inr split: if_splits)
  from tx(1) obtain d2 v where 1: "assignment_state d ?i \<noteq> Some StateArmed"
      "delete_spec (delete_dependent_rows d ?i) ?i = Some d2" "x = Some (appendEventTx d2 v)"
    and v: "ev_EntityType v = ''system''" "ev_EntityID v = ?i" "ev_Actor v = TrimSpace act" "ev_Type v = ''INSTALLATION_DELETED''"
    by (rule delete_installation_tx_Inr)
  have d': "d' = appendEventTx ((delete_dependent_rows d ?i)\<lparr>installation_specs :=
      delete_where (\<lambda>s. sp_ID s = ?i) (installation_specs d)\<rparr>) v"
    using 1(2,3) tx(2) by (auto simp: delete_spec_def delete_dependent_rows_def split: if_splits)
  have "spec_of d' ?i = None" "\<not> dependent_rows d' ?i"
    by (auto simp: d' delete_dependent_rows_def dependent_rows_def spec_of_def set_delete_where find_delete_where_gone)
  moreover have "installation_specs d' = filter (\<lambda>s. sp_ID s \<noteq> ?i) (installation_specs d)"
    "installation_assignments d' = filter (\<lambda>a. as_InstallationID a \<noteq> ?i) (installation_assignments d)"
    "lifecycle_events d' = filter (\<lambda>v. le_InstallationID v \<noteq> ?i) (lifecycle_events d)"
    "log_chunks d' = filter (\<lambda>c. lg_InstallationID c \<noteq> ?i) (log_chunks d)"
    "lifecycle_credentials d' = filter (\<lambda>c. lc_InstallationID c \<noteq> ?i) (lifecycle_credentials d)"
    "boot_trust_challenges d' = filter (\<lambda>c. ch_InstallationID c \<noteq> ?i) (boot_trust_challenges d)"
    by (simp_all add: d' delete_dependent_rows_def delete_where_def)
  moreover have "\<exists>v. events d' = filter (\<lambda>w. \<not> (ev_EntityType w = ''installation'' \<and> ev_EntityID w = ?i)) (events d) @ [v]
         \<and> ev_EntityType v = ''system'' \<and> ev_EntityID v = ?i \<and> ev_Type v = ''INSTALLATION_DELETED'' \<and> ev_Actor v = TrimSpace act"
    using v by (simp add: d' delete_dependent_rows_def delete_where_def appendEventTx_def)
  moreover have "spec_of d' j = spec_of d j \<and> assignment_state d' j = assignment_state d j
       \<and> journal (lifecycle_events d') j = journal (lifecycle_events d) j \<and> chunks_of (log_chunks d') j = chunks_of (log_chunks d) j"
    if "j \<noteq> ?i" for j
    using that by (simp add: d' delete_dependent_rows_def spec_of_def assignment_state_def find_delete_where)
  ultimately show ?thesis
    using 1(1) DeleteInstallation_changes [of d e i rid act] assms(2) by (intro conjI allI impI) simp_all
qed

theorem deletion_is_complete_witness:
  "let d = snd (ConsumeAssignment sample_env sample_db ''i_1'' ''req'' ''pxe'')
   in spec_of (snd (DeleteInstallation sample_env d ''i_1'' ''req'' ''op'')) ''i_1'' = None"
proof -
  define d where "d = snd (ConsumeAssignment sample_env sample_db ''i_1'' ''req'' ''pxe'')"
  have inv: "db_inv d" unfolding d_def by (rule ConsumeAssignment_inv) (simp_all add: sample_db_inv)
  have "isl (fst (DeleteInstallation sample_env d ''i_1'' ''req'' ''op'')) = False" unfolding d_def by code_simp
  from deletion_is_complete [OF inv succeeded [OF this]] show ?thesis
    unfolding d_def Let_def by (simp add: sample_trim)
qed

end
