(* ===== verification/Debian13_Driver.thy ===== *)
theory Debian13_Driver
  imports Samples "HOL-Library.List_Lexorder" "HOL-Library.Char_ord"
begin

text \<open>
  The Debian 13 driver (internal/drivers/debian13): the contract a specification has to meet
  (boot.go), the boot specification rendered from it (boot.go) and the preseed file with its
  late command (preseed.go).
\<close>

section \<open>Contract\<close>

definition DriverID :: string where "DriverID = ''debian13''"
definition DriverVersion :: string where "DriverVersion = ''2''"
definition LegacyDriverVersion :: string where "LegacyDriverVersion = ''1''"
definition debianHost :: string where "debianHost = ''deb.debian.org''"
definition debianSuite :: string where "debianSuite = ''trixie''"
definition debianArch :: string where "debianArch = ''amd64''"

definition zero_descriptor :: Descriptor where
  "zero_descriptor = \<lparr>ar_ID = [], ar_Name = [], ar_SourceURL = [], ar_Version = [], ar_Digest = [],
     ar_Size = 0, ar_Provenance = []\<rparr>"

definition requiredArtifact :: "Spec \<Rightarrow> string \<Rightarrow> string + Descriptor" where
  "requiredArtifact spec name =
     (let found = filter (\<lambda>item. ar_Name item = name) (sp_Artifacts spec) in
      if length found \<noteq> 1 then
        Inl (''installation spec must contain exactly one '' @ name @ '' artifact'')
      else if \<not> HasPrefix (ar_Provenance (last found)) ''debian:trixie:'' then
        Inl (name @ '' artifact is not trusted Debian trixie provenance'')
      else Inr (last found))"

definition validateDebianArtifactSource :: "golib \<Rightarrow> Descriptor \<Rightarrow> string \<Rightarrow> string option" where
  "validateDebianArtifactSource L item suff =
     (case lib_url L (ar_SourceURL item) of
        None \<Rightarrow> Some ''parse error''
      | Some (scheme, host, user) \<Rightarrow>
        (case lib_url_path L (ar_SourceURL item) of (rawQuery, fragment, escapedPath, path) \<Rightarrow>
         if scheme \<noteq> ''https'' \<or> host \<noteq> debianHost \<or> user \<or> rawQuery \<noteq> [] \<or> fragment \<noteq> [] then
           Some ''source must be the trusted Debian HTTPS origin without query or fragment''
         else let expected = ''/debian/dists/trixie/main/installer-amd64/'' @ ar_Version item @ ''/images/'' @ suff in
         if escapedPath \<noteq> expected \<and> path \<noteq> expected then
           Some ''source path does not match pinned installer version and artifact role''
         else None))"

definition kernel_path :: string where "kernel_path = ''netboot/debian-installer/amd64/linux''"
definition initrd_path :: string where "initrd_path = ''netboot/debian-installer/amd64/initrd.gz''"
definition shim_path :: string where "shim_path = ''netboot/debian-installer/amd64/bootnetx64.efi''"

definition validate_target :: "Spec \<Rightarrow> string option" where
  "validate_target spec =
     (if sp_DriverID spec \<noteq> DriverID then Some ''installation spec is assigned to a different driver''
      else if sp_DriverVersion spec \<noteq> LegacyDriverVersion \<and> sp_DriverVersion spec \<noteq> DriverVersion then
        Some ''installation spec requires an unsupported Debian driver contract version''
      else if sp_OSRelease spec \<noteq> ''13'' \<or> sp_Architecture spec \<noteq> debianArch then
        Some ''installation target is not Debian 13 amd64''
      else if st_Mode (sp_Storage spec) \<noteq> ''whole-disk'' \<or> st_Filesystem (sp_Storage spec) \<noteq> ''ext4''
              \<or> st_Encrypted (sp_Storage spec) \<or> st_TPM2 (sp_Storage spec) then
        Some ''Debian 13 driver supports only unencrypted whole-disk ext4 storage''
      else if se_RootLogin (sp_Security spec) \<or> se_SSHPasswordAuthentication (sp_Security spec)
              \<or> \<not> se_AutomaticSecurityUpdates (sp_Security spec) then
        Some ''Debian 13 Standard requires root login disabled, SSH password authentication disabled, and automatic security updates enabled''
      else if \<not> ad_PasswordlessSudo (pf_Admin (sp_Profile spec)) then
        Some ''Debian 13 Standard requires passwordless sudo for the key-only administrator''
      else None)"

definition validate_shim :: "golib \<Rightarrow> Spec \<Rightarrow> Descriptor \<Rightarrow> string option" where
  "validate_shim L spec kern =
     (case requiredArtifact spec ''bootnetx64.efi'' of
        Inl err \<Rightarrow> Some err
      | Inr shim \<Rightarrow>
        if ar_Version kern \<noteq> ar_Version shim \<or> ar_Provenance kern \<noteq> ar_Provenance shim then
          Some ''Debian Secure Boot shim is pinned to different installer provenance''
        else case validateDebianArtifactSource L shim shim_path of
          Some err \<Rightarrow> Some (''Secure Boot shim artifact source is invalid: '' @ err)
        | None \<Rightarrow> None)"

definition validate_boot_artifacts :: "golib \<Rightarrow> Spec \<Rightarrow> string option" where
  "validate_boot_artifacts L spec =
     (let wantArtifacts = if sp_DriverVersion spec = DriverVersion then 3 else 2 in
      if length (sp_Artifacts spec) \<noteq> wantArtifacts then
        (if sp_DriverVersion spec = DriverVersion then
           Some ''Debian 13 Secure Boot driver requires exactly kernel, initrd and signed shim artifacts''
         else Some ''legacy Debian 13 driver requires exactly kernel and initrd artifacts'')
      else case requiredArtifact spec ''linux'' of
        Inl err \<Rightarrow> Some err
      | Inr kern \<Rightarrow>
        (case requiredArtifact spec ''initrd.gz'' of
           Inl err \<Rightarrow> Some err
         | Inr initrd \<Rightarrow>
           if ar_Version kern \<noteq> ar_Version initrd \<or> ar_Provenance kern \<noteq> ar_Provenance initrd then
             Some ''Debian kernel and initrd are pinned to different installer provenance''
           else case validateDebianArtifactSource L kern kernel_path of
             Some err \<Rightarrow> Some (''kernel artifact source is invalid: '' @ err)
           | None \<Rightarrow>
             (case validateDebianArtifactSource L initrd initrd_path of
                Some err \<Rightarrow> Some (''initrd artifact source is invalid: '' @ err)
              | None \<Rightarrow>
                if sp_DriverVersion spec = DriverVersion then validate_shim L spec kern else None)))"

definition ValidateSpec :: "golib \<Rightarrow> Spec \<Rightarrow> string option" where
  "ValidateSpec L spec =
     (case spec_Validate L spec of
        Some err \<Rightarrow> Some (''invalid installation spec: '' @ err)
      | None \<Rightarrow>
        (case validate_target spec of
           Some err \<Rightarrow> Some err
         | None \<Rightarrow> validate_boot_artifacts L spec))"

definition validateRenderableSpec :: "golib \<Rightarrow> Spec \<Rightarrow> string option" where
  "validateRenderableSpec L spec =
     (case ValidateSpec L spec of
        Some err \<Rightarrow> Some err
      | None \<Rightarrow>
        if sp_DriverVersion spec \<noteq> DriverVersion then
          Some ''legacy Debian driver contract is retained for audit and cleanup but cannot be rendered for a new boot''
        else if TrimSpace (sp_ID spec) = [] then
          Some ''installation spec must have a server-assigned ID before driver rendering''
        else None)"

section \<open>Boot specification\<close>

text \<open>RenderBoot ignores the error of requiredArtifact, which then gives a zero artifact.\<close>

definition artifact_or_zero :: "Spec \<Rightarrow> string \<Rightarrow> Descriptor" where
  "artifact_or_zero spec name = (case requiredArtifact spec name of Inl _ \<Rightarrow> zero_descriptor | Inr a \<Rightarrow> a)"

definition ref_of :: "Descriptor \<Rightarrow> ArtifactRef" where
  "ref_of a = \<lparr>rf_ID = ar_ID a, rf_Name = ar_Name a, rf_Digest = ar_Digest a\<rparr>"

definition boot_arguments :: "Argument list" where
  "boot_arguments = [\<lparr>arg_Key = ''auto'', arg_Value = ''true''\<rparr>, \<lparr>arg_Key = ''priority'', arg_Value = ''critical''\<rparr>,
     \<lparr>arg_Key = ''interface'', arg_Value = ''auto''\<rparr>]"

definition boot_result :: "Spec \<Rightarrow> BootSpec" where
  "boot_result spec = \<lparr>bs_InstallationID = sp_ID spec, bs_DriverID = sp_DriverID spec,
     bs_DriverVersion = sp_DriverVersion spec, bs_Kernel = ref_of (artifact_or_zero spec ''linux''),
     bs_Initrds = [ref_of (artifact_or_zero spec ''initrd.gz'')], bs_Arguments = boot_arguments,
     bs_SeedRef = ''preseed.cfg''\<rparr>"

definition RenderBoot :: "golib \<Rightarrow> Spec \<Rightarrow> string + BootSpec" where
  "RenderBoot L spec =
     (case validateRenderableSpec L spec of
        Some err \<Rightarrow> Inl err
      | None \<Rightarrow>
        (case bootspec_Validate (boot_result spec) of
           Some err \<Rightarrow> Inl (''rendered boot spec is invalid: '' @ err)
         | None \<Rightarrow> Inr (boot_result spec)))"

section \<open>Seed\<close>

text \<open>The keys of a Go map, sorted by sort.Strings (byte order).\<close>

definition seedPackages :: "Spec \<Rightarrow> string list" where
  "seedPackages spec =
     sort (remdups ([''openssh-server'', ''sudo'', ''unattended-upgrades''] @ pf_Packages (sp_Profile spec)))"

abbreviation SQ :: char where "SQ \<equiv> CHR 0x27"
abbreviation DQ :: char where "DQ \<equiv> CHR 0x22"

definition shellQuote :: "string \<Rightarrow> string" where
  "shellQuote v = [SQ] @ concat (map (\<lambda>c. if c = SQ then [SQ, DQ, SQ, DQ, SQ] else [c]) v) @ [SQ]"

definition writeLine :: "string \<Rightarrow> string \<Rightarrow> string" where
  "writeLine path v = ''echo '' @ shellQuote v @ '' > '' @ shellQuote path"

definition appendLine :: "string \<Rightarrow> string \<Rightarrow> string" where
  "appendLine path v = ''echo '' @ shellQuote v @ '' >> '' @ shellQuote path"

definition marker :: "string \<Rightarrow> string \<Rightarrow> string" where
  "marker step res = appendLine ''/target/var/log/aegispxe-installer.log''
     (''component=aegispxe step='' @ step @ '' result='' @ res)"

text \<open>The type and payload of a key, without its comment.\<close>

definition key_line :: "string \<Rightarrow> string option" where
  "key_line v = (case Fields v of f0 # f1 # _ \<Rightarrow> Some (f0 @ '' '' @ f1) | _ \<Rightarrow> None)"

definition ssh_keys :: "Spec \<Rightarrow> string list option" where
  "ssh_keys spec = those (map key_line (ad_AuthorizedSSHKeys (pf_Admin (sp_Profile spec))))"

definition sshd_conf :: string where "sshd_conf = ''/target/etc/ssh/sshd_config.d/90-aegispxe.conf''"
definition apt_conf :: string where "apt_conf = ''/target/etc/apt/apt.conf.d/20auto-upgrades''"

definition key_commands :: "string \<Rightarrow> string list \<Rightarrow> string list" where
  "key_commands username keys =
     (let authorizedKeysPath = ''/target/home/'' @ username @ ''/.ssh/authorized_keys'' in
      [''set -e'', ''install -d -m 0755 /target/var/log'', marker ''late_command'' ''started'',
       marker ''authorized_keys'' ''started'',
       ''in-target install -d -m 0700 -o '' @ username @ '' -g '' @ username @ '' /home/'' @ username @ ''/.ssh'',
       '': > '' @ shellQuote authorizedKeysPath]
      @ map (appendLine authorizedKeysPath) keys
      @ [''in-target chown '' @ username @ '':'' @ username @ '' /home/'' @ username @ ''/.ssh/authorized_keys'',
         ''in-target chmod 0600 /home/'' @ username @ ''/.ssh/authorized_keys'',
         marker ''authorized_keys'' ''success''])"

definition hardening_commands :: "string \<Rightarrow> string list" where
  "hardening_commands username =
     [marker ''sudo'' ''started'', ''in-target usermod -aG sudo '' @ username,
      writeLine ''/target/etc/sudoers.d/90-aegispxe-admin'' (username @ '' ALL=(ALL:ALL) NOPASSWD: ALL''),
      ''chmod 0440 /target/etc/sudoers.d/90-aegispxe-admin'', marker ''sudo'' ''success'',
      marker ''validate_sudoers'' ''started'', ''in-target visudo -cf /etc/sudoers.d/90-aegispxe-admin'',
      marker ''validate_sudoers'' ''success'', marker ''sshd_config'' ''started'',
      ''mkdir -p /target/etc/ssh/sshd_config.d'', writeLine sshd_conf ''PasswordAuthentication no'',
      appendLine sshd_conf ''KbdInteractiveAuthentication no'', appendLine sshd_conf ''PermitEmptyPasswords no'',
      appendLine sshd_conf ''PermitRootLogin no'', appendLine sshd_conf ''PubkeyAuthentication yes'',
      ''chmod 0644 /target/etc/ssh/sshd_config.d/90-aegispxe.conf'', ''in-target usermod -p NP '' @ username,
      marker ''sshd_config'' ''success'', marker ''prepare_sshd_runtime'' ''started'',
      ''in-target install -d -m 0755 /run/sshd'', ''in-target ssh-keygen -A'',
      marker ''prepare_sshd_runtime'' ''success'', marker ''validate_sshd'' ''started'', ''in-target sshd -t'',
      marker ''validate_sshd'' ''success'', marker ''automatic_updates'' ''started'',
      writeLine apt_conf (''APT::Periodic::Update-Package-Lists '' @ [DQ] @ ''1'' @ [DQ] @ '';''),
      appendLine apt_conf (''APT::Periodic::Unattended-Upgrade '' @ [DQ] @ ''1'' @ [DQ] @ '';''),
      ''chmod 0644 /target/etc/apt/apt.conf.d/20auto-upgrades'', marker ''automatic_updates'' ''success'',
      marker ''late_command'' ''success'']"

definition renderLateCommand :: "Spec \<Rightarrow> string + string" where
  "renderLateCommand spec =
     (let username = ad_Username (pf_Admin (sp_Profile spec)) in
      case ssh_keys spec of
        None \<Rightarrow> Inl ''validated SSH public key became unparsable''
      | Some keys \<Rightarrow> Inr (join_with ''; '' (key_commands username keys @ hardening_commands username)))"

definition preseed_lines :: "Spec \<Rightarrow> string \<Rightarrow> string list" where
  "preseed_lines spec lateCommand =
     [CHR 0x23 # ''_preseed_V1'', CHR 0x23 # '' AegisPXE Debian 13 Standard preseed'',
      ''d-i debian-installer/locale string '' @ pf_Locale (sp_Profile spec),
      ''d-i keyboard-configuration/xkb-keymap select '' @ pf_Keyboard (sp_Profile spec),
      ''d-i netcfg/choose_interface select auto'',
      ''d-i netcfg/get_hostname string '' @ pf_Hostname (sp_Profile spec),
      ''d-i netcfg/hostname string '' @ pf_Hostname (sp_Profile spec),
      ''d-i netcfg/get_domain string'', ''d-i netcfg/wireless_wep string'',
      ''d-i mirror/country string manual'', ''d-i mirror/http/hostname string deb.debian.org'',
      ''d-i mirror/http/directory string /debian'', ''d-i mirror/http/proxy string'',
      ''d-i passwd/root-login boolean false'',
      ''d-i passwd/user-fullname string '' @ ad_FullName (pf_Admin (sp_Profile spec)),
      ''d-i passwd/username string '' @ ad_Username (pf_Admin (sp_Profile spec)),
      ''d-i passwd/user-password-crypted password !'', ''d-i clock-setup/utc boolean true'',
      ''d-i time/zone string '' @ pf_Timezone (sp_Profile spec), ''d-i clock-setup/ntp boolean true'',
      ''d-i partman-auto/disk string '' @ st_TargetDisk (sp_Storage spec),
      ''d-i partman-auto/method string regular'', ''d-i partman-auto/choose_recipe select atomic'',
      ''d-i partman-lvm/device_remove_lvm boolean true'', ''d-i partman-md/device_remove_md boolean true'',
      ''d-i partman-lvm/confirm boolean true'', ''d-i partman-lvm/confirm_nooverwrite boolean true'',
      ''d-i partman-partitioning/confirm_write_new_label boolean true'',
      ''d-i partman/choose_partition select finish'', ''d-i partman/confirm boolean true'',
      ''d-i partman/confirm_nooverwrite boolean true'', ''d-i apt-setup/cdrom/set-first boolean false'',
      ''d-i apt-setup/services-select multiselect security, updates'',
      ''tasksel tasksel/first multiselect standard'',
      ''d-i pkgsel/include string '' @ join_with '' '' (seedPackages spec),
      ''d-i pkgsel/upgrade select safe-upgrade'',
      ''popularity-contest popularity-contest/participate boolean false'',
      ''d-i grub-installer/only_debian boolean true'', ''d-i grub-installer/with_other_os boolean false'',
      ''d-i grub-installer/bootdev string '' @ st_TargetDisk (sp_Storage spec),
      ''d-i preseed/late_command string '' @ lateCommand,
      ''d-i finish-install/reboot_in_progress note'', ''d-i cdrom-detect/eject boolean false'']"

definition preseed_bundle :: "Spec \<Rightarrow> string \<Rightarrow> SeedBundle" where
  "preseed_bundle spec lateCommand = \<lparr>sd_Filename = ''preseed.cfg'', sd_MediaType = ''text/plain; charset=utf-8'',
     sd_Content = concat (map (\<lambda>line. line @ [LF]) (preseed_lines spec lateCommand))\<rparr>"

definition renderPreseed :: "Spec \<Rightarrow> string + SeedBundle" where
  "renderPreseed spec =
     (case renderLateCommand spec of
        Inl err \<Rightarrow> Inl err
      | Inr lateCommand \<Rightarrow>
        (case seed_Validate (preseed_bundle spec lateCommand) of
           Some err \<Rightarrow> Inl (''invalid rendered seed bundle: '' @ err)
         | None \<Rightarrow> Inr (preseed_bundle spec lateCommand)))"

text \<open>RenderSeed, with a logger.\<close>

definition RenderSeed :: "golib \<Rightarrow> Spec \<Rightarrow> string \<Rightarrow> SeedBundle result" where
  "RenderSeed L spec requestID =
     (if TrimSpace requestID = [] then
        Inl (Fault DriverRenderFailed ''driver render request identifier is required'')
      else if validateRenderableSpec L spec \<noteq> None then
        Inl (Fault DriverSpecUnsupported ''installation spec is unsupported by Debian 13 Standard'')
      else case renderPreseed spec of
        Inl _ \<Rightarrow> Inl (Fault DriverRenderFailed ''could not render Debian installer seed'')
      | Inr bundle \<Rightarrow> Inr bundle)"

end
