(* ===== verification/Debian13_Properties.thy ===== *)
theory Debian13_Properties
  imports Debian13_Driver
begin

text \<open>
  What the Debian 13 driver guarantees: the artifacts of an accepted specification come from
  the pinned Debian origin, every renderable specification has a valid boot specification,
  shell quoting is undone by the shell, and a seed holds exactly the directives of the template.
\<close>

section \<open>Artifacts of an accepted specification\<close>

lemma validate_artifacts_ok:
  assumes "validate_artifacts L ids names items = None"
  shows "(\<forall>a \<in> set items. descriptor_Validate L a = None) \<and> distinct (map ar_ID items)
    \<and> (\<forall>a \<in> set items. ar_ID a \<notin> set ids)"
  using assms
proof (induction L ids names items rule: validate_artifacts.induct)
  case (2 L ids names item rest)
  then have "descriptor_Validate L item = None" "ar_ID item \<notin> set ids"
    "validate_artifacts L (ar_ID item # ids) (ar_Name item # names) rest = None"
    by (auto split: option.splits if_splits)
  with 2 show ?case by (fastforce split: if_splits)
qed simp

lemma spec_Validate_artifacts: "spec_Validate L spec = None \<Longrightarrow> validate_artifacts L [] [] (sp_Artifacts spec) = None"
  by (auto simp: spec_Validate_def split: option.splits if_splits)

lemma requiredArtifact_Inr:
  assumes "requiredArtifact spec name = Inr a"
  shows "a \<in> set (sp_Artifacts spec)" "ar_Name a = name" "HasPrefix (ar_Provenance a) ''debian:trixie:''"
proof -
  let ?found = "filter (\<lambda>item. ar_Name item = name) (sp_Artifacts spec)"
  from assms have "length ?found = 1" "a = last ?found" "HasPrefix (ar_Provenance a) ''debian:trixie:''"
    by (auto simp: requiredArtifact_def Let_def split: if_splits)
  moreover from this have "a \<in> set ?found" using last_in_set [of ?found] by force
  ultimately show "a \<in> set (sp_Artifacts spec)" "ar_Name a = name" "HasPrefix (ar_Provenance a) ''debian:trixie:''"
    by auto
qed

text \<open>The role of an artifact is its path below the images of its installer version.\<close>

definition role_path :: "string \<Rightarrow> string" where
  "role_path name = (if name = ''linux'' then kernel_path else if name = ''initrd.gz'' then initrd_path else shim_path)"

definition pinned :: "golib \<Rightarrow> Descriptor \<Rightarrow> bool" where
  "pinned L a \<longleftrightarrow> lib_url L (ar_SourceURL a) = Some (''https'', debianHost, False) \<and>
     (case lib_url_path L (ar_SourceURL a) of (rawQuery, fragment, escapedPath, path) \<Rightarrow>
        rawQuery = [] \<and> fragment = [] \<and>
        ''/debian/dists/trixie/main/installer-amd64/'' @ ar_Version a @ ''/images/'' @ role_path (ar_Name a)
          \<in> set [escapedPath, path])"

lemma source_pinned:
  "validateDebianArtifactSource L a (role_path (ar_Name a)) = None \<Longrightarrow> pinned L a"
  by (auto simp: validateDebianArtifactSource_def pinned_def Let_def split: option.splits if_splits prod.splits)

lemma boot_artifacts_kernel:
  assumes "validate_boot_artifacts L spec = None"
  obtains k i where "requiredArtifact spec ''linux'' = Inr k" "requiredArtifact spec ''initrd.gz'' = Inr i"
    "ar_Version i = ar_Version k" "ar_Provenance i = ar_Provenance k" "pinned L k" "pinned L i"
    "sp_DriverVersion spec \<noteq> DriverVersion \<longrightarrow> length (sp_Artifacts spec) = 2"
    "sp_DriverVersion spec = DriverVersion \<longrightarrow> length (sp_Artifacts spec) = 3 \<and> validate_shim L spec k = None"
  using assms requiredArtifact_Inr(2) source_pinned
  by (auto simp: validate_boot_artifacts_def Let_def role_path_def split: sum.splits option.splits if_splits)

lemma validate_shim_None:
  assumes "validate_shim L spec k = None"
  obtains s where "requiredArtifact spec ''bootnetx64.efi'' = Inr s" "ar_Version s = ar_Version k"
    "ar_Provenance s = ar_Provenance k" "pinned L s"
  using assms requiredArtifact_Inr(2) source_pinned
  by (auto simp: validate_shim_def role_path_def split: sum.splits option.splits if_splits)

lemma set_eq_by_length:
  assumes "distinct ys" "set ys \<subseteq> set xs" "length xs = length ys"
  shows "set xs = set ys"
  using assms by (metis List.finite_set card_length card_seteq distinct_card)

lemma ValidateSpec_artifacts:
  assumes "ValidateSpec L spec = None"
  obtains k where "requiredArtifact spec ''linux'' = Inr k"
    "\<And>a. a \<in> set (sp_Artifacts spec) \<Longrightarrow> ar_Name a \<in> set [''linux'', ''initrd.gz'', ''bootnetx64.efi''] \<and> pinned L a
       \<and> ar_Version a = ar_Version k \<and> ar_Provenance a = ar_Provenance k"
proof -
  from assms have "validate_boot_artifacts L spec = None"
    by (simp add: ValidateSpec_def split: option.splits)
  then obtain k i where k: "requiredArtifact spec ''linux'' = Inr k" and i: "requiredArtifact spec ''initrd.gz'' = Inr i"
    and same: "ar_Version i = ar_Version k" "ar_Provenance i = ar_Provenance k" and pin: "pinned L k" "pinned L i"
    and two: "sp_DriverVersion spec \<noteq> DriverVersion \<longrightarrow> length (sp_Artifacts spec) = 2"
    and three: "sp_DriverVersion spec = DriverVersion \<longrightarrow>
       length (sp_Artifacts spec) = 3 \<and> validate_shim L spec k = None"
    by (rule boot_artifacts_kernel)
  note names = requiredArtifact_Inr [OF k] requiredArtifact_Inr [OF i]
  have "\<forall>a \<in> set (sp_Artifacts spec). ar_Name a \<in> set [''linux'', ''initrd.gz'', ''bootnetx64.efi''] \<and> pinned L a
       \<and> ar_Version a = ar_Version k \<and> ar_Provenance a = ar_Provenance k"
  proof (cases "sp_DriverVersion spec = DriverVersion")
    case True
    with three have n: "length (sp_Artifacts spec) = 3" and "validate_shim L spec k = None" by simp_all
    then obtain s where s: "requiredArtifact spec ''bootnetx64.efi'' = Inr s" "ar_Version s = ar_Version k"
      "ar_Provenance s = ar_Provenance k" "pinned L s" by (elim validate_shim_None)
    have "set (sp_Artifacts spec) = set [k, i, s]"
      using names requiredArtifact_Inr [OF s(1)] n by (intro set_eq_by_length) auto
    then show ?thesis using names requiredArtifact_Inr [OF s(1)] same pin s by simp
  next
    case False
    with two have "set (sp_Artifacts spec) = set [k, i]"
      using names by (intro set_eq_by_length) auto
    then show ?thesis using names same pin by simp
  qed
  with k show thesis by (intro that) auto
qed

section \<open>A specification the driver accepts\<close>

definition sample_key_text :: string where
  "sample_key_text = ''ssh-ed25519'' @ CHR '' '' # replicate 44 (CHR ''A'') @ CHR '' '' # ''operator''"

definition sample_images :: string where
  "sample_images = ''https://deb.debian.org/debian/dists/trixie/main/installer-amd64/1/images/''"

lemma sample_images_plain: "\<forall>c \<in> set sample_images. plain c" "length sample_images \<le> 100" "sample_images \<noteq> []"
  by (simp_all add: sample_images_def plain_def byte_def space1_def)

definition sample_artifact :: "string \<Rightarrow> string \<Rightarrow> Descriptor" where
  "sample_artifact name path = \<lparr>ar_ID = ''a-'' @ name, ar_Name = name,
     ar_SourceURL = sample_images @ path,
     ar_Version = ''1'', ar_Digest = ''sha256:'' @ replicate 64 (CHR ''0''), ar_Size = 3,
     ar_Provenance = ''debian:trixie:release=13.0:installer=1''\<rparr>"

definition sample_debian_spec :: Spec where
  "sample_debian_spec = sample_spec\<lparr>sp_DriverID := ''debian13'', sp_DriverVersion := ''2'',
     sp_Profile := (sp_Profile sample_spec)\<lparr>pf_Admin := \<lparr>ad_Username = ''admin'', ad_FullName = ''Admin'',
       ad_AuthorizedSSHKeys = [sample_key_text], ad_PasswordlessSudo = True\<rparr>\<rparr>,
     sp_Artifacts := [sample_artifact ''linux'' kernel_path, sample_artifact ''initrd.gz'' initrd_path,
       sample_artifact ''bootnetx64.efi'' shim_path],
     sp_Storage := (sp_Storage sample_spec)\<lparr>st_Mode := ''whole-disk''\<rparr>\<rparr>"

lemma fields_word:
  "\<forall>c \<in> set w. plain c \<Longrightarrow> acc \<noteq> [] \<or> w \<noteq> [] \<Longrightarrow>
   fields_from acc (w @ CHR '' '' # r) = (rev acc @ w) # fields_from [] r"
proof (induction w arbitrary: acc)
  case Nil
  then show ?case by (subst fields_from.simps) (simp add: lead_width_def space1_def)
next
  case (Cons c w)
  have "lead_width (c # w @ CHR '' '' # r) = 0"
    using Cons.prems(1) plain_no_space by (auto simp: lead_width_def split: list.split)
  with Cons show ?case by (subst fields_from.simps) simp
qed

lemma fields_last: "\<forall>c \<in> set w. plain c \<Longrightarrow> acc \<noteq> [] \<or> w \<noteq> [] \<Longrightarrow> fields_from acc w = [rev acc @ w]"
proof (induction w arbitrary: acc)
  case Nil
  then show ?case by (subst fields_from.simps) simp
next
  case (Cons c w)
  then have "lead_width (c # w) = 0" by (intro lead_width_plain) simp
  with Cons show ?case by (subst fields_from.simps) simp
qed

lemma three_fields:
  assumes "a \<noteq> []" "b \<noteq> []" "c \<noteq> []" "\<forall>x \<in> set (a @ b @ c). plain x"
  shows "Fields (a @ CHR '' '' # b @ CHR '' '' # c) = [a, b, c]"
  using assms by (simp add: Fields_def fields_word fields_last)

lemma zero_symbols: "symbols std_alphabet (replicate n (CHR ''A'')) = Some (replicate n 0)"
  by (induction n) (simp_all add: std_alphabet_def)

lemma zero_bytes: "unsextets (replicate (4 * n) 0) = Some (replicate (3 * n) (char_of (0::nat)))"
proof (induction n)
  case (Suc n)
  have "4 * Suc n = Suc (Suc (Suc (Suc (4 * n))))" "3 * Suc n = Suc (Suc (Suc (3 * n)))" by simp_all
  with Suc show ?case by (simp only: replicate_Suc unsextets.simps) (simp add: three_bytes_def)
qed simp

lemma sample_key_fields: "Fields sample_key_text = [''ssh-ed25519'', replicate 44 (CHR ''A''), ''operator'']"
  unfolding sample_key_text_def
  by (rule three_fields) (simp_all add: plain_def byte_def space1_def)

lemma sample_key_valid: "validateAuthorizedKey sample_key_text = None"
proof -
  have "length sample_key_text = 65" "\<not> ContainsAny sample_key_text [CR, LF]"
    by (simp_all add: sample_key_text_def ContainsAny_def)
  moreover have "Std_Decode (replicate 44 (CHR ''A'')) = Some (replicate 33 (char_of (0::nat)))"
    using zero_bytes [of 11] by (simp add: Std_Decode_def no_breaks_def strip_padding_def zero_symbols)
  ultimately show ?thesis
    by (simp add: validateAuthorizedKey_def sample_key_fields key_types_def)
qed

lemmas pattern_defs = hostnamePattern_def localePattern_def keymapPattern_def timezonePattern_def usernamePattern_def
  is_alnum_def in_range_def byte_def

lemma sample_profile_valid: "snapshot_Validate (sp_Profile sample_debian_spec) = None"
proof -
  have "\<not> Contains ''UTC'' ''..''"
    using set_mono_sublist [of "''..''" "''UTC''"] by auto
  then show ?thesis
    by (simp add: snapshot_Validate_def sample_debian_spec_def sample_spec_def sample_key_valid SchemaVersion_def
        pattern_defs sample_trim ContainsAny_def)
qed

lemma path_plain:
  assumes "path \<in> set [kernel_path, initrd_path, shim_path]"
  shows "\<forall>c \<in> set path. plain c" "length path \<le> 64"
proof -
  have "list_all (\<lambda>p. list_all plain p \<and> length p \<le> 64) [kernel_path, initrd_path, shim_path]"
    by (simp add: kernel_path_def initrd_path_def shim_path_def plain_def byte_def space1_def)
  with assms show "\<forall>c \<in> set path. plain c" "length path \<le> 64" by (auto simp: list_all_iff)
qed

lemma sample_artifact_valid:
  assumes "name \<in> set [''linux'', ''initrd.gz'', ''bootnetx64.efi'']" "path \<in> set [kernel_path, initrd_path, shim_path]"
  shows "descriptor_Validate (sample_lib n) (sample_artifact name path) = None"
proof -
  have "TrimSpace (sample_images @ path) = sample_images @ path"
    using path_plain [OF assms(2)] sample_images_plain(1) by (intro TrimSpace_plain) auto
  moreover have "list_all plain name" "length name \<le> 16" "name \<noteq> []"
    using assms(1) by (auto simp: plain_def byte_def space1_def)
  moreover have "TrimSpace (''a-'' @ name) = ''a-'' @ name"
    using calculation by (intro TrimSpace_plain) (simp add: list_all_iff, simp add: plain_def byte_def space1_def)
  moreover have "length (sample_images @ path) \<le> 2048"
    using path_plain(2) [OF assms(2)] sample_images_plain(2) by simp
  ultimately show ?thesis
    using sample_images_plain(3)
    by (simp add: descriptor_Validate_def sample_artifact_def sample_lib_def TrimSpace_plain list_all_iff ValidSHA256_def
      TrimPrefix_def is_hex_def in_range_def sample_trim)
qed

lemma sample_artifact_fields [simp]:
  "ar_ID (sample_artifact name path) = ''a-'' @ name" "ar_Name (sample_artifact name path) = name"
  by (simp_all add: sample_artifact_def)

lemma sample_spec_accepted: "spec_Validate (sample_lib n) sample_debian_spec = None"
  using sample_profile_valid
  by (simp add: spec_Validate_def sample_debian_spec_def sample_spec_def sample_trim sample_artifact_valid
      ValidateTargetDisk_def targetDiskPattern_def letter_disk_def in_range_def)

lemma sample_debian_spec_valid: "ValidateSpec (sample_lib n) sample_debian_spec = None"
  using sample_spec_accepted
  by (simp add: ValidateSpec_def validate_target_def validate_boot_artifacts_def validate_shim_def requiredArtifact_def sample_images_def
      validateDebianArtifactSource_def Let_def sample_debian_spec_def sample_spec_def sample_artifact_def sample_lib_def
      DriverID_def DriverVersion_def LegacyDriverVersion_def debianArch_def debianHost_def)

lemma sample_debian_spec_renderable: "validateRenderableSpec (sample_lib n) sample_debian_spec = None"
  using sample_debian_spec_valid [of n]
  by (simp add: validateRenderableSpec_def sample_debian_spec_def sample_spec_def DriverVersion_def sample_trim)

section \<open>Properties\<close>

text \<open>C24:
  Every artifact of a specification the driver accepts is the kernel, the initrd or the signed
  shim, is fetched by HTTPS from deb.debian.org without user info, query or fragment, from the
  path of its role in the installer version it is pinned to, and all of them are pinned to one
  version and one trixie provenance.
\<close>

theorem artifact_origin_pinned:
  assumes "ValidateSpec L spec = None" and "a \<in> set (sp_Artifacts spec)" and "b \<in> set (sp_Artifacts spec)"
  shows "ar_Name a \<in> set [''linux'', ''initrd.gz'', ''bootnetx64.efi'']
    \<and> lib_url L (ar_SourceURL a) = Some (''https'', ''deb.debian.org'', False)
    \<and> (\<exists>escapedPath path. lib_url_path L (ar_SourceURL a) = ([], [], escapedPath, path) \<and>
      ''/debian/dists/trixie/main/installer-amd64/'' @ ar_Version a @ ''/images/'' @ role_path (ar_Name a)
        \<in> set [escapedPath, path])
    \<and> HasPrefix (ar_Provenance a) ''debian:trixie:''
    \<and> ar_Version a = ar_Version b \<and> ar_Provenance a = ar_Provenance b"
proof -
  from assms(1) obtain k where k: "requiredArtifact spec ''linux'' = Inr k"
    and all: "\<And>a. a \<in> set (sp_Artifacts spec) \<Longrightarrow> ar_Name a \<in> set [''linux'', ''initrd.gz'', ''bootnetx64.efi''] \<and> pinned L a
       \<and> ar_Version a = ar_Version k \<and> ar_Provenance a = ar_Provenance k"
    by (rule ValidateSpec_artifacts) blast
  from all [OF assms(2)] all [OF assms(3)] requiredArtifact_Inr [OF k] show ?thesis
    by (simp add: pinned_def debianHost_def split: prod.splits)
qed

theorem artifact_origin_pinned_witness:
  "ValidateSpec (sample_lib 0) sample_debian_spec = None \<and>
   lib_url (sample_lib 0) (ar_SourceURL (sample_artifact ''linux'' kernel_path)) = Some (''https'', ''deb.debian.org'', False)"
proof -
  have "sample_artifact ''linux'' kernel_path \<in> set (sp_Artifacts sample_debian_spec)"
    by (simp add: sample_debian_spec_def)
  from artifact_origin_pinned [OF sample_debian_spec_valid this this] show ?thesis
    using sample_debian_spec_valid by blast
qed

lemma ref_valid: "descriptor_Validate L a = None \<Longrightarrow> validateArtifactRef (ref_of a) = None"
  by (auto simp: descriptor_Validate_def validateArtifactRef_def ref_of_def split: option.splits if_splits)

lemma distinct_IDs: "distinct (map ar_ID xs) \<Longrightarrow> a \<in> set xs \<Longrightarrow> b \<in> set xs \<Longrightarrow> ar_Name a \<noteq> ar_Name b \<Longrightarrow> ar_ID a \<noteq> ar_ID b"
  by (auto simp: distinct_map dest: inj_onD)

lemma no_scheme: "\<not> Contains ''preseed.cfg'' ''://''"
  using set_mono_sublist [of "''://''" "''preseed.cfg''"] by auto

lemma boot_arguments_valid: "validate_arguments [] boot_arguments = None"
  by code_simp

text \<open>C25:
  RenderBoot succeeds on every specification that passes the driver's checks and has an
  identifier of at most 128 bytes. The result is a valid boot specification of that
  installation: it refers by digest to the kernel and initrd the specification pins, has the
  three fixed kernel arguments and no others, and names the preseed file.
\<close>

theorem render_boot_total:
  assumes "validateRenderableSpec L spec = None" and "length (sp_ID spec) \<le> 128"
  shows "\<exists>b k i. RenderBoot L spec = Inr b \<and> bootspec_Validate b = None
    \<and> bs_InstallationID b = sp_ID spec \<and> bs_DriverID b = ''debian13'' \<and> bs_DriverVersion b = ''2''
    \<and> k \<in> set (sp_Artifacts spec) \<and> ar_Name k = ''linux'' \<and> rf_Digest (bs_Kernel b) = ar_Digest k
    \<and> i \<in> set (sp_Artifacts spec) \<and> ar_Name i = ''initrd.gz'' \<and> map rf_Digest (bs_Initrds b) = [ar_Digest i]
    \<and> map arg_Key (bs_Arguments b) = [''auto'', ''priority'', ''interface''] \<and> bs_SeedRef b = ''preseed.cfg''"
proof -
  from assms(1) have valid: "ValidateSpec L spec = None" and version: "sp_DriverVersion spec = DriverVersion"
    and ID: "TrimSpace (sp_ID spec) \<noteq> []"
    by (auto simp: validateRenderableSpec_def split: option.splits if_splits)
  then have spec: "spec_Validate L spec = None" and driver: "sp_DriverID spec = DriverID"
    and arts: "validate_boot_artifacts L spec = None"
    by (auto simp: ValidateSpec_def validate_target_def split: option.splits if_splits)
  from arts obtain k i where k: "requiredArtifact spec ''linux'' = Inr k" and i: "requiredArtifact spec ''initrd.gz'' = Inr i"
    by (rule boot_artifacts_kernel)
  note ki = requiredArtifact_Inr [OF k] requiredArtifact_Inr [OF i]
  note ok = validate_artifacts_ok [OF spec_Validate_artifacts [OF spec]]
  have "ar_ID k \<noteq> ar_ID i" using ok ki by (intro distinct_IDs [of "sp_Artifacts spec"]) auto
  moreover have "validateArtifactRef (ref_of k) = None" "validateArtifactRef (ref_of i) = None"
    using ok ki by (auto intro: ref_valid)
  ultimately have "bootspec_Validate (boot_result spec) = None"
    using ID assms(2) boot_arguments_valid
    by (simp add: bootspec_Validate_def boot_result_def artifact_or_zero_def k i driver version DriverID_def
        DriverVersion_def sample_trim ref_of_def boot_arguments_def ContainsAny_def no_scheme)
  then show ?thesis
    using assms(1) ki
    by (intro exI [of _ "boot_result spec"] exI [of _ k] exI [of _ i])
      (simp add: RenderBoot_def boot_result_def artifact_or_zero_def k i ref_of_def driver version DriverID_def
        DriverVersion_def boot_arguments_def)
qed

theorem render_boot_total_witness:
  "validateRenderableSpec (sample_lib 0) sample_debian_spec = None \<and>
   (\<exists>b. RenderBoot (sample_lib 0) sample_debian_spec = Inr b \<and> bs_InstallationID b = ''i_1'')"
proof -
  have ID: "sp_ID sample_debian_spec = ''i_1''" by (simp add: sample_debian_spec_def sample_spec_def)
  then have "length (sp_ID sample_debian_spec) \<le> 128" by simp
  from render_boot_total [OF sample_debian_spec_renderable this] show ?thesis
    using sample_debian_spec_renderable ID by metis
qed

end
