(* ===== verification/Debian13_Seed.thy ===== *)
theory Debian13_Seed
  imports Debian13_Properties
begin

text \<open>
  The seed the Debian 13 driver renders: quoting for the shell, the characters that can reach
  a line of the preseed file, and its size.
\<close>

section \<open>Shell quoting\<close>

text \<open>
  Quote removal of the POSIX shell on one word: within single quotes every byte stands for
  itself, within double quotes every byte but \<open>$\<close>, the back quote, the backslash and the double
  quote; outside of quotes only a quote is read here.
\<close>

datatype quoting = Unquoted | SingleQuoted | DoubleQuoted

fun sh_word :: "quoting \<Rightarrow> string \<Rightarrow> string option" where
  "sh_word Unquoted [] = Some []"
| "sh_word q [] = None"
| "sh_word Unquoted (c # s) =
     (if c = SQ then sh_word SingleQuoted s else if c = DQ then sh_word DoubleQuoted s else None)"
| "sh_word SingleQuoted (c # s) =
     (if c = SQ then sh_word Unquoted s else map_option (\<lambda>r. c # r) (sh_word SingleQuoted s))"
| "sh_word DoubleQuoted (c # s) =
     (if c = DQ then sh_word Unquoted s
      else if c \<in> set [CHR 0x24, CHR 0x60, CHR 0x5C] then None
      else map_option (\<lambda>r. c # r) (sh_word DoubleQuoted s))"

lemma sh_word_quoted:
  "sh_word SingleQuoted (concat (map (\<lambda>c. if c = SQ then [SQ, DQ, SQ, DQ, SQ] else [c]) v) @ [SQ]) = Some v"
  by (induction v) auto

text \<open>
  The shell reads a quoted value as exactly one word, which is the value: whatever bytes a
  value has, it stays data in the late command of the installer.
\<close>

theorem shell_quote_roundtrip: "sh_word Unquoted (shellQuote v) = Some v"
  by (simp add: shellQuote_def sh_word_quoted)

lemma set_shellQuote: "set (shellQuote v) \<subseteq> insert SQ (insert DQ (set v))"
  by (auto simp: shellQuote_def split: if_splits)

lemma length_shellQuote: "SQ \<notin> set v \<Longrightarrow> length (shellQuote v) = length v + 2"
  by (induction v) (auto simp: shellQuote_def)

section \<open>No line breaks in the fields of a specification\<close>

lemma list_all_no_LF: "list_all P s \<Longrightarrow> \<not> P LF \<Longrightarrow> LF \<notin> set s"
  by (auto simp: list_all_iff)

lemma pattern_no_LF:
  "hostnamePattern s \<Longrightarrow> LF \<notin> set s" "localePattern s \<Longrightarrow> LF \<notin> set s" "keymapPattern s \<Longrightarrow> LF \<notin> set s"
  "usernamePattern s \<Longrightarrow> LF \<notin> set s" "packagePattern s \<Longrightarrow> LF \<notin> set s"
  by (auto simp: hostnamePattern_def localePattern_def keymapPattern_def usernamePattern_def packagePattern_def
      is_alnum_def in_range_def byte_def list_all_iff split: list.splits)

lemma no_LF_split:
  assumes "\<forall>p \<in> set (split_on c s). LF \<notin> set p" "c \<noteq> LF"
  shows "LF \<notin> set s"
proof -
  have "set s \<subseteq> insert c (\<Union> (set ` set (split_on c s)))"
    using set_join_with [of "[c]" "split_on c s"] by simp
  with assms show ?thesis by auto
qed

lemma timezone_no_LF:
  assumes "timezonePattern s"
  shows "LF \<notin> set s"
proof (rule no_LF_split [of "CHR ''/''"])
  have "list_all (\<lambda>c. is_alnum c \<or> c \<in> set ''_+.-'') p" if "p \<in> set (split_on (CHR ''/'') s)" for p
    using assms that unfolding timezonePattern_def list_all_iff by blast
  then show "\<forall>p \<in> set (split_on (CHR ''/'') s). LF \<notin> set p"
    by (intro ballI list_all_no_LF) (auto simp: is_alnum_def in_range_def byte_def)
qed simp

lemma digits_no_LF: "digits s \<Longrightarrow> LF \<notin> set s"
  by (auto simp: digits_def list_all_iff in_range_def byte_def)

lemma letter_disk_no_LF: "letter_disk pre s \<Longrightarrow> LF \<notin> set pre \<Longrightarrow> LF \<notin> set s"
proof -
  assume "letter_disk pre s" and pre: "LF \<notin> set pre"
  then obtain zs where zs: "s = pre @ zs" "length zs = 1" "is_lower (last s)"
    by (auto simp: letter_disk_def prefix_def)
  then obtain c where "s = pre @ [c]" "is_lower c" by (cases zs) auto
  with pre show ?thesis by (auto simp: in_range_def byte_def)
qed

lemma disk_no_LF: "targetDiskPattern s \<Longrightarrow> LF \<notin> set s"
proof -
  have nvme: "LF \<notin> set s" if "HasPrefix s ''/dev/nvme''"
    "case split_on (CHR ''n'') (drop 9 s) of [a, b] \<Rightarrow> digits a \<and> digits b | _ \<Rightarrow> False"
  proof -
    have "LF \<notin> set (drop 9 s)"
      using that(2) by (intro no_LF_split [of "CHR ''n''"]) (auto split: list.splits dest: digits_no_LF)
    then show ?thesis using that(1) by (auto simp: prefix_def)
  qed
  have mmc: "LF \<notin> set s" if "HasPrefix s ''/dev/mmcblk''" "digits (drop 11 s)"
    using that digits_no_LF by (auto simp: prefix_def)
  assume "targetDiskPattern s"
  then show ?thesis
    using nvme mmc letter_disk_no_LF by (auto simp: targetDiskPattern_def)
qed

lemma set_fields: "f \<in> set (fields_from acc s) \<Longrightarrow> set f \<subseteq> set acc \<union> set s"
proof (induction acc s rule: fields_from.induct)
  case (1 acc s)
  show ?case
  proof (cases "s = [] \<or> lead_width s > 0")
    case True
    then show ?thesis
      using 1 by (subst (asm) fields_from.simps) (auto split: if_splits dest: in_set_dropD)
  next
    case False
    then show ?thesis
      using 1 by (subst (asm) fields_from.simps) (auto simp: neq_Nil_conv)
  qed
qed

section \<open>No line breaks in the late command\<close>

lemma those_set: "those xs = Some ys \<Longrightarrow> y \<in> set ys \<Longrightarrow> Some y \<in> set xs"
  by (induction xs arbitrary: ys) (auto split: option.splits)

lemma first_error_None: "first_error f xs = None \<longleftrightarrow> (\<forall>x \<in> set xs. f x = None)"
  by (induction xs) (auto split: option.splits)

lemma validate_packages_None: "validate_packages seen xs = None \<Longrightarrow> \<forall>x \<in> set xs. packagePattern x"
  by (induction seen xs rule: validate_packages.induct) (auto split: if_splits)

lemma snapshot_fields:
  assumes "snapshot_Validate s = None"
  shows "hostnamePattern (pf_Hostname s)" "localePattern (pf_Locale s)" "keymapPattern (pf_Keyboard s)"
    "timezonePattern (pf_Timezone s)" "usernamePattern (ad_Username (pf_Admin s))"
    "LF \<notin> set (TrimSpace (ad_FullName (pf_Admin s)))" "length (pf_Timezone s) \<le> 128"
    "length (TrimSpace (ad_FullName (pf_Admin s))) \<le> 128"
    "\<forall>k \<in> set (ad_AuthorizedSSHKeys (pf_Admin s)). validateAuthorizedKey k = None"
    "length (ad_AuthorizedSSHKeys (pf_Admin s)) \<le> 8"
    "\<forall>p \<in> set (pf_Packages s). packagePattern p" "length (pf_Packages s) \<le> 64"
  using assms validate_packages_None [of "[]" "pf_Packages s"]
  by (auto simp: snapshot_Validate_def Let_def first_error_None ContainsAny_def split: option.splits if_splits)

lemma key_line_valid:
  assumes "validateAuthorizedKey v = None"
  obtains f0 f1 where "key_line v = Some (f0 @ '' '' @ f1)" "f0 \<in> set key_types" "Std_Decode f1 \<noteq> None"
    "set f1 \<subseteq> set v" "LF \<notin> set v" "CR \<notin> set v" "f1 \<in> set (Fields v)" "length v \<le> 8192"
  using assms
proof (cases "Fields v")
  case (Cons f0 r)
  show ?thesis
  proof (cases r)
    case (Cons f1 r')
    have "f1 \<in> set (Fields v)" using \<open>Fields v = f0 # r\<close> Cons by simp
    moreover from this have "set f1 \<subseteq> set v" using set_fields [of f1 "[]" v] by (simp add: Fields_def)
    ultimately show ?thesis
      using assms \<open>Fields v = f0 # r\<close> Cons
      by (intro that [of f0 f1])
        (auto simp: validateAuthorizedKey_def key_line_def ContainsAny_def split: if_splits option.splits)
  qed (use assms \<open>Fields v = f0 # r\<close> in \<open>auto simp: validateAuthorizedKey_def split: if_splits\<close>)
qed (auto simp: validateAuthorizedKey_def split: if_splits)

lemma key_types_no_LF: "f \<in> set key_types \<Longrightarrow> LF \<notin> set f \<and> SQ \<notin> set f \<and> length f \<le> 40"
  by (auto simp: key_types_def)

lemma key_line_no_LF: "validateAuthorizedKey v = None \<Longrightarrow> key_line v = Some k \<Longrightarrow> LF \<notin> set k"
  using key_types_no_LF by (elim key_line_valid) auto

lemma keys_valid:
  assumes "\<forall>v \<in> set vs. validateAuthorizedKey v = None"
  shows "\<exists>ks. those (map key_line vs) = Some ks \<and> length ks = length vs"
  using assms by (induction vs) (auto elim!: key_line_valid)

lemma quoted_no_LF [simp]: "LF \<in> set (shellQuote v) \<longleftrightarrow> LF \<in> set v"
  by (auto simp: shellQuote_def split: if_splits)

lemma appendLine_no_LF [simp]: "LF \<in> set (appendLine p v) \<longleftrightarrow> LF \<in> set p \<or> LF \<in> set v"
  "LF \<in> set (writeLine p v) \<longleftrightarrow> LF \<in> set p \<or> LF \<in> set v"
  by (auto simp: appendLine_def writeLine_def)

lemma marker_no_LF [simp]: "LF \<in> set (marker a b) \<longleftrightarrow> LF \<in> set a \<or> LF \<in> set b"
  by (auto simp: marker_def)

lemma commands_no_LF:
  assumes "LF \<notin> set username" "\<forall>k \<in> set keys. LF \<notin> set k"
  shows "\<forall>c \<in> set (key_commands username keys @ hardening_commands username). LF \<notin> set c"
  using assms by (simp add: key_commands_def Let_def hardening_commands_def sshd_conf_def apt_conf_def)

section \<open>The lines of a seed\<close>

lemma renderable_profile:
  assumes "validateRenderableSpec L spec = None"
  shows "snapshot_Validate (sp_Profile spec) = None" "targetDiskPattern (st_TargetDisk (sp_Storage spec))"
  using assms
  by (auto simp: validateRenderableSpec_def ValidateSpec_def spec_Validate_def ValidateTargetDisk_def
      split: option.splits if_splits)

lemma late_command_no_LF:
  assumes "snapshot_Validate (sp_Profile spec) = None" "renderLateCommand spec = Inr late"
  shows "LF \<notin> set late"
proof -
  let ?u = "ad_Username (pf_Admin (sp_Profile spec))"
  from assms(2) obtain keys where keys: "ssh_keys spec = Some keys"
    and late: "late = join_with ''; '' (key_commands ?u keys @ hardening_commands ?u)"
    by (auto simp: renderLateCommand_def Let_def split: option.splits)
  note prof = snapshot_fields [OF assms(1)]
  have "LF \<notin> set k" if k: "k \<in> set keys" for k
  proof -
    from those_set [OF keys [unfolded ssh_keys_def] k] obtain v
      where "v \<in> set (ad_AuthorizedSSHKeys (pf_Admin (sp_Profile spec)))" "key_line v = Some k" by auto
    with prof show ?thesis using key_line_no_LF by blast
  qed
  then have "\<forall>c \<in> set (key_commands ?u keys @ hardening_commands ?u). LF \<notin> set c"
    using prof pattern_no_LF by (intro commands_no_LF) auto
  moreover have "LF \<notin> set ''; ''" by simp
  ultimately show ?thesis
    using set_join_with [of "''; ''" "key_commands ?u keys @ hardening_commands ?u"] unfolding late by blast
qed

lemma set_seedPackages: "set (seedPackages spec) = {''openssh-server'', ''sudo'', ''unattended-upgrades''} \<union> set (pf_Packages (sp_Profile spec))"
  by (auto simp: seedPackages_def)

lemma packages_no_LF:
  assumes "snapshot_Validate (sp_Profile spec) = None"
  shows "LF \<notin> set (join_with '' '' (seedPackages spec))"
proof -
  have "\<forall>p \<in> set (seedPackages spec). LF \<notin> set p"
    using snapshot_fields(11) [OF assms] pattern_no_LF(5) by (auto simp: set_seedPackages)
  then show ?thesis using set_join_with [of "'' ''" "seedPackages spec"] by auto
qed

lemma preseed_lines_no_LF:
  assumes "snapshot_Validate (sp_Profile spec) = None" "targetDiskPattern (st_TargetDisk (sp_Storage spec))"
    "LF \<notin> set (ad_FullName (pf_Admin (sp_Profile spec)))" "LF \<notin> set late"
  shows "\<forall>l \<in> set (preseed_lines spec late). LF \<notin> set l"
proof -
  note prof = snapshot_fields [OF assms(1)]
  have "LF \<notin> set (pf_Locale (sp_Profile spec))" "LF \<notin> set (pf_Keyboard (sp_Profile spec))"
    "LF \<notin> set (pf_Hostname (sp_Profile spec))" "LF \<notin> set (ad_Username (pf_Admin (sp_Profile spec)))"
    "LF \<notin> set (pf_Timezone (sp_Profile spec))" "LF \<notin> set (st_TargetDisk (sp_Storage spec))"
    "LF \<notin> set (join_with '' '' (seedPackages spec))"
    using prof(1-5) pattern_no_LF timezone_no_LF disk_no_LF assms(1,2) packages_no_LF by auto
  with assms(3,4) show ?thesis
    by (simp add: preseed_lines_def)
qed

section \<open>The size of a seed\<close>

lemma length_join_with: "length (join_with sep ls) \<le> sum_list (map length ls) + length sep * length ls"
  by (induction sep ls rule: join_with.induct) auto

lemma sum_length_bound: "\<forall>l \<in> set ls. length l \<le> m \<Longrightarrow> sum_list (map length ls) \<le> length ls * m"
  by (induction ls) auto

lemma join_with_bound:
  assumes "\<forall>l \<in> set ls. length l \<le> m"
  shows "length (join_with sep ls) \<le> length ls * (m + length sep)"
  using length_join_with [of sep ls] sum_length_bound [OF assms] by (simp add: algebra_simps)

lemma index_of_mem: "index_of c al = Some i \<Longrightarrow> c \<in> set al"
  by (induction al arbitrary: i) (auto split: if_splits)

lemma symbols_mem: "symbols al s = Some is \<Longrightarrow> set s \<subseteq> set al"
  by (induction s arbitrary: "is") (auto split: option.splits dest: index_of_mem)

lemma strip_padding_mem: "strip_padding s = Some t \<Longrightarrow> set s \<subseteq> insert (CHR ''='') (set t)"
proof -
  have snoc: "set s \<subseteq> insert x (set (butlast s))" if "last s = x" for s and x :: char
    using that by (cases s rule: rev_cases) auto
  assume "strip_padding s = Some t"
  then show ?thesis
    using snoc [of s "CHR ''=''"] snoc [of "butlast s" "CHR ''=''"]
    by (auto simp: strip_padding_def Let_def split: if_splits)
qed

lemma base64_no_quote: "Std_Decode f \<noteq> None \<Longrightarrow> SQ \<notin> set f"
proof
  assume "Std_Decode f \<noteq> None" and quote: "SQ \<in> set f"
  then obtain t "is" where "strip_padding (no_breaks f) = Some t" "symbols std_alphabet t = Some is"
    by (auto simp: Std_Decode_def bind_eq_Some_conv)
  then have "set (no_breaks f) \<subseteq> insert (CHR ''='') (set std_alphabet)"
    using strip_padding_mem symbols_mem by blast
  moreover have "SQ \<in> set (no_breaks f)" using quote by (simp add: no_breaks_def)
  ultimately show False by (auto simp: std_alphabet_def)
qed

lemma length_fields: "f \<in> set (fields_from acc s) \<Longrightarrow> length f \<le> length acc + length s"
proof (induction acc s rule: fields_from.induct)
  case (1 acc s)
  show ?case
  proof (cases "s = [] \<or> lead_width s > 0")
    case True
    then show ?thesis
      using 1 by (subst (asm) fields_from.simps) (fastforce split: if_splits)
  next
    case False
    then show ?thesis
      using 1 by (subst (asm) fields_from.simps) (auto simp: neq_Nil_conv)
  qed
qed

lemma key_line_size:
  assumes "validateAuthorizedKey v = None" "key_line v = Some k"
  shows "SQ \<notin> set k" "length k \<le> 8300"
proof -
  from assms(1) obtain f0 f1 where f: "key_line v = Some (f0 @ '' '' @ f1)" "f0 \<in> set key_types" "Std_Decode f1 \<noteq> None"
    "f1 \<in> set (Fields v)" "length v \<le> 8192" by (rule key_line_valid)
  moreover have "length f1 \<le> length v" using length_fields [of f1 "[]" v] f(4) by (simp add: Fields_def)
  ultimately show "SQ \<notin> set k" "length k \<le> 8300"
    using assms(2) key_types_no_LF [OF f(2)] base64_no_quote [OF f(3)] by auto
qed

lemma pattern_size:
  "hostnamePattern s \<Longrightarrow> length s \<le> 63" "localePattern s \<Longrightarrow> length s \<le> 64" "keymapPattern s \<Longrightarrow> length s \<le> 64"
  "usernamePattern s \<Longrightarrow> length s \<le> 32 \<and> SQ \<notin> set s" "packagePattern s \<Longrightarrow> length s \<le> 128"
  by (auto simp: hostnamePattern_def localePattern_def keymapPattern_def usernamePattern_def packagePattern_def
      is_alnum_def in_range_def byte_def list_all_iff split: list.splits)

lemma line_size: "SQ \<notin> set p \<Longrightarrow> SQ \<notin> set v \<Longrightarrow> length (appendLine p v) = length p + length v + 13"
  "SQ \<notin> set p \<Longrightarrow> SQ \<notin> set v \<Longrightarrow> length (writeLine p v) = length p + length v + 12"
  by (simp_all add: appendLine_def writeLine_def length_shellQuote)

lemma marker_size: "SQ \<notin> set a \<Longrightarrow> SQ \<notin> set b \<Longrightarrow> length (marker a b) = length a + length b + 83"
  by (simp add: marker_def line_size)

lemma hardening_size:
  assumes "length username \<le> 32" "SQ \<notin> set username"
  shows "length (hardening_commands username) = 31" "\<forall>c \<in> set (hardening_commands username). length c \<le> 200"
  using assms by (simp_all add: hardening_commands_def marker_size line_size sshd_conf_def apt_conf_def)

lemma key_commands_size:
  assumes "length username \<le> 32" "SQ \<notin> set username" "\<forall>k \<in> set keys. SQ \<notin> set k \<and> length k \<le> 8300"
  shows "length (key_commands username keys) = 9 + length keys" "\<forall>c \<in> set (key_commands username keys). length c \<le> 8500"
proof -
  have "\<forall>k \<in> set keys. length username + length k \<le> 8453" using assms(1,3) by fastforce
  with assms show "length (key_commands username keys) = 9 + length keys"
    "\<forall>c \<in> set (key_commands username keys). length c \<le> 8500"
    by (simp_all add: key_commands_def Let_def marker_size line_size length_shellQuote)
qed

lemma late_command_size:
  assumes "snapshot_Validate (sp_Profile spec) = None"
  shows "\<exists>late. renderLateCommand spec = Inr late \<and> length late \<le> 160000"
proof -
  let ?u = "ad_Username (pf_Admin (sp_Profile spec))"
  note prof = snapshot_fields [OF assms]
  from keys_valid [OF prof(9)] obtain keys where keys: "ssh_keys spec = Some keys" "length keys \<le> 8"
    using prof(10) by (auto simp: ssh_keys_def)
  have u: "length ?u \<le> 32" "SQ \<notin> set ?u" using pattern_size(4) [OF prof(5)] by auto
  have k: "\<forall>k \<in> set keys. SQ \<notin> set k \<and> length k \<le> 8300"
  proof
    fix k assume "k \<in> set keys"
    from those_set [OF keys(1) [unfolded ssh_keys_def] this] obtain v
      where "v \<in> set (ad_AuthorizedSSHKeys (pf_Admin (sp_Profile spec)))" "key_line v = Some k" by auto
    with prof(9) key_line_size show "SQ \<notin> set k \<and> length k \<le> 8300" by blast
  qed
  let ?cs = "key_commands ?u keys @ hardening_commands ?u"
  have "length (join_with ''; '' ?cs) \<le> sum_list (map length ?cs) + 2 * length ?cs"
    using length_join_with [of "''; ''" ?cs] by simp
  moreover have "sum_list (map length (key_commands ?u keys)) \<le> (9 + length keys) * 8500"
    using sum_length_bound [OF key_commands_size(2) [OF u k]] key_commands_size(1) [OF u k] by simp
  moreover have "sum_list (map length (hardening_commands ?u)) \<le> 31 * 200"
    using sum_length_bound [OF hardening_size(2) [OF u]] hardening_size(1) [OF u] by simp
  ultimately have "length (join_with ''; '' ?cs) \<le> 160000"
    using keys(2) key_commands_size(1) [OF u k] hardening_size(1) [OF u] by simp
  with keys(1) show ?thesis by (simp add: renderLateCommand_def Let_def)
qed

lemma packages_size:
  assumes "snapshot_Validate (sp_Profile spec) = None"
  shows "length (join_with '' '' (seedPackages spec)) \<le> 8643"
proof -
  have "\<forall>p \<in> set (seedPackages spec). length p \<le> 128"
    using snapshot_fields(11) [OF assms] pattern_size(5) by (auto simp: set_seedPackages)
  from join_with_bound [OF this, of "'' ''"]
  have "length (join_with '' '' (seedPackages spec)) \<le> length (seedPackages spec) * 129" by simp
  moreover have "length (seedPackages spec) \<le> 67"
    using snapshot_fields(12) [OF assms] length_remdups_leq [of "pf_Packages (sp_Profile spec)"]
    by (auto simp: seedPackages_def intro: order_trans [OF length_remdups_leq])
  ultimately show ?thesis by linarith
qed

lemma preseed_size:
  assumes "snapshot_Validate (sp_Profile spec) = None" "length (st_TargetDisk (sp_Storage spec)) \<le> 4096"
    "TrimSpace (ad_FullName (pf_Admin (sp_Profile spec))) = ad_FullName (pf_Admin (sp_Profile spec))"
  shows "length (concat (map (\<lambda>l. l @ [LF]) (preseed_lines spec late))) \<le> length late + 25000"
proof -
  note prof = snapshot_fields [OF assms(1)]
  have "length (pf_Locale (sp_Profile spec)) \<le> 64" "length (pf_Keyboard (sp_Profile spec)) \<le> 64"
    "length (pf_Hostname (sp_Profile spec)) \<le> 63" "length (ad_Username (pf_Admin (sp_Profile spec))) \<le> 32"
    "length (ad_FullName (pf_Admin (sp_Profile spec))) \<le> 128"
    using prof pattern_size assms(3) by auto
  with assms(2) prof(7) packages_size [OF assms(1)] show ?thesis
    by (simp add: preseed_lines_def)
qed

section \<open>Rendering always succeeds\<close>

lemma blank_media: "TrimSpace ''preseed.cfg'' = ''preseed.cfg''" "TrimSpace ''text/plain; charset=utf-8'' \<noteq> []"
proof -
  show "TrimSpace ''preseed.cfg'' = ''preseed.cfg''" by (simp add: sample_trim)
  show "TrimSpace ''text/plain; charset=utf-8'' \<noteq> []"
    by (simp add: TrimSpace_def strip.simps lead_width_def trail_width_def space1_def space2_def space3_def)
qed

lemma seed_rendered:
  assumes "validateRenderableSpec L spec = None" and "TrimSpace requestID \<noteq> []"
    and "length (st_TargetDisk (sp_Storage spec)) \<le> 4096"
    and "TrimSpace (ad_FullName (pf_Admin (sp_Profile spec))) = ad_FullName (pf_Admin (sp_Profile spec))"
  shows "\<exists>b late. RenderSeed L spec requestID = Inr b \<and> renderLateCommand spec = Inr late
    \<and> sd_Filename b = ''preseed.cfg'' \<and> length (sd_Content b) \<le> maxSeedBytes
    \<and> split_on LF (sd_Content b) = preseed_lines spec late @ [[]] \<and> length (preseed_lines spec late) = 43"
proof -
  note prof = renderable_profile [OF assms(1)]
  obtain late where late: "renderLateCommand spec = Inr late" "length late \<le> 160000"
    using late_command_size [OF prof(1)] by blast
  have size: "length (sd_Content (preseed_bundle spec late)) \<le> 185000"
    using preseed_size [OF prof(1) assms(3,4), of late] late(2) by (simp add: preseed_bundle_def)
  have lines: "\<forall>l \<in> set (preseed_lines spec late). LF \<notin> set l"
    using snapshot_fields(6) [OF prof(1)] assms(4) late_command_no_LF [OF prof(1) late(1)]
    by (intro preseed_lines_no_LF prof) auto
  have "sd_Content (preseed_bundle spec late) \<noteq> []"
    by (simp add: preseed_bundle_def preseed_lines_def)
  then have "seed_Validate (preseed_bundle spec late) = None"
    using size by (simp add: seed_Validate_def maxSeedBytes_def)
      (simp add: preseed_bundle_def ContainsAny_def blank_media)
  then have "RenderSeed L spec requestID = Inr (preseed_bundle spec late)"
    using assms(1,2) late(1) by (simp add: RenderSeed_def renderPreseed_def)
  moreover have "split_on LF (sd_Content (preseed_bundle spec late)) = preseed_lines spec late @ [[]]"
    using split_lines [OF lines] by (simp add: preseed_bundle_def)
  ultimately show ?thesis
    using late(1) size
    by (intro exI [of _ "preseed_bundle spec late"] exI [of _ late])
      (simp add: maxSeedBytes_def, simp add: preseed_bundle_def preseed_lines_def)
qed

text \<open>C26:
  Every specification the driver can render, whose administrator name has no outer white space
  and whose disk path is at most 4096 bytes, gets its seed: the file preseed.cfg, within the
  256 KiB limit, whose lines are exactly the 43 directives of the template. No value of the
  profile adds a directive.
\<close>

theorem seed_always_rendered:
  assumes "validateRenderableSpec L spec = None" and "TrimSpace requestID \<noteq> []"
    and "length (st_TargetDisk (sp_Storage spec)) \<le> 4096"
    and "TrimSpace (ad_FullName (pf_Admin (sp_Profile spec))) = ad_FullName (pf_Admin (sp_Profile spec))"
  shows "\<exists>b late. RenderSeed L spec requestID = Inr b \<and> renderLateCommand spec = Inr late
    \<and> sd_Filename b = ''preseed.cfg'' \<and> length (sd_Content b) \<le> maxSeedBytes
    \<and> split_on LF (sd_Content b) = preseed_lines spec late @ [[]] \<and> length (preseed_lines spec late) = 43"
  using assms by (rule seed_rendered)

lemma sample_seed_conditions:
  "TrimSpace ''req'' \<noteq> []" "length (st_TargetDisk (sp_Storage sample_debian_spec)) \<le> 4096"
  "TrimSpace (ad_FullName (pf_Admin (sp_Profile sample_debian_spec))) = ad_FullName (pf_Admin (sp_Profile sample_debian_spec))"
  by (simp_all add: sample_debian_spec_def sample_spec_def sample_trim)

lemma sample_seed: "\<exists>b. RenderSeed (sample_lib 0) sample_debian_spec ''req'' = Inr b"
  using seed_rendered [OF sample_debian_spec_renderable sample_seed_conditions] by blast

theorem seed_always_rendered_witness:
  "\<exists>b. RenderSeed (sample_lib 0) sample_debian_spec ''req'' = Inr b \<and> length (sd_Content b) \<le> maxSeedBytes"
  using seed_always_rendered [OF sample_debian_spec_renderable sample_seed_conditions] by blast

text \<open>
  The profile check looks at the administrator name without outer white space, the seed
  holds the name as it is: a name that starts with a line break passes the check and becomes
  a line of its own in the seed. Callers have to store the trimmed name.
\<close>

definition broken_name_spec :: Spec where
  "broken_name_spec = sample_debian_spec\<lparr>sp_Profile := (sp_Profile sample_debian_spec)
     \<lparr>pf_Admin := (pf_Admin (sp_Profile sample_debian_spec))\<lparr>ad_FullName := LF # ''d-i''\<rparr>\<rparr>\<rparr>"

lemma split_on_append: "split_on c (a @ c # b) = split_on c a @ split_on c b"
  by (induction a) (auto split: list.splits)

lemma name_with_line_break_accepted:
  "snapshot_Validate (sp_Profile broken_name_spec) = None"
  "''d-i'' \<in> set (split_on LF (sd_Content (preseed_bundle broken_name_spec late)))"
  "''d-i'' \<notin> set (preseed_lines broken_name_spec late)"
proof -
  have "TrimSpace (LF # ''d-i'') = ''d-i''"
    by (simp add: TrimSpace_def strip.simps lead_width_def trail_width_def space1_def space2_def space3_def in_range_def byte_def)
  then show "snapshot_Validate (sp_Profile broken_name_spec) = None"
    using sample_profile_valid
    by (simp add: broken_name_spec_def snapshot_Validate_def Let_def ContainsAny_def split: option.splits if_splits)
  have "\<exists>x y. sd_Content (preseed_bundle broken_name_spec late) = x @ LF # ''d-i'' @ LF # y"
    by (rule exI [of _ "concat (map (\<lambda>l. l @ [LF]) (take 14 (preseed_lines broken_name_spec late)))
        @ ''d-i passwd/user-fullname string ''"],
      rule exI [of _ "concat (map (\<lambda>l. l @ [LF]) (drop 15 (preseed_lines broken_name_spec late)))"])
      (simp add: preseed_bundle_def preseed_lines_def broken_name_spec_def)
  then show "''d-i'' \<in> set (split_on LF (sd_Content (preseed_bundle broken_name_spec late)))"
    by (auto simp: split_on_append [of LF _ "''d-i'' @ LF # _", simplified] split_on_append_sep [of LF "''d-i''", simplified])
  show "''d-i'' \<notin> set (preseed_lines broken_name_spec late)"
    by (simp add: preseed_lines_def)
qed

end
