(* ===== verification/Debian13_Artifacts.thy ===== *)
theory Debian13_Artifacts
  imports Debian13_Properties
begin

text \<open>
  How installer artifacts get in: the resolver of the Debian driver
  (internal/drivers/debian13/artifacts.go), which follows the signature of the release through
  the installer's checksum manifest to the kernel, the initrd and the shim, and the loader that
  fetches a pinned artifact again when it is served (internal/artifact/loader.go).

  The network is a parameter: what a GET of a URL gives. Following redirects is net/http's
  loop with the redirect policy of the code. Running gpgv is a parameter as well: the verified
  text it wrote, if it could be run and accepted the signature.
\<close>

section \<open>HTTP\<close>

datatype http_reply = HttpError | HttpRedirect string | HttpReply int "string option"

record network =
  net_get :: "string \<Rightarrow> http_reply"
  net_gpgv :: "string \<Rightarrow> string option"

text \<open>
  Client.Do with the code's policies: the policy is asked with the number of requests made so
  far and the next URL, and stops at three. The result has the URLs that were requested, in their
  order, and the response: its status and its body, which may fail to be read.
\<close>

function http_do :: "network \<Rightarrow> (string \<Rightarrow> bool) \<Rightarrow> nat \<Rightarrow> string \<Rightarrow> string list \<times> (int \<times> string option) option" where
  "http_do N same_origin via u =
     (case net_get N u of
        HttpError \<Rightarrow> ([u], None)
      | HttpReply status body \<Rightarrow> ([u], Some (status, body))
      | HttpRedirect v \<Rightarrow>
          if via + 1 \<ge> 3 then ([u], None)
          else if \<not> same_origin v then ([u], None)
          else apfst ((#) u) (http_do N same_origin (via + 1) v))"
  by pat_completeness auto
termination
  by (relation "measure (\<lambda>(N, p, via, u). 3 - via)") auto

declare http_do.simps [simp del]

text \<open>io.ReadAll over a LimitReader.\<close>

definition read_limited :: "nat \<Rightarrow> string option \<Rightarrow> string option" where
  "read_limited n body = map_option (take n) body"

section \<open>The resolver\<close>

definition debianBaseURL :: string where "debianBaseURL = ''https://deb.debian.org/debian''"
definition maxInRelease :: nat where "maxInRelease = 2 * 2 ^ 20"
definition maxManifest :: nat where "maxManifest = 2 * 2 ^ 20"
definition maxInstallerBin :: nat where "maxInstallerBin = 128 * 2 ^ 20"

definition debian_origin :: "golib \<Rightarrow> string \<Rightarrow> bool" where
  "debian_origin L u = (case lib_url L u of None \<Rightarrow> False
     | Some (scheme, host, _) \<Rightarrow> scheme = ''https'' \<and> host = debianHost)"

definition Fetch :: "golib \<Rightarrow> network \<Rightarrow> string \<Rightarrow> nat \<Rightarrow> string option" where
  "Fetch L N rawURL maxBytes =
     (case snd (http_do N (debian_origin L) 0 rawURL) of
        None \<Rightarrow> None
      | Some (status, body) \<Rightarrow>
        if status \<noteq> 200 then None
        else case read_limited (maxBytes + 1) body of
          None \<Rightarrow> None
        | Some content \<Rightarrow> if length content > maxBytes then None else Some content)"

definition gpgv_Verify :: "network \<Rightarrow> string \<Rightarrow> string option" where
  "gpgv_Verify N signed =
     (case net_gpgv N signed of None \<Rightarrow> None
      | Some verified \<Rightarrow> if length verified = 0 then None else Some verified)"

text \<open>
  bufio.Scanner with its default split into lines: a line end is a line feed with an optional
  carriage return before it, the last line may lack it, and a line that does not fit into the
  64 KiB buffer with its line feed is an error.
\<close>

definition drop_CR :: "string \<Rightarrow> string" where
  "drop_CR l = (if l \<noteq> [] \<and> last l = CR then butlast l else l)"

definition scan_lines :: "string \<Rightarrow> string list option" where
  "scan_lines s =
     (let ls = split_on LF s; ls = (if last ls = [] then butlast ls else ls) in
      if list_ex (\<lambda>l. length l > 65535) ls then None else Some (map drop_CR ls))"

text \<open>strconv.ParseInt in base 10 with 64 bits.\<close>

definition decimal :: "string \<Rightarrow> nat" where
  "decimal ds = fold (\<lambda>c n. 10 * n + (byte c - 48)) ds 0"

definition ParseInt64 :: "string \<Rightarrow> int option" where
  "ParseInt64 s =
     (let neg = (s \<noteq> [] \<and> hd s = CHR ''-''); ds = (if s \<noteq> [] \<and> hd s \<in> set ''+-'' then tl s else s) in
      if \<not> digits ds then None
      else let n = int (decimal ds) in
      if neg then (if n \<le> 2 ^ 63 then Some (- n) else None)
      else if n < 2 ^ 63 then Some n else None)"

record Candidate =
  cd_version :: string
  cd_digest :: string
  cd_size :: int

record ReleaseInfo =
  ri_ReleaseVersion :: string
  ri_InstallerVersion :: string
  ri_ManifestDigest :: string
  ri_ManifestSize :: int

record ReleaseScan =
  rs_version :: string
  rs_codename :: string
  rs_currentDigest :: string
  rs_currentSize :: int
  rs_candidates :: "Candidate list"
  rs_inSHA256 :: bool

definition currentPath :: string where
  "currentPath = ''main/installer-amd64/current/images/SHA256SUMS''"

text \<open>\<^verbatim>\<open>^main/installer-amd64/([^/]+)/images/SHA256SUMS$\<close>\<close>

definition installerManifestPath :: "string \<Rightarrow> string option" where
  "installerManifestPath path =
     (case split_on (CHR ''/'') path of
        [a, b, v, c, d] \<Rightarrow>
          if a = ''main'' \<and> b = ''installer-amd64'' \<and> v \<noteq> [] \<and> c = ''images'' \<and> d = ''SHA256SUMS'' then Some v else None
      | _ \<Rightarrow> None)"

definition release_entry :: "ReleaseScan \<Rightarrow> string \<Rightarrow> int \<Rightarrow> string \<Rightarrow> ReleaseScan" where
  "release_entry st hash sz path =
     (let st1 = (if path = currentPath then
                   st\<lparr>rs_currentDigest := ''sha256:'' @ hash, rs_currentSize := sz\<rparr> else st) in
      case installerManifestPath path of
        Some v \<Rightarrow>
          if v \<noteq> ''current'' then
            st1\<lparr>rs_candidates := rs_candidates st1 @ [\<lparr>cd_version = v, cd_digest = ''sha256:'' @ hash, cd_size = sz\<rparr>]\<rparr>
          else st1
      | None \<Rightarrow> st1)"

definition release_line :: "string \<Rightarrow> ReleaseScan \<Rightarrow> ReleaseScan" where
  "release_line line st =
     (if HasPrefix line ''Version: '' then st\<lparr>rs_version := TrimSpace (TrimPrefix line ''Version: '')\<rparr>
      else if HasPrefix line ''Codename: '' then st\<lparr>rs_codename := TrimSpace (TrimPrefix line ''Codename: '')\<rparr>
      else if line = ''SHA256:'' then st\<lparr>rs_inSHA256 := True\<rparr>
      else if rs_inSHA256 st \<and> HasPrefix line '' '' then
        (case Fields line of
           [hash, sizeText, path] \<Rightarrow>
             if \<not> ValidSHA256 (''sha256:'' @ hash) then st
             else (case ParseInt64 sizeText of
                     None \<Rightarrow> st
                   | Some sz \<Rightarrow> if sz \<le> 0 then st else release_entry st hash sz path)
         | _ \<Rightarrow> st)
      else if rs_inSHA256 st \<and> line \<noteq> [] then st\<lparr>rs_inSHA256 := False\<rparr>
      else st)"

definition release_start :: ReleaseScan where
  "release_start = \<lparr>rs_version = [], rs_codename = [], rs_currentDigest = [], rs_currentSize = 0,
     rs_candidates = [], rs_inSHA256 = False\<rparr>"

fun select_version :: "string \<Rightarrow> int \<Rightarrow> string \<Rightarrow> Candidate list \<Rightarrow> string option" where
  "select_version digest sz found [] = Some found"
| "select_version digest sz found (c # cs) =
     (if cd_digest c = digest \<and> cd_size c = sz then
        (if found \<noteq> [] \<and> found \<noteq> cd_version c then None
         else select_version digest sz (cd_version c) cs)
      else select_version digest sz found cs)"

definition parseRelease :: "string \<Rightarrow> ReleaseInfo option" where
  "parseRelease d =
     (case scan_lines d of
        None \<Rightarrow> None
      | Some ls \<Rightarrow>
        let st = fold release_line ls release_start in
        if rs_codename st \<noteq> debianSuite \<or> \<not> HasPrefix (rs_version st) ''13.'' then None
        else if rs_currentDigest st = [] \<or> rs_currentSize st \<le> 0 then None
        else case select_version (rs_currentDigest st) (rs_currentSize st) [] (rs_candidates st) of
          None \<Rightarrow> None
        | Some installerVersion \<Rightarrow>
          if installerVersion = [] then None
          else Some \<lparr>ri_ReleaseVersion = rs_version st, ri_InstallerVersion = installerVersion,
                 ri_ManifestDigest = rs_currentDigest st, ri_ManifestSize = rs_currentSize st\<rparr>)"

fun sums_from :: "(string \<rightharpoonup> string) \<Rightarrow> string list \<Rightarrow> (string \<rightharpoonup> string) option" where
  "sums_from m [] = Some m"
| "sums_from m (line # rest) =
     (case Fields line of
        [hash, name] \<Rightarrow>
          if \<not> ValidSHA256 (''sha256:'' @ hash) then None
          else let path = TrimPrefix name ''./'' in
          if path = [] \<or> Contains path ''..'' then None
          else if m path \<noteq> None then None
          else sums_from (m(path \<mapsto> ''sha256:'' @ hash)) rest
      | _ \<Rightarrow> None)"

definition parseSHA256SUMS :: "string \<Rightarrow> (string \<rightharpoonup> string) option" where
  "parseSHA256SUMS d =
     (case scan_lines d of None \<Rightarrow> None | Some ls \<Rightarrow> sums_from (\<lambda>_. None) ls)"

text \<open>url.PathEscape: every byte but letters, digits and \<^verbatim>\<open>-_.~$&+:=@\<close> as an upper-case escape.\<close>

definition upper_hex_digit :: "nat \<Rightarrow> char" where
  "upper_hex_digit n = ''0123456789ABCDEF'' ! n"

definition PathEscape :: "string \<Rightarrow> string" where
  "PathEscape s = concat (map (\<lambda>c. if is_alnum c \<or> c \<in> set [CHR ''-'', CHR ''_'', CHR ''.'', CHR 0x7E, CHR 0x24, CHR 0x26,
       CHR ''+'', CHR '':'', CHR ''='', CHR 0x40] then [c]
     else [CHR 0x25, upper_hex_digit (byte c div 16), upper_hex_digit (byte c mod 16)]) s)"

record Verified =
  vf_Descriptor :: Descriptor
  vf_Content :: string

record Resolution =
  rn_ReleaseVersion :: string
  rn_InstallerVersion :: string
  rn_Kernel :: Verified
  rn_Initrd :: Verified
  rn_Shim :: Verified

definition fetchArtifact ::
  "golib \<Rightarrow> network \<Rightarrow> string \<Rightarrow> string \<Rightarrow> string \<Rightarrow> string \<Rightarrow> string \<Rightarrow> string \<Rightarrow> (string \<rightharpoonup> string) \<Rightarrow> Verified result" where
  "fetchArtifact L N imagesBase version provenance i name path checksums =
     (case checksums path of
        None \<Rightarrow> Inl (Fault ArtifactTrustFailed ''required Debian installer artifact is absent from verified manifest'')
      | Some digest \<Rightarrow>
        let sourceURL = imagesBase @ ''/'' @ path in
        case Fetch L N sourceURL maxInstallerBin of
          None \<Rightarrow> Inl (Fault ArtifactFetchFailed ''could not fetch Debian installer artifact'')
        | Some content \<Rightarrow>
          let descriptor = \<lparr>ar_ID = i, ar_Name = name, ar_SourceURL = sourceURL, ar_Version = version,
                ar_Digest = digest, ar_Size = int (length content), ar_Provenance = provenance\<rparr> in
          if VerifyContent L descriptor content \<noteq> None then
            Inl (Fault ArtifactHashMismatch ''Debian installer artifact failed integrity verification'')
          else Inr \<lparr>vf_Descriptor = descriptor, vf_Content = content\<rparr>)"

definition resolve_artifacts ::
  "golib \<Rightarrow> network \<Rightarrow> string \<Rightarrow> ReleaseInfo \<Rightarrow> (string \<rightharpoonup> string) \<Rightarrow> Resolution result" where
  "resolve_artifacts L N imagesBase info checksums =
     (let version = ri_InstallerVersion info;
          provenance = ''debian:'' @ debianSuite @ '':release='' @ ri_ReleaseVersion info @ '':installer='' @ version in
      case fetchArtifact L N imagesBase version provenance ''debian13-amd64-netboot-linux'' ''linux'' kernel_path checksums of
        Inl err \<Rightarrow> Inl err
      | Inr kern \<Rightarrow>
        (case fetchArtifact L N imagesBase version provenance ''debian13-amd64-netboot-initrd'' ''initrd.gz''
                initrd_path checksums of
           Inl err \<Rightarrow> Inl err
         | Inr initrd \<Rightarrow>
           (case fetchArtifact L N imagesBase version provenance ''debian13-amd64-netboot-shim'' ''bootnetx64.efi''
                   shim_path checksums of
              Inl err \<Rightarrow> Inl err
            | Inr shim \<Rightarrow> Inr \<lparr>rn_ReleaseVersion = ri_ReleaseVersion info, rn_InstallerVersion = version,
                rn_Kernel = kern, rn_Initrd = initrd, rn_Shim = shim\<rparr>)))"

definition Resolve :: "golib \<Rightarrow> network \<Rightarrow> Resolution result" where
  "Resolve L N =
     (case Fetch L N (debianBaseURL @ ''/dists/'' @ debianSuite @ ''/InRelease'') maxInRelease of
        None \<Rightarrow> Inl (Fault ArtifactFetchFailed ''could not fetch Debian InRelease metadata'')
      | Some inRelease \<Rightarrow>
        (case gpgv_Verify N inRelease of
           None \<Rightarrow> Inl (Fault ArtifactTrustFailed ''Debian InRelease signature verification failed'')
         | Some release \<Rightarrow>
           (case parseRelease release of
              None \<Rightarrow> Inl (Fault ArtifactTrustFailed ''verified Debian release metadata is invalid'')
            | Some info \<Rightarrow>
              let imagesBase = debianBaseURL @ ''/dists/'' @ debianSuite @ ''/main/installer-amd64/''
                    @ PathEscape (ri_InstallerVersion info) @ ''/images'' in
              (case Fetch L N (imagesBase @ ''/SHA256SUMS'') maxManifest of
                 None \<Rightarrow> Inl (Fault ArtifactFetchFailed ''could not fetch Debian installer checksum manifest'')
               | Some manifest \<Rightarrow>
                 if int (length manifest) \<noteq> ri_ManifestSize info \<or> SHA256 L manifest \<noteq> ri_ManifestDigest info then
                   Inl (Fault ArtifactHashMismatch ''Debian installer checksum manifest failed integrity verification'')
                 else case parseSHA256SUMS manifest of
                   None \<Rightarrow> Inl (Fault ArtifactTrustFailed ''verified Debian installer checksum manifest is invalid'')
                 | Some checksums \<Rightarrow> resolve_artifacts L N imagesBase info checksums))))"

section \<open>The loader\<close>

definition maxServedArtifactBytes :: int where "maxServedArtifactBytes = 256 * 2 ^ 20"

definition pinned_origin :: "golib \<Rightarrow> string \<Rightarrow> string \<Rightarrow> bool" where
  "pinned_origin L source u =
     (case (lib_url L source, lib_url L u) of
        (Some (scheme, host, _), Some (scheme', host', _)) \<Rightarrow> scheme' = scheme \<and> host' = host
      | _ \<Rightarrow> False)"

definition Load :: "golib \<Rightarrow> network \<Rightarrow> Descriptor \<Rightarrow> string \<Rightarrow> string \<Rightarrow> string result" where
  "Load L N descriptor requestID installationID =
     (if TrimSpace requestID = [] \<or> TrimSpace installationID = [] then
        Inl (Fault ArtifactFetchFailed ''artifact load correlation identifiers are required'')
      else if descriptor_Validate L descriptor \<noteq> None then
        Inl (Fault ArtifactFetchFailed ''artifact descriptor is invalid'')
      else if ar_Size descriptor > maxServedArtifactBytes then
        Inl (Fault ArtifactFetchFailed ''artifact exceeds serving size limit'')
      else if lib_url L (ar_SourceURL descriptor) = None then
        Inl (Fault ArtifactFetchFailed ''artifact source URL is invalid'')
      else case snd (http_do N (pinned_origin L (ar_SourceURL descriptor)) 0 (ar_SourceURL descriptor)) of
        None \<Rightarrow> Inl (Fault ArtifactFetchFailed ''could not fetch pinned artifact'')
      | Some (status, body) \<Rightarrow>
        if status \<noteq> 200 then
          Inl (Fault ArtifactFetchFailed ''pinned artifact source returned an unexpected HTTP status'')
        else case read_limited (nat (ar_Size descriptor + 1)) body of
          None \<Rightarrow> Inl (Fault ArtifactFetchFailed ''could not read pinned artifact'')
        | Some content \<Rightarrow>
          if int (length content) \<noteq> ar_Size descriptor then
            Inl (Fault ArtifactHashMismatch ''artifact size does not match pinned descriptor'')
          else if VerifyContent L descriptor content \<noteq> None then
            Inl (Fault ArtifactHashMismatch ''artifact content does not match pinned digest'')
          else Inr content)"

end
