(* ===== verification/Artifact_Trust.thy ===== *)
theory Artifact_Trust
  imports Debian13_Artifacts
begin

text \<open>
  The chain of trust from the signed release to the bytes of an artifact, and what the loader
  serves.
\<close>

section \<open>Redirects\<close>

text \<open>
  What the client's loop does, read off the network alone: it asks for the given URL first, each
  further URL is the redirect of the one before and permitted by the policy, and the response is the
  reply of the last URL, if that is a reply.
\<close>

definition redirects :: "network \<Rightarrow> string \<Rightarrow> string \<Rightarrow> bool" where
  "redirects N u v \<longleftrightarrow> net_get N u = HttpRedirect v"

definition final_reply :: "network \<Rightarrow> string \<Rightarrow> (int \<times> string option) option" where
  "final_reply N u = (case net_get N u of HttpReply status body \<Rightarrow> Some (status, body) | _ \<Rightarrow> None)"

lemma http_do_requests:
  "\<exists>vs. http_do N p via u = (u # vs, final_reply N (last (u # vs))) \<and> length (u # vs) \<le> max 1 (3 - via)
     \<and> successively (redirects N) (u # vs) \<and> list_all p vs"
proof (induction N p via u rule: http_do.induct)
  case (1 N p via u)
  show ?case
  proof (cases "\<exists>v. net_get N u = HttpRedirect v \<and> \<not> via + 1 \<ge> 3 \<and> p v")
    case True
    then obtain v where v: "net_get N u = HttpRedirect v" "\<not> via + 1 \<ge> 3" "p v" by blast
    with 1 [OF v(1)] obtain vs where "http_do N p (via + 1) v = (v # vs, final_reply N (last (v # vs)))"
      "length (v # vs) \<le> max 1 (3 - (via + 1))" "successively (redirects N) (v # vs)" "list_all p vs" by blast
    with v show ?thesis
      by (intro exI [of _ "v # vs"]) (simp add: http_do.simps [of N p via u] redirects_def)
  next
    case False
    then show ?thesis
      by (intro exI [of _ "[]"]) (auto simp: http_do.simps [of N p via u] final_reply_def split: http_reply.splits)
  qed
qed

section \<open>What the release says\<close>

definition listed :: "string \<Rightarrow> string \<Rightarrow> string \<Rightarrow> int \<Rightarrow> bool" where
  "listed line path digest n \<longleftrightarrow> (\<exists>hash sizeText. Fields line = [hash, sizeText, path] \<and> digest = ''sha256:'' @ hash
     \<and> ParseInt64 sizeText = Some n \<and> n > 0 \<and> HasPrefix line '' '')"

definition versioned_path :: "string \<Rightarrow> string" where
  "versioned_path v = ''main/installer-amd64/'' @ v @ ''/images/SHA256SUMS''"

lemma manifest_path: "installerManifestPath path = Some v \<Longrightarrow> path = versioned_path v \<and> v \<noteq> []"
proof -
  assume "installerManifestPath path = Some v"
  then have "split_on (CHR ''/'') path = [''main'', ''installer-amd64'', v, ''images'', ''SHA256SUMS'']" and v: "v \<noteq> []"
    by (auto simp: installerManifestPath_def split: list.splits if_splits)
  then have "path = join_with [CHR ''/''] [''main'', ''installer-amd64'', v, ''images'', ''SHA256SUMS'']"
    by (metis join_split)
  with v show ?thesis by (simp add: versioned_path_def)
qed

definition scan_sound :: "string list \<Rightarrow> ReleaseScan \<Rightarrow> bool" where
  "scan_sound ls st \<longleftrightarrow>
     (rs_currentDigest st \<noteq> [] \<longrightarrow> (\<exists>l \<in> set ls. listed l currentPath (rs_currentDigest st) (rs_currentSize st)))
   \<and> (\<forall>c \<in> set (rs_candidates st). cd_version c \<noteq> [] \<and> cd_version c \<noteq> ''current''
        \<and> (\<exists>l \<in> set ls. listed l (versioned_path (cd_version c)) (cd_digest c) (cd_size c)))"

lemma scan_sound_entry:
  assumes "scan_sound ls st" "l \<in> set ls" "listed l path (''sha256:'' @ hash) n"
  shows "scan_sound ls (release_entry st hash n path)"
proof (cases "installerManifestPath path")
  case None
  with assms show ?thesis by (auto simp: release_entry_def scan_sound_def Let_def)
next
  case (Some v)
  with assms manifest_path [OF Some] show ?thesis
    by (auto simp: release_entry_def scan_sound_def Let_def)
qed

lemma scan_sound_line:
  assumes "scan_sound ls st" "l \<in> set ls"
  shows "scan_sound ls (release_line l st)"
proof -
  have frame: "scan_sound ls (st\<lparr>rs_version := x\<rparr>)" "scan_sound ls (st\<lparr>rs_codename := x\<rparr>)" "scan_sound ls (st\<lparr>rs_inSHA256 := b\<rparr>)" for x b
    using assms(1) by (simp_all add: scan_sound_def)
  have entry: "scan_sound ls (release_entry st hash n path)"
    if "Fields l = [hash, sizeText, path]" "ParseInt64 sizeText = Some n" "\<not> n \<le> 0" "HasPrefix l '' ''"
    for hash sizeText path n
    using that assms by (intro scan_sound_entry) (auto simp: listed_def)
  show ?thesis
    using frame entry assms(1) by (auto simp: release_line_def split: list.splits option.splits if_splits)
qed

lemma scan_sound_fold: "scan_sound ls (fold release_line ls release_start)"
  by (rule fold_invariant [where Q = "\<lambda>l. l \<in> set ls"])
    (simp_all add: scan_sound_line, simp add: scan_sound_def release_start_def)

lemma select_version_Some:
  "select_version digest n found cs = Some v \<Longrightarrow>
   (v = found \<or> (\<exists>c \<in> set cs. cd_digest c = digest \<and> cd_size c = n \<and> cd_version c = v)) \<and>
   (found \<noteq> [] \<longrightarrow> v = found) \<and>
   (\<forall>c \<in> set cs. cd_digest c = digest \<and> cd_size c = n \<and> cd_version c \<noteq> [] \<longrightarrow> cd_version c = v)"
  by (induction digest n found cs rule: select_version.induct) (auto split: if_splits)

lemma parseRelease_sound:
  assumes "parseRelease text = Some info"
  obtains ls l l' where "scan_lines text = Some ls" "l \<in> set ls" "l' \<in> set ls"
    "listed l currentPath (ri_ManifestDigest info) (ri_ManifestSize info)"
    "listed l' (versioned_path (ri_InstallerVersion info)) (ri_ManifestDigest info) (ri_ManifestSize info)"
    "ri_InstallerVersion info \<noteq> ''current''" "HasPrefix (ri_ReleaseVersion info) ''13.''"
proof -
  from assms obtain ls where ls: "scan_lines text = Some ls"
    by (auto simp: parseRelease_def split: option.splits)
  let ?st = "fold release_line ls release_start"
  from assms ls have info: "rs_currentDigest ?st \<noteq> []" "HasPrefix (rs_version ?st) ''13.''"
      "select_version (rs_currentDigest ?st) (rs_currentSize ?st) [] (rs_candidates ?st) = Some (ri_InstallerVersion info)"
      "ri_InstallerVersion info \<noteq> []" "ri_ManifestDigest info = rs_currentDigest ?st"
      "ri_ManifestSize info = rs_currentSize ?st" "ri_ReleaseVersion info = rs_version ?st"
    by (auto simp: parseRelease_def Let_def split: option.splits if_splits)
  from select_version_Some [OF info(3)] info(4) obtain c where c: "c \<in> set (rs_candidates ?st)"
    "cd_digest c = rs_currentDigest ?st" "cd_size c = rs_currentSize ?st" "cd_version c = ri_InstallerVersion info"
    by blast
  have "scan_sound ls ?st" by (rule scan_sound_fold)
  with info c obtain l l' where "l \<in> set ls" "listed l currentPath (rs_currentDigest ?st) (rs_currentSize ?st)"
    "l' \<in> set ls" "listed l' (versioned_path (cd_version c)) (cd_digest c) (cd_size c)" "cd_version c \<noteq> ''current''"
    unfolding scan_sound_def by blast
  with ls info c show thesis by (intro that [of ls l l']) auto
qed

section \<open>The chain\<close>

lemma Fetch_Some: "Fetch L N u n = Some content \<Longrightarrow> length content \<le> n"
  by (auto simp: Fetch_def split: option.splits if_splits)

lemma VerifyContent_None:
  "VerifyContent L d content = None \<longleftrightarrow>
   descriptor_Validate L d = None \<and> int (length content) = ar_Size d \<and> SHA256 L content = ar_Digest d"
  by (auto simp: VerifyContent_def split: option.splits)

text \<open>An artifact of a path: its digest and size are those of the content, the digest is the one in the manifest.\<close>

definition artifact_trusted :: "golib \<Rightarrow> ReleaseInfo \<Rightarrow> (string \<rightharpoonup> string) \<Rightarrow> string \<Rightarrow> string \<Rightarrow> Verified \<Rightarrow> bool" where
  "artifact_trusted L info checksums name path a \<longleftrightarrow>
     checksums path = Some (SHA256 L (vf_Content a)) \<and> ar_Digest (vf_Descriptor a) = SHA256 L (vf_Content a)
   \<and> ar_Size (vf_Descriptor a) = int (length (vf_Content a)) \<and> length (vf_Content a) \<le> maxInstallerBin
   \<and> descriptor_Validate L (vf_Descriptor a) = None \<and> ar_Name (vf_Descriptor a) = name
   \<and> ar_Version (vf_Descriptor a) = ri_InstallerVersion info
   \<and> ar_Provenance (vf_Descriptor a) =
       ''debian:trixie:release='' @ ri_ReleaseVersion info @ '':installer='' @ ri_InstallerVersion info
   \<and> ar_SourceURL (vf_Descriptor a) = ''https://deb.debian.org/debian/dists/trixie/main/installer-amd64/''
       @ PathEscape (ri_InstallerVersion info) @ ''/images/'' @ path"

lemma fetchArtifact_trusted:
  assumes "fetchArtifact L N
      (''https://deb.debian.org/debian/dists/trixie/main/installer-amd64/'' @ PathEscape (ri_InstallerVersion info) @ ''/images'')
      (ri_InstallerVersion info)
      (''debian:trixie:release='' @ ri_ReleaseVersion info @ '':installer='' @ ri_InstallerVersion info)
      i name path checksums = Inr a"
  shows "artifact_trusted L info checksums name path a"
  using assms
  by (auto simp: fetchArtifact_def artifact_trusted_def Let_def VerifyContent_None dest: Fetch_Some(1)
      split: option.splits if_splits)

lemma resolve_artifacts_trusted:
  assumes "resolve_artifacts L N
      (''https://deb.debian.org/debian/dists/trixie/main/installer-amd64/'' @ PathEscape (ri_InstallerVersion info) @ ''/images'')
      info checksums = Inr r"
  shows "artifact_trusted L info checksums ''linux'' kernel_path (rn_Kernel r)
    \<and> artifact_trusted L info checksums ''initrd.gz'' initrd_path (rn_Initrd r)
    \<and> artifact_trusted L info checksums ''bootnetx64.efi'' shim_path (rn_Shim r)"
  using assms fetchArtifact_trusted [of L N info]
  by (auto simp: resolve_artifacts_def Let_def debianSuite_def split: sum.splits)

text \<open>C31:
  Everything Resolve returns hangs on one signature: gpgv accepted a release that lists, under
  the current path and under the path of the resolved installer version, the digest and size of
  a checksum manifest; that manifest lists, for each of the kernel, the initrd and the shim, the
  digest of the returned content, which is also the pinned one. The artifacts have the size of
  the content, at most 128 MiB, and share the version and trixie provenance the driver asks for.
\<close>

theorem resolution_chain_of_trust:
  assumes "Resolve L N = Inr r"
  shows "\<exists>signed release ls l l' info manifest checksums.
      net_gpgv N signed = Some release \<and> parseRelease release = Some info \<and> scan_lines release = Some ls
    \<and> l \<in> set ls \<and> listed l ''main/installer-amd64/current/images/SHA256SUMS'' (SHA256 L manifest) (int (length manifest))
    \<and> l' \<in> set ls \<and> listed l' (versioned_path (ri_InstallerVersion info)) (SHA256 L manifest) (int (length manifest))
    \<and> parseSHA256SUMS manifest = Some checksums
    \<and> artifact_trusted L info checksums ''linux'' kernel_path (rn_Kernel r)
    \<and> artifact_trusted L info checksums ''initrd.gz'' initrd_path (rn_Initrd r)
    \<and> artifact_trusted L info checksums ''bootnetx64.efi'' shim_path (rn_Shim r)"
proof -
  let ?base = "\<lambda>info. ''https://deb.debian.org/debian/dists/trixie/main/installer-amd64/'' @ PathEscape (ri_InstallerVersion info) @ ''/images''"
  from assms obtain signed release info manifest checksums where
    chain: "gpgv_Verify N signed = Some release" "parseRelease release = Some info"
      "int (length manifest) = ri_ManifestSize info" "SHA256 L manifest = ri_ManifestDigest info"
      "parseSHA256SUMS manifest = Some checksums" "resolve_artifacts L N (?base info) info checksums = Inr r"
    by (auto simp: Resolve_def Let_def debianBaseURL_def debianSuite_def split: option.splits if_splits)
  from chain(2) obtain ls l l' where "scan_lines release = Some ls" "l \<in> set ls" "l' \<in> set ls"
    "listed l currentPath (ri_ManifestDigest info) (ri_ManifestSize info)"
    "listed l' (versioned_path (ri_InstallerVersion info)) (ri_ManifestDigest info) (ri_ManifestSize info)"
    by (rule parseRelease_sound)
  moreover from chain(1) have "net_gpgv N signed = Some release"
    by (auto simp: gpgv_Verify_def split: option.splits if_splits)
  ultimately show ?thesis
    using chain resolve_artifacts_trusted [OF chain(6)] unfolding currentPath_def by metis
qed

section \<open>The loader\<close>

lemma Load_Inr:
  assumes "Load L N d requestID installationID = Inr content"
  shows "SHA256 L content = ar_Digest d" "int (length content) = ar_Size d" "ar_Size d \<le> maxServedArtifactBytes"
  using assms
  by (auto simp: Load_def VerifyContent_None split: option.splits if_splits)

section \<open>A resolution\<close>

definition zeros :: string where "zeros = replicate 64 (CHR ''0'')"

definition zero_lib :: golib where
  "zero_lib = (sample_lib 0)\<lparr>lib_sha256 := \<lambda>_. replicate 32 NUL\<rparr>"

definition sample_manifest :: string where
  "sample_manifest = concat (map (\<lambda>l. l @ [LF]) (map (\<lambda>p. zeros @ CHR '' '' # p) [kernel_path, initrd_path, shim_path]))"

definition sample_entry :: "string \<Rightarrow> string" where
  "sample_entry path = CHR '' '' # zeros @ CHR '' '' # ''319'' @ CHR '' '' # path"

definition sample_release_lines :: "string list" where
  "sample_release_lines = [''Version: 13.0'', ''Codename: trixie'', ''SHA256:'',
     sample_entry currentPath, sample_entry (versioned_path ''1'')]"

definition sample_network :: network where
  "sample_network = \<lparr>net_get = \<lambda>u. HttpReply 200 (Some (if last u = CHR ''S'' then sample_manifest else ''x'')),
     net_gpgv = \<lambda>_. Some (concat (map (\<lambda>l. l @ [LF]) sample_release_lines))\<rparr>"

lemma scan_terminated_lines:
  assumes "\<forall>l \<in> set ls. LF \<notin> set l \<and> length l \<le> 65535 \<and> (l = [] \<or> last l \<noteq> CR)"
  shows "scan_lines (concat (map (\<lambda>l. l @ [LF]) ls)) = Some ls"
proof -
  have "split_on LF (concat (map (\<lambda>l. l @ [LF]) ls)) = ls @ [[]]" using assms by (intro split_lines) auto
  moreover have "map drop_CR ls = ls" using assms by (intro map_idI) (auto simp: drop_CR_def)
  moreover have "\<not> list_ex (\<lambda>l. length l > 65535) ls" using assms by (auto simp: list_ex_iff)
  ultimately show ?thesis by (simp add: scan_lines_def Let_def)
qed

lemma zeros_plain: "\<forall>c \<in> set zeros. plain c" "zeros \<noteq> []" "length zeros = 64" "ValidSHA256 (''sha256:'' @ zeros)"
  by (simp_all add: zeros_def sample_trim ValidSHA256_def TrimPrefix_def is_hex_def in_range_def list_all_iff)

lemma two_fields:
  assumes "a \<noteq> []" "b \<noteq> []" "\<forall>x \<in> set (a @ b). plain x"
  shows "Fields (a @ CHR '' '' # b) = [a, b]"
  using assms by (simp add: Fields_def fields_word fields_last)

lemma leading_space: "Fields (CHR '' '' # s) = Fields s"
  by (simp add: Fields_def fields_from.simps [of "[]" "CHR '' '' # s"] lead_width_def space1_def)

lemma hex_zeros: "hex_encode (replicate n NUL) = replicate (2 * n) (CHR ''0'')"
  by (induction n) (simp_all add: hex_encode_def byte_def hex_digit_def)

lemma sample_zero_digest: "SHA256 zero_lib content = ''sha256:'' @ zeros"
  by (simp add: SHA256_def zero_lib_def hex_zeros zeros_def)

lemma sample_paths:
  assumes "p \<in> set [kernel_path, initrd_path, shim_path]"
  shows "Fields (zeros @ CHR '' '' # p) = [zeros, p]" "TrimPrefix p ''./'' = p" "p \<noteq> []" "\<not> Contains p ''..''"
proof -
  have "list_all (\<lambda>p. TrimPrefix p ''./'' = p \<and> p \<noteq> [] \<and> \<not> Contains p ''..'') [kernel_path, initrd_path, shim_path]"
    by code_simp
  with assms show "TrimPrefix p ''./'' = p" "p \<noteq> []" "\<not> Contains p ''..''" by (auto simp: list_all_iff)
  then show "Fields (zeros @ CHR '' '' # p) = [zeros, p]"
    using path_plain(1) [OF assms] zeros_plain by (intro two_fields) auto
qed

lemma sample_sums:
  "\<exists>m. parseSHA256SUMS sample_manifest = Some m \<and> m kernel_path = Some (''sha256:'' @ zeros)
     \<and> m initrd_path = Some (''sha256:'' @ zeros) \<and> m shim_path = Some (''sha256:'' @ zeros)"
proof -
  let ?ls = "map (\<lambda>p. zeros @ CHR '' '' # p) [kernel_path, initrd_path, shim_path]"
  have scan: "scan_lines sample_manifest = Some ?ls"
    unfolding sample_manifest_def
    by (rule scan_terminated_lines) (simp add: zeros_def kernel_path_def initrd_path_def shim_path_def)
  have "kernel_path \<noteq> initrd_path" "kernel_path \<noteq> shim_path" "initrd_path \<noteq> shim_path"
    by (simp_all add: kernel_path_def initrd_path_def shim_path_def)
  with scan zeros_plain(4) show ?thesis
    by (simp add: parseSHA256SUMS_def Let_def sample_paths)
qed

lemma plain_paths: "\<forall>c \<in> set (currentPath). plain c" "\<forall>c \<in> set (versioned_path ''1''). plain c" "currentPath \<noteq> []" "versioned_path ''1'' \<noteq> []"
  by (simp_all add: currentPath_def versioned_path_def sample_trim)

lemma size_plain: "ParseInt64 ''319'' = Some 319" "\<forall>c \<in> set ''319''. plain c"
  by (simp_all add: ParseInt64_def digits_def in_range_def byte_def decimal_def sample_trim)

lemma sample_entry_fields:
  assumes "path \<noteq> []" "\<forall>c \<in> set path. plain c"
  shows "Fields (sample_entry path) = [zeros, ''319'', path]"
proof -
  have "Fields (zeros @ CHR '' '' # ''319'' @ CHR '' '' # path) = [zeros, ''319'', path]"
    by (rule three_fields) (use assms zeros_plain size_plain(2) in auto)
  then show ?thesis by (simp only: sample_entry_def leading_space)
qed

lemma sample_entry_prefix: "\<not> HasPrefix (sample_entry p) ''Version: ''" "\<not> HasPrefix (sample_entry p) ''Codename: ''"
    "sample_entry p \<noteq> ''SHA256:''" "HasPrefix (sample_entry p) '' ''"
  by (simp_all add: sample_entry_def)

lemma sample_entry_line:
  assumes "path \<noteq> []" "\<forall>c \<in> set path. plain c" "rs_inSHA256 st"
  shows "release_line (sample_entry path) st = release_entry st zeros 319 path"
  using assms zeros_plain(4) sample_entry_prefix [of path]
  by (simp add: release_line_def sample_entry_fields size_plain)

lemma sample_manifest_paths: "installerManifestPath currentPath = Some ''current''" "installerManifestPath (versioned_path ''1'') = Some ''1''"
  by (simp_all add: installerManifestPath_def currentPath_def versioned_path_def)

lemma sample_release_parsed:
  "parseRelease (concat (map (\<lambda>l. l @ [LF]) sample_release_lines)) =
   Some \<lparr>ri_ReleaseVersion = ''13.0'', ri_InstallerVersion = ''1'', ri_ManifestDigest = ''sha256:'' @ zeros, ri_ManifestSize = 319\<rparr>"
proof -
  have scan: "scan_lines (concat (map (\<lambda>l. l @ [LF]) sample_release_lines)) = Some sample_release_lines"
    by (rule scan_terminated_lines)
      (simp add: sample_release_lines_def sample_entry_def zeros_def currentPath_def versioned_path_def)
  have "currentPath \<noteq> versioned_path ''1''" by (simp add: currentPath_def versioned_path_def)
  then have "fold release_line sample_release_lines release_start =
      release_start\<lparr>rs_version := ''13.0'', rs_codename := ''trixie'', rs_inSHA256 := True,
        rs_currentDigest := ''sha256:'' @ zeros, rs_currentSize := 319,
        rs_candidates := [\<lparr>cd_version = ''1'', cd_digest = ''sha256:'' @ zeros, cd_size = 319\<rparr>]\<rparr>"
    using sample_entry_line plain_paths sample_manifest_paths
    by (simp add: sample_release_lines_def release_entry_def release_start_def)
      (simp add: release_line_def TrimPrefix_def sample_trim)
  then show ?thesis
    by (simp add: parseRelease_def scan debianSuite_def release_start_def)
qed

lemma sample_fetch: "length content \<le> n \<Longrightarrow> net_get N u = HttpReply 200 (Some content) \<Longrightarrow> Fetch L N u n = Some content"
  by (simp add: Fetch_def http_do.simps read_limited_def)

lemma sample_net_get: "net_get sample_network u = HttpReply 200 (Some (if last u = CHR ''S'' then sample_manifest else ''x''))"
  by (simp add: sample_network_def)

lemma sample_manifest_length: "length sample_manifest = 319"
  by (simp add: sample_manifest_def zeros_def kernel_path_def initrd_path_def shim_path_def)

lemma fetch_limits: "319 \<le> maxManifest" "1 \<le> maxInRelease" "1 \<le> maxInstallerBin"
  by (simp_all add: maxManifest_def maxInRelease_def maxInstallerBin_def)

lemma sample_fetchArtifact:
  assumes "m path = Some (''sha256:'' @ zeros)" "path \<in> set [kernel_path, initrd_path, shim_path]"
    "i \<in> set [''debian13-amd64-netboot-linux'', ''debian13-amd64-netboot-initrd'', ''debian13-amd64-netboot-shim'']"
    "name \<in> set [''linux'', ''initrd.gz'', ''bootnetx64.efi'']"
  shows "\<exists>a. fetchArtifact zero_lib sample_network
    (debianBaseURL @ ''/dists/'' @ debianSuite @ ''/main/installer-amd64/'' @ PathEscape ''1'' @ ''/images'')
    ''1'' (''debian:'' @ debianSuite @ '':release=13.0:installer=1'') i name path m = Inr a"
proof -
  have base: "debianBaseURL @ ''/dists/'' @ debianSuite @ ''/main/installer-amd64/'' @ PathEscape ''1'' @ ''/images'' @ ''/'' @ path
      = sample_images @ path"
    by (simp add: debianBaseURL_def debianSuite_def sample_images_def PathEscape_def is_alnum_def in_range_def byte_def)
  have "last (sample_images @ path) \<noteq> CHR ''S''"
    using assms(2) by (auto simp: kernel_path_def initrd_path_def shim_path_def)
  then have fetch: "Fetch zero_lib sample_network (sample_images @ path) maxInstallerBin = Some ''x''"
    using fetch_limits by (intro sample_fetch) (simp_all add: sample_net_get)
  have url: "TrimSpace (sample_images @ path) = sample_images @ path" "length (sample_images @ path) \<le> 2048"
    using path_plain [OF assms(2)] sample_images_plain by (auto intro!: TrimSpace_plain)
  have names: "TrimSpace i = i" "i \<noteq> []" "length i \<le> 128" "TrimSpace name = name" "name \<noteq> []" "length name \<le> 128"
    using assms(3,4) by (auto simp: sample_trim)
  have "VerifyContent zero_lib \<lparr>ar_ID = i, ar_Name = name, ar_SourceURL = sample_images @ path, ar_Version = ''1'',
      ar_Digest = ''sha256:'' @ zeros, ar_Size = 1, ar_Provenance = ''debian:'' @ debianSuite @ '':release=13.0:installer=1''\<rparr> ''x'' = None"
    using url names sample_images_plain(3) zeros_plain(4)
    by (simp add: VerifyContent_None sample_zero_digest) (simp add: zero_lib_def descriptor_Validate_def sample_lib_def debianSuite_def sample_trim)
  moreover have "int (length ''x'') = 1" by simp
  ultimately show ?thesis
    unfolding fetchArtifact_def Let_def assms(1) append_assoc base by (simp add: fetch)
qed

lemma sample_resolution: "\<exists>r. Resolve zero_lib sample_network = Inr r"
proof -
  obtain m where m: "parseSHA256SUMS sample_manifest = Some m" "m kernel_path = Some (''sha256:'' @ zeros)"
    "m initrd_path = Some (''sha256:'' @ zeros)" "m shim_path = Some (''sha256:'' @ zeros)"
    using sample_sums by blast
  have rel: "Fetch zero_lib sample_network (debianBaseURL @ ''/dists/'' @ debianSuite @ ''/InRelease'') maxInRelease = Some ''x''"
    using fetch_limits by (intro sample_fetch) (simp_all add: sample_net_get)
  have man: "Fetch zero_lib sample_network ((debianBaseURL @ ''/dists/'' @ debianSuite @ ''/main/installer-amd64/'' @ PathEscape ''1''
      @ ''/images'') @ ''/SHA256SUMS'') maxManifest = Some sample_manifest"
    using fetch_limits by (intro sample_fetch) (simp_all add: sample_net_get sample_manifest_length)
  have gpgv: "gpgv_Verify sample_network ''x'' = Some (concat (map (\<lambda>l. l @ [LF]) sample_release_lines))"
    by (simp add: gpgv_Verify_def sample_network_def sample_release_lines_def)
  obtain k i s where "fetchArtifact zero_lib sample_network
      (debianBaseURL @ ''/dists/'' @ debianSuite @ ''/main/installer-amd64/'' @ PathEscape ''1'' @ ''/images'') ''1''
      (''debian:'' @ debianSuite @ '':release=13.0:installer=1'') ''debian13-amd64-netboot-linux'' ''linux'' kernel_path m = Inr k"
    "fetchArtifact zero_lib sample_network
      (debianBaseURL @ ''/dists/'' @ debianSuite @ ''/main/installer-amd64/'' @ PathEscape ''1'' @ ''/images'') ''1''
      (''debian:'' @ debianSuite @ '':release=13.0:installer=1'') ''debian13-amd64-netboot-initrd'' ''initrd.gz'' initrd_path m = Inr i"
    "fetchArtifact zero_lib sample_network
      (debianBaseURL @ ''/dists/'' @ debianSuite @ ''/main/installer-amd64/'' @ PathEscape ''1'' @ ''/images'') ''1''
      (''debian:'' @ debianSuite @ '':release=13.0:installer=1'') ''debian13-amd64-netboot-shim'' ''bootnetx64.efi'' shim_path m = Inr s"
    using sample_fetchArtifact [of m kernel_path "''debian13-amd64-netboot-linux''" "''linux''"]
      sample_fetchArtifact [of m initrd_path "''debian13-amd64-netboot-initrd''" "''initrd.gz''"]
      sample_fetchArtifact [of m shim_path "''debian13-amd64-netboot-shim''" "''bootnetx64.efi''"] m(2-4) by auto
  then show ?thesis
    using man rel by (simp add: Resolve_def gpgv sample_release_parsed m(1) sample_manifest_length sample_zero_digest
        resolve_artifacts_def Let_def)
qed

theorem resolution_chain_of_trust_witness:
  "\<exists>r info checksums. Resolve zero_lib sample_network = Inr r
    \<and> artifact_trusted zero_lib info checksums ''linux'' kernel_path (rn_Kernel r)"
proof -
  obtain r where r: "Resolve zero_lib sample_network = Inr r" using sample_resolution by blast
  from resolution_chain_of_trust [OF this] r show ?thesis by metis
qed

section \<open>What the loader serves\<close>

text \<open>C32:
  The loader gives out exactly the pinned content. For a valid descriptor of at most 256 MiB its
  client makes at most three requests: the first for the pinned source, each further one for the
  redirect of the one before, on the scheme and host of the pinned source. If the last of them is
  answered with status 200 and a body that can be read, the result is that body when its length
  and its SHA-256 digest are the pinned ones and a hash mismatch otherwise; if not, the fetch
  fails. Nothing but content with the pinned digest is ever returned.
\<close>

theorem load_exactly_pinned_content:
  assumes "TrimSpace requestID \<noteq> []" and "TrimSpace installationID \<noteq> []"
    and "descriptor_Validate L d = None" and "ar_Size d \<le> 256 * 2 ^ 20"
  shows "\<exists>vs. fst (http_do N (pinned_origin L (ar_SourceURL d)) 0 (ar_SourceURL d)) = ar_SourceURL d # vs
    \<and> length (ar_SourceURL d # vs) \<le> 3 \<and> successively (redirects N) (ar_SourceURL d # vs)
    \<and> list_all (pinned_origin L (ar_SourceURL d)) vs
    \<and> (case net_get N (last (ar_SourceURL d # vs)) of
         HttpReply status (Some body) \<Rightarrow>
           (if status = 200 then
              (if int (length body) = ar_Size d \<and> SHA256 L body = ar_Digest d
               then Load L N d requestID installationID = Inr body
               else \<exists>m. Load L N d requestID installationID = Inl (Fault ArtifactHashMismatch m))
            else \<exists>m. Load L N d requestID installationID = Inl (Fault ArtifactFetchFailed m))
       | _ \<Rightarrow> \<exists>m. Load L N d requestID installationID = Inl (Fault ArtifactFetchFailed m))"
proof -
  obtain scheme host user where url: "lib_url L (ar_SourceURL d) = Some (scheme, host, user)" and pos: "ar_Size d > 0"
    using assms(3) by (auto simp: descriptor_Validate_def split: option.splits if_splits)
  have len: "int (length (take (nat (ar_Size d + 1)) body)) = ar_Size d \<longleftrightarrow> int (length body) = ar_Size d" for body :: string
    using pos by (auto simp: min_def)
  have take_all: "int (length body) = ar_Size d \<Longrightarrow> take (nat (ar_Size d + 1)) body = body" for body :: string
    by simp
  obtain vs where sent: "http_do N (pinned_origin L (ar_SourceURL d)) 0 (ar_SourceURL d)
      = (ar_SourceURL d # vs, final_reply N (last (ar_SourceURL d # vs)))" "length (ar_SourceURL d # vs) \<le> 3"
      "successively (redirects N) (ar_SourceURL d # vs)" "list_all (pinned_origin L (ar_SourceURL d)) vs"
    using http_do_requests [of N "pinned_origin L (ar_SourceURL d)" 0 "ar_SourceURL d"] by auto
  have "case final_reply N (last (ar_SourceURL d # vs)) of
         Some (status, Some body) \<Rightarrow>
           (if status = 200 then
              (if int (length body) = ar_Size d \<and> SHA256 L body = ar_Digest d
               then Load L N d requestID installationID = Inr body
               else \<exists>m. Load L N d requestID installationID = Inl (Fault ArtifactHashMismatch m))
            else \<exists>m. Load L N d requestID installationID = Inl (Fault ArtifactFetchFailed m))
       | _ \<Rightarrow> \<exists>m. Load L N d requestID installationID = Inl (Fault ArtifactFetchFailed m)"
    using assms url sent(1)
    by (simp add: Load_def maxServedArtifactBytes_def read_limited_def VerifyContent_None len take_all
        split: option.split)
  with sent show ?thesis
    by (intro exI [of _ vs]) (cases "net_get N (last (ar_SourceURL d # vs))", simp_all add: final_reply_def)
qed

theorem load_exactly_pinned_content_witness:
  "Load zero_lib sample_network ((sample_artifact ''linux'' kernel_path)\<lparr>ar_Digest := ''sha256:'' @ zeros, ar_Size := 1\<rparr>) ''req'' ''i_1''
     = Inr ''x''"
proof -
  let ?d = "(sample_artifact ''linux'' kernel_path)\<lparr>ar_Digest := ''sha256:'' @ zeros, ar_Size := 1\<rparr>"
  have u: "ar_SourceURL ?d = sample_images @ kernel_path" by (simp add: sample_artifact_def)
  have get: "fst (http_do sample_network p 0 (sample_images @ kernel_path)) = [sample_images @ kernel_path]" for p
    by (simp add: http_do.simps sample_net_get)
  have reply: "net_get sample_network (sample_images @ kernel_path) = HttpReply 200 (Some ''x'')"
    by (simp add: sample_net_get kernel_path_def)
  have valid: "descriptor_Validate zero_lib ?d = None"
    using sample_artifact_valid [of "''linux''" kernel_path 0] zeros_plain(4)
    by (auto simp: descriptor_Validate_def zero_lib_def sample_artifact_def sample_lib_def split: option.splits if_splits)
  have "TrimSpace ''req'' \<noteq> []" "TrimSpace ''i_1'' \<noteq> []" by (simp_all add: sample_trim)
  from load_exactly_pinned_content [OF this valid, of sample_network, unfolded u get] reply show ?thesis
    by (auto simp: sample_zero_digest)
qed

end
