(* ===== verification/Window_Limit.thy ===== *)
theory Window_Limit
  imports Fault "HOL-Library.AList"
begin

text \<open>
  Counting attempts in fixed windows: a counter starts afresh with the first attempt after its
  window is over, so that an arbitrary window can touch two of them. The discovery endpoint
  (internal/httpapi/server.go) and the check of the recovery key (internal/operator/recovery.go)
  limit their clients this way; what they share is the locale \<open>fixed_window\<close>.
\<close>

record counter =
  ct_started :: time
  ct_count :: nat

definition cnt :: "(time \<Rightarrow> bool) \<Rightarrow> time list \<Rightarrow> nat" where
  "cnt P xs = length (filter P xs)"

lemma cnt_append [simp]: "cnt P (xs @ ys) = cnt P xs + cnt P ys" "cnt P [] = 0" "cnt P [x] = (if P x then 1 else 0)"
  by (simp_all add: cnt_def)

lemma cnt_mono: "(\<And>x. x \<in> set xs \<Longrightarrow> P x \<Longrightarrow> Q x) \<Longrightarrow> cnt P xs \<le> cnt Q xs"
  unfolding cnt_def by (induction xs) (auto simp: le_Suc_eq)

lemma cnt_split: "(\<And>x. P x \<Longrightarrow> Q x \<or> R x) \<Longrightarrow> cnt P xs \<le> cnt Q xs + cnt R xs"
  unfolding cnt_def by (induction xs) auto

lemma cnt_0: "(\<And>x. x \<in> set xs \<Longrightarrow> \<not> P x) \<Longrightarrow> cnt P xs = 0"
  by (simp add: cnt_def)

section \<open>One client's counter\<close>

text \<open>The counter of a client (if there is one), the times allowed so far and the present.\<close>

definition tracks :: "int \<Rightarrow> nat \<Rightarrow> time \<Rightarrow> time list \<Rightarrow> counter option \<Rightarrow> bool" where
  "tracks window limit now A s = (case s of
     None \<Rightarrow> \<forall>x \<in> set A. x + window < now
   | Some c \<Rightarrow> ct_started c \<noteq> 0 \<and> ct_started c \<le> now \<and> ct_count c \<le> limit
       \<and> cnt (\<lambda>x. ct_started c \<le> x) A = ct_count c
       \<and> (\<forall>x \<in> set A. x < ct_started c + window)
       \<and> cnt (\<lambda>x. ct_started c - window \<le> x \<and> x < ct_started c) A \<le> limit)"

definition bounded_rate :: "int \<Rightarrow> nat \<Rightarrow> time list \<Rightarrow> bool" where
  "bounded_rate window limit A \<longleftrightarrow> (\<forall>t. cnt (\<lambda>x. t \<le> x \<and> x < t + window) A \<le> 2 * limit)"

definition renew :: "int \<Rightarrow> time \<Rightarrow> counter option \<Rightarrow> counter" where
  "renew window now s = (let c = (case s of None \<Rightarrow> \<lparr>ct_started = 0, ct_count = 0\<rparr> | Some c \<Rightarrow> c) in
     if IsZero (ct_started c) \<or> now - ct_started c \<ge> window then \<lparr>ct_started = now, ct_count = 0\<rparr> else c)"

text \<open>The times at which a step admits an attempt, in a run of events with their times, and where it ends.\<close>

fun admitted :: "(time \<Rightarrow> 'e \<Rightarrow> 's \<Rightarrow> bool \<times> 's) \<Rightarrow> 's \<Rightarrow> (time \<times> 'e) list \<Rightarrow> time list" where
  "admitted step s [] = []"
| "admitted step s ((t, e) # es) = (case step t e s of (ok, s') \<Rightarrow> (if ok then [t] else []) @ admitted step s' es)"

fun run_events :: "(time \<Rightarrow> 'e \<Rightarrow> 's \<Rightarrow> bool \<times> 's) \<Rightarrow> 's \<Rightarrow> (time \<times> 'e) list \<Rightarrow> 's" where
  "run_events step s [] = s"
| "run_events step s ((t, e) # es) = run_events step (snd (step t e s)) es"

text \<open>The counter a step starts from: the stored one, which may have been dropped two windows after its start.\<close>

definition kept_or_dropped :: "int \<Rightarrow> time \<Rightarrow> counter option \<Rightarrow> counter option \<Rightarrow> bool" where
  "kept_or_dropped window t before after \<longleftrightarrow> after = before
     \<or> after = None \<and> (\<exists>c. before = Some c \<and> t - ct_started c \<ge> 2 * window)"

lemma map_of_filter_cases:
  "distinct (map fst al) \<Longrightarrow> map_of (filter P al) k =
    (case map_of al k of None \<Rightarrow> None | Some v \<Rightarrow> if P (k, v) then Some v else None)"
  by (induction al) (auto simp: map_of_eq_None_iff rev_image_eqI split: option.splits)

lemma dropped_by_filter:
  "distinct (map fst al) \<Longrightarrow>
   kept_or_dropped window t (map_of al k) (map_of (filter (\<lambda>(k, c). \<not> t - ct_started c \<ge> 2 * window) al) k)"
  by (auto simp: kept_or_dropped_def map_of_filter_cases split: option.splits)

lemma length_update: "length (AList.update k v al) = (if k \<in> fst ` set al then length al else Suc (length al))"
  by (induction al) auto

lemma update_le: "length al \<le> n \<Longrightarrow> map_of al k \<noteq> None \<or> length al < n \<Longrightarrow> length (AList.update k v al) \<le> n"
  by (auto simp: length_update map_of_eq_None_iff)

section \<open>The contract\<close>

text \<open>
  The client's view of a limiter: \<open>look\<close> is the counter of one client in the state, \<open>step\<close> says
  whether an event is an admitted attempt of this client. An admitted attempt found the renewed
  counter below the limit and increments it; any other event leaves it, renews it or drops it.
\<close>

locale fixed_window =
  fixes window :: int and limit :: nat
    and step :: "time \<Rightarrow> 'e \<Rightarrow> 's \<Rightarrow> bool \<times> 's"
    and look :: "'s \<Rightarrow> counter option"
    and inv :: "'s \<Rightarrow> bool"
    and legal :: "'e \<Rightarrow> bool"
  assumes window_pos: "window > 0"
    and step_inv: "inv s \<Longrightarrow> legal e \<Longrightarrow> step t e s = (ok, s') \<Longrightarrow> inv s'"
    and step_counts: "inv s \<Longrightarrow> legal e \<Longrightarrow> step t e s = (ok, s') \<Longrightarrow>
      \<exists>c0. kept_or_dropped window t (look s) c0 \<and>
        (if ok then ct_count (renew window t c0) < limit
           \<and> look s' = Some ((renew window t c0)\<lparr>ct_count := ct_count (renew window t c0) + 1\<rparr>)
         else look s' = c0 \<or> look s' = Some (renew window t c0))"
begin

abbreviation tr where "tr \<equiv> tracks window limit"

abbreviation bounded where "bounded \<equiv> bounded_rate window limit"

lemma tracks_later: "tr now A s \<Longrightarrow> now \<le> t \<Longrightarrow> tr t A s"
  by (auto simp: tracks_def split: option.splits)

lemma tracks_purged:
  "tr now A (Some c) \<Longrightarrow> t - ct_started c \<ge> 2 * window \<Longrightarrow> tr t A None"
  using window_pos by (fastforce simp: tracks_def)

lemma tracks_fresh:
  assumes "t \<noteq> 0" "\<forall>x \<in> set A. x < t" "cnt (\<lambda>x. t - window \<le> x \<and> x < t) A \<le> limit"
  shows "tr t A (Some \<lparr>ct_started = t, ct_count = 0\<rparr>)"
proof -
  have "cnt (\<lambda>x. t \<le> x) A = 0" using assms(2) by (intro cnt_0) auto
  with assms window_pos show ?thesis by (fastforce simp: tracks_def)
qed

lemma tracks_renew:
  assumes "tr now A s" "now \<le> t" "t \<noteq> 0"
  shows "tr t A (Some (renew window t s)) \<and> t - ct_started (renew window t s) < window"
proof (cases s)
  case None
  then have A: "\<forall>x \<in> set A. x + window < t" using assms by (fastforce simp: tracks_def)
  then have "cnt (\<lambda>x. t - window \<le> x \<and> x < t) A = 0" by (intro cnt_0) fastforce
  with A assms(3) window_pos have "tr t A (Some \<lparr>ct_started = t, ct_count = 0\<rparr>)"
    by (intro tracks_fresh) (auto | fastforce)+
  with None window_pos show ?thesis by (simp add: renew_def)
next
  case (Some c)
  with assms have c: "ct_started c \<noteq> 0" "cnt (\<lambda>x. ct_started c \<le> x) A \<le> limit"
    "\<forall>x \<in> set A. x < ct_started c + window"
    by (auto simp: tracks_def)
  show ?thesis
  proof (cases "t - ct_started c \<ge> window")
    case True
    have "cnt (\<lambda>x. t - window \<le> x \<and> x < t) A \<le> cnt (\<lambda>x. ct_started c \<le> x) A"
      using True by (intro cnt_mono) auto
    with c True assms(3) have "tr t A (Some \<lparr>ct_started = t, ct_count = 0\<rparr>)"
      by (intro tracks_fresh) (auto | fastforce)+
    with Some True window_pos show ?thesis by (simp add: renew_def)
  next
    case False
    with Some c assms show ?thesis
      using tracks_later [OF assms(1,2)] by (simp add: renew_def)
  qed
qed

text \<open>One more request is allowed in the window.\<close>

lemma tracks_count:
  assumes "tr t A (Some c)" "t - ct_started c < window" "ct_count c < limit" "bounded A"
  shows "tr t (A @ [t]) (Some (c\<lparr>ct_count := ct_count c + 1\<rparr>))" "bounded (A @ [t])"
proof -
  from assms have c: "ct_started c \<le> t" "cnt (\<lambda>x. ct_started c \<le> x) A = ct_count c"
    "cnt (\<lambda>x. ct_started c - window \<le> x \<and> x < ct_started c) A \<le> limit"
    by (auto simp: tracks_def)
  show "tr t (A @ [t]) (Some (c\<lparr>ct_count := ct_count c + 1\<rparr>))"
    using assms(1-3) by (auto simp: tracks_def)
  show "bounded (A @ [t])"
    unfolding bounded_rate_def
  proof
    fix u
    have "cnt (\<lambda>x. u \<le> x \<and> x < u + window) A < 2 * limit" if "u \<le> t" "t < u + window"
    proof -
      have "cnt (\<lambda>x. u \<le> x \<and> x < u + window) A \<le>
          cnt (\<lambda>x. ct_started c - window \<le> x \<and> x < ct_started c) A + cnt (\<lambda>x. ct_started c \<le> x) A"
        using that c(1) by (intro cnt_split) auto
      with c assms(3) show ?thesis by simp
    qed
    then show "cnt (\<lambda>x. u \<le> x \<and> x < u + window) (A @ [t]) \<le> 2 * limit"
      using assms(4) by (simp add: bounded_rate_def Suc_le_eq)
  qed
qed

lemma tracks_dropped:
  assumes "tr now A s" "now \<le> t" "kept_or_dropped window t s s'"
  shows "tr t A s'"
  using assms tracks_later [OF assms(1,2)] tracks_purged by (auto simp: kept_or_dropped_def)

lemma tracks_step:
  assumes "inv s" "legal e" "step t e s = (ok, s')" "tr now A (look s)" "bounded A" "now \<le> t" "t \<noteq> 0"
  shows "tr t (A @ (if ok then [t] else [])) (look s') \<and> bounded (A @ (if ok then [t] else []))"
proof -
  obtain c0 where c: "kept_or_dropped window t (look s) c0"
    "if ok then ct_count (renew window t c0) < limit
         \<and> look s' = Some ((renew window t c0)\<lparr>ct_count := ct_count (renew window t c0) + 1\<rparr>)
       else look s' = c0 \<or> look s' = Some (renew window t c0)"
    using step_counts [OF assms(1-3)] by blast
  have now: "tr t A c0" by (rule tracks_dropped [OF assms(4,6) c(1)])
  note re = tracks_renew [OF now order_refl assms(7)]
  note more = tracks_count [OF conjunct1 [OF re] conjunct2 [OF re] _ assms(5)]
  from c(2) now re more assms(5) show ?thesis by (cases ok) auto
qed

lemma bounded_run:
  assumes "inv s" "tr now A (look s)" "bounded A" "sorted (map fst es)" "\<forall>(t, e) \<in> set es. now \<le> t \<and> t \<noteq> 0 \<and> legal e"
  shows "bounded (A @ admitted step s es)"
  using assms
proof (induction es arbitrary: s now A)
  case (Cons x es)
  obtain t e where x: "x = (t, e)" by force
  obtain ok s' where st: "step t e s = (ok, s')" by force
  from Cons.prems x have e: "legal e" "now \<le> t" "t \<noteq> 0" by auto
  note after = tracks_step [OF Cons.prems(1) e(1) st Cons.prems(2,3) e(2,3)]
  have "\<forall>(u, f) \<in> set es. t \<le> u \<and> u \<noteq> 0 \<and> legal f" using Cons.prems x by force
  then have "bounded ((A @ (if ok then [t] else [])) @ admitted step s' es)"
    using Cons.prems x after step_inv [OF Cons.prems(1) e(1) st] by (intro Cons.IH) auto
  with x st show ?case by simp
qed simp

text \<open>Twice the limit bounds the attempts admitted in any window of a run of a client not seen before.\<close>

lemma window_bound:
  assumes "inv s" "look s = None" "sorted (map fst es)" "\<forall>(t, e) \<in> set es. t > 0 \<and> legal e"
  shows "length (filter (\<lambda>x. u \<le> x \<and> x < u + window) (admitted step s es)) \<le> 2 * limit"
proof -
  have "bounded ([] @ admitted step s es)"
    using assms by (intro bounded_run [where now = 0]) (auto simp: tracks_def bounded_rate_def)
  then show ?thesis by (simp add: bounded_rate_def cnt_def)
qed

end

end
