(* ===== verification/Http_Base.thy ===== *)
theory Http_Base
  imports Debian13_Artifacts System Window_Limit
begin

text \<open>
  What the HTTP handlers share (internal/httpapi/server.go, localboot.go, request_context.go):
  requests and responses, request identifiers, the texts written for iPXE, the base URL of a
  request and the rate limit of discovery.

  A handler makes several calls of the store, each with its own clock reading, random bytes and
  database outcome: \<open>w_env k\<close> is the environment of its call number \<open>k\<close>. Between the calls
  other requests go on: \<open>w_other k\<close> is what they do to the database before call number \<open>k\<close>.
  \<open>w_now\<close> is the handler's own reading of the clock.
\<close>

section \<open>Requests and responses\<close>

record world =
  w_now :: time
  w_env :: "nat \<Rightarrow> env"
  w_other :: "nat \<Rightarrow> db \<Rightarrow> db"

datatype json = JText string | JInt int | JBool bool | JTime time | JCode code | JStage Stage | JSource Source
  | JPolicy Policy | JSecureBoot SBState | JAction Action | JKeyState KeyState | JObject "(string \<times> json) list" | JArray "json list"

datatype body = TextBody string | JsonBody "(string \<times> json) list"

record response =
  rp_Status :: int
  rp_Headers :: "(string \<times> string) list"
  rp_Body :: body

record request =
  rq_Method :: string
  rq_URLPath :: string
  rq_PathValue :: "string \<Rightarrow> string"
  rq_Header :: "string \<Rightarrow> string"
  rq_Host :: string
  rq_RemoteAddr :: string
  rq_Body :: string
  rq_Form :: "string + (string \<Rightarrow> string)"
  rq_Query :: "string \<Rightarrow> string"
  rq_RequestID :: string

definition writeJSON :: "int \<Rightarrow> (string \<times> json) list \<Rightarrow> response" where
  "writeJSON status v = \<lparr>rp_Status = status, rp_Headers = [(''Content-Type'', ''application/json; charset=utf-8'')],
     rp_Body = JsonBody v\<rparr>"

definition writeAPIError :: "int \<Rightarrow> code \<Rightarrow> string \<Rightarrow> response" where
  "writeAPIError status code message =
     writeJSON status [(''error'', JObject [(''code'', JCode code), (''message'', JText message)])]"

text \<open>A script for iPXE: status 200, lines ended by a line feed.\<close>

definition writeScript :: "string list \<Rightarrow> response" where
  "writeScript ls = \<lparr>rp_Status = 200, rp_Headers = [(''Content-Type'', ''text/plain; charset=utf-8''), (''Cache-Control'', ''no-store'')],
     rp_Body = TextBody (concat (map (\<lambda>l. l @ [LF]) ls))\<rparr>"

definition firstNonEmpty :: "string list \<Rightarrow> string" where
  "firstNonEmpty vs = (case filter (\<lambda>v. TrimSpace v \<noteq> []) vs of [] \<Rightarrow> [] | v # _ \<Rightarrow> v)"

definition ipxeSafe :: "string \<Rightarrow> string" where
  "ipxeSafe v = map (\<lambda>c. if c \<in> set [CR, LF, CHR '';''] then CHR '' '' else c) v"

definition requestBaseURL :: "golib \<Rightarrow> request \<Rightarrow> string" where
  "requestBaseURL L r =
     (let host = TrimSpace (rq_Host r) in
      if host = [] then ''http://127.0.0.1''
      else case lib_url L (''http://'' @ host) of
        None \<Rightarrow> ''http://127.0.0.1''
      | Some (_, parsedHost, user) \<Rightarrow>
          if parsedHost \<noteq> host \<or> user then ''http://127.0.0.1'' else ''http://'' @ host)"

section \<open>The remote host\<close>

text \<open>net.SplitHostPort, the host only.\<close>

fun last_index :: "char \<Rightarrow> string \<Rightarrow> nat option" where
  "last_index c [] = None"
| "last_index c (x # xs) = (case last_index c xs of Some i \<Rightarrow> Some (Suc i) | None \<Rightarrow> if x = c then Some 0 else None)"

definition split_host :: "string \<Rightarrow> string option" where
  "split_host s =
     (case last_index (CHR '':'') s of
        None \<Rightarrow> None
      | Some i \<Rightarrow>
        if hd s = CHR ''['' then
          (case index_of (CHR '']'') s of
             None \<Rightarrow> None
           | Some stop \<Rightarrow>
             if stop + 1 \<noteq> i then None
             else if CHR ''['' \<in> set (drop 1 s) \<or> CHR '']'' \<in> set (drop (stop + 1) s) then None
             else Some (take (stop - 1) (drop 1 s)))
        else if CHR '':'' \<in> set (take i s) then None
        else if CHR ''['' \<in> set s \<or> CHR '']'' \<in> set s then None
        else Some (take i s))"

definition remoteHost :: "string \<Rightarrow> string" where
  "remoteHost remoteAddr =
     (case split_host (TrimSpace remoteAddr) of
        Some host \<Rightarrow>
          if host \<noteq> [] then host
          else if TrimSpace remoteAddr \<noteq> [] then TrimSpace remoteAddr else ''unknown''
      | None \<Rightarrow> if TrimSpace remoteAddr \<noteq> [] then TrimSpace remoteAddr else ''unknown'')"

section \<open>Request identifiers\<close>

text \<open>requestLog: the identifier of the request's context, or the answer when none can be made.\<close>

definition header_request_id :: "env \<Rightarrow> string \<Rightarrow> string option" where
  "header_request_id e header =
     (let requestID = TrimSpace header in
      if requestID = [] \<or> length requestID > 128 then idgen_New e 0 ''req_'' else Some requestID)"

definition tracking_failure :: response where
  "tracking_failure = \<lparr>rp_Status = 500, rp_Headers = [(''Content-Type'', ''text/plain; charset=utf-8'')],
     rp_Body = TextBody (''internal request tracking failure'' @ [LF])\<rparr>"

definition security_headers :: "(string \<times> string) list" where
  "security_headers = [(''X-Content-Type-Options'', ''nosniff''), (''Referrer-Policy'', ''no-referrer''),
     (''Content-Security-Policy'', ''default-src '' @ [CHR 0x27] @ ''self'' @ [CHR 0x27] @ ''; style-src '' @ [CHR 0x27] @ ''self'' @ [CHR 0x27]
        @ ''; object-src '' @ [CHR 0x27] @ ''none'' @ [CHR 0x27] @ ''; frame-ancestors '' @ [CHR 0x27] @ ''none'' @ [CHR 0x27]
        @ ''; base-uri '' @ [CHR 0x27] @ ''none'' @ [CHR 0x27])]"

definition requestLog :: "env \<Rightarrow> (request \<Rightarrow> 's \<Rightarrow> response \<times> 's) \<Rightarrow> request \<Rightarrow> 's \<Rightarrow> response \<times> 's" where
  "requestLog e nxt r st =
     (case header_request_id e (rq_Header r ''X-Request-ID'') of
        None \<Rightarrow> (tracking_failure, st)
      | Some requestID \<Rightarrow>
        (case nxt (r\<lparr>rq_RequestID := requestID\<rparr>) st of (resp, st') \<Rightarrow>
           (resp\<lparr>rp_Headers := (''X-Request-ID'', requestID) # security_headers @ rp_Headers resp\<rparr>, st')))"

definition ensureRequestContext :: "env \<Rightarrow> (request \<Rightarrow> 's \<Rightarrow> response \<times> 's) \<Rightarrow> request \<Rightarrow> 's \<Rightarrow> response \<times> 's" where
  "ensureRequestContext e nxt r st =
     (case header_request_id e (rq_Header r ''X-Request-ID'') of
        None \<Rightarrow> (tracking_failure, st)
      | Some requestID \<Rightarrow>
        (case nxt (r\<lparr>rq_Header := (rq_Header r)(''X-Request-ID'' := requestID), rq_RequestID := requestID\<rparr>) st of (resp, st') \<Rightarrow>
           (resp\<lparr>rp_Headers := (''X-Request-ID'', requestID) # rp_Headers resp\<rparr>, st')))"

section \<open>Texts for iPXE\<close>

definition localBootReason :: "string \<Rightarrow> bool" where
  "localBootReason reason \<longleftrightarrow>
     TrimSpace reason \<in> set [''local_policy'', ''installation_not_armed'', ''pending_approval'', ''secure_boot_required'']"

abbreviation BS :: string where "BS \<equiv> [CHR 0x5C]"

definition ipxe_magic :: string where "ipxe_magic = [CHR 0x23, CHR 0x21] @ ''ipxe''"

definition local_boot_lines :: "string \<Rightarrow> string \<Rightarrow> string list" where
  "local_boot_lines message reason =
     [ipxe_magic, ''echo '' @ ipxeSafe message, ''echo Decision: '' @ ipxeSafe reason,
      ''iseq '' @ [CHR 0x24] @ ''{platform} efi '' @ [CHR 0x26, CHR 0x26] @ '' goto local_efi || goto local_bios'',
      '':local_efi'', ''echo AegisPXE searching local UEFI bootloaders'',
      ''sanboot --no-describe --drive 0 --filename '' @ BS @ ''EFI'' @ BS @ ''debian'' @ BS @ ''shimx64.efi || goto local_efi_grub'',
      '':local_efi_grub'',
      ''sanboot --no-describe --drive 0 --filename '' @ BS @ ''EFI'' @ BS @ ''debian'' @ BS @ ''grubx64.efi || goto local_efi_fallback'',
      '':local_efi_fallback'',
      ''sanboot --no-describe --drive 0 --filename '' @ BS @ ''EFI'' @ BS @ ''BOOT'' @ BS @ ''BOOTX64.EFI || goto local_efi_any'',
      '':local_efi_any'', ''sanboot --no-describe --drive 0 || goto local_firmware'',
      '':local_bios'', ''echo AegisPXE booting first local BIOS disk'',
      ''sanboot --no-describe --drive 0x80 || goto local_firmware'',
      '':local_firmware'', ''echo AegisPXE local bootloader not found; returning failure to firmware'', ''exit 1'']"

definition writeLocalBootIPXE :: "string \<Rightarrow> string \<Rightarrow> response" where
  "writeLocalBootIPXE message reason = writeScript (local_boot_lines message reason)"

definition writeIPXE :: "string \<Rightarrow> string \<Rightarrow> response" where
  "writeIPXE message reason =
     (if localBootReason reason then writeLocalBootIPXE message reason
      else writeScript [ipxe_magic, ''echo '' @ ipxeSafe message, ''echo Decision: '' @ ipxeSafe reason, ''exit 0''])"

definition discoveryBootstrap :: "golib \<Rightarrow> request \<Rightarrow> response" where
  "discoveryBootstrap L r =
     writeScript [ipxe_magic, ''echo AegisPXE headless discovery'',
       ''chain '' @ requestBaseURL L r @ ''/api/v1/discovery.ipxe?mac='' @ [CHR 0x24] @ ''{net0/mac}'' @ [CHR 0x26]
         @ ''smbios_uuid='' @ [CHR 0x24] @ ''{uuid}'' @ [CHR 0x26] @ ''architecture='' @ [CHR 0x24] @ ''{buildarch:uristring}'' @ [CHR 0x26]
         @ ''firmware='' @ [CHR 0x24] @ ''{platform:uristring}'' @ [CHR 0x26] @ ''secure_boot='' @ [CHR 0x24] @ ''{efi/SecureBoot:hex}''
         @ [CHR 0x26] @ ''setup_mode='' @ [CHR 0x24] @ ''{efi/SetupMode:hex} || goto discovery_failed'',
       ''exit 0'', '':discovery_failed'', ''echo AegisPXE discovery endpoint unavailable; exiting safely'', ''exit 0'']"

section \<open>The rate limit of discovery\<close>

definition discoveryWindow :: int where "discoveryWindow = Minute"
definition maxDiscoveryPerWindow :: nat where "maxDiscoveryPerWindow = 120"

type_synonym limiter = "(string \<times> counter) list"

definition purge :: "time \<Rightarrow> limiter \<Rightarrow> limiter" where
  "purge now clients =
     (if length clients \<ge> 1024 then filter (\<lambda>(k, c). \<not> now - ct_started c \<ge> 2 * discoveryWindow) clients else clients)"

definition lookup_counter :: "limiter \<Rightarrow> string \<Rightarrow> counter" where
  "lookup_counter clients key = (case map_of clients key of None \<Rightarrow> \<lparr>ct_started = 0, ct_count = 0\<rparr> | Some c \<Rightarrow> c)"

definition put_counter :: "string \<Rightarrow> counter \<Rightarrow> limiter \<Rightarrow> limiter" where
  "put_counter key c clients = AList.update key c clients"

definition allowDiscovery :: "time \<Rightarrow> string \<Rightarrow> limiter \<Rightarrow> bool \<times> limiter" where
  "allowDiscovery now remoteAddr clients0 =
     (let key = remoteHost remoteAddr; clients = purge now clients0 in
      if map_of clients key = None \<and> length clients \<ge> 4096 then (False, clients)
      else let c = lookup_counter clients key;
               c = (if IsZero (ct_started c) \<or> now - ct_started c \<ge> discoveryWindow
                    then \<lparr>ct_started = now, ct_count = 0\<rparr> else c) in
      if ct_count c \<ge> maxDiscoveryPerWindow then (False, put_counter key c clients)
      else (True, put_counter key (c\<lparr>ct_count := ct_count c + 1\<rparr>) clients))"

end
