(* ===== verification/Discovery_Limit.thy ===== *)
theory Discovery_Limit
  imports Http_Base Samples
begin

text \<open>
  How many discovery requests of one client the limiter lets through: it keeps the contract
  of \<open>fixed_window\<close> for every client.
\<close>

text \<open>A request of an address is an admitted attempt of the client when it passes and the address is the client's.\<close>

definition discovery_step :: "string \<Rightarrow> time \<Rightarrow> string \<Rightarrow> limiter \<Rightarrow> bool \<times> limiter" where
  "discovery_step client t addr cl = (case allowDiscovery t addr cl of (ok, cl') \<Rightarrow> (ok \<and> remoteHost addr = client, cl'))"

definition limiter_ok :: "limiter \<Rightarrow> bool" where
  "limiter_ok cl \<longleftrightarrow> distinct (map fst cl) \<and> length cl \<le> 4096"

section \<open>The table of counters\<close>

lemma purge_ok:
  assumes "limiter_ok cl"
  shows "limiter_ok (purge t cl)" "kept_or_dropped discoveryWindow t (map_of cl k) (map_of (purge t cl) k)"
  using assms dropped_by_filter [of cl discoveryWindow t k]
  by (auto simp: limiter_ok_def purge_def distinct_map_filter kept_or_dropped_def intro: le_trans [OF length_filter_le])

lemma renew_lookup: "renew discoveryWindow t (map_of cl k) = (let c = lookup_counter cl k in
    if IsZero (ct_started c) \<or> t - ct_started c \<ge> discoveryWindow then \<lparr>ct_started = t, ct_count = 0\<rparr> else c)"
  by (simp add: renew_def lookup_counter_def split: option.splits)

lemma allowDiscovery_cases:
  assumes "allowDiscovery t a cl = (ok, cl')"
  shows "\<not> ok \<and> cl' = purge t cl
   \<or> \<not> ok \<and> cl' = put_counter (remoteHost a) (renew discoveryWindow t (map_of (purge t cl) (remoteHost a))) (purge t cl)
       \<and> (map_of (purge t cl) (remoteHost a) \<noteq> None \<or> length (purge t cl) < 4096)
   \<or> ok \<and> (let c = renew discoveryWindow t (map_of (purge t cl) (remoteHost a)) in
        ct_count c < 120 \<and> cl' = put_counter (remoteHost a) (c\<lparr>ct_count := ct_count c + 1\<rparr>) (purge t cl))
       \<and> (map_of (purge t cl) (remoteHost a) \<noteq> None \<or> length (purge t cl) < 4096)"
  using assms
  by (auto simp: allowDiscovery_def renew_lookup maxDiscoveryPerWindow_def Let_def split: if_splits)

lemma put_counter_simps:
  "map_of (put_counter key c cl) k = (if k = key then Some c else map_of cl k)"
  "limiter_ok cl \<Longrightarrow> map_of cl key \<noteq> None \<or> length cl < 4096 \<Longrightarrow> limiter_ok (put_counter key c cl)"
  by (simp_all add: put_counter_def limiter_ok_def update_conv' distinct_update update_le)

lemma allowDiscovery_ok:
  assumes "limiter_ok cl"
  shows "limiter_ok (snd (allowDiscovery t a cl))"
proof -
  obtain ok cl' where step: "allowDiscovery t a cl = (ok, cl')" by force
  from allowDiscovery_cases [OF step] show ?thesis
    using purge_ok(1) [OF assms] by (auto simp: step put_counter_simps Let_def)
qed

interpretation discovery: fixed_window discoveryWindow 120 "discovery_step client" "\<lambda>cl. map_of cl client" limiter_ok "\<lambda>_. True"
  for client
proof
  show "discoveryWindow > 0" by (simp add: discoveryWindow_def Minute_def Second_def)
  fix cl t a ok cl'
  assume cl: "limiter_ok cl" and s: "discovery_step client t a cl = (ok, cl')"
  then obtain pass where pass: "allowDiscovery t a cl = (pass, cl')" "ok \<longleftrightarrow> pass \<and> remoteHost a = client"
    by (auto simp: discovery_step_def split: prod.splits)
  show "limiter_ok cl'" using allowDiscovery_ok [OF cl, of t a] pass by simp
  let ?c = "map_of (purge t cl) client"
  show "\<exists>c0. kept_or_dropped discoveryWindow t (map_of cl client) c0 \<and>
      (if ok then ct_count (renew discoveryWindow t c0) < 120
         \<and> map_of cl' client = Some ((renew discoveryWindow t c0)\<lparr>ct_count := ct_count (renew discoveryWindow t c0) + 1\<rparr>)
       else map_of cl' client = c0 \<or> map_of cl' client = Some (renew discoveryWindow t c0))"
    using purge_ok(2) [OF cl, of t client] allowDiscovery_cases [OF pass(1)] pass(2)
    by (intro exI [of _ ?c]) (auto simp: put_counter_simps Let_def)
qed

lemma limiter_after_ok: "limiter_ok cl \<Longrightarrow> limiter_ok (run_events (discovery_step k) cl rs)"
proof (induction rs arbitrary: cl)
  case (Cons r rs)
  have "limiter_ok (snd (discovery_step k (fst r) (snd r) cl))"
    using allowDiscovery_ok [OF Cons.prems, of "fst r" "snd r"] by (simp add: discovery_step_def case_prod_unfold)
  with Cons.IH show ?case by (cases r) simp
qed simp

text \<open>C30:
  Whatever requests arrive, in the order of the server's clock, at most 240 discovery requests of
  one client are let through in any minute (120 in each of the at most two windows it touches),
  and the table never holds more than 4096 clients.
\<close>

theorem discovery_rate_bounded:
  assumes "sorted (map fst rs)" and "\<forall>(t, a) \<in> set rs. t > 0"
  shows "length (filter (\<lambda>x. t \<le> x \<and> x < t + Minute) (admitted (discovery_step client) [] rs)) \<le> 240
    \<and> length (run_events (discovery_step client) [] rs) \<le> 4096"
  using discovery.window_bound [of "[]" client rs t] limiter_after_ok [of "[]" client rs] assms
  by (simp add: limiter_ok_def discoveryWindow_def)

theorem discovery_rate_bounded_witness:
  "admitted (discovery_step ''h'') [] [(1, ''h''), (2, ''h'')] = [1, 2] \<and>
   length (filter (\<lambda>x. 1 \<le> x \<and> x < 1 + Minute) (admitted (discovery_step ''h'') [] [(1, ''h''), (2, ''h'')])) \<le> 240"
proof -
  have "remoteHost ''h'' = ''h''"
    by (simp add: remoteHost_def split_host_def sample_trim)
  then have "admitted (discovery_step ''h'') [] [(1, ''h''), (2, ''h'')] = [1, 2]"
    by (simp add: discovery_step_def allowDiscovery_def purge_def lookup_counter_def put_counter_def maxDiscoveryPerWindow_def
        discoveryWindow_def duration_defs)
  moreover have "length (filter (\<lambda>x. 1 \<le> x \<and> x < 1 + Minute) (admitted (discovery_step ''h'') [] [(1, ''h''), (2, ''h'')])) \<le> 240"
    using discovery_rate_bounded [of "[(1, ''h''), (2, ''h'')]" 1 "''h''"] by simp
  ultimately show ?thesis by simp
qed

end
