(* ===== verification/Http_Provisioning.thy ===== *)
theory Http_Provisioning
  imports Http_Base Debian13_Seed
begin

text \<open>
  The handlers of the PXE side (internal/httpapi/server.go, provisioning.go): discovery and the
  boot decision, and the public boot material of an armed installation (boot script, preseed,
  artifacts).
\<close>

section \<open>The server\<close>

record Config =
  cf_SecureBootPolicy :: SBPolicy
  cf_SecureBootAssetsValid :: bool

record Server =
  sv_version :: string
  sv_secureBootPolicy :: SBPolicy
  sv_secureBootAssetsValid :: bool

fun sbpolicy_text :: "SBPolicy \<Rightarrow> string" where
  "sbpolicy_text PolicyRequired = ''required''"
| "sbpolicy_text PolicyAudit = ''audit''"
| "sbpolicy_text PolicyDisabled = ''disabled''"
| "sbpolicy_text (SBPolicyOther s) = s"

definition NewWithConfig :: "string \<Rightarrow> Config \<Rightarrow> Server" where
  "NewWithConfig version config =
     (let policy = cf_SecureBootPolicy config;
          policy = (case ParsePolicy (sbpolicy_text policy) of Inl _ \<Rightarrow> PolicyAudit | Inr _ \<Rightarrow> policy) in
      \<lparr>sv_version = version, sv_secureBootPolicy = policy, sv_secureBootAssetsValid = cf_SecureBootAssetsValid config\<rparr>)"

section \<open>The boot decision\<close>

text \<open>Store calls: 0 active assignment, 1 specification (numbered from \<open>k\<close>).\<close>

definition assignmentDecision ::
  "Server \<Rightarrow> world \<Rightarrow> nat \<Rightarrow> db \<Rightarrow> Machine \<Rightarrow> (Decision \<times> string \<times> string) result \<times> db" where
  "assignmentDecision s w k d0 item =
     (let base = Decide (m_Policy item) in
      if m_Policy item \<noteq> PolicyProvision then (Inr (base, '''', ''''), d0)
      else let d = w_other w k d0 in
      case ActiveAssignmentForMachine (w_env w k) 0 d (m_ID item) of
        Inl err \<Rightarrow> if Code err = InstallationAssignmentNotFound then (Inr (base, '''', ''''), d) else (Inl err, d)
      | Inr active \<Rightarrow>
        if \<not> AllowsProvision (sv_secureBootPolicy s) (m_SecureBootState item) then
          (Inr (\<lparr>d_Action = ActionLocal, d_Reason = ''secure_boot_required''\<rparr>, '''', ''''), d)
        else let d = w_other w (k + 1) d in
        case InstallationSpec (w_env w (k + 1)) 0 d (as_InstallationID active) of
          Inl err \<Rightarrow> (Inl err, d)
        | Inr spec \<Rightarrow>
          if sp_MachineID spec \<noteq> m_ID item \<or> as_MachineID active \<noteq> m_ID item \<or> as_State active \<noteq> StateArmed then
            (Inl (Fault InstallationAssignmentInvalid ''armed installation assignment is inconsistent''), d)
          else let gate = Evaluate (m_Policy item) True False in
          if \<not> PublicBootAllowed gate then (Inr (\<lparr>d_Action = ActionLocal, d_Reason = GateReason gate\<rparr>, '''', ''''), d)
          else (Inr (\<lparr>d_Action = ActionProvision, d_Reason = ''installation_armed''\<rparr>, sp_ID spec, as_ID active), d))"

record discoveryResponse =
  dr_MachineID :: string
  dr_Created :: bool
  dr_Policy :: Policy
  dr_SecureBoot :: SBState
  dr_Action :: Action
  dr_Reason :: string
  dr_InstallationID :: string
  dr_AssignmentID :: string

text \<open>Store calls: 0 discovery, 1 and 2 the decision.\<close>

definition discover :: "Server \<Rightarrow> world \<Rightarrow> db \<Rightarrow> Observation \<Rightarrow> string \<Rightarrow> discoveryResponse result \<times> db" where
  "discover s w d0 observation requestID =
     (case DiscoverMachine (w_env w 0) (w_other w 0 d0) observation requestID of
        (Inl err, d) \<Rightarrow> (Inl err, d)
      | (Inr (item, created), d) \<Rightarrow>
        (case assignmentDecision s w 1 d item of
           (Inl err, d') \<Rightarrow> (Inl err, d')
         | (Inr (decision, installationID, assignmentID), d') \<Rightarrow>
           (Inr \<lparr>dr_MachineID = m_ID item, dr_Created = created, dr_Policy = m_Policy item,
              dr_SecureBoot = m_SecureBootState item, dr_Action = d_Action decision, dr_Reason = d_Reason decision,
              dr_InstallationID = installationID, dr_AssignmentID = assignmentID\<rparr>, d')))"

text \<open>
  decodeObservation. The JSON decoder is a parameter: for a limit and a body it gives the text of
  its error, or the observation with whether the body ends after the first value. The parsed
  form (or the text of its error) is part of the request.
\<close>

type_synonym 'a decoder = "nat \<Rightarrow> string \<Rightarrow> string + 'a \<times> bool"

definition maxDiscoveryBody :: nat where "maxDiscoveryBody = 8 * 2 ^ 10"

definition content_type :: "request \<Rightarrow> string" where
  "content_type r = ToLower (TrimSpace (hd (split_on (CHR '';'') (rq_Header r ''Content-Type''))))"

definition decodeObservation :: "Observation decoder \<Rightarrow> request \<Rightarrow> string + Observation" where
  "decodeObservation decode r =
     (if content_type r = ''application/json'' then
        (case decode maxDiscoveryBody (rq_Body r) of
           Inl err \<Rightarrow> Inl (''decode discovery JSON: '' @ err)
         | Inr (observation, at_end) \<Rightarrow>
             if \<not> at_end then Inl ''discovery request must contain one JSON object'' else Inr observation)
      else case rq_Form r of
        Inl err \<Rightarrow> Inl (''decode discovery form: '' @ err)
      | Inr form \<Rightarrow> Inr \<lparr>o_MAC = form ''mac'', o_SMBIOSUUID = firstNonEmpty [form ''smbios_uuid'', form ''uuid''],
          o_Architecture = form ''architecture'', o_Firmware = form ''firmware'',
          o_SecureBoot = form ''secure_boot'', o_SetupMode = form ''setup_mode''\<rparr>)"

definition writeDiscoveryError :: "fault \<Rightarrow> response" where
  "writeDiscoveryError err =
     writeAPIError (case Code err of MachineIdentityInvalid \<Rightarrow> 400 | SecureBootEvidenceInvalid \<Rightarrow> 400
       | MachineIdentityConflict \<Rightarrow> 409 | StorageFailure \<Rightarrow> 503 | _ \<Rightarrow> 500) (Code err) (Message err)"

definition discovery_json :: "discoveryResponse \<Rightarrow> (string \<times> json) list" where
  "discovery_json v =
     [(''machine_id'', JText (dr_MachineID v)), (''created'', JBool (dr_Created v)), (''policy'', JPolicy (dr_Policy v)),
      (''secure_boot_state'', JSecureBoot (dr_SecureBoot v)), (''action'', JAction (dr_Action v)), (''reason'', JText (dr_Reason v))]
     @ (if dr_InstallationID v = [] then [] else [(''installation_id'', JText (dr_InstallationID v))])"

definition discoveryJSON ::
  "Observation decoder \<Rightarrow> Server \<Rightarrow> world \<Rightarrow> request \<Rightarrow> limiter \<times> db \<Rightarrow> response \<times> limiter \<times> db" where
  "discoveryJSON decode s w r st =
     (case st of (clients, d) \<Rightarrow>
      case allowDiscovery (w_now w) (rq_RemoteAddr r) clients of
        (False, cl) \<Rightarrow>
          ((writeAPIError 429 DiscoveryRateLimited ''discovery rate limit exceeded'')
             \<lparr>rp_Headers := [(''Retry-After'', ''60''), (''Content-Type'', ''application/json; charset=utf-8'')]\<rparr>, cl, d)
      | (True, cl) \<Rightarrow>
        (case decodeObservation decode r of
           Inl err \<Rightarrow> (writeAPIError 400 MachineIdentityInvalid err, cl, d)
         | Inr observation \<Rightarrow>
           (case discover s w d observation (rq_RequestID r) of
              (Inl err, d') \<Rightarrow> (writeDiscoveryError err, cl, d')
            | (Inr v, d') \<Rightarrow> (writeJSON (if dr_Created v then 201 else 200) (discovery_json v), cl, d'))))"

definition writeProvisioningChain :: "golib \<Rightarrow> request \<Rightarrow> string \<Rightarrow> response" where
  "writeProvisioningChain L r installationID =
     writeScript [ipxe_magic, ''echo AegisPXE Secure Boot provisioning assignment armed'',
       ''chain '' @ requestBaseURL L r @ ''/boot/installations/'' @ PathEscape installationID @ ''/boot.ipxe || goto provisioning_failed'',
       ''exit 0'', '':provisioning_failed'', ''echo AegisPXE provisioning endpoint unavailable; exiting safely'', ''exit 1'']"

definition discovery_message :: "discoveryResponse \<Rightarrow> string" where
  "discovery_message v =
     (if dr_Reason v = ''secure_boot_required'' then
        ''Machine '' @ dr_MachineID v @ '' requires UEFI Secure Boot before provisioning''
      else if dr_Action v = ActionBlocked then ''Machine '' @ dr_MachineID v @ '' is blocked by AegisPXE policy''
      else ''Machine '' @ dr_MachineID v @ '' registered ('' @ policy_text (dr_Policy v) @ '')'')"

text \<open>Store call 3: the lifecycle check-in.\<close>

definition discoveryIPXE ::
  "golib \<Rightarrow> Observation decoder \<Rightarrow> Server \<Rightarrow> world \<Rightarrow> request \<Rightarrow> limiter \<times> db \<Rightarrow> response \<times> limiter \<times> db" where
  "discoveryIPXE L decode s w r st =
     (case st of (clients, d) \<Rightarrow>
      case allowDiscovery (w_now w) (rq_RemoteAddr r) clients of
        (False, cl) \<Rightarrow> (writeIPXE ''Discovery rate limit reached; exiting safely'' ''rate_limited'', cl, d)
      | (True, cl) \<Rightarrow>
        (case decodeObservation decode r of
           Inl err \<Rightarrow> (writeIPXE ''Discovery request rejected'' ''invalid_observation'', cl, d)
         | Inr observation \<Rightarrow>
           (case discover s w d observation (rq_RequestID r) of
              (Inl err, d') \<Rightarrow> (writeIPXE ''Discovery failed safely'' ''server_rejected'', cl, d')
            | (Inr v, d') \<Rightarrow>
              if dr_Action v = ActionProvision \<and> dr_InstallationID v \<noteq> [] then
                (case RecordServerLifecycle (w_env w 3) (w_other w 3 d') (dr_InstallationID v) StagePXEBooted
                        (''server:pxe_booted:'' @ dr_InstallationID v)
                        ''PXE bootloader checked in for armed installation'' (rq_RequestID r) of
                   (Inl err, d'') \<Rightarrow> (writeIPXE ''Provisioning lifecycle state rejected safely'' ''server_rejected'', cl, d'')
                 | (Inr _, d'') \<Rightarrow> (writeProvisioningChain L r (dr_InstallationID v), cl, d''))
              else (writeIPXE (discovery_message v) (dr_Reason v), cl, d'))))"

section \<open>Public boot material\<close>

record publicBootContext =
  pb_Machine :: Machine
  pb_Assignment :: Assignment
  pb_Spec :: Spec

text \<open>Store calls: 0 specification, 1 machine, 2 assignment.\<close>

definition loadPublicBootContext :: "Server \<Rightarrow> world \<Rightarrow> db \<Rightarrow> string \<Rightarrow> publicBootContext result \<times> db" where
  "loadPublicBootContext s w d0 installationID0 =
     (let installationID = TrimSpace installationID0 in
      if installationID = [] then
        (Inl (Fault InstallationAssignmentInvalid ''installation identifier is required''), d0)
      else let d = w_other w 0 d0 in
      case InstallationSpec (w_env w 0) 0 d installationID of
        Inl err \<Rightarrow> (Inl err, d)
      | Inr spec \<Rightarrow>
        let d = w_other w 1 d in
        (case store_Machine (w_env w 1) 0 d (sp_MachineID spec) of
           Inl err \<Rightarrow> (Inl err, d)
         | Inr item \<Rightarrow>
           let d = w_other w 2 d in
           (case AssignmentForInstallation (w_env w 2) 0 d installationID of
              Inl err \<Rightarrow> (Inl err, d)
            | Inr active \<Rightarrow>
              if as_MachineID active \<noteq> m_ID item \<or> as_InstallationID active \<noteq> sp_ID spec then
                (Inl (Fault InstallationAssignmentInvalid ''installation assignment binding is invalid''), d)
              else if \<not> AllowsProvision (sv_secureBootPolicy s) (m_SecureBootState item) then
                (Inl (Fault SecureBootRequired
                  ''UEFI Secure Boot is required before installation material may be served''), d)
              else if \<not> PublicBootAllowed (Evaluate (m_Policy item) (as_State active = StateArmed) False) then
                (Inl (Fault InstallationAssignmentInvalid ''installation public boot material is not authorized''), d)
              else (Inr \<lparr>pb_Machine = item, pb_Assignment = active, pb_Spec = spec\<rparr>, d))))"

definition writeBootMaterialError :: "fault \<Rightarrow> response" where
  "writeBootMaterialError err =
     writeAPIError (case Code err of InstallationNotFound \<Rightarrow> 404 | InstallationAssignmentNotFound \<Rightarrow> 404
       | MachineNotFound \<Rightarrow> 404 | SecureBootRequired \<Rightarrow> 403 | StorageFailure \<Rightarrow> 503 | _ \<Rightarrow> 409)
       (Code err) ''installation boot material unavailable''"

definition ipxeArgumentSafe :: "string \<Rightarrow> bool" where
  "ipxeArgumentSafe v \<longleftrightarrow> list_all (\<lambda>c. is_alnum c \<or> c \<in> set ''._/:,+-'') v"

fun argument_parts :: "Argument list \<Rightarrow> string list option" where
  "argument_parts [] = Some []"
| "argument_parts (arg # rest) =
     (if \<not> ipxeArgumentSafe (arg_Key arg) \<or> \<not> ipxeArgumentSafe (arg_Value arg) then None
      else map_option (\<lambda>ps. (if arg_Value arg = [] then arg_Key arg else arg_Key arg @ ''='' @ arg_Value arg) # ps)
             (argument_parts rest))"

definition renderIPXEKernelArguments :: "Argument list \<Rightarrow> string option" where
  "renderIPXEKernelArguments args =
     (if args = [] then Some []
      else map_option (\<lambda>ps. '' '' @ join_with '' '' ps) (argument_parts args))"

definition installationArtifactByName :: "Descriptor list \<Rightarrow> string \<Rightarrow> Descriptor option" where
  "installationArtifactByName items name = find (\<lambda>item. ar_Name item = name) items"

definition boot_script_lines :: "string \<Rightarrow> string \<Rightarrow> string \<Rightarrow> string list" where
  "boot_script_lines base i args =
     (let prefix_url = base @ ''/boot/installations/'' @ PathEscape i in
      [ipxe_magic, ''echo AegisPXE Debian 13 Secure Boot installation '' @ ipxeSafe i, ''imgfree'',
       ''kernel '' @ prefix_url @ ''/artifacts/linux'' @ args @ '' || goto boot_failed'',
       ''initrd '' @ prefix_url @ ''/artifacts/initrd.gz || goto boot_failed'',
       ''shim '' @ prefix_url @ ''/artifacts/bootnetx64.efi || goto secure_boot_failed'',
       ''initrd '' @ prefix_url @ ''/preseed.cfg /preseed.cfg || goto boot_failed'',
       ''boot || goto boot_failed'', '':secure_boot_failed'',
       ''echo AegisPXE Secure Boot shim fetch or configuration failed'', ''exit 1'', '':boot_failed'',
       ''echo AegisPXE installer boot failed safely'', ''exit 1''])"

definition installationBootScript :: "golib \<Rightarrow> Server \<Rightarrow> world \<Rightarrow> request \<Rightarrow> db \<Rightarrow> response \<times> db" where
  "installationBootScript L s w r d =
     (case loadPublicBootContext s w d (rq_PathValue r ''id'') of
        (Inl err, d') \<Rightarrow> (writeBootMaterialError err, d')
      | (Inr material, d') \<Rightarrow>
        (case RenderBoot L (pb_Spec material) of
           Inl _ \<Rightarrow> (writeAPIError 409 DriverRenderFailed ''installation boot specification could not be rendered'', d')
         | Inr bootSpec \<Rightarrow>
           (case renderIPXEKernelArguments (bs_Arguments bootSpec) of
              None \<Rightarrow> (writeAPIError 409 DriverRenderFailed ''installation boot arguments are unsafe'', d')
            | Some args \<Rightarrow>
              (case installationArtifactByName (sp_Artifacts (pb_Spec material)) ''bootnetx64.efi'' of
                 None \<Rightarrow> (writeAPIError 409 SecureBootAssetsInvalid ''signed Debian Secure Boot shim is missing'', d')
               | Some shim \<Rightarrow>
                 (writeScript (boot_script_lines (requestBaseURL L r) (sp_ID (pb_Spec material)) args), d')))))"

fun digit_text :: "nat \<Rightarrow> string" where
  "digit_text n = (if n < 10 then [char_of (48 + n)] else digit_text (n div 10) @ [char_of (48 + n mod 10)])"

declare digit_text.simps [simp del]

definition ok_content :: "string \<Rightarrow> string \<Rightarrow> response" where
  "ok_content mediaType content = \<lparr>rp_Status = 200, rp_Headers = [(''Content-Type'', mediaType),
     (''Content-Length'', digit_text (length content)), (''Cache-Control'', ''no-store'')], rp_Body = TextBody content\<rparr>"

text \<open>Store call 3: the consumption of the assignment.\<close>

definition installationPreseed :: "golib \<Rightarrow> Server \<Rightarrow> world \<Rightarrow> request \<Rightarrow> db \<Rightarrow> response \<times> db" where
  "installationPreseed L s w r d =
     (case loadPublicBootContext s w d (rq_PathValue r ''id'') of
        (Inl err, d') \<Rightarrow> (writeBootMaterialError err, d')
      | (Inr material, d') \<Rightarrow>
        (case RenderSeed L (pb_Spec material) (rq_RequestID r) of
           Inl err \<Rightarrow> (writeAPIError 409 (Code err) ''installation preseed could not be rendered'', d')
         | Inr bundle \<Rightarrow>
           (case ConsumeAssignment (w_env w 3) (w_other w 3 d') (sp_ID (pb_Spec material)) (rq_RequestID r) ''system:pxe'' of
              (Inl err, d'') \<Rightarrow> (writeAPIError 409 (Code err) ''installation boot handoff could not be committed'', d'')
            | (Inr consumed, d'') \<Rightarrow> (ok_content (sd_MediaType bundle) (sd_Content bundle), d''))))"

definition installationArtifact :: "golib \<Rightarrow> network \<Rightarrow> Server \<Rightarrow> world \<Rightarrow> request \<Rightarrow> db \<Rightarrow> response \<times> db" where
  "installationArtifact L N s w r d =
     (case loadPublicBootContext s w d (rq_PathValue r ''id'') of
        (Inl err, d') \<Rightarrow> (writeBootMaterialError err, d')
      | (Inr material, d') \<Rightarrow>
        if ValidateSpec L (pb_Spec material) \<noteq> None then
          (writeAPIError 409 DriverSpecUnsupported ''installation is not bootable by the pinned driver'', d')
        else let name = TrimSpace (rq_PathValue r ''name'') in
        if name \<noteq> ''linux'' \<and> name \<noteq> ''initrd.gz'' \<and> name \<noteq> ''bootnetx64.efi'' then
          (writeAPIError 400 ArtifactFetchFailed ''invalid boot artifact role'', d')
        else case installationArtifactByName (sp_Artifacts (pb_Spec material)) name of
          None \<Rightarrow> (writeAPIError 409 DriverRenderFailed ''installation boot artifact is missing'', d')
        | Some descriptor \<Rightarrow>
          (case Load L N descriptor (rq_RequestID r) (sp_ID (pb_Spec material)) of
             Inl err \<Rightarrow> (writeAPIError 502 (Code err) ''verified boot artifact unavailable'', d')
           | Inr content \<Rightarrow> (ok_content ''application/octet-stream'' content, d')))"

section \<open>Reading machines\<close>

definition health :: "Server \<Rightarrow> bool \<Rightarrow> response" where
  "health s ping =
     (if \<not> ping then writeJSON 503 [(''status'', JText ''unhealthy'')]
      else writeJSON 200 [(''status'', JText ''ok''), (''version'', JText (sv_version s)),
        (''secure_boot_policy'', JText (sbpolicy_text (sv_secureBootPolicy s))),
        (''secure_boot_assets_valid'', JBool (sv_secureBootAssetsValid s))])"

definition writeMachineReadError :: "fault \<Rightarrow> response" where
  "writeMachineReadError err =
     (if Code err = MachineNotFound then writeAPIError 404 MachineNotFound ''machine not found''
      else writeAPIError 500 StorageFailure ''could not load machine'')"

definition event_json :: "AuditEvent \<Rightarrow> json" where
  "event_json v = JObject
     ([(''sequence'', JInt (ev_Sequence v)), (''type'', JText (ev_Type v)), (''occurred_at'', JTime (ev_OccurredAt v))]
      @ concat (map (\<lambda>(k, t). if t = [] then [] else [(k, JText t)])
          [(''request_id'', ev_RequestID v), (''actor'', ev_Actor v), (''message'', ev_Message v), (''error_code'', ev_ErrorCode v)]))"

definition machineEvents :: "world \<Rightarrow> request \<Rightarrow> db \<Rightarrow> response \<times> db" where
  "machineEvents w r d0 =
     (let i = TrimSpace (rq_PathValue r ''id''); d = w_other w 0 d0 in
      case store_Machine (w_env w 0) 0 d i of
        Inl err \<Rightarrow> (writeMachineReadError err, d)
      | Inr _ \<Rightarrow>
        let d = w_other w 1 d in
        (case Events (w_env w 1) d ''machine'' i of
           Inl _ \<Rightarrow> (writeAPIError 500 StorageFailure ''could not load machine events'', d)
         | Inr items \<Rightarrow> (writeJSON 200 [(''events'', JArray (map event_json items))], d)))"

end
