(* ===== verification/Http_Properties.thy ===== *)
theory Http_Properties
  imports Http_Provisioning Artifact_Trust
begin

text \<open>
  What the PXE handlers guarantee: boot material is only given out for an armed installation of
  an approved machine, the preseed at most once, and discovery chains into an installation only
  after it is recorded as booted.
\<close>

section \<open>The gate of the boot material\<close>

lemma store_Machine_Inr: "store_Machine e k d i = Inr m \<Longrightarrow>
    \<exists>m0 \<in> set (machines d). m_ID m0 = TrimSpace i \<and> m = scanMachine m0"
  by (auto simp: store_Machine_def machineByIDTx_def result_simps find_Some_iff split: option.splits)

lemma InstallationSpec_Inr: "InstallationSpec e k d i = Inr spec \<Longrightarrow> spec \<in> set (installation_specs d) \<and> sp_ID spec = TrimSpace i"
  by (auto simp: InstallationSpec_def result_simps find_Some_iff split: option.splits)

lemma AssignmentForInstallation_Inr:
  "AssignmentForInstallation e k d i = Inr a \<Longrightarrow> a \<in> set (installation_assignments d) \<and> as_InstallationID a = TrimSpace i"
  by (auto simp: AssignmentForInstallation_def assignmentForInstallationTx_def result_simps find_Some_iff)

lemma scanMachine_fields [simp]: "m_ID (scanMachine m) = m_ID m" "m_Policy (scanMachine m) = m_Policy m"
  by (simp_all add: scanMachine_def)

text \<open>
  What holds when boot material is given out for an installation, in the databases the three
  reads see: an armed assignment of the installation to its machine, which is approved for
  provisioning and whose Secure Boot state the policy allows.
\<close>

definition authorised :: "Server \<Rightarrow> world \<Rightarrow> db \<Rightarrow> string \<Rightarrow> publicBootContext \<Rightarrow> bool" where
  "authorised s w d i c \<longleftrightarrow>
     (let d1 = w_other w 0 d; d2 = w_other w 1 d1; d3 = w_other w 2 d2 in
      pb_Spec c \<in> set (installation_specs d1) \<and> sp_ID (pb_Spec c) = TrimSpace i
    \<and> (\<exists>m \<in> set (machines d2). pb_Machine c = scanMachine m \<and> m_Policy m = PolicyProvision \<and> m_ID m = as_MachineID (pb_Assignment c))
    \<and> AllowsProvision (sv_secureBootPolicy s) (m_SecureBootState (pb_Machine c))
    \<and> pb_Assignment c \<in> set (installation_assignments d3) \<and> as_State (pb_Assignment c) = StateArmed
    \<and> as_InstallationID (pb_Assignment c) = sp_ID (pb_Spec c))"

lemma loadPublicBootContext_Inr:
  assumes "loadPublicBootContext s w d i = (Inr c, d')"
  shows "authorised s w d i c" "d' = w_other w 2 (w_other w 1 (w_other w 0 d))"
proof -
  let ?d1 = "w_other w 0 d"
  let ?d2 = "w_other w 1 ?d1"
  let ?d3 = "w_other w 2 ?d2"
  from assms obtain spec item active where
    c: "c = \<lparr>pb_Machine = item, pb_Assignment = active, pb_Spec = spec\<rparr>" and d': "d' = ?d3"
    and spec: "InstallationSpec (w_env w 0) 0 ?d1 (TrimSpace i) = Inr spec"
    and item: "store_Machine (w_env w 1) 0 ?d2 (sp_MachineID spec) = Inr item"
    and active: "AssignmentForInstallation (w_env w 2) 0 ?d3 (TrimSpace i) = Inr active"
    and checks: "as_MachineID active = m_ID item" "as_InstallationID active = sp_ID spec"
      "AllowsProvision (sv_secureBootPolicy s) (m_SecureBootState item)"
      "PublicBootAllowed (Evaluate (m_Policy item) (as_State active = StateArmed) False)"
    by (auto simp: loadPublicBootContext_def Let_def split: if_splits sum.splits)
  show "d' = ?d3" by (rule d')
  show "authorised s w d i c"
    using InstallationSpec_Inr [OF spec] store_Machine_Inr [OF item] AssignmentForInstallation_Inr [OF active] checks
    by (auto simp: authorised_def c Evaluate_public)
qed

lemma error_status: "rp_Status (writeBootMaterialError err) \<noteq> 200" "rp_Status (writeAPIError n code msg) = n"
  by (simp_all add: writeBootMaterialError_def writeAPIError_def writeJSON_def split: code.split)

lemma boot_script_200:
  assumes "rp_Status (fst (installationBootScript L s w r d)) = 200"
  obtains c where "authorised s w d (rq_PathValue r ''id'') c" "validateRenderableSpec L (pb_Spec c) = None"
  using assms error_status
  by (auto simp: installationBootScript_def RenderBoot_def split: prod.splits sum.splits option.splits
      dest: loadPublicBootContext_Inr)

lemma preseed_200:
  assumes "installationPreseed L s w r d = (resp, d')" "rp_Status resp = 200"
  obtains c a b where "authorised s w d (rq_PathValue r ''id'') c" "RenderSeed L (pb_Spec c) (rq_RequestID r) = Inr b"
    "rp_Body resp = TextBody (sd_Content b)"
    "ConsumeAssignment (w_env w 3) (w_other w 3 (w_other w 2 (w_other w 1 (w_other w 0 d)))) (sp_ID (pb_Spec c)) (rq_RequestID r) ''system:pxe''
       = (Inr a, d')"
proof -
  from assms error_status obtain c d1 b a where
    load: "loadPublicBootContext s w d (rq_PathValue r ''id'') = (Inr c, d1)"
    and b: "RenderSeed L (pb_Spec c) (rq_RequestID r) = Inr b" "rp_Body resp = TextBody (sd_Content b)"
    and a: "ConsumeAssignment (w_env w 3) (w_other w 3 d1) (sp_ID (pb_Spec c)) (rq_RequestID r) ''system:pxe'' = (Inr a, d')"
    by (auto simp: installationPreseed_def ok_content_def split: prod.splits sum.splits)
  from loadPublicBootContext_Inr [OF load] b a show thesis by (intro that [of c b a]) auto
qed

lemma artifact_200:
  assumes "installationArtifact L N s w r d = (resp, d')" "rp_Status resp = 200"
  obtains c a content where "authorised s w d (rq_PathValue r ''id'') c" "ValidateSpec L (pb_Spec c) = None"
    "a \<in> set (sp_Artifacts (pb_Spec c))" "ar_Name a = TrimSpace (rq_PathValue r ''name'')"
    "Load L N a (rq_RequestID r) (sp_ID (pb_Spec c)) = Inr content" "rp_Body resp = TextBody content"
proof -
  define name where "name = TrimSpace (rq_PathValue r ''name'')"
  from assms error_status obtain c d1 a content where
    load: "loadPublicBootContext s w d (rq_PathValue r ''id'') = (Inr c, d1)"
    and valid: "ValidateSpec L (pb_Spec c) = None"
    and a: "List.find (\<lambda>item. ar_Name item = name) (sp_Artifacts (pb_Spec c)) = Some a"
    and content: "Load L N a (rq_RequestID r) (sp_ID (pb_Spec c)) = Inr content" "rp_Body resp = TextBody content"
    unfolding installationArtifact_def installationArtifactByName_def Let_def name_def [symmetric]
    by (simp add: ok_content_def split: prod.splits sum.splits option.splits if_splits) force+
  from loadPublicBootContext_Inr [OF load] valid a content show thesis
    by (intro that [of c a content]) (auto simp: find_Some_iff name_def)
qed

lemma preseed_authorised:
  "rp_Status (fst (installationPreseed L s w r d)) = 200 \<Longrightarrow> \<exists>c. authorised s w d (rq_PathValue r ''id'') c"
  by (cases "installationPreseed L s w r d") (auto elim!: preseed_200)

lemma artifact_pinned:
  assumes "rp_Status (fst (installationArtifact L N s w r d)) = 200"
  shows "\<exists>c a content. authorised s w d (rq_PathValue r ''id'') c \<and> a \<in> set (sp_Artifacts (pb_Spec c)) \<and> pinned L a
        \<and> rp_Body (fst (installationArtifact L N s w r d)) = TextBody content \<and> SHA256 L content = ar_Digest a"
proof -
  obtain resp d' where h: "installationArtifact L N s w r d = (resp, d')" by force
  with assms obtain c a content where c: "authorised s w d (rq_PathValue r ''id'') c" "ValidateSpec L (pb_Spec c) = None"
    "a \<in> set (sp_Artifacts (pb_Spec c))" "Load L N a (rq_RequestID r) (sp_ID (pb_Spec c)) = Inr content" "rp_Body resp = TextBody content"
    by (auto elim: artifact_200)
  moreover have "pinned L a" using c(2,3) by (auto elim: ValidateSpec_artifacts)
  ultimately show ?thesis using h Load_Inr(1) [OF c(4)] by auto
qed

text \<open>C27:
  Boot material leaves the server only under authority. When the boot script, the preseed or an
  artifact of an installation is answered with status 200, the handler has read an armed
  assignment that binds the installation to its machine, the machine is approved for provisioning
  and its Secure Boot state satisfies the policy of the server, whatever other requests did in
  between; an artifact comes from the pinned Debian origin and has the digest the specification pins.
\<close>

theorem boot_material_needs_authority:
  "(rp_Status (fst (installationBootScript L s w r d)) = 200 \<longrightarrow> (\<exists>c. authorised s w d (rq_PathValue r ''id'') c))
 \<and> (rp_Status (fst (installationPreseed L s w r d)) = 200 \<longrightarrow> (\<exists>c. authorised s w d (rq_PathValue r ''id'') c))
 \<and> (rp_Status (fst (installationArtifact L N s w r d)) = 200 \<longrightarrow>
     (\<exists>c a content. authorised s w d (rq_PathValue r ''id'') c \<and> a \<in> set (sp_Artifacts (pb_Spec c)) \<and> pinned L a
        \<and> rp_Body (fst (installationArtifact L N s w r d)) = TextBody content \<and> SHA256 L content = ar_Digest a))"
  using preseed_authorised artifact_pinned by (auto elim!: boot_script_200)

section \<open>One handoff\<close>

text \<open>C28:
  The preseed of an installation is served at most once. After a request for it was answered with
  status 200, no request for the same installation is, as long as the assignment is not deleted:
  not even one that passed the checks of the boot material before, because the consumption it
  needs finds the assignment consumed in every later database of the store.
\<close>

theorem preseed_served_once:
  assumes "installationPreseed L s w r d = (resp, after)" and "rp_Status resp = 200"
    and "db_inv (w_other w 3 (w_other w 2 (w_other w 1 (w_other w 0 d))))" and "clock_ok (w_env w 3)"
    and "successively (store_step L) (after # ds)" and "later_db \<in> set (after # ds)"
    and "\<forall>x \<in> set ds. assignment_state x (TrimSpace (rq_PathValue r ''id'')) \<noteq> None"
    and "TrimSpace (rq_PathValue r' ''id'') = TrimSpace (rq_PathValue r ''id'')" and "\<forall>x. w_other w' 3 x = later_db"
  shows "rp_Status (fst (installationPreseed L s w' r' d')) \<noteq> 200"
proof
  let ?i = "TrimSpace (rq_PathValue r ''id'')"
  let ?d0 = "w_other w 3 (w_other w 2 (w_other w 1 (w_other w 0 d)))"
  from assms(1,2) obtain c a where c: "authorised s w d (rq_PathValue r ''id'') c"
    and a: "ConsumeAssignment (w_env w 3) ?d0 (sp_ID (pb_Spec c)) (rq_RequestID r) ''system:pxe'' = (Inr a, after)"
    by (rule preseed_200)
  have ID: "TrimSpace (sp_ID (pb_Spec c)) = ?i" using c by (simp add: authorised_def Let_def)
  have after: "assignment_state after ?i = Some StateConsumed" "db_inv after"
    using ConsumeAssignment_state(2) [OF assms(3) a, of ?i] ConsumeAssignment_inv [OF assms(4,3)] ID a by (auto simp: prod_eq_iff)
  have later_db: "assignment_state later_db ?i = Some StateConsumed"
  proof (cases "later_db \<in> set ds")
    case True
    show ?thesis
      by (rule assignment_history.run_final [OF assms(5) after(2,1) assms(7) _ True]) (simp add: assignment_step_def)
  next
    case False
    with assms(6) after(1) show ?thesis by simp
  qed
  assume "rp_Status (fst (installationPreseed L s w' r' d')) = 200"
  then obtain c' a' d3 where c': "authorised s w' d' (rq_PathValue r' ''id'') c'"
    and "ConsumeAssignment (w_env w' 3) later_db (sp_ID (pb_Spec c')) (rq_RequestID r') ''system:pxe'' = (Inr a', d3)"
    using assms(9) by (cases "installationPreseed L s w' r' d'") (auto elim: preseed_200)
  from ConsumeAssignment_armed [OF this(2)] have "assignment_state later_db ?i = Some StateArmed"
    using c' assms(8) by (simp add: authorised_def Let_def)
  with later_db show False by simp
qed

section \<open>Discovery\<close>

lemma AppendLifecycleEvent_stored:
  assumes "AppendLifecycleEvent e d r rid = (Inr (v, dup), d')"
  shows "v \<in> set (lifecycle_events d') \<and> le_InstallationID v = r_InstallationID r \<and> le_Stage v = r_Stage r"
proof -
  obtain x where tx: "append_lifecycle_tx e d r rid = Inr ((v, dup), x)" "x = Some d' \<or> x = None \<and> d' = d"
    using assms by (auto simp: AppendLifecycleEvent_def transact_Inr split: if_splits)
  from tx(1) show ?thesis
    using tx(2)
    by (cases rule: append_lifecycle_tx_Inr)
      (auto simp: same_report_def insert_lifecycle_event_def accepted_event_def appendEventTx_def revoke_credentials_def Let_def split: if_splits)
qed

lemma ActiveAssignment_Inr:
  "ActiveAssignmentForMachine e k d m = Inr a \<Longrightarrow>
   a \<in> set (installation_assignments d) \<and> as_State a = StateArmed"
  by (auto simp: ActiveAssignmentForMachine_def result_simps find_Some_iff)

text \<open>What a decision to provision has read.\<close>

lemma assignmentDecision_provision:
  assumes "assignmentDecision s w k d item = (Inr (decision, i, a), d')" "d_Action decision = ActionProvision"
  shows "m_Policy item = PolicyProvision \<and> AllowsProvision (sv_secureBootPolicy s) (m_SecureBootState item)
    \<and> d' = w_other w (k + 1) (w_other w k d)
    \<and> (\<exists>x \<in> set (installation_assignments (w_other w k d)). as_State x = StateArmed \<and> as_MachineID x = m_ID item
         \<and> TrimSpace (as_InstallationID x) = i)
    \<and> (\<exists>y \<in> set (installation_specs d'). sp_ID y = i \<and> sp_MachineID y = m_ID item)"
proof -
  from assms obtain x y where
    "m_Policy item = PolicyProvision" "ActiveAssignmentForMachine (w_env w k) 0 (w_other w k d) (m_ID item) = Inr x"
    "AllowsProvision (sv_secureBootPolicy s) (m_SecureBootState item)" "d' = w_other w (k + 1) (w_other w k d)"
    "InstallationSpec (w_env w (k + 1)) 0 d' (as_InstallationID x) = Inr y" "sp_MachineID y = m_ID item" "as_MachineID x = m_ID item"
    "i = sp_ID y"
    by (auto simp: assignmentDecision_def Let_def split: if_splits sum.splits)
  then show ?thesis
    using ActiveAssignment_Inr InstallationSpec_Inr by metis
qed

text \<open>C29:
  Discovery sends a machine into an installation only when it may. Every answer is a message that
  ends in local boot or an exit, or it chains to the boot script of one installation; then the
  machine is approved for provisioning, its Secure Boot state is allowed, an armed assignment and
  the specification bind the installation to this machine in the databases that were read, and
  the journal of the installation holds its PXE boot.
\<close>

theorem discovery_chains_only_armed:
  "case discoveryIPXE L decode s w r (clients, d) of (resp, clients', d') \<Rightarrow>
     (\<exists>message reason. resp = writeIPXE message reason)
   \<or> (\<exists>ob item created d1 i. DiscoverMachine (w_env w 0) (w_other w 0 d) ob (rq_RequestID r) = (Inr (item, created), d1)
        \<and> m_Policy item = PolicyProvision \<and> AllowsProvision (sv_secureBootPolicy s) (m_SecureBootState item)
        \<and> (\<exists>x \<in> set (installation_assignments (w_other w 1 d1)). as_State x = StateArmed \<and> as_MachineID x = m_ID item
             \<and> TrimSpace (as_InstallationID x) = i)
        \<and> (\<exists>y \<in> set (installation_specs (w_other w 2 (w_other w 1 d1))). sp_ID y = i \<and> sp_MachineID y = m_ID item)
        \<and> (\<exists>v \<in> set (lifecycle_events d'). le_InstallationID v = i \<and> le_Stage v = StagePXEBooted)
        \<and> resp = writeProvisioningChain L r i)"
proof -
  obtain resp clients' d' where run: "discoveryIPXE L decode s w r (clients, d) = (resp, clients', d')" by (metis prod_cases3)
  show ?thesis
  proof (cases "\<exists>message reason. resp = writeIPXE message reason")
    case False
    with run obtain ob v dv x where v: "discover s w d ob (rq_RequestID r) = (Inr v, dv)" "dr_Action v = ActionProvision"
      and rec: "RecordServerLifecycle (w_env w 3) (w_other w 3 dv) (dr_InstallationID v) StagePXEBooted
          (''server:pxe_booted:'' @ dr_InstallationID v) ''PXE bootloader checked in for armed installation'' (rq_RequestID r) = (Inr x, d')"
      and resp: "resp = writeProvisioningChain L r (dr_InstallationID v)"
      by (auto simp: discoveryIPXE_def split: prod.splits bool.splits sum.splits if_splits)
    from v obtain item created d1 decision a where
      disc: "DiscoverMachine (w_env w 0) (w_other w 0 d) ob (rq_RequestID r) = (Inr (item, created), d1)"
      and dec: "assignmentDecision s w 1 d1 item = (Inr (decision, dr_InstallationID v, a), dv)" "d_Action decision = ActionProvision"
      by (auto simp: discover_def split: prod.splits sum.splits)
    obtain e dup where "x = (e, dup)" by force
    with rec have "e \<in> set (lifecycle_events d') \<and> le_InstallationID e = dr_InstallationID v \<and> le_Stage e = StagePXEBooted"
      using AppendLifecycleEvent_stored by (fastforce simp: RecordServerLifecycle_def)
    with assignmentDecision_provision [OF dec, unfolded one_add_one] disc resp show ?thesis
      unfolding run prod.case by blast
  qed (simp add: run)
qed

section \<open>A served preseed\<close>

definition sample_boot_db :: db where
  "sample_boot_db = sample_db\<lparr>installation_specs := [sample_debian_spec]\<rparr>"

lemma sample_boot_db_rows [simp]:
  "installation_specs sample_boot_db = [sample_debian_spec]" "machines sample_boot_db = [sample_machine]"
  "installation_assignments sample_boot_db = [sample_assignment]"
  by (simp_all add: sample_boot_db_def sample_db_def)

lemma sample_debian_spec_ids [simp]: "sp_ID sample_debian_spec = ''i_1''" "sp_MachineID sample_debian_spec = ''m_1''"
  by (simp_all add: sample_debian_spec_def sample_spec_def)

lemma sample_boot_db_inv: "db_inv sample_boot_db"
  by (simp add: sample_boot_db_def sample_db_def db_inv_def empty_db_def mach_inv_def spec_inv_def asg_inv_def cred_inv_def
      life_inv_def log_inv_def key_inv_def chal_inv_def user_inv_def event_inv_def journal_def chunks_of_def
      log_bytes_def sample_machine_def sample_assignment_def sample_key_def sample_user_def
      known_policy_def known_secure_boot_def assignment_Validate_def TrustRequirementCryptographic_def
      ValidateRole_def sample_trim)

definition sample_server :: Server where
  "sample_server = NewWithConfig ''dev'' \<lparr>cf_SecureBootPolicy = PolicyRequired, cf_SecureBootAssetsValid = True\<rparr>"

definition sample_world :: world where
  "sample_world = \<lparr>w_now = 1, w_env = \<lambda>_. sample_env, w_other = \<lambda>_ d. d\<rparr>"

definition sample_request :: request where
  "sample_request = \<lparr>rq_Method = ''GET'', rq_URLPath = ''/'', rq_PathValue = \<lambda>_. ''i_1'', rq_Header = \<lambda>_. [], rq_Host = ''pxe'',
     rq_RemoteAddr = ''h'', rq_Body = [], rq_Form = Inl [], rq_Query = \<lambda>_. [], rq_RequestID = ''req''\<rparr>"

lemma sample_http [simp]: "w_env sample_world k = sample_env" "w_other sample_world k d = d"
  "rq_PathValue sample_request x = ''i_1''" "rq_RequestID sample_request = ''req''"
  by (simp_all add: sample_world_def sample_request_def)

lemma sample_assignment_valid: "assignment_Validate sample_assignment = None"
  using sample_db_inv by (simp add: db_inv_def asg_inv_def sample_db_def)

lemma sample_gate [simp]: "sv_secureBootPolicy sample_server = PolicyRequired" "scanMachine sample_machine = sample_machine"
    "m_SecureBootState sample_machine = StateEnabled" "m_Policy sample_machine = PolicyProvision" "m_ID sample_machine = ''m_1''"
  by (simp_all add: sample_server_def NewWithConfig_def ParsePolicy_def ascii_lower_def in_range_def byte_def sample_trim
      scanMachine_def sample_machine_def)

lemma sample_load:
  "loadPublicBootContext sample_server sample_world sample_boot_db ''i_1'' =
   (Inr \<lparr>pb_Machine = sample_machine, pb_Assignment = sample_assignment, pb_Spec = sample_debian_spec\<rparr>, sample_boot_db)"
  using sample_assignment_valid
  by (simp add: loadPublicBootContext_def sample_trim InstallationSpec_def query_row_def store_Machine_def machineByIDTx_def
      AssignmentForInstallation_def assignmentForInstallationTx_def scanAssignment_def AllowsProvision_def Evaluate_def Let_def)
    (simp add: sample_assignment_def)

lemma sample_consume: "\<exists>a d'. ConsumeAssignment sample_env sample_boot_db ''i_1'' ''req'' ''system:pxe'' = (Inr a, d')"
  using sample_assignment_valid
  by (simp add: ConsumeAssignment_def consume_tx_def request_id_def sample_trim assignmentForInstallationTx_def query_row_def
      scanAssignment_def transact_def Let_def rows_affected_def)
    (simp add: sample_assignment_def)

lemma sample_served: "rp_Status (fst (installationPreseed (sample_lib 0) sample_server sample_world sample_request sample_boot_db)) = 200"
proof -
  obtain b where "RenderSeed (sample_lib 0) sample_debian_spec ''req'' = Inr b" using sample_seed by blast
  moreover obtain a d' where "ConsumeAssignment sample_env sample_boot_db ''i_1'' ''req'' ''system:pxe'' = (Inr a, d')"
    using sample_consume by blast
  ultimately show ?thesis by (simp add: installationPreseed_def sample_load ok_content_def)
qed

theorem boot_material_needs_authority_witness:
  "rp_Status (fst (installationPreseed (sample_lib 0) sample_server sample_world sample_request sample_boot_db)) = 200
   \<and> (\<exists>c. authorised sample_server sample_world sample_boot_db ''i_1'' c)"
  using boot_material_needs_authority [of "sample_lib 0" sample_server sample_world sample_request sample_boot_db] sample_served
  by simp

theorem preseed_served_once_witness:
  "\<exists>d1. rp_Status (fst (installationPreseed (sample_lib 0) sample_server sample_world sample_request d1)) \<noteq> 200
     \<and> d1 = snd (installationPreseed (sample_lib 0) sample_server sample_world sample_request sample_boot_db)"
proof -
  obtain resp d1 where h: "installationPreseed (sample_lib 0) sample_server sample_world sample_request sample_boot_db = (resp, d1)"
    by force
  have "rp_Status (fst (installationPreseed (sample_lib 0) sample_server (sample_world\<lparr>w_other := \<lambda>_ _. d1\<rparr>) sample_request d1)) \<noteq> 200"
    using sample_served h sample_boot_db_inv
    by (intro preseed_served_once [OF h, where ds = "[]" and later_db = d1]) simp_all
  moreover have "installationPreseed (sample_lib 0) sample_server (sample_world\<lparr>w_other := \<lambda>_ _. d1\<rparr>) sample_request d1
      = installationPreseed (sample_lib 0) sample_server sample_world sample_request d1"
    by (simp add: installationPreseed_def loadPublicBootContext_def Let_def split: sum.split prod.split)
  ultimately show ?thesis using h by simp
qed

end
