(* ===== verification/Http_Telemetry.thy ===== *)
theory Http_Telemetry
  imports Http_Provisioning
begin

text \<open>
  The handlers the installer and the reporter talk to (internal/httpapi/telemetry.go,
  reporter_telemetry.go, boot_trust.go): lifecycle events and log chunks, authenticated by the
  credential itself or by a message code, and enrolment, challenge and proof of machine keys.

  Parameters are the JSON decoder of the handler's request type (with the strictness of the code:
  unknown fields are errors) and \<open>parse_time\<close>, time.Parse for RFC 3339 texts. Rejections are
  logged, which is not modelled.
\<close>

section \<open>Requests\<close>

definition maxTelemetryEventBody :: nat where "maxTelemetryEventBody = 32 * 2 ^ 10"
definition maxTelemetryLogBody :: nat where "maxTelemetryLogBody = MaxLogChunkBytes + 32 * 2 ^ 10"

record telemetryEventRequest =
  te_Stage :: Stage
  te_Source :: Source
  te_ClientTime :: string
  te_Message :: string
  te_ErrorCode :: string
  te_Metadata :: metadata

record telemetryLogRequest =
  tl_Sequence :: int
  tl_Source :: Source
  tl_ClientTime :: string
  tl_Content :: string

definition decodeTelemetryJSON :: "'a decoder \<Rightarrow> request \<Rightarrow> nat \<Rightarrow> string + 'a" where
  "decodeTelemetryJSON decode r limit =
     (if content_type r \<noteq> ''application/json'' then Inl ''content type must be application/json''
      else case decode limit (rq_Body r) of
        Inl err \<Rightarrow> Inl err
      | Inr (payload, at_end) \<Rightarrow> if \<not> at_end then Inl ''request must contain exactly one JSON object'' else Inr payload)"

definition decodeStrictBytes :: "'a decoder \<Rightarrow> string \<Rightarrow> string + 'a" where
  "decodeStrictBytes decode body =
     (case decode (length body) body of
        Inl err \<Rightarrow> Inl err
      | Inr (payload, at_end) \<Rightarrow> if \<not> at_end then Inl ''request must contain one JSON object'' else Inr payload)"

definition parseOptionalClientTime :: "(string \<Rightarrow> time option) \<Rightarrow> string \<Rightarrow> time option" where
  "parseOptionalClientTime parse_time v = (if TrimSpace v = [] then Some 0 else parse_time (TrimSpace v))"

definition writeTelemetryError :: "fault \<Rightarrow> response" where
  "writeTelemetryError err =
     writeAPIError (case Code err of InstallationNotFound \<Rightarrow> 404 | InstallerTelemetryInvalid \<Rightarrow> 400
       | InstallerTelemetryConflict \<Rightarrow> 409 | InstallerLogLimitExceeded \<Rightarrow> 413
       | InstallerCredentialRequired \<Rightarrow> 401 | InstallerCredentialInvalid \<Rightarrow> 401 | InstallerCredentialExpired \<Rightarrow> 401
       | StorageFailure \<Rightarrow> 503 | _ \<Rightarrow> 500) (Code err) ''installer telemetry request rejected''"

section \<open>Authentication\<close>

definition bearer_challenge :: "response \<Rightarrow> response" where
  "bearer_challenge resp = resp\<lparr>rp_Headers :=
     (''WWW-Authenticate'', ''Bearer realm='' @ [CHR 0x22] @ ''aegispxe-installer'' @ [CHR 0x22]) # rp_Headers resp\<rparr>"

text \<open>The answer when the request is refused. Store call 0.\<close>

definition authenticateInstallerTelemetry :: "golib \<Rightarrow> world \<Rightarrow> request \<Rightarrow> string \<Rightarrow> db \<Rightarrow> response option \<times> db" where
  "authenticateInstallerTelemetry L w r installationID d =
     (if installationID = [] then (Some (writeAPIError 404 InstallationNotFound ''installation not found''), d)
      else let authorization = TrimSpace (rq_Header r ''Authorization'') in
      if \<not> HasPrefix authorization ''Bearer '' \<or> TrimSpace (TrimPrefix authorization ''Bearer '') = [] then
        (Some (bearer_challenge (writeAPIError 401 InstallerCredentialRequired ''installation-scoped credential required'')), d)
      else case AuthenticateLifecycleCredential L (w_env w 0) (w_other w 0 d) installationID
                  (TrimSpace (TrimPrefix authorization ''Bearer '')) of
        (Inl err, d') \<Rightarrow>
          (Some (bearer_challenge (writeAPIError 401 (Code err) ''installation-scoped credential rejected'')), d')
      | (Inr _, d') \<Rightarrow> (None, d'))"

definition hmac_prefix :: string where "hmac_prefix = ''Aegis-HMAC-SHA256 ''"

definition authenticateReporterBody ::
  "golib \<Rightarrow> world \<Rightarrow> request \<Rightarrow> string \<Rightarrow> string \<Rightarrow> nat \<Rightarrow> db \<Rightarrow> (response + string) \<times> db" where
  "authenticateReporterBody L w r installationID idempotencyKey limit d =
     (if length (rq_Body r) > limit then (Inl (writeAPIError 400 InstallerTelemetryInvalid ''invalid reporter request body''), d)
      else let authorization = TrimSpace (rq_Header r ''Authorization'') in
      if \<not> HasPrefix authorization hmac_prefix then
        (Inl (writeAPIError 401 InstallerCredentialRequired ''HMAC installation authentication required''), d)
      else case ParseInt64 (TrimSpace (rq_Header r ''X-Aegis-Timestamp'')) of
        None \<Rightarrow> (Inl (writeAPIError 401 InstallerCredentialInvalid ''invalid telemetry authentication timestamp''), d)
      | Some timestamp \<Rightarrow>
        if timestamp \<le> 0 then (Inl (writeAPIError 401 InstallerCredentialInvalid ''invalid telemetry authentication timestamp''), d)
        else case VerifyLifecycleMAC L (w_env w 0) (w_other w 0 d) installationID (rq_Method r) (rq_URLPath r)
               idempotencyKey timestamp (rq_Body r) (TrimSpace (TrimPrefix authorization hmac_prefix)) of
          (Inl err, d') \<Rightarrow> (Inl (writeAPIError 401 (Code err) ''reporter telemetry authentication rejected''), d')
        | (Inr _, d') \<Rightarrow> (Inr (rq_Body r), d'))"

section \<open>Events and logs\<close>

text \<open>Store call 1: the append.\<close>

definition event_report :: "string \<Rightarrow> string \<Rightarrow> time \<Rightarrow> telemetryEventRequest \<Rightarrow> Report" where
  "event_report installationID idempotencyKey clientTime payload =
     \<lparr>r_InstallationID = installationID, r_Stage = te_Stage payload, r_Source = te_Source payload, r_ClientAt = clientTime,
      r_IdempotencyKey = idempotencyKey, r_Message = TrimSpace (te_Message payload), r_ErrorCode = TrimSpace (te_ErrorCode payload),
      r_Metadata = te_Metadata payload\<rparr>"

definition append_event :: "world \<Rightarrow> request \<Rightarrow> string \<Rightarrow> string \<Rightarrow> time \<Rightarrow> telemetryEventRequest \<Rightarrow> db \<Rightarrow> response \<times> db" where
  "append_event w r installationID idempotencyKey clientTime payload d =
     (case AppendLifecycleEvent (w_env w 1) (w_other w 1 d) (event_report installationID idempotencyKey clientTime payload) (rq_RequestID r) of
        (Inl err, d') \<Rightarrow> (writeTelemetryError err, d')
      | (Inr (accepted, duplicate), d') \<Rightarrow>
        (writeJSON (if duplicate then 200 else 202) [(''installation_id'', JText installationID), (''sequence'', JInt (le_Sequence accepted)),
           (''stage'', JStage (le_Stage accepted)), (''source'', JSource (le_Source accepted)),
           (''received_at'', JTime (le_ReceivedAt accepted)), (''duplicate'', JBool duplicate)], d'))"

definition log_chunk :: "request \<Rightarrow> string \<Rightarrow> string \<Rightarrow> time \<Rightarrow> telemetryLogRequest \<Rightarrow> LogChunk" where
  "log_chunk r installationID idempotencyKey clientTime payload =
     \<lparr>lg_ID = 0, lg_InstallationID = installationID, lg_Sequence = tl_Sequence payload, lg_Source = tl_Source payload,
      lg_ReceivedAt = 0, lg_ClientAt = clientTime, lg_RequestID = rq_RequestID r, lg_IdempotencyKey = idempotencyKey,
      lg_Content = tl_Content payload, lg_Digest = []\<rparr>"

definition append_log :: "golib \<Rightarrow> world \<Rightarrow> request \<Rightarrow> string \<Rightarrow> string \<Rightarrow> time \<Rightarrow> telemetryLogRequest \<Rightarrow> db \<Rightarrow> response \<times> db" where
  "append_log L w r installationID idempotencyKey clientTime payload d =
     (case AppendInstallationLogChunk L (w_env w 1) (w_other w 1 d) (log_chunk r installationID idempotencyKey clientTime payload) of
        (Inl err, d') \<Rightarrow> (writeTelemetryError err, d')
      | (Inr (accepted, duplicate), d') \<Rightarrow>
        (writeJSON (if duplicate then 200 else 202) [(''installation_id'', JText installationID), (''sequence'', JInt (lg_Sequence accepted)),
           (''source'', JSource (lg_Source accepted)), (''received_at'', JTime (lg_ReceivedAt accepted)),
           (''digest'', JText (lg_Digest accepted)), (''duplicate'', JBool duplicate)], d'))"

definition invalid :: "int \<Rightarrow> string \<Rightarrow> response" where
  "invalid status message = writeAPIError status InstallerTelemetryInvalid message"

definition installationTelemetryEvent ::
  "golib \<Rightarrow> telemetryEventRequest decoder \<Rightarrow> (string \<Rightarrow> time option) \<Rightarrow> world \<Rightarrow> request \<Rightarrow> db \<Rightarrow> response \<times> db" where
  "installationTelemetryEvent L decode parse_time w r d =
     (let installationID = TrimSpace (rq_PathValue r ''id'') in
      case authenticateInstallerTelemetry L w r installationID d of
        (Some resp, d') \<Rightarrow> (resp, d')
      | (None, d') \<Rightarrow>
        let idempotencyKey = TrimSpace (rq_Header r ''Idempotency-Key'') in
        if ValidateIdempotencyKey idempotencyKey \<noteq> None then (invalid 400 ''valid Idempotency-Key header is required'', d')
        else case decodeTelemetryJSON decode r maxTelemetryEventBody of
          Inl _ \<Rightarrow> (invalid 400 ''invalid telemetry event body'', d')
        | Inr payload \<Rightarrow>
          (case parseOptionalClientTime parse_time (te_ClientTime payload) of
             None \<Rightarrow> (invalid 400 ''client_time must be RFC3339 when supplied'', d')
           | Some clientTime \<Rightarrow> append_event w r installationID idempotencyKey clientTime payload d'))"

definition installationTelemetryLog ::
  "golib \<Rightarrow> telemetryLogRequest decoder \<Rightarrow> (string \<Rightarrow> time option) \<Rightarrow> world \<Rightarrow> request \<Rightarrow> db \<Rightarrow> response \<times> db" where
  "installationTelemetryLog L decode parse_time w r d =
     (let installationID = TrimSpace (rq_PathValue r ''id'') in
      case authenticateInstallerTelemetry L w r installationID d of
        (Some resp, d') \<Rightarrow> (resp, d')
      | (None, d') \<Rightarrow>
        let idempotencyKey = TrimSpace (rq_Header r ''Idempotency-Key'') in
        if ValidateIdempotencyKey idempotencyKey \<noteq> None then (invalid 400 ''valid Idempotency-Key header is required'', d')
        else case decodeTelemetryJSON decode r maxTelemetryLogBody of
          Inl _ \<Rightarrow> (invalid 400 ''invalid telemetry log body'', d')
        | Inr payload \<Rightarrow>
          if length (tl_Content payload) > MaxLogChunkBytes then (invalid 413 ''installer log chunk exceeds size limit'', d')
          else case parseOptionalClientTime parse_time (tl_ClientTime payload) of
             None \<Rightarrow> (invalid 400 ''client_time must be RFC3339 when supplied'', d')
           | Some clientTime \<Rightarrow> append_log L w r installationID idempotencyKey clientTime payload d')"

definition reporterTelemetryEvent ::
  "golib \<Rightarrow> telemetryEventRequest decoder \<Rightarrow> (string \<Rightarrow> time option) \<Rightarrow> world \<Rightarrow> request \<Rightarrow> db \<Rightarrow> response \<times> db" where
  "reporterTelemetryEvent L decode parse_time w r d =
     (let installationID = TrimSpace (rq_PathValue r ''id''); idempotencyKey = TrimSpace (rq_Header r ''Idempotency-Key'') in
      if ValidateIdempotencyKey idempotencyKey \<noteq> None then (invalid 400 ''valid Idempotency-Key header is required'', d)
      else case authenticateReporterBody L w r installationID idempotencyKey maxTelemetryEventBody d of
        (Inl resp, d') \<Rightarrow> (resp, d')
      | (Inr body, d') \<Rightarrow>
        (case decodeStrictBytes decode body of
           Inl _ \<Rightarrow> (invalid 400 ''invalid reporter event body'', d')
         | Inr payload \<Rightarrow>
           (case parseOptionalClientTime parse_time (te_ClientTime payload) of
              None \<Rightarrow> (invalid 400 ''client_time must be RFC3339 when supplied'', d')
            | Some clientTime \<Rightarrow> append_event w r installationID idempotencyKey clientTime payload d')))"

definition reporterTelemetryLog ::
  "golib \<Rightarrow> telemetryLogRequest decoder \<Rightarrow> (string \<Rightarrow> time option) \<Rightarrow> world \<Rightarrow> request \<Rightarrow> db \<Rightarrow> response \<times> db" where
  "reporterTelemetryLog L decode parse_time w r d =
     (let installationID = TrimSpace (rq_PathValue r ''id''); idempotencyKey = TrimSpace (rq_Header r ''Idempotency-Key'') in
      if ValidateIdempotencyKey idempotencyKey \<noteq> None then (invalid 400 ''valid Idempotency-Key header is required'', d)
      else case authenticateReporterBody L w r installationID idempotencyKey maxTelemetryLogBody d of
        (Inl resp, d') \<Rightarrow> (resp, d')
      | (Inr body, d') \<Rightarrow>
        (case decodeStrictBytes decode body of
           Inl _ \<Rightarrow> (invalid 400 ''invalid reporter log body'', d')
         | Inr payload \<Rightarrow>
           if length (tl_Content payload) > MaxLogChunkBytes then (invalid 413 ''installer log chunk exceeds size limit'', d')
           else case parseOptionalClientTime parse_time (tl_ClientTime payload) of
              None \<Rightarrow> (invalid 400 ''client_time must be RFC3339 when supplied'', d')
            | Some clientTime \<Rightarrow> append_log L w r installationID idempotencyKey clientTime payload d'))"

section \<open>Machine keys\<close>

definition maxBootTrustBody :: nat where "maxBootTrustBody = 16 * 2 ^ 10"

record bootTrustEnrollRequest =
  be_PublicKeyPEM :: string
  be_EKFingerprint :: string

record bootTrustProveRequest =
  bp_ChallengeID :: string
  bp_Signature :: string

definition writeBootTrustError :: "fault \<Rightarrow> response" where
  "writeBootTrustError err =
     writeAPIError (case Code err of InstallationNotFound \<Rightarrow> 404 | InstallationAssignmentNotFound \<Rightarrow> 404
       | BootTrustKeyInvalid \<Rightarrow> 400 | BootTrustProofInvalid \<Rightarrow> 400 | BootTrustEnrollmentRequired \<Rightarrow> 428
       | BootTrustChallengeExpired \<Rightarrow> 410 | BootTrustReplayRejected \<Rightarrow> 409 | InstallerTelemetryConflict \<Rightarrow> 409
       | StorageFailure \<Rightarrow> 503 | _ \<Rightarrow> 500) (Code err) ''boot trust request rejected''"

definition bootTrustEnroll :: "golib \<Rightarrow> bootTrustEnrollRequest decoder \<Rightarrow> world \<Rightarrow> request \<Rightarrow> db \<Rightarrow> response \<times> db" where
  "bootTrustEnroll L decode w r d =
     (let installationID = TrimSpace (rq_PathValue r ''id'') in
      case decodeTelemetryJSON decode r maxBootTrustBody of
        Inl _ \<Rightarrow> (writeAPIError 400 BootTrustKeyInvalid ''invalid boot trust enrollment'', d)
      | Inr payload \<Rightarrow>
        (case RegisterBootTrustKey L (w_env w 0) (w_other w 0 d) installationID (be_PublicKeyPEM payload) (be_EKFingerprint payload) (rq_RequestID r) of
           (Inl err, d') \<Rightarrow> (writeBootTrustError err, d')
         | (Inr (item, created), d') \<Rightarrow>
           (writeJSON (if created then 202 else 200) [(''installation_id'', JText installationID), (''machine_id'', JText (k_MachineID item)),
              (''fingerprint'', JText (k_Fingerprint item)), (''state'', JKeyState (k_State item)), (''created'', JBool created)], d')))"

definition BootTrustKey :: "env \<Rightarrow> db \<Rightarrow> string \<Rightarrow> string \<Rightarrow> Key result" where
  "BootTrustKey e d machineID fingerprint = bootTrustKeyTx e 0 d machineID fingerprint"

definition bootTrustStatus :: "world \<Rightarrow> request \<Rightarrow> db \<Rightarrow> response \<times> db" where
  "bootTrustStatus w r d0 =
     (let installationID = TrimSpace (rq_PathValue r ''id''); fingerprint = TrimSpace (rq_Query r ''fingerprint'');
          d = w_other w 0 d0 in
      case InstallationSpec (w_env w 0) 0 d installationID of
        Inl err \<Rightarrow> (writeBootTrustError err, d)
      | Inr spec \<Rightarrow>
        let d = w_other w 1 d in
        (case BootTrustKey (w_env w 1) d (sp_MachineID spec) fingerprint of
           Inl err \<Rightarrow>
             if Code err = BootTrustEnrollmentRequired then
               (writeJSON 200 [(''installation_id'', JText installationID), (''machine_id'', JText (sp_MachineID spec)),
                  (''fingerprint'', JText fingerprint), (''state'', JText ''not_enrolled'')], d)
             else (writeBootTrustError err, d)
         | Inr item \<Rightarrow>
             (writeJSON 200 [(''installation_id'', JText installationID), (''machine_id'', JText (sp_MachineID spec)),
                (''fingerprint'', JText (k_Fingerprint item)), (''state'', JKeyState (k_State item)),
                (''approved_at'', JTime (k_ApprovedAt item))], d)))"

text \<open>The challenge request has one field, the fingerprint.\<close>

definition bootTrustChallenge :: "string decoder \<Rightarrow> world \<Rightarrow> request \<Rightarrow> db \<Rightarrow> response \<times> db" where
  "bootTrustChallenge decode w r d =
     (let installationID = TrimSpace (rq_PathValue r ''id'') in
      case decodeTelemetryJSON decode r maxBootTrustBody of
        Inl _ \<Rightarrow> (writeAPIError 400 BootTrustKeyInvalid ''invalid boot trust challenge request'', d)
      | Inr fingerprint \<Rightarrow>
        (case CreateBootTrustChallenge (w_env w 0) (w_other w 0 d) installationID (TrimSpace fingerprint) (rq_RequestID r) of
           (Inl err, d') \<Rightarrow> (writeBootTrustError err, d')
         | (Inr challenge, d') \<Rightarrow>
           (writeJSON 201 [(''challenge_id'', JText (c_ID challenge)), (''installation_id'', JText (c_InstallationID challenge)),
              (''machine_id'', JText (c_MachineID challenge)), (''fingerprint'', JText (c_KeyFingerprint challenge)),
              (''nonce'', JText (RawURL_Encode (c_Nonce challenge))), (''expires_at'', JTime (c_ExpiresAt challenge)),
              (''proof_format'', JText ''AEGISPXE-BOOT-TRUST-V1'')], d')))"

definition bootTrustProve :: "golib \<Rightarrow> bootTrustProveRequest decoder \<Rightarrow> world \<Rightarrow> request \<Rightarrow> db \<Rightarrow> response \<times> db" where
  "bootTrustProve L decode w r d =
     (let installationID = TrimSpace (rq_PathValue r ''id'') in
      case decodeTelemetryJSON decode r maxBootTrustBody of
        Inl _ \<Rightarrow> (writeAPIError 400 BootTrustProofInvalid ''invalid boot trust proof'', d)
      | Inr payload \<Rightarrow>
        (case RawURL_Decode (TrimSpace (bp_Signature payload)) of
           None \<Rightarrow> (writeAPIError 400 BootTrustProofInvalid ''invalid boot trust signature'', d)
         | Some signature \<Rightarrow>
           (case CompleteBootTrustChallenge L (w_env w 0) (w_other w 0 d) installationID (TrimSpace (bp_ChallengeID payload)) signature (rq_RequestID r) of
              (Inl err, d') \<Rightarrow> (writeBootTrustError err, d')
            | (Inr release, d') \<Rightarrow>
              (writeJSON (if rl_Duplicate release then 200 else 201) [(''challenge_id'', JText (rl_ChallengeID release)),
                 (''algorithm'', JText (rl_Algorithm release)), (''ciphertext'', JText (RawURL_Encode (rl_Ciphertext release))),
                 (''credential_expires'', JTime (rl_CredentialExpiry release)), (''duplicate'', JBool (rl_Duplicate release))], d'))))"

end
