(* ===== verification/Reporter_Client.thy ===== *)
theory Reporter_Client
  imports Http_Telemetry
begin

text \<open>
  The reporter's configuration and its client of the server (internal/reporter/config.go,
  client.go, tpm.go). The server is a parameter: it gives a reply to a request, or none when the
  transfer fails, and has a state of its own. The JSON texts are written and read by parameters
  (\<open>codec\<close>), as is the TPM, which signs digests and decrypts with a key of its own.
\<close>

section \<open>Configuration\<close>

record ReporterConfig =
  rc_APIBase :: string
  rc_InstallationID :: string
  rc_MachineID :: string
  rc_AdminUsername :: string

definition config_Validate :: "golib \<Rightarrow> ReporterConfig \<Rightarrow> string option" where
  "config_Validate L c =
     (case lib_url L (TrimSpace (rc_APIBase c)) of
        None \<Rightarrow> Some ''reporter API base is invalid''
      | Some (scheme, host, user) \<Rightarrow>
        (case lib_url_path L (TrimSpace (rc_APIBase c)) of (rawQuery, fragment, escapedPath, path) \<Rightarrow>
         if host = [] \<or> scheme \<noteq> ''http'' \<and> scheme \<noteq> ''https'' \<or> user \<or> rawQuery \<noteq> [] \<or> fragment \<noteq> [] then
           Some ''reporter API base is invalid''
         else if path \<noteq> [] \<and> path \<noteq> ''/'' then Some ''reporter API base must not contain a path''
         else if TrimSpace (rc_InstallationID c) = [] \<or> TrimSpace (rc_MachineID c) = [] then
           Some ''reporter installation and machine IDs are required''
         else if TrimSpace (rc_AdminUsername c) = [] \<or> length (TrimSpace (rc_AdminUsername c)) > 32 then
           Some ''reporter admin username is invalid''
         else None))"

text \<open>The file, if it can be read, and the strict decoder of its text.\<close>

definition LoadConfig :: "golib \<Rightarrow> (string \<Rightarrow> string + ReporterConfig) \<Rightarrow> string option \<Rightarrow> string + ReporterConfig" where
  "LoadConfig L decode content =
     (case content of
        None \<Rightarrow> Inl ''read reporter configuration''
      | Some text_of_file \<Rightarrow>
        (case decode text_of_file of
           Inl err \<Rightarrow> Inl err
         | Inr cfg \<Rightarrow> (case config_Validate L cfg of Some err \<Rightarrow> Inl err | None \<Rightarrow> Inr cfg)))"

definition TrimRight_slash :: "string \<Rightarrow> string" where
  "TrimRight_slash s = rev (dropWhile (\<lambda>c. c = CHR ''/'') (rev s))"

definition endpoint :: "ReporterConfig \<Rightarrow> string \<Rightarrow> string" where
  "endpoint c suff = TrimRight_slash (rc_APIBase c) @ ''/api/v1/installations/'' @ PathEscape (rc_InstallationID c) @ suff"

section \<open>Requests and replies\<close>

record client_request =
  cq_Method :: string
  cq_URL :: string
  cq_Path :: string
  cq_Headers :: "(string \<times> string) list"
  cq_Body :: string

record reply =
  re_Status :: int
  re_Body :: string

type_synonym 's server = "client_request \<Rightarrow> 's \<Rightarrow> reply option \<times> 's"

record enrolled_reply =
  en_Fingerprint :: string
  en_State :: string

record challenge_reply =
  cl_ID :: string
  cl_InstallationID :: string
  cl_MachineID :: string
  cl_Fingerprint :: string
  cl_Nonce :: string

record release_reply =
  re_ChallengeID :: string
  re_Algorithm :: string
  re_Ciphertext :: string
  re_ExpiresAt :: time

record codec =
  cj_event :: "telemetryEventRequest \<Rightarrow> string"
  cj_log :: "telemetryLogRequest \<Rightarrow> string"
  cj_enroll :: "string \<Rightarrow> string"
  cj_challenge :: "string \<Rightarrow> string"
  cj_prove :: "bootTrustProveRequest \<Rightarrow> string"
  dj_error :: "string \<Rightarrow> string \<times> string"
  dj_enrolled :: "string \<Rightarrow> enrolled_reply option"
  dj_challenge :: "string \<Rightarrow> challenge_reply option"
  dj_release :: "string \<Rightarrow> release_reply option"
  format_time :: "time \<Rightarrow> string"

datatype client_error = ErrPendingApproval | ClientError string

definition client_do :: "codec \<Rightarrow> 's server \<Rightarrow> client_request \<Rightarrow> 's \<Rightarrow> (client_error + string) \<times> 's" where
  "client_do C server req st =
     (case server req st of
        (None, st') \<Rightarrow> (Inl (ClientError ''request failed''), st')
      | (Some reply, st') \<Rightarrow>
        let body = take (256 * 2 ^ 10) (re_Body reply) in
        if re_Status reply < 200 \<or> re_Status reply \<ge> 300 then
          (case dj_error C body of (code, message) \<Rightarrow>
            (Inl (ClientError (if code \<noteq> [] then code @ '': '' @ message
               else ''AegisPXE API returned HTTP '' @ FormatInt (re_Status reply))), st'))
        else (Inr body, st'))"

text \<open>The path of the URL, when http.NewRequest accepts it.\<close>

definition new_request :: "golib \<Rightarrow> string \<Rightarrow> string \<Rightarrow> client_request option" where
  "new_request L urlValue body =
     (case lib_url L urlValue of None \<Rightarrow> None
      | Some _ \<Rightarrow> (case lib_url_path L urlValue of (rawQuery, fragment, escapedPath, path) \<Rightarrow>
          Some \<lparr>cq_Method = ''POST'', cq_URL = urlValue, cq_Path = path, cq_Headers = [], cq_Body = body\<rparr>))"

definition postJSON :: "golib \<Rightarrow> codec \<Rightarrow> 's server \<Rightarrow> string \<Rightarrow> string \<Rightarrow> (string \<Rightarrow> 'a option) \<Rightarrow> 's \<Rightarrow> (client_error + 'a) \<times> 's" where
  "postJSON L C server urlValue body decode st =
     (case new_request L urlValue body of
        None \<Rightarrow> (Inl (ClientError ''invalid request''), st)
      | Some req \<Rightarrow>
        (case client_do C server (req\<lparr>cq_Headers := [(''Content-Type'', ''application/json'')]\<rparr>) st of
           (Inl err, st') \<Rightarrow> (Inl err, st')
         | (Inr text_of_reply, st') \<Rightarrow>
           (case decode text_of_reply of None \<Rightarrow> (Inl (ClientError ''invalid reply''), st') | Some v \<Rightarrow> (Inr v, st'))))"

section \<open>Signed telemetry\<close>

definition Unix :: "time \<Rightarrow> int" where
  "Unix t = t div Second - 62135596800"

definition signed_request :: "golib \<Rightarrow> ReporterConfig \<Rightarrow> time \<Rightarrow> string \<Rightarrow> string \<Rightarrow> string \<Rightarrow> string \<Rightarrow> client_error + client_request" where
  "signed_request L cfg now secret idempotencyKey suff body =
     (case new_request L (endpoint cfg suff) body of
        None \<Rightarrow> Inl (ClientError ''invalid request'')
      | Some req \<Rightarrow>
        let timestamp = Unix now in
        (case Canonical L ''POST'' (cq_Path req) idempotencyKey timestamp body of
           Inl err \<Rightarrow> Inl (ClientError err)
         | Inr canonical \<Rightarrow>
           Inr (req\<lparr>cq_Headers := [(''Content-Type'', ''application/json''), (''Idempotency-Key'', idempotencyKey),
             (''X-Aegis-Timestamp'', FormatInt timestamp),
             (''Authorization'', hmac_prefix @ Sign L (KeyFromSecret L secret) canonical)]\<rparr>)))"

definition postSigned :: "golib \<Rightarrow> codec \<Rightarrow> ReporterConfig \<Rightarrow> 's server \<Rightarrow> time \<Rightarrow> string \<Rightarrow> string \<Rightarrow> string \<Rightarrow> string \<Rightarrow> 's
    \<Rightarrow> client_error option \<times> 's" where
  "postSigned L C cfg server now secret idempotencyKey suff body st =
     (case signed_request L cfg now secret idempotencyKey suff body of
        Inl err \<Rightarrow> (Some err, st)
      | Inr req \<Rightarrow> (case client_do C server req st of (Inl err, st') \<Rightarrow> (Some err, st') | (Inr _, st') \<Rightarrow> (None, st')))"

definition event_payload :: "codec \<Rightarrow> Stage \<Rightarrow> Source \<Rightarrow> string \<Rightarrow> string \<Rightarrow> time \<Rightarrow> telemetryEventRequest" where
  "event_payload C stage source message errorCode clientTime =
     \<lparr>te_Stage = stage, te_Source = source, te_ClientTime = (if IsZero clientTime then [] else format_time C clientTime),
      te_Message = TrimSpace message, te_ErrorCode = TrimSpace errorCode, te_Metadata = []\<rparr>"

definition PostEvent :: "golib \<Rightarrow> codec \<Rightarrow> ReporterConfig \<Rightarrow> 's server \<Rightarrow> time \<Rightarrow> string \<Rightarrow> string \<Rightarrow> Stage \<Rightarrow> Source \<Rightarrow> string \<Rightarrow> string
    \<Rightarrow> time \<Rightarrow> 's \<Rightarrow> client_error option \<times> 's" where
  "PostEvent L C cfg server now secret idempotencyKey stage source message errorCode clientTime st =
     postSigned L C cfg server now secret idempotencyKey ''/reporter/events''
       (cj_event C (event_payload C stage source message errorCode clientTime)) st"

definition log_payload :: "codec \<Rightarrow> int \<Rightarrow> Source \<Rightarrow> string \<Rightarrow> time \<Rightarrow> telemetryLogRequest" where
  "log_payload C sequence source content clientTime =
     \<lparr>tl_Sequence = sequence, tl_Source = source, tl_ClientTime = (if IsZero clientTime then [] else format_time C clientTime),
      tl_Content = content\<rparr>"

definition PostLog :: "golib \<Rightarrow> codec \<Rightarrow> ReporterConfig \<Rightarrow> 's server \<Rightarrow> time \<Rightarrow> string \<Rightarrow> string \<Rightarrow> int \<Rightarrow> Source \<Rightarrow> string
    \<Rightarrow> time \<Rightarrow> 's \<Rightarrow> client_error option \<times> 's" where
  "PostLog L C cfg server now secret idempotencyKey sequence source content clientTime st =
     postSigned L C cfg server now secret idempotencyKey ''/reporter/logs''
       (cj_log C (log_payload C sequence source content clientTime)) st"

section \<open>The machine's key\<close>

text \<open>A key of the TPM: what its Sign command gives for a digest and its RSADecrypt command for a text.\<close>

record TPMKey =
  tk_publicKey :: pkix_key
  tk_publicPEM :: string
  tk_fingerprint :: string
  tk_sign :: "string \<Rightarrow> string option"
  tk_decrypt :: "string \<Rightarrow> string option"

definition tpm_Sign :: "golib \<Rightarrow> TPMKey \<Rightarrow> string \<Rightarrow> client_error + string" where
  "tpm_Sign L k message =
     (let digest = lib_sha256 L message in
      case tk_sign k digest of
        None \<Rightarrow> Inl (ClientError ''TPM sign boot trust challenge'')
      | Some signature \<Rightarrow>
        if \<not> lib_rsa_verify L (tk_publicKey k) digest signature then Inl (ClientError ''self-verify TPM signature'')
        else Inr signature)"

definition DecryptLifecycleCredential :: "TPMKey \<Rightarrow> string \<Rightarrow> client_error + string" where
  "DecryptLifecycleCredential k ciphertext =
     (case tk_decrypt k ciphertext of
        None \<Rightarrow> Inl (ClientError ''TPM decrypt lifecycle credential'')
      | Some plaintext \<Rightarrow>
        if length plaintext < 32 \<or> length plaintext > 128 then Inl (ClientError ''decrypted lifecycle credential has invalid length'')
        else Inr plaintext)"

record CredentialMaterial =
  cm_Secret :: string
  cm_Ciphertext :: string
  cm_ExpiresAt :: time
  cm_Fingerprint :: string

text \<open>The three exchanges of AcquireCredential: enrolment, challenge, proof.\<close>

definition enrol_key :: "golib \<Rightarrow> codec \<Rightarrow> ReporterConfig \<Rightarrow> 's server \<Rightarrow> TPMKey \<Rightarrow> 's \<Rightarrow> client_error option \<times> 's" where
  "enrol_key L C cfg server key st =
     (case postJSON L C server (endpoint cfg ''/trust/enroll'') (cj_enroll C (tk_publicPEM key)) (dj_enrolled C) st of
        (Inl err, st') \<Rightarrow> (Some err, st')
      | (Inr enrolled, st') \<Rightarrow>
        if en_Fingerprint enrolled \<noteq> tk_fingerprint key then (Some (ClientError ''server returned a different boot trust fingerprint''), st')
        else if en_State enrolled \<noteq> ''approved'' then (Some ErrPendingApproval, st')
        else (None, st'))"

definition challenge_of_reply :: "challenge_reply \<Rightarrow> string \<Rightarrow> Challenge" where
  "challenge_of_reply c nonce = \<lparr>c_ID = cl_ID c, c_InstallationID = cl_InstallationID c, c_MachineID = cl_MachineID c,
     c_KeyFingerprint = cl_Fingerprint c, c_Nonce = nonce, c_CreatedAt = 0, c_ExpiresAt = 0, c_UsedAt = 0,
     c_ResponseCipher = [], c_CredentialExpiry = 0\<rparr>"

text \<open>The signature over a challenge, which must be bound to this installation, machine and key.\<close>

definition sign_challenge :: "golib \<Rightarrow> ReporterConfig \<Rightarrow> TPMKey \<Rightarrow> challenge_reply \<Rightarrow> client_error + string" where
  "sign_challenge L cfg key challenge =
     (case RawURL_Decode (cl_Nonce challenge) of
        None \<Rightarrow> Inl (ClientError ''decode boot trust challenge'')
      | Some nonce \<Rightarrow>
        (case CanonicalChallenge (challenge_of_reply challenge nonce) of
           Inl err \<Rightarrow> Inl (ClientError err)
         | Inr canonical \<Rightarrow>
           if cl_InstallationID challenge \<noteq> rc_InstallationID cfg \<or> cl_MachineID challenge \<noteq> rc_MachineID cfg
              \<or> cl_Fingerprint challenge \<noteq> tk_fingerprint key then
             Inl (ClientError ''boot trust challenge binding does not match reporter configuration'')
           else tpm_Sign L key canonical))"

definition AcquireCredential :: "golib \<Rightarrow> codec \<Rightarrow> ReporterConfig \<Rightarrow> 's server \<Rightarrow> TPMKey \<Rightarrow> 's \<Rightarrow> (client_error + CredentialMaterial) \<times> 's" where
  "AcquireCredential L C cfg server key st =
     (case enrol_key L C cfg server key st of
        (Some err, st') \<Rightarrow> (Inl err, st')
      | (None, st') \<Rightarrow>
        (case postJSON L C server (endpoint cfg ''/trust/challenge'') (cj_challenge C (tk_fingerprint key)) (dj_challenge C) st' of
           (Inl err, st') \<Rightarrow> (Inl err, st')
         | (Inr challenge, st') \<Rightarrow>
           (case sign_challenge L cfg key challenge of
              Inl err \<Rightarrow> (Inl err, st')
            | Inr signature \<Rightarrow>
              (case postJSON L C server (endpoint cfg ''/trust/prove'')
                      (cj_prove C \<lparr>bp_ChallengeID = cl_ID challenge, bp_Signature = RawURL_Encode signature\<rparr>) (dj_release C) st' of
                 (Inl err, st') \<Rightarrow> (Inl err, st')
               | (Inr release, st') \<Rightarrow>
                 if re_ChallengeID release \<noteq> cl_ID challenge \<or> re_Algorithm release \<noteq> ''RSA-OAEP-SHA256'' then
                   (Inl (ClientError ''server returned an unsupported trust release''), st')
                 else case RawURL_Decode (re_Ciphertext release) of
                   None \<Rightarrow> (Inl (ClientError ''decode encrypted lifecycle credential''), st')
                 | Some ciphertext \<Rightarrow>
                   (case DecryptLifecycleCredential key ciphertext of
                      Inl err \<Rightarrow> (Inl err, st')
                    | Inr secret \<Rightarrow> (Inr \<lparr>cm_Secret = secret, cm_Ciphertext = ciphertext, cm_ExpiresAt = re_ExpiresAt release,
                         cm_Fingerprint = tk_fingerprint key\<rparr>, st'))))))"

end
