(* ===== verification/Reporter_Runtime.thy ===== *)
theory Reporter_Runtime
  imports Reporter_Client
begin

text \<open>
  The reporter inside the installer and at the first boot (internal/reporter/runtime.go, hooks.go,
  finalizer.go). Its state is the content of its files under /run/aegispxe. Labels of \<open>env_io\<close> name
  the file operations of a call in the order of the code. The queue file holds one event in JSON per
  line; a line is an event, blank, or something the decoder refuses. The evidence file holds names
  in any order (Go writes a map). Messages of wrapped library errors are shortened to their prefix.
\<close>

section \<open>Files\<close>

record queuedEvent =
  q_Stage :: Stage
  q_Source :: Source
  q_Message :: string
  q_ErrorCode :: string
  q_ClientTime :: time
  q_IdempotencyKey :: string

datatype queue_line = Entry queuedEvent | Blank | Garbage

datatype file_read = Missing | Unreadable | Content string

datatype evidence_file = NoEvidence | BadEvidence | Evidence "string list"

record runtime =
  rt_queue :: "queue_line list option"
  rt_ciphertext :: "string option"
  rt_offset :: "string option"
  rt_sequence :: "string option"
  rt_evidence :: evidence_file

datatype outcome = Done "string option" | Panic

text \<open>writePrivateFile: the directory, the temporary file, its mode, the renaming.\<close>

definition writePrivateFile :: "env \<Rightarrow> nat \<Rightarrow> 'a \<Rightarrow> 'a \<Rightarrow> string option \<times> 'a" where
  "writePrivateFile e k content old =
     (if \<not> env_io e k then (Some ''create directory'', old)
      else if \<not> env_io e (k + 1) then (Some ''write file'', old)
      else if \<not> env_io e (k + 2) then (Some ''change mode'', old)
      else if \<not> env_io e (k + 3) then (Some ''rename file'', old)
      else (None, content))"

text \<open>
  readIntFile ignores errors: strconv.ParseInt gives 0 for a text that is no number and the nearest
  64-bit integer for one out of range.
\<close>

definition readIntFile :: "string option \<Rightarrow> int" where
  "readIntFile file =
     (case file of None \<Rightarrow> 0
      | Some content \<Rightarrow>
        let s = TrimSpace content; neg = (s \<noteq> [] \<and> hd s = CHR ''-''); ds = (if s \<noteq> [] \<and> hd s \<in> set ''+-'' then tl s else s) in
        if \<not> digits ds then 0
        else if neg then max (- (2 ^ 63)) (- int (decimal ds)) else min (2 ^ 63 - 1) (int (decimal ds)))"

definition writeIntFile :: "env \<Rightarrow> nat \<Rightarrow> int \<Rightarrow> string option \<Rightarrow> string option \<times> string option" where
  "writeIntFile e k v old = writePrivateFile e k (Some (FormatInt v @ [LF])) old"

text \<open>The sum of two 64-bit integers wraps around.\<close>

definition add64 :: "int \<Rightarrow> int \<Rightarrow> int" where
  "add64 a b = (a + b + 2 ^ 63) mod 2 ^ 64 - 2 ^ 63"

definition next_sequence :: "string option \<Rightarrow> int" where
  "next_sequence file = (let sequence = add64 (readIntFile file) 1 in if sequence \<le> 0 then 1 else sequence)"

section \<open>The event queue\<close>

definition validateQueuedEvent :: "queuedEvent \<Rightarrow> string option" where
  "validateQueuedEvent item =
     (if \<not> stage_Valid (q_Stage item) \<or> \<not> source_Valid (q_Source item) \<or> TrimSpace (q_IdempotencyKey item) = [] then
        Some ''invalid reporter lifecycle event''
      else if q_Stage item = StageFailed \<and> q_ErrorCode item = [] then Some ''FAILED reporter event requires an error code''
      else None)"

definition sanitizeKey :: "string \<Rightarrow> string" where
  "sanitizeKey v =
     (let out = filter (\<lambda>c. is_lower c \<or> is_digit c \<or> c \<in> set ''._:-'') (ToLower (TrimSpace v)) in
      if out = [] then ''unknown'' else out)"

definition queued_event :: "time \<Rightarrow> Stage \<Rightarrow> Source \<Rightarrow> string \<Rightarrow> string \<Rightarrow> queuedEvent" where
  "queued_event now stage source message errorCode =
     \<lparr>q_Stage = stage, q_Source = source, q_Message = TrimSpace message, q_ErrorCode = TrimSpace errorCode, q_ClientTime = now,
      q_IdempotencyKey = ''reporter:stage:'' @ ToLower (stage_text stage)
        @ (if stage = StageFailed then '':'' @ sanitizeKey errorCode else [])\<rparr>"

text \<open>When the write fails, a part of the line may have reached the file (operation 4).\<close>

definition QueueEvent :: "env \<Rightarrow> Stage \<Rightarrow> Source \<Rightarrow> string \<Rightarrow> string \<Rightarrow> runtime \<Rightarrow> string option \<times> runtime" where
  "QueueEvent e stage source message errorCode rt =
     (if \<not> env_io e 0 then (Some ''create directory'', rt)
      else let item = queued_event (env_now e) stage source message errorCode in
      case validateQueuedEvent item of
        Some err \<Rightarrow> (Some err, rt)
      | None \<Rightarrow>
        if \<not> env_io e 1 then (Some ''open queue'', rt)
        else let ls = (case rt_queue rt of None \<Rightarrow> [] | Some ls \<Rightarrow> ls) in
        if \<not> env_io e 2 then (Some ''lock queue'', rt\<lparr>rt_queue := Some ls\<rparr>)
        else if \<not> env_io e 3 then (Some ''write queue'', rt\<lparr>rt_queue := Some (if env_io e 4 then ls else ls @ [Garbage])\<rparr>)
        else (None, rt\<lparr>rt_queue := Some (ls @ [Entry item])\<rparr>))"

definition QueueEmpty :: "runtime \<Rightarrow> bool" where
  "QueueEmpty rt \<longleftrightarrow> rt_queue rt = Some []"

section \<open>Evidence of the installer\<close>

record check =
  ck_name :: string
  ck_needle :: string
  ck_stage :: Stage
  ck_message :: string
  ck_errorCode :: string

abbreviation SQ :: string where "SQ \<equiv> [CHR 0x27]"

definition checks :: "check list" where
  "checks =
    [\<lparr>ck_name = ''os-install'', ck_needle = ''Menu item '' @ SQ @ ''bootstrap-base'' @ SQ @ '' selected'', ck_stage = StageOSInstalling,
       ck_message = ''Debian Installer selected bootstrap-base'', ck_errorCode = []\<rparr>,
     \<lparr>ck_name = ''profile'', ck_needle = ''Menu item '' @ SQ @ ''pkgsel'' @ SQ @ '' selected'', ck_stage = StageProfileApplying,
       ck_message = ''Debian Installer selected pkgsel'', ck_errorCode = []\<rparr>,
     \<lparr>ck_name = ''base-failed'', ck_needle = ''Menu item '' @ SQ @ ''bootstrap-base'' @ SQ @ '' failed'', ck_stage = StageFailed,
       ck_message = ''Debian base installation failed'', ck_errorCode = ''INS101_DEBIAN_BASE_INSTALL_FAILED''\<rparr>,
     \<lparr>ck_name = ''profile-failed'', ck_needle = ''Menu item '' @ SQ @ ''pkgsel'' @ SQ @ '' failed'', ck_stage = StageFailed,
       ck_message = ''Debian package/profile installation failed'', ck_errorCode = ''INS102_DEBIAN_PROFILE_INSTALL_FAILED''\<rparr>,
     \<lparr>ck_name = ''bootloader-failed'', ck_needle = ''Menu item '' @ SQ @ ''grub-installer'' @ SQ @ '' failed'', ck_stage = StageFailed,
       ck_message = ''Debian bootloader installation failed'', ck_errorCode = ''INS103_DEBIAN_BOOTLOADER_FAILED''\<rparr>]"

text \<open>The names seen so far; None is the nil map that an unreadable file leaves.\<close>

definition readEvidenceState :: "evidence_file \<Rightarrow> string list option" where
  "readEvidenceState f = (case f of NoEvidence \<Rightarrow> Some [] | BadEvidence \<Rightarrow> None
     | Evidence ls \<Rightarrow> Some (filter (\<lambda>l. l \<noteq> []) (map TrimSpace ls)))"

text \<open>
  The loop over the checks. An assignment to the nil map panics, after the event was queued. Check
  number \<open>n\<close> queues with the environment \<open>es n\<close>.
\<close>

fun evidence_loop :: "(nat \<Rightarrow> env) \<Rightarrow> string \<Rightarrow> nat \<Rightarrow> check list \<Rightarrow> string list option \<Rightarrow> bool \<Rightarrow> runtime
    \<Rightarrow> (outcome + string list option \<times> bool) \<times> runtime" where
  "evidence_loop es content n [] seen changed rt = (Inr (seen, changed), rt)"
| "evidence_loop es content n (c # cs) seen changed rt =
     (if (case seen of None \<Rightarrow> False | Some names \<Rightarrow> ck_name c \<in> set names) \<or> \<not> Contains content (ck_needle c) then
        evidence_loop es content (Suc n) cs seen changed rt
      else case QueueEvent (es n) (ck_stage c) SourceInstaller (ck_message c) (ck_errorCode c) rt of
        (Some err, rt') \<Rightarrow> (Inl (Done (Some err)), rt')
      | (None, rt') \<Rightarrow>
        (case seen of
           None \<Rightarrow> (Inl Panic, rt')
         | Some names \<Rightarrow> evidence_loop es content (Suc n) cs (Some (names @ [ck_name c])) True rt'))"

definition detectNativeInstallerEvidence :: "(nat \<Rightarrow> env) \<Rightarrow> env \<Rightarrow> file_read \<Rightarrow> runtime \<Rightarrow> outcome \<times> runtime" where
  "detectNativeInstallerEvidence es e syslog rt =
     (case syslog of
        Missing \<Rightarrow> (Done None, rt)
      | Unreadable \<Rightarrow> (Done (Some ''read installer log''), rt)
      | Content content \<Rightarrow>
        (case evidence_loop es content 0 checks (readEvidenceState (rt_evidence rt)) False rt of
           (Inl r, rt') \<Rightarrow> (r, rt')
         | (Inr (seen, changed), rt') \<Rightarrow>
           if changed then
             (case writePrivateFile e 0 (Evidence (case seen of None \<Rightarrow> [] | Some names \<Rightarrow> names)) (rt_evidence rt') of
                (err, f) \<Rightarrow> (Done err, rt'\<lparr>rt_evidence := f\<rparr>))
           else (Done None, rt')))"

text \<open>The hook: before the hardening stage, the evidence of the installer is queued. The event uses \<open>es 5\<close>.\<close>

definition QueueHookEvent :: "(nat \<Rightarrow> env) \<Rightarrow> env \<Rightarrow> file_read \<Rightarrow> Stage \<Rightarrow> Source \<Rightarrow> string \<Rightarrow> string \<Rightarrow> runtime \<Rightarrow> outcome \<times> runtime" where
  "QueueHookEvent es e syslog stage source message errorCode rt =
     (case (if stage = StageHardening \<and> source = SourceInstaller then detectNativeInstallerEvidence es e syslog rt else (Done None, rt)) of
        (Done None, rt') \<Rightarrow> (case QueueEvent (es 5) stage source message errorCode rt' of (err, rt'') \<Rightarrow> (Done err, rt''))
      | (r, rt') \<Rightarrow> (r, rt'))"

section \<open>Uploads\<close>

fun decode_queue :: "queue_line list \<Rightarrow> queuedEvent list option" where
  "decode_queue [] = Some []"
| "decode_queue (Blank # ls) = decode_queue ls"
| "decode_queue (Garbage # ls) = None"
| "decode_queue (Entry item # ls) = map_option ((#) item) (decode_queue ls)"

text \<open>The posts in order until one fails: how many succeeded. Post number \<open>n\<close> happens at \<open>clock n\<close>.\<close>

fun post_events :: "(nat \<Rightarrow> queuedEvent \<Rightarrow> 's \<Rightarrow> client_error option \<times> 's) \<Rightarrow> nat \<Rightarrow> queuedEvent list \<Rightarrow> 's \<Rightarrow> nat \<times> 's" where
  "post_events post n [] st = (n, st)"
| "post_events post n (item # items) st =
     (case post n item st of (Some err, st') \<Rightarrow> (n, st') | (None, st') \<Rightarrow> post_events post (Suc n) items st')"

definition post_queued :: "golib \<Rightarrow> codec \<Rightarrow> ReporterConfig \<Rightarrow> 's server \<Rightarrow> (nat \<Rightarrow> time) \<Rightarrow> string \<Rightarrow> nat \<Rightarrow> queuedEvent \<Rightarrow> 's
    \<Rightarrow> client_error option \<times> 's" where
  "post_queued L C cfg server clock secret n item st =
     PostEvent L C cfg server (clock n) secret (q_IdempotencyKey item) (q_Stage item) (q_Source item) (q_Message item) (q_ErrorCode item)
       (q_ClientTime item) st"

text \<open>
  The queue is locked during the upload. When the flush fails, \<open>torn\<close> is what reached the file.
\<close>

definition drainEvents :: "golib \<Rightarrow> codec \<Rightarrow> ReporterConfig \<Rightarrow> 's server \<Rightarrow> (nat \<Rightarrow> time) \<Rightarrow> env \<Rightarrow> queue_line list \<Rightarrow> string
    \<Rightarrow> runtime \<Rightarrow> 's \<Rightarrow> string option \<times> runtime \<times> 's" where
  "drainEvents L C cfg server clock e torn secret rt st =
     (if \<not> env_io e 0 then (Some ''open queue'', rt, st)
      else let ls = (case rt_queue rt of None \<Rightarrow> [] | Some ls \<Rightarrow> ls); rt = rt\<lparr>rt_queue := Some ls\<rparr> in
      if \<not> env_io e 1 then (Some ''lock queue'', rt, st)
      else if \<not> env_io e 2 then (Some ''seek queue'', rt, st)
      else case decode_queue ls of
        None \<Rightarrow> (Some ''decode queued event'', rt, st)
      | Some items \<Rightarrow>
        if \<not> env_io e 3 then (Some ''scan queue'', rt, st)
        else case post_events (post_queued L C cfg server clock secret) 0 items st of (consumed, st') \<Rightarrow>
        if consumed = 0 then (None, rt, st')
        else if \<not> env_io e 4 then (Some ''truncate queue'', rt, st')
        else if \<not> env_io e 5 then (Some ''seek queue'', rt\<lparr>rt_queue := Some []\<rparr>, st')
        else if \<not> env_io e 6 then (Some ''flush queue'', rt\<lparr>rt_queue := Some torn\<rparr>, st')
        else (None, rt\<lparr>rt_queue := Some (map Entry (drop consumed items))\<rparr>, st'))"

definition maxReporterLogRead :: nat where "maxReporterLogRead = 64 * 2 ^ 10"

text \<open>The client time of the chunk is the clock of \<open>e\<close>; the request is signed at \<open>signed\<close>, a later reading.\<close>

definition uploadInstallerLog :: "golib \<Rightarrow> codec \<Rightarrow> ReporterConfig \<Rightarrow> 's server \<Rightarrow> env \<Rightarrow> time \<Rightarrow> file_read \<Rightarrow> string \<Rightarrow> runtime \<Rightarrow> 's
    \<Rightarrow> string option \<times> runtime \<times> 's" where
  "uploadInstallerLog L C cfg server e signed syslog secret rt st =
     (case syslog of
        Missing \<Rightarrow> (None, rt, st)
      | Unreadable \<Rightarrow> (Some ''open installer log'', rt, st)
      | Content content \<Rightarrow>
        let offset = readIntFile (rt_offset rt) in
        if offset < 0 then (Some ''seek installer log'', rt, st)
        else if \<not> env_io e 0 then (Some ''read installer log'', rt, st)
        else let chunk = take maxReporterLogRead (drop (nat offset) content) in
        if chunk = [] then (None, rt, st)
        else let sequence = next_sequence (rt_sequence rt) in
        case PostLog L C cfg server signed secret (''reporter:log:'' @ FormatInt sequence) sequence SourceInstaller chunk (env_now e) st of
          (Some err, st') \<Rightarrow> (Some ''post installer log'', rt, st')
        | (None, st') \<Rightarrow>
          (case writeIntFile e 1 (add64 offset (int (length chunk))) (rt_offset rt) of
             (Some err, f) \<Rightarrow> (Some err, rt\<lparr>rt_offset := f\<rparr>, st')
           | (None, f) \<Rightarrow>
             let rt = rt\<lparr>rt_offset := f\<rparr> in
             (case writeIntFile e 5 sequence (rt_sequence rt) of (err, f) \<Rightarrow> (err, rt\<lparr>rt_sequence := f\<rparr>, st'))))"

section \<open>The daemon\<close>

text \<open>What one round of the daemon meets: clocks, file outcomes and the installer's log.\<close>

record tick_input =
  ti_envs :: "nat \<Rightarrow> env"
  ti_evidence :: env
  ti_drain :: env
  ti_clock :: "nat \<Rightarrow> time"
  ti_torn :: "queue_line list"
  ti_upload :: env
  ti_signed :: time
  ti_syslog :: file_read

text \<open>One round: evidence, events, log. Errors are written to the standard error output; a panic ends the process.\<close>

definition daemon_round :: "golib \<Rightarrow> codec \<Rightarrow> ReporterConfig \<Rightarrow> 's server \<Rightarrow> string \<Rightarrow> tick_input \<Rightarrow> runtime \<Rightarrow> 's \<Rightarrow> bool \<times> runtime \<times> 's" where
  "daemon_round L C cfg server secret ti rt st =
     (case detectNativeInstallerEvidence (ti_envs ti) (ti_evidence ti) (ti_syslog ti) rt of
        (Panic, rt) \<Rightarrow> (False, rt, st)
      | (Done _, rt) \<Rightarrow>
        (case drainEvents L C cfg server (ti_clock ti) (ti_drain ti) (ti_torn ti) secret rt st of (_, rt, st) \<Rightarrow>
         (case uploadInstallerLog L C cfg server (ti_upload ti) (ti_signed ti) (ti_syslog ti) secret rt st of (_, rt, st) \<Rightarrow> (True, rt, st))))"

text \<open>The loops end when the context is done; \<open>stop n\<close> says so after round \<open>n\<close>.\<close>

partial_function (option) acquire_loop :: "golib \<Rightarrow> codec \<Rightarrow> ReporterConfig \<Rightarrow> 's server \<Rightarrow> TPMKey \<Rightarrow> (nat \<Rightarrow> bool) \<Rightarrow> nat \<Rightarrow> 's
    \<Rightarrow> (CredentialMaterial option \<times> 's) option" where
  "acquire_loop L C cfg server key stop n st =
     (case AcquireCredential L C cfg server key st of
        (Inr material, st') \<Rightarrow> Some (Some material, st')
      | (Inl err, st') \<Rightarrow> if stop n then Some (None, st') else acquire_loop L C cfg server key stop (Suc n) st')"

partial_function (option) daemon_loop :: "golib \<Rightarrow> codec \<Rightarrow> ReporterConfig \<Rightarrow> 's server \<Rightarrow> string \<Rightarrow> (nat \<Rightarrow> tick_input) \<Rightarrow> (nat \<Rightarrow> bool) \<Rightarrow> nat
    \<Rightarrow> runtime \<Rightarrow> 's \<Rightarrow> (outcome \<times> runtime \<times> 's) option" where
  "daemon_loop L C cfg server secret ti stop n rt st =
     (case daemon_round L C cfg server secret (ti n) rt st of (alive, rt', st') \<Rightarrow>
        if \<not> alive then Some (Panic, rt', st')
        else if stop n then Some (Done (Some ''context canceled''), rt', st')
        else daemon_loop L C cfg server secret ti stop (Suc n) rt' st')"

definition RunDaemon :: "golib \<Rightarrow> codec \<Rightarrow> ReporterConfig \<Rightarrow> 's server \<Rightarrow> TPMKey option \<Rightarrow> env \<Rightarrow> env \<Rightarrow> (nat \<Rightarrow> bool) \<Rightarrow> (nat \<Rightarrow> tick_input)
    \<Rightarrow> (nat \<Rightarrow> bool) \<Rightarrow> runtime \<Rightarrow> 's \<Rightarrow> (outcome \<times> runtime \<times> 's) option" where
  "RunDaemon L C cfg server tpm e e' stop0 ti stop rt st =
     (if \<not> env_io e 8 then Some (Done (Some ''create directory''), rt, st)
      else case tpm of
        None \<Rightarrow>
          (case QueueEvent e StageFailed SourceInstaller ''TPM 2.0 boot trust unavailable'' ''SEC019_BOOT_TRUST_KEY_INVALID'' rt of (_, rt') \<Rightarrow>
             Some (Done (Some ''no TPM 2.0 device found''), rt', st))
      | Some key \<Rightarrow>
          (case acquire_loop L C cfg server key stop0 0 st of
             None \<Rightarrow> None
           | Some (None, st') \<Rightarrow> Some (Done (Some ''context canceled''), rt, st')
           | Some (Some material, st') \<Rightarrow>
             (case writePrivateFile e' 0 (Some (cm_Ciphertext material)) (rt_ciphertext rt) of
                (Some err, f) \<Rightarrow> Some (Done (Some err), rt\<lparr>rt_ciphertext := f\<rparr>, st')
              | (None, f) \<Rightarrow> daemon_loop L C cfg server (cm_Secret material) ti stop 0 (rt\<lparr>rt_ciphertext := f\<rparr>) st')))"

section \<open>The hand-over to the first boot\<close>

text \<open>
  Poll number \<open>n\<close> reads the file as \<open>file n\<close> and the clock as \<open>clock n\<close>; \<open>stop n\<close> says whether the
  context is done in the second that follows. The result comes with the number of polls.
\<close>

partial_function (option) wait_loop :: "(nat \<Rightarrow> string option) \<Rightarrow> (nat \<Rightarrow> time) \<Rightarrow> (nat \<Rightarrow> bool) \<Rightarrow> time \<Rightarrow> nat \<Rightarrow> ((string + string) \<times> nat) option" where
  "wait_loop file clock stop deadline n =
     (case file n of
        Some content \<Rightarrow>
          if content \<noteq> [] then Some (Inr content, Suc n)
          else if clock n > deadline then Some (Inl ''timed out waiting for operator-approved TPM boot trust'', Suc n)
          else if stop n then Some (Inl ''context canceled'', Suc n) else wait_loop file clock stop deadline (Suc n)
      | None \<Rightarrow>
          if clock n > deadline then Some (Inl ''timed out waiting for operator-approved TPM boot trust'', Suc n)
          else if stop n then Some (Inl ''context canceled'', Suc n) else wait_loop file clock stop deadline (Suc n))"

definition WaitForCredentialCiphertext :: "(nat \<Rightarrow> string option) \<Rightarrow> (nat \<Rightarrow> time) \<Rightarrow> (nat \<Rightarrow> bool) \<Rightarrow> time \<Rightarrow> int \<Rightarrow> ((string + string) \<times> nat) option" where
  "WaitForCredentialCiphertext file clock stop now timeout = wait_loop file clock stop (now + timeout) 0"

text \<open>The wait for an empty queue: whether the context was done.\<close>

partial_function (option) drain_wait :: "(nat \<Rightarrow> bool) \<Rightarrow> (nat \<Rightarrow> time) \<Rightarrow> (nat \<Rightarrow> bool) \<Rightarrow> time \<Rightarrow> nat \<Rightarrow> (bool \<times> nat) option" where
  "drain_wait drained clock stop deadline n =
     (if drained n \<or> \<not> clock n < deadline then Some (False, n)
      else if stop n then Some (True, n)
      else drain_wait drained clock stop deadline (Suc n))"

text \<open>filepath.Clean of an absolute path.\<close>

definition clean_step :: "string \<Rightarrow> string list \<Rightarrow> string list" where
  "clean_step part parts = (if part = [] \<or> part = ''.'' then parts else if part = ''..'' then tl parts else part # parts)"

definition clean_absolute :: "string \<Rightarrow> string" where
  "clean_absolute path = ''/'' @ join_with ''/'' (rev (fold clean_step (split_on (CHR ''/'') path) []))"

text \<open>The files of the target system; a file is written under a temporary name and renamed.\<close>

record target_files =
  tg_reporter :: bool
  tg_config :: "ReporterConfig option"
  tg_ciphertext :: "string option"
  tg_sequence :: "string option"
  tg_unit :: bool
  tg_enabled :: bool

definition writeTargetFile :: "env \<Rightarrow> nat \<Rightarrow> 'a \<Rightarrow> 'a \<Rightarrow> string option \<times> 'a" where
  "writeTargetFile e k content old =
     (if \<not> env_io e k then (Some ''create directory'', old)
      else if \<not> env_io e (k + 1) then (Some ''write file'', old)
      else if \<not> env_io e (k + 2) then (Some ''change mode'', old)
      else if \<not> env_io e (k + 3) then (Some ''rename file'', old)
      else (None, content))"

text \<open>Opening the source, the directory, the temporary file, the copy, its close, its mode and the renaming.\<close>

definition copyFile :: "env \<Rightarrow> nat \<Rightarrow> bool \<Rightarrow> string option \<times> bool" where
  "copyFile e k old = (if list_all (\<lambda>i. env_io e (k + i)) [0..<7] then (None, True) else (Some ''install first-boot reporter'', old))"

definition install_files :: "env \<Rightarrow> ReporterConfig \<Rightarrow> runtime \<Rightarrow> target_files \<Rightarrow> string option \<times> target_files" where
  "install_files e cfg rt tg =
     (if \<not> env_io e 0 then (Some ''find executable'', tg)
      else case copyFile e 1 (tg_reporter tg) of (Some err, f) \<Rightarrow> (Some err, tg\<lparr>tg_reporter := f\<rparr>) | (None, f) \<Rightarrow>
      let tg = tg\<lparr>tg_reporter := f\<rparr> in
      case writeTargetFile e 8 (Some cfg) (tg_config tg) of (Some err, f) \<Rightarrow> (Some err, tg\<lparr>tg_config := f\<rparr>) | (None, f) \<Rightarrow>
      let tg = tg\<lparr>tg_config := f\<rparr> in
      case rt_ciphertext rt of None \<Rightarrow> (Some ''read encrypted lifecycle credential'', tg) | Some ciphertext \<Rightarrow>
      (case writeTargetFile e 12 (Some ciphertext) (tg_ciphertext tg) of (Some err, f) \<Rightarrow> (Some err, tg\<lparr>tg_ciphertext := f\<rparr>) | (None, f) \<Rightarrow>
      let tg = tg\<lparr>tg_ciphertext := f\<rparr> in
      case (case rt_sequence rt of None \<Rightarrow> (None, tg_sequence tg)
            | Some sequence \<Rightarrow> if sequence = [] then (None, tg_sequence tg) else writeTargetFile e 16 (Some sequence) (tg_sequence tg)) of
        (Some err, f) \<Rightarrow> (Some err, tg\<lparr>tg_sequence := f\<rparr>)
      | (None, f) \<Rightarrow>
        let tg = tg\<lparr>tg_sequence := f\<rparr> in
        (case writeTargetFile e 20 True (tg_unit tg) of (Some err, f) \<Rightarrow> (Some err, tg\<lparr>tg_unit := f\<rparr>) | (None, f) \<Rightarrow>
         let tg = tg\<lparr>tg_unit := f\<rparr> in
         if \<not> env_io e 24 then (Some ''create directory'', tg)
         else if \<not> env_io e 25 then (Some ''create link'', tg\<lparr>tg_enabled := False\<rparr>)
         else (None, tg\<lparr>tg_enabled := True\<rparr>))))"

text \<open>
  The waits: for the encrypted credential (fifteen minutes from \<open>start\<close>) and for the queue (two
  minutes from \<open>start'\<close>), with the state \<open>rt\<close> of the files after them.
\<close>

definition InstallFirstBoot :: "env \<Rightarrow> ReporterConfig \<Rightarrow> string \<Rightarrow> (nat \<Rightarrow> string option) \<Rightarrow> (nat \<Rightarrow> time) \<Rightarrow> (nat \<Rightarrow> bool) \<Rightarrow> time
    \<Rightarrow> (nat \<Rightarrow> bool) \<Rightarrow> (nat \<Rightarrow> time) \<Rightarrow> (nat \<Rightarrow> bool) \<Rightarrow> time \<Rightarrow> runtime \<Rightarrow> target_files \<Rightarrow> (string option \<times> target_files) option" where
  "InstallFirstBoot e cfg target0 file clock stop start drained clock' stop' start' rt tg =
     (if \<not> HasPrefix (TrimSpace target0) ''/'' \<or> clean_absolute (TrimSpace target0) = ''/'' then
        Some (Some ''first-boot target must be an absolute non-root installation path'', tg)
      else case WaitForCredentialCiphertext file clock stop start (15 * Minute) of
        None \<Rightarrow> None
      | Some (Inl err, _) \<Rightarrow> Some (Some err, tg)
      | Some (Inr _, _) \<Rightarrow>
        (case drain_wait drained clock' stop' (start' + 2 * Minute) 0 of
           None \<Rightarrow> None
         | Some (True, _) \<Rightarrow> Some (Some ''context canceled'', tg)
         | Some (False, _) \<Rightarrow>
           if \<not> QueueEmpty rt then Some (Some ''reporter lifecycle queue did not drain before first-boot handoff'', tg)
           else Some (install_files e cfg rt tg)))"

section \<open>The first boot\<close>

text \<open>What the validation finds: /etc/passwd, authorized_keys (regular, size, permissions), the SSH configuration, sshd -t, the sudo policy.\<close>

record installed_system =
  is_passwd :: "string option"
  is_authorized :: "(bool \<times> nat \<times> nat) option"
  is_sshd_config :: "bool option"
  is_sshd_test :: "bool \<times> bool"
  is_sudoers :: bool

definition fail :: "string \<Rightarrow> string \<Rightarrow> string \<times> string option" where
  "fail log message = (log @ ''FAIL '' @ message @ [LF], Some message)"

definition validateInstalledSystem :: "ReporterConfig \<Rightarrow> installed_system \<Rightarrow> string \<times> string option" where
  "validateInstalledSystem cfg sys =
     (case is_passwd sys of
        None \<Rightarrow> fail [] ''could not read /etc/passwd''
      | Some passwd \<Rightarrow>
        if \<not> list_ex (\<lambda>line. HasPrefix line (rc_AdminUsername cfg @ '':'')) (split_on LF passwd) then
          fail [] ''configured administrator account is missing''
        else let log = ''PASS administrator account exists'' @ [LF] in
        case is_authorized sys of
          None \<Rightarrow> fail log ''administrator authorized_keys is missing or empty''
        | Some (regular, bytes, perm) \<Rightarrow>
          if \<not> regular \<or> bytes = 0 then fail log ''administrator authorized_keys is missing or empty''
          else if perm mod 0x40 \<noteq> 0 then fail log ''administrator authorized_keys permissions are too broad''
          else let log = log @ ''PASS administrator SSH authorized_keys exists with restricted permissions'' @ [LF] in
          if is_sshd_config sys \<noteq> Some True then fail log ''AegisPXE SSH hardening configuration is missing''
          else let log = log @ ''PASS SSH hardening configuration exists'' @ [LF] in
          if \<not> fst (is_sshd_test sys) then
            (log @ ''FAIL sshd -t failed'' @ [LF] @ (if snd (is_sshd_test sys) then ''sshd reported configuration errors'' @ [LF] else []),
             Some ''OpenSSH configuration validation failed'')
          else let log = log @ ''PASS sshd -t'' @ [LF] in
          if \<not> is_sudoers sys then fail log ''AegisPXE sudo policy is missing''
          else (log @ ''PASS AegisPXE sudo policy exists'' @ [LF], None))"

text \<open>The state at the first boot: the encrypted credential and the number of the last log chunk.\<close>

record first_boot =
  fb_ciphertext :: "string option"
  fb_sequence :: "string option"

definition postFirstBootLog :: "golib \<Rightarrow> codec \<Rightarrow> ReporterConfig \<Rightarrow> 's server \<Rightarrow> env \<Rightarrow> time \<Rightarrow> string \<Rightarrow> string \<Rightarrow> first_boot \<Rightarrow> 's
    \<Rightarrow> string option \<times> first_boot \<times> 's" where
  "postFirstBootLog L C cfg server e signed secret content fb st =
     (let sequence = next_sequence (fb_sequence fb) in
      case PostLog L C cfg server signed secret (''reporter:firstboot-log:'' @ FormatInt sequence) sequence SourceValidator content (env_now e) st of
        (Some err, st') \<Rightarrow> (Some ''post first-boot log'', fb, st')
      | (None, st') \<Rightarrow>
        (case writeIntFile e 0 sequence (fb_sequence fb) of (err, f) \<Rightarrow> (err, fb\<lparr>fb_sequence := f\<rparr>, st')))"

text \<open>
  Step \<open>n\<close> of the first boot has the environment \<open>es n\<close>, whose clock gives the client time of a post;
  the request is signed with the clock of \<open>es (n + 10)\<close>, a second reading. \<open>env_io (es 5) 0\<close> is the
  removal of the credential. The last report, after the log was taken:
\<close>

definition final_report :: "golib \<Rightarrow> codec \<Rightarrow> ReporterConfig \<Rightarrow> 's server \<Rightarrow> (nat \<Rightarrow> env) \<Rightarrow> string \<Rightarrow> string option \<Rightarrow> first_boot \<Rightarrow> 's
    \<Rightarrow> string option \<times> first_boot \<times> 's" where
  "final_report L C cfg server es secret validationErr fb st =
     (case validationErr of
        Some message \<Rightarrow>
          (case PostEvent L C cfg server (env_now (es 13)) secret ''reporter:failed:firstboot-validation'' StageFailed SourceValidator
                  message ''VAL001_FIRST_BOOT_VALIDATION_FAILED'' (env_now (es 3)) st of
             (Some err, st) \<Rightarrow> (Some ''post failure'', fb, st)
           | (None, st) \<Rightarrow> (Some message, if env_io (es 5) 0 then fb\<lparr>fb_ciphertext := None\<rparr> else fb, st))
      | None \<Rightarrow>
          (case PostEvent L C cfg server (env_now (es 14)) secret ''reporter:success'' StageSuccess SourceValidator
                  ''AegisPXE first-boot validation completed successfully'' [] (env_now (es 4)) st of
             (Some err, st) \<Rightarrow> (Some ''post success'', fb, st)
           | (None, st) \<Rightarrow>
             if env_io (es 5) 0 then (None, fb\<lparr>fb_ciphertext := None\<rparr>, st) else (Some ''remove credential'', fb, st)))"

definition RunFirstBoot :: "golib \<Rightarrow> codec \<Rightarrow> ReporterConfig \<Rightarrow> 's server \<Rightarrow> TPMKey option \<Rightarrow> (nat \<Rightarrow> env) \<Rightarrow> installed_system
    \<Rightarrow> first_boot \<Rightarrow> 's \<Rightarrow> string option \<times> first_boot \<times> 's" where
  "RunFirstBoot L C cfg server tpm es sys fb st =
     (case fb_ciphertext fb of
        None \<Rightarrow> (Some ''read first-boot credential ciphertext'', fb, st)
      | Some ciphertext \<Rightarrow>
        (case tpm of
           None \<Rightarrow> (Some ''open TPM reporter key at first boot'', fb, st)
         | Some key \<Rightarrow>
           (case DecryptLifecycleCredential key ciphertext of
              Inl err \<Rightarrow> (Some ''decrypt lifecycle credential'', fb, st)
            | Inr secret \<Rightarrow>
              (case PostEvent L C cfg server (env_now (es 10)) secret ''reporter:first-boot'' StageFirstBoot SourceFinalizer
                      ''Installed operating system reached first boot'' [] (env_now (es 0)) st of
                 (Some err, st) \<Rightarrow> (Some ''post first boot'', fb, st)
               | (None, st) \<Rightarrow>
                 (case PostEvent L C cfg server (env_now (es 11)) secret ''reporter:validating'' StageValidating SourceValidator
                         ''AegisPXE first-boot validation started'' [] (env_now (es 1)) st of
                    (Some err, st) \<Rightarrow> (Some ''post validation'', fb, st)
                  | (None, st) \<Rightarrow>
                    (case validateInstalledSystem cfg sys of (log, validationErr) \<Rightarrow>
                     (case postFirstBootLog L C cfg server (es 2) (env_now (es 12)) secret log fb st of
                        (Some err, fb, st) \<Rightarrow> (Some err, fb, st)
                      | (None, fb, st) \<Rightarrow>
                        final_report L C cfg server es secret validationErr fb st)))))))"

end
