(* ===== verification/Http_Telemetry_Properties.thy ===== *)
theory Http_Telemetry_Properties
  imports Http_Telemetry Http_Properties
begin

text \<open>
  Telemetry reaches the database only with the credential of its installation.
\<close>

definition success :: "response \<Rightarrow> bool" where
  "success resp \<longleftrightarrow> rp_Status resp \<in> {200, 201, 202}"

lemma refusals [simp]: "\<not> success (writeTelemetryError err)" "\<not> success (invalid 400 msg)" "\<not> success (invalid 413 msg)"
    "\<not> success (writeBootTrustError err)"
    "success (writeAPIError n code msg) \<longleftrightarrow> n \<in> {200, 201, 202}" "success (bearer_challenge resp) \<longleftrightarrow> success resp"
  by (simp_all add: success_def writeTelemetryError_def writeBootTrustError_def invalid_def writeAPIError_def writeJSON_def bearer_challenge_def
      split: code.split)

text \<open>A credential of the installation that is active, in the database the authentication sees.\<close>

definition live_credential :: "time \<Rightarrow> db \<Rightarrow> string \<Rightarrow> CredentialRow \<Rightarrow> bool" where
  "live_credential now d i c \<longleftrightarrow> c \<in> set (lifecycle_credentials d) \<and> lc_InstallationID c = i \<and> now < lc_ExpiresAt c
     \<and> (lc_RevokedAt c = None \<or> lc_RevokedAt c = Some 0)"

text \<open>The two ways to authenticate a request for an installation: to present the secret, or to sign the request with it.\<close>

definition presents_secret :: "golib \<Rightarrow> request \<Rightarrow> CredentialRow \<Rightarrow> bool" where
  "presents_secret L r c \<longleftrightarrow> HasPrefix (TrimSpace (rq_Header r ''Authorization'')) ''Bearer ''
     \<and> lc_SecretSHA256 c = lib_sha256 L (TrimSpace (TrimPrefix (TrimSpace (rq_Header r ''Authorization'')) ''Bearer ''))"

definition signs_request :: "golib \<Rightarrow> request \<Rightarrow> CredentialRow \<Rightarrow> bool" where
  "signs_request L r c \<longleftrightarrow> (\<exists>timestamp canonical. HasPrefix (TrimSpace (rq_Header r ''Authorization'')) hmac_prefix
     \<and> ParseInt64 (TrimSpace (rq_Header r ''X-Aegis-Timestamp'')) = Some timestamp
     \<and> Canonical L (rq_Method r) (rq_URLPath r) (TrimSpace (rq_Header r ''Idempotency-Key'')) timestamp (rq_Body r) = Inr canonical
     \<and> RawURL_Decode (TrimSpace (TrimPrefix (TrimSpace (rq_Header r ''Authorization'')) hmac_prefix)) = Some (lib_hmac L (lc_SecretSHA256 c) canonical))"

lemma installer_authenticated:
  assumes "authenticateInstallerTelemetry L w r i d = (None, d')"
  shows "i \<noteq> [] \<and> (\<exists>c. live_credential (env_now (w_env w 0)) (w_other w 0 d) (TrimSpace i) c \<and> presents_secret L r c)"
  using assms
  by (auto simp: authenticateInstallerTelemetry_def live_credential_def presents_secret_def Let_def split: if_splits sum.splits prod.splits
      dest!: AuthenticateLifecycleCredential_Inr)

lemma installer_refused: "authenticateInstallerTelemetry L w r i d = (Some resp, d') \<Longrightarrow> \<not> success resp"
  by (auto simp: authenticateInstallerTelemetry_def Let_def split: if_splits sum.splits prod.splits)

lemma reporter_authenticated:
  assumes "authenticateReporterBody L w r i (TrimSpace (rq_Header r ''Idempotency-Key'')) limit d = (Inr body, d')"
  shows "body = rq_Body r \<and> length body \<le> limit
    \<and> (\<exists>c. live_credential (env_now (w_env w 0)) (w_other w 0 d) (TrimSpace i) c \<and> signs_request L r c)"
proof -
  let ?sig = "TrimSpace (TrimPrefix (TrimSpace (rq_Header r ''Authorization'')) hmac_prefix)"
  from assms obtain t where 1: "body = rq_Body r" "length body \<le> limit" "HasPrefix (TrimSpace (rq_Header r ''Authorization'')) hmac_prefix"
      "ParseInt64 (TrimSpace (rq_Header r ''X-Aegis-Timestamp'')) = Some t"
      "VerifyLifecycleMAC L (w_env w 0) (w_other w 0 d) i (rq_Method r) (rq_URLPath r) (TrimSpace (rq_Header r ''Idempotency-Key'')) t
         (rq_Body r) ?sig = (Inr (), d')"
    by (auto simp: authenticateReporterBody_def Let_def split: if_splits sum.splits prod.splits option.splits)
  from 1(5) show ?thesis
    by (rule VerifyLifecycleMAC_Inr) (use 1 in \<open>auto simp: live_credential_def signs_request_def\<close>)
qed

lemma reporter_refused: "authenticateReporterBody L w r i k limit d = (Inl resp, d') \<Longrightarrow> \<not> success resp"
  by (auto simp: authenticateReporterBody_def Let_def split: if_splits sum.splits prod.splits option.splits)

text \<open>What a handler has stored when it answers with success.\<close>

definition stored_event :: "world \<Rightarrow> request \<Rightarrow> db \<Rightarrow> bool" where
  "stored_event w r d' \<longleftrightarrow> (\<exists>d report event dup. AppendLifecycleEvent (w_env w 1) d report (rq_RequestID r) = (Inr (event, dup), d')
     \<and> r_InstallationID report = TrimSpace (rq_PathValue r ''id'')
     \<and> r_IdempotencyKey report = TrimSpace (rq_Header r ''Idempotency-Key''))"

definition stored_log :: "golib \<Rightarrow> world \<Rightarrow> request \<Rightarrow> db \<Rightarrow> bool" where
  "stored_log L w r d' \<longleftrightarrow> (\<exists>d chunk stored dup. AppendInstallationLogChunk L (w_env w 1) d chunk = (Inr (stored, dup), d')
     \<and> lg_InstallationID chunk = TrimSpace (rq_PathValue r ''id'')
     \<and> lg_IdempotencyKey chunk = TrimSpace (rq_Header r ''Idempotency-Key'') \<and> length (lg_Content chunk) \<le> MaxLogChunkBytes)"

lemma append_event_success:
  assumes "append_event w r (TrimSpace (rq_PathValue r ''id'')) (TrimSpace (rq_Header r ''Idempotency-Key'')) t payload d = (resp, d')" "success resp"
  shows "stored_event w r d'"
  using assms unfolding stored_event_def
  by (cases "AppendLifecycleEvent (w_env w 1) (w_other w 1 d) (event_report (TrimSpace (rq_PathValue r ''id'')) (TrimSpace (rq_Header r ''Idempotency-Key'')) t payload) (rq_RequestID r)")
    (force simp: append_event_def event_report_def split: sum.splits prod.splits)

lemma append_log_success:
  assumes "append_log L w r (TrimSpace (rq_PathValue r ''id'')) (TrimSpace (rq_Header r ''Idempotency-Key'')) t payload d = (resp, d')" "success resp"
    "length (tl_Content payload) \<le> MaxLogChunkBytes"
  shows "stored_log L w r d'"
  using assms unfolding stored_log_def
  by (cases "AppendInstallationLogChunk L (w_env w 1) (w_other w 1 d) (log_chunk r (TrimSpace (rq_PathValue r ''id'')) (TrimSpace (rq_Header r ''Idempotency-Key'')) t payload)")
    (force simp: append_log_def log_chunk_def split: sum.splits prod.splits)

lemma installer_event:
  assumes "installationTelemetryEvent L de pt w r d = (resp, d')" "success resp"
  shows "(\<exists>c. live_credential (env_now (w_env w 0)) (w_other w 0 d) (TrimSpace (rq_PathValue r ''id'')) c \<and> presents_secret L r c) \<and> stored_event w r d'"
  using assms installer_authenticated [of L w r "TrimSpace (rq_PathValue r ''id'')" d] installer_refused append_event_success
  by (auto simp: installationTelemetryEvent_def Let_def split: prod.splits option.splits sum.splits if_splits)

lemma installer_log:
  assumes "installationTelemetryLog L dl pt w r d = (resp, d')" "success resp"
  shows "(\<exists>c. live_credential (env_now (w_env w 0)) (w_other w 0 d) (TrimSpace (rq_PathValue r ''id'')) c \<and> presents_secret L r c) \<and> stored_log L w r d'"
  using assms installer_authenticated [of L w r "TrimSpace (rq_PathValue r ''id'')" d] installer_refused append_log_success
  by (auto simp: installationTelemetryLog_def Let_def split: prod.splits option.splits sum.splits if_splits)

lemma reporter_event:
  assumes "reporterTelemetryEvent L de pt w r d = (resp, d')" "success resp"
  shows "(\<exists>c. live_credential (env_now (w_env w 0)) (w_other w 0 d) (TrimSpace (rq_PathValue r ''id'')) c \<and> signs_request L r c) \<and> stored_event w r d'"
  using assms reporter_authenticated [of L w r "TrimSpace (rq_PathValue r ''id'')"] reporter_refused append_event_success
  by (auto simp: reporterTelemetryEvent_def Let_def split: prod.splits option.splits sum.splits if_splits)

lemma reporter_log:
  assumes "reporterTelemetryLog L dl pt w r d = (resp, d')" "success resp"
  shows "(\<exists>c. live_credential (env_now (w_env w 0)) (w_other w 0 d) (TrimSpace (rq_PathValue r ''id'')) c \<and> signs_request L r c) \<and> stored_log L w r d'"
  using assms reporter_authenticated [of L w r "TrimSpace (rq_PathValue r ''id'')"] reporter_refused append_log_success
  by (auto simp: reporterTelemetryLog_def Let_def split: prod.splits option.splits sum.splits if_splits)


definition sample_payload :: telemetryEventRequest where
  "sample_payload = \<lparr>te_Stage = StageInstallerStarted, te_Source = SourceInstaller, te_ClientTime = [], te_Message = ''started'',
     te_ErrorCode = [], te_Metadata = []\<rparr>"

definition sample_installer_request :: request where
  "sample_installer_request = \<lparr>rq_Method = ''POST'', rq_URLPath = ''/x'', rq_PathValue = \<lambda>_. ''i_1'',
     rq_Header = (\<lambda>h. if h = ''Authorization'' then ''Bearer secret'' else if h = ''Content-Type'' then ''application/json'' else ''k4''),
     rq_Host = ''pxe'', rq_RemoteAddr = ''h'', rq_Body = [], rq_Form = Inl [], rq_Query = \<lambda>_. [], rq_RequestID = ''req''\<rparr>"

definition sample_used_db :: db where
  "sample_used_db = sample_live_db\<lparr>lifecycle_credentials := [sample_credential\<lparr>lc_LastUsedAt := Some (env_now sample_env)\<rparr>]\<rparr>"

lemma sample_installer_authenticated:
  "authenticateInstallerTelemetry (sample_lib 0) sample_world sample_installer_request ''i_1'' sample_live_db =
     (None, sample_used_db)"
  by (simp add: authenticateInstallerTelemetry_def sample_installer_request_def TrimSpace_ends plain_def byte_def space1_def
      TrimPrefix_def AuthenticateLifecycleCredential_def query_row_def sample_used_db_def sample_live_db_def sample_lib_def Let_def
      credential_of_row_def credential_Active_def scan_time_def update_where_def)
    (simp add: sample_credential_def)

lemma sample_append:
  obtains v d' where "AppendLifecycleEvent sample_env sample_used_db (event_report ''i_1'' ''k4'' 0 sample_payload) ''req'' = (Inr (v, False), d')"
proof -
  let ?r = "AppendLifecycleEvent sample_env sample_used_db (event_report ''i_1'' ''k4'' 0 sample_payload) ''req''"
  have "map_sum (\<lambda>f. ()) snd (fst ?r) = Inr False" by code_simp
  then show thesis using that by (cases ?r; cases "fst ?r") auto
qed

lemma sample_event_accepted:
  "rp_Status (fst (installationTelemetryEvent (sample_lib 0) (\<lambda>_ _. Inr (sample_payload, True)) (\<lambda>_. None) sample_world
     sample_installer_request sample_live_db)) = 202"
proof -
  obtain v d' where "AppendLifecycleEvent sample_env sample_used_db (event_report ''i_1'' ''k4'' 0 sample_payload) ''req'' = (Inr (v, False), d')"
    by (rule sample_append)
  moreover have "ValidateIdempotencyKey ''k4'' = None" "ToLower ''application/json'' = ''application/json''" by code_simp+
  moreover have "rq_Header sample_installer_request ''Idempotency-Key'' = ''k4''" "rq_PathValue sample_installer_request ''id'' = ''i_1''"
      "content_type sample_installer_request = ToLower ''application/json''" "rq_RequestID sample_installer_request = ''req''"
    by (simp_all add: sample_installer_request_def content_type_def sample_trim)
  moreover have "te_ClientTime sample_payload = []" by (simp add: sample_payload_def)
  ultimately show ?thesis
    by (simp add: installationTelemetryEvent_def sample_installer_authenticated decodeTelemetryJSON_def parseOptionalClientTime_def append_event_def
        writeJSON_def sample_trim)
qed


end
