(* ===== verification/Reporter_Protocol.thy ===== *)
theory Reporter_Protocol
  imports Reporter_Client Http_Telemetry_Properties
begin

text \<open>
  Reporter and server together: what the reporter signs, the server accepts.
\<close>

section \<open>Numbers\<close>

lemma digit_of_char: "a < 10 \<Longrightarrow> byte (char_of (48 + a :: nat)) = 48 + a" "a < 10 \<Longrightarrow> is_digit (char_of (48 + a :: nat))"
  by (auto simp: byte_def in_range_def)

lemma decimal_snoc: "decimal (ds @ [c]) = 10 * decimal ds + (byte c - 48)"
  by (simp add: decimal_def)

lemma nat_text_read: "decimal (nat_text n) = n \<and> digits (nat_text n)"
proof (induction n rule: nat_text.induct)
  case (1 n)
  show ?case
  proof (cases "n < 10")
    case True
    then show ?thesis using digit_of_char [of n] by (simp add: nat_text.simps [of n] decimal_def digits_def)
  next
    case False
    then have "nat_text n = nat_text (n div 10) @ [char_of (48 + n mod 10)]" by (simp add: nat_text.simps [of n])
    moreover have "10 * (n div 10) + n mod 10 = n" by simp
    ultimately show ?thesis
      using 1 False digit_of_char [of "n mod 10"] by (simp add: decimal_snoc digits_def)
  qed
qed

lemma ParseInt64_FormatInt: "0 < i \<Longrightarrow> i < 2 ^ 63 \<Longrightarrow> ParseInt64 (FormatInt i) = Some i"
proof -
  assume i: "0 < i" "i < 2 ^ 63"
  let ?t = "nat_text (nat i)"
  have "hd ?t \<notin> set ''+-''" "?t \<noteq> []"
    using nat_text_read [of "nat i"] by (cases ?t; auto simp: digits_def in_range_def byte_def)+
  with i nat_text_read [of "nat i"] show ?thesis by (auto simp: ParseInt64_def FormatInt_def Let_def)
qed

lemma nat_text_plain: "\<forall>c \<in> set (nat_text n). plain c"
proof
  fix c assume "c \<in> set (nat_text n)"
  with nat_text_read [of n] have "is_digit c" by (auto simp: digits_def list_all_iff)
  then show "plain c" by (auto simp: plain_def in_range_def space1_def byte_def)
qed

lemma TrimSpace_FormatInt: "0 \<le> i \<Longrightarrow> TrimSpace (FormatInt i) = FormatInt i"
  by (simp add: FormatInt_def TrimSpace_plain nat_text_plain)

section \<open>The signed request\<close>

text \<open>The request as the server's router hands it to the handler of an installation.\<close>

definition received :: "client_request \<Rightarrow> string \<Rightarrow> string \<Rightarrow> request" where
  "received q installationID requestID =
     \<lparr>rq_Method = cq_Method q, rq_URLPath = cq_Path q, rq_PathValue = (\<lambda>_. installationID),
      rq_Header = (\<lambda>h. case map_of (cq_Headers q) h of None \<Rightarrow> [] | Some v \<Rightarrow> v), rq_Host = [], rq_RemoteAddr = [],
      rq_Body = cq_Body q, rq_Form = Inl [], rq_Query = (\<lambda>_. []), rq_RequestID = requestID\<rparr>"

lemma signed_request_Inr:
  assumes "signed_request L cfg now secret k suff body = Inr q"
  obtains path canonical where "Canonical L ''POST'' path k (Unix now) body = Inr canonical"
    "q = \<lparr>cq_Method = ''POST'', cq_URL = endpoint cfg suff, cq_Path = path,
       cq_Headers = [(''Content-Type'', ''application/json''), (''Idempotency-Key'', k), (''X-Aegis-Timestamp'', FormatInt (Unix now)),
         (''Authorization'', hmac_prefix @ Sign L (lib_sha256 L secret) canonical)], cq_Body = body\<rparr>"
  using assms
  by (auto simp: signed_request_def new_request_def KeyFromSecret_def Let_def split: option.splits prod.splits sum.splits)

lemma authorization_read:
  assumes "digests_ok L"
  shows "TrimSpace (hmac_prefix @ Sign L key canonical) = hmac_prefix @ Sign L key canonical"
    and "TrimPrefix (hmac_prefix @ Sign L key canonical) hmac_prefix = Sign L key canonical"
proof -
  have s: "Sign L key canonical \<noteq> []"
    using assms by (auto simp: Sign_def digests_ok_def dest: arg_cong [where f = length] simp: length_RawURL_Encode)
  have "plain (last (Sign L key canonical))" using RawURL_Encode_plain s last_in_set unfolding Sign_def by blast
  moreover have "plain (hd hmac_prefix)" "hmac_prefix \<noteq> []" by (simp_all add: hmac_prefix_def plain_def byte_def space1_def)
  ultimately show "TrimSpace (hmac_prefix @ Sign L key canonical) = hmac_prefix @ Sign L key canonical"
    using s by (intro TrimSpace_ends) auto
  show "TrimPrefix (hmac_prefix @ Sign L key canonical) hmac_prefix = Sign L key canonical"
    by (simp add: TrimPrefix_def)
qed

lemma TrimSpace_Sign: "TrimSpace (Sign L key canonical) = Sign L key canonical"
  by (simp add: Sign_def)

lemma Unix_near: "\<bar>now - t\<bar> < 5 * Minute - Second \<Longrightarrow> \<bar>time_Unix (Unix now) - t\<bar> \<le> 5 * Minute"
proof -
  have "time_Unix (Unix now) = now - now mod Second" by (simp add: time_Unix_def Unix_def minus_mod_eq_div_mult)
  moreover have "0 \<le> now mod Second" "now mod Second < Second" by (simp_all add: Second_def)
  ultimately show "\<bar>now - t\<bar> < 5 * Minute - Second \<Longrightarrow> \<bar>time_Unix (Unix now) - t\<bar> \<le> 5 * Minute" by linarith
qed

lemma signed_body_accepted:
  assumes "signed_request L cfg now secret k suff body = Inr q"
    and "digests_ok L" "db_inv (w_other w 0 d)" "\<forall>n. env_io (w_env w 0) n"
    and "c \<in> set (lifecycle_credentials (w_other w 0 d))" "lc_InstallationID c = i" "lc_SecretSHA256 c = lib_sha256 L secret"
    and "lc_RevokedAt c = None" "env_now (w_env w 0) < lc_ExpiresAt c"
    and "\<bar>now - env_now (w_env w 0)\<bar> < 5 * Minute - Second" "Unix now < 2 ^ 63"
    and "TrimSpace i = i" "i \<noteq> []" "TrimSpace k = k" "length body \<le> limit"
  shows "\<exists>d'. authenticateReporterBody L w (received q i rid) i k limit d = (Inr body, d')
    \<and> VerifyLifecycleMAC L (w_env w 0) (w_other w 0 d) i ''POST'' (cq_Path q) k (Unix now) body
        (Sign L (lib_sha256 L secret) (projr (Canonical L ''POST'' (cq_Path q) k (Unix now) body))) = (Inr (), d')"
proof -
  from assms(1) obtain path canonical where can: "Canonical L ''POST'' path k (Unix now) body = Inr canonical"
    and q: "q = \<lparr>cq_Method = ''POST'', cq_URL = endpoint cfg suff, cq_Path = path,
       cq_Headers = [(''Content-Type'', ''application/json''), (''Idempotency-Key'', k), (''X-Aegis-Timestamp'', FormatInt (Unix now)),
         (''Authorization'', hmac_prefix @ Sign L (lib_sha256 L secret) canonical)], cq_Body = body\<rparr>"
    by (rule signed_request_Inr)
  let ?sig = "Sign L (lib_sha256 L secret) canonical"
  have t: "0 < Unix now" using Canonical_time [OF can] .
  have sig: "RawURL_Decode (TrimSpace ?sig) = Some (lib_hmac L (lc_SecretSHA256 c) canonical)"
    by (simp add: Sign_def RawURL_roundtrip assms(7))
  have "fst (VerifyLifecycleMAC L (w_env w 0) (w_other w 0 d) i ''POST'' path k (Unix now) body ?sig) = Inr ()"
    using assms Unix_near [OF assms(10)]
    by (intro VerifyLifecycleMAC_accepts [OF assms(2,3,4,5) _ _ assms(8,9) can _ sig]) (auto simp: telemetryAuthClockSkew_def)
  then obtain d' where v: "VerifyLifecycleMAC L (w_env w 0) (w_other w 0 d) i ''POST'' path k (Unix now) body ?sig = (Inr (), d')"
    by (cases "VerifyLifecycleMAC L (w_env w 0) (w_other w 0 d) i ''POST'' path k (Unix now) body ?sig") auto
  have "authenticateReporterBody L w (received q i rid) i k limit d = (Inr body, d')"
    using assms t v
    by (simp add: authenticateReporterBody_def received_def q authorization_read [OF assms(2)] TrimSpace_FormatInt ParseInt64_FormatInt
        TrimSpace_Sign Let_def)
  with v can q show ?thesis by auto
qed

text \<open>What the two sides must agree on: the server's decoder and time parser read what the reporter writes.\<close>

definition event_codec_ok :: "codec \<Rightarrow> telemetryEventRequest decoder \<Rightarrow> (string \<Rightarrow> time option) \<Rightarrow> telemetryEventRequest \<Rightarrow> time \<Rightarrow> bool" where
  "event_codec_ok C decode parse_time p t \<longleftrightarrow>
     decode (length (cj_event C p)) (cj_event C p) = Inr (p, True)
   \<and> TrimSpace (format_time C t) \<noteq> [] \<and> parse_time (TrimSpace (format_time C t)) = Some t"

lemma payload_time:
  "event_codec_ok C decode parse_time p t \<Longrightarrow> parseOptionalClientTime parse_time (te_ClientTime (event_payload C stage source message errorCode t)) = Some t"
  by (auto simp: event_codec_ok_def parseOptionalClientTime_def event_payload_def)

text \<open>The report that a posted event makes.\<close>

abbreviation posted_report :: "string \<Rightarrow> string \<Rightarrow> Stage \<Rightarrow> Source \<Rightarrow> string \<Rightarrow> string \<Rightarrow> time \<Rightarrow> Report" where
  "posted_report i k stage source message errorCode t \<equiv>
     \<lparr>r_InstallationID = i, r_Stage = stage, r_Source = source, r_ClientAt = t, r_IdempotencyKey = k,
      r_Message = TrimSpace message, r_ErrorCode = TrimSpace errorCode, r_Metadata = []\<rparr>"

lemma reporter_event_authenticated:
  assumes "signed_request L cfg now secret k ''/reporter/events'' (cj_event C (event_payload C stage source message errorCode t)) = Inr q"
    and "event_codec_ok C decode parse_time (event_payload C stage source message errorCode t) t" "digests_ok L" "db_inv (w_other w 0 d)" "\<forall>n. env_io (w_env w 0) n"
    and "c \<in> set (lifecycle_credentials (w_other w 0 d))" "lc_InstallationID c = i" "lc_SecretSHA256 c = lib_sha256 L secret"
    and "lc_RevokedAt c = None" "env_now (w_env w 0) < lc_ExpiresAt c"
    and "\<bar>now - env_now (w_env w 0)\<bar> < 5 * Minute - Second" "Unix now < 2 ^ 63"
    and "TrimSpace i = i" "i \<noteq> []" "ValidateIdempotencyKey k = None"
    and "length (cj_event C (event_payload C stage source message errorCode t)) \<le> maxTelemetryEventBody"
    and "d' = (w_other w 0 d)\<lparr>lifecycle_credentials := update_where (\<lambda>x. lc_InstallationID x = i)
        (\<lambda>x. x\<lparr>lc_LastUsedAt := Some (env_now (w_env w 0))\<rparr>) (lifecycle_credentials (w_other w 0 d))\<rparr>"
  shows "reporterTelemetryEvent L decode parse_time w (received q i rid) d =
      (case AppendLifecycleEvent (w_env w 1) (w_other w 1 d') (posted_report i k stage source message errorCode t) rid of
         (Inl err, d'') \<Rightarrow> (writeTelemetryError err, d'')
       | (Inr (accepted, duplicate), d'') \<Rightarrow>
         (writeJSON (if duplicate then 200 else 202) [(''installation_id'', JText i), (''sequence'', JInt (le_Sequence accepted)),
            (''stage'', JStage (le_Stage accepted)), (''source'', JSource (le_Source accepted)),
            (''received_at'', JTime (le_ReceivedAt accepted)), (''duplicate'', JBool duplicate)], d''))"
proof -
  let ?p = "event_payload C stage source message errorCode t"
  have k: "TrimSpace k = k" using assms(15) by (simp add: ValidateIdempotencyKey_def split: if_splits)
  obtain d1 where auth: "authenticateReporterBody L w (received q i rid) i k maxTelemetryEventBody d = (Inr (cj_event C ?p), d1)"
    and mac: "VerifyLifecycleMAC L (w_env w 0) (w_other w 0 d) i ''POST'' (cq_Path q) k (Unix now) (cj_event C ?p)
        (Sign L (lib_sha256 L secret) (projr (Canonical L ''POST'' (cq_Path q) k (Unix now) (cj_event C ?p)))) = (Inr (), d1)"
    using signed_body_accepted [OF assms(1,3,4,5,6,7,8,9,10,11,12,13,14) k assms(16), of rid] by blast
  from mac have d1: "d1 = (w_other w 0 d)\<lparr>lifecycle_credentials := update_where (\<lambda>x. lc_InstallationID x = i)
        (\<lambda>x. x\<lparr>lc_LastUsedAt := Some (env_now (w_env w 0))\<rparr>) (lifecycle_credentials (w_other w 0 d))\<rparr>"
    by (rule VerifyLifecycleMAC_Inr) (simp add: assms(13))
  have "rq_Header (received q i rid) ''Idempotency-Key'' = k"
    using assms(1) by (rule signed_request_Inr) (simp add: received_def)
  moreover have "rq_PathValue (received q i rid) ''id'' = i" "rq_RequestID (received q i rid) = rid" by (simp_all add: received_def)
  moreover have "decodeStrictBytes decode (cj_event C ?p) = Inr ?p"
    using assms(2) by (simp add: decodeStrictBytes_def event_codec_ok_def)
  ultimately have "reporterTelemetryEvent L decode parse_time w (received q i rid) d = append_event w (received q i rid) i k t ?p d1"
    using assms(13,15) auth payload_time [OF assms(2)] by (simp add: reporterTelemetryEvent_def k Let_def)
  with d1 assms(17) show ?thesis
    by (simp add: append_event_def event_report_def received_def event_payload_def split: prod.split sum.split)
qed

text \<open>C38:
  The server understands its reporter. Whatever event the reporter posts with the secret of a
  credential of its installation that is neither revoked nor expired, under a valid idempotency key,
  with a body within the limit and clocks that differ by less than five minutes minus a second, is
  authenticated, and one of three things happens. It is answered with 202 and appended to the
  events as it was posted: with its stage, source, client time and key and its trimmed texts,
  under the server's time. Or it is answered with 200, the database stays as it is and has an event
  of this key with this content. Or the lifecycle store refuses it and stores nothing. The first is
  the case whenever the report is valid, its key is new, its stage may follow the current one, the
  installation exists and the database answers.
\<close>

theorem reporter_event_accepted:
  assumes "signed_request L cfg now secret k ''/reporter/events'' (cj_event C (event_payload C stage source message errorCode t)) = Inr q"
    and "event_codec_ok C decode parse_time (event_payload C stage source message errorCode t) t" "digests_ok L" "db_inv (w_other w 0 d)" "\<forall>n. env_io (w_env w 0) n"
    and "c \<in> set (lifecycle_credentials (w_other w 0 d))" "lc_InstallationID c = i" "lc_SecretSHA256 c = lib_sha256 L secret"
    and "lc_RevokedAt c = None" "env_now (w_env w 0) < lc_ExpiresAt c"
    and "\<bar>now - env_now (w_env w 0)\<bar> < 5 * Minute - Second" "Unix now < 2 ^ 63"
    and "TrimSpace i = i" "i \<noteq> []" "ValidateIdempotencyKey k = None"
    and "length (cj_event C (event_payload C stage source message errorCode t)) \<le> maxTelemetryEventBody"
    and "d2 = w_other w 1 ((w_other w 0 d)\<lparr>lifecycle_credentials := update_where (\<lambda>x. lc_InstallationID x = i)
        (\<lambda>x. x\<lparr>lc_LastUsedAt := Some (env_now (w_env w 0))\<rparr>) (lifecycle_credentials (w_other w 0 d))\<rparr>)"
    and "reporterTelemetryEvent L decode parse_time w (received q i rid) d = (reply, d3)"
  shows "(reply = writeJSON 202 [(''installation_id'', JText i), (''sequence'', JInt (lifecycle_events_seq d2 + 1)),
             (''stage'', JStage stage), (''source'', JSource source), (''received_at'', JTime (env_now (w_env w 1))), (''duplicate'', JBool False)]
        \<and> lifecycle_events d3 = lifecycle_events d2 @
            [\<lparr>le_Sequence = lifecycle_events_seq d2 + 1, le_InstallationID = i, le_Stage = stage, le_Source = source,
              le_ReceivedAt = env_now (w_env w 1), le_ClientAt = t, le_RequestID = rid, le_IdempotencyKey = k,
              le_Message = TrimSpace message, le_ErrorCode = TrimSpace errorCode, le_Metadata = []\<rparr>]
      \<or> (\<exists>v \<in> set (lifecycle_events d2). event_key v = (i, k) \<and> same_report v (posted_report i k stage source message errorCode t)
           \<and> reply = writeJSON 200 [(''installation_id'', JText i), (''sequence'', JInt (le_Sequence v)),
               (''stage'', JStage stage), (''source'', JSource source), (''received_at'', JTime (le_ReceivedAt v)), (''duplicate'', JBool True)]
           \<and> d3 = d2)
      \<or> (\<exists>err. fst (AppendLifecycleEvent (w_env w 1) d2 (posted_report i k stage source message errorCode t) rid) = Inl err
           \<and> reply = writeTelemetryError err \<and> d3 = d2))
    \<and> (report_Validate (posted_report i k stage source message errorCode t) = None \<and> i \<in> sp_ID ` set (installation_specs d2)
       \<and> (i, k) \<notin> event_key ` set (lifecycle_events d2) \<and> CanAdvance (current_stage d2 i) stage \<and> (\<forall>n. env_io (w_env w 1) n)
       \<longrightarrow> rp_Status reply = 202 \<and> length (lifecycle_events d3) = length (lifecycle_events d2) + 1)"
proof -
  let ?r = "posted_report i k stage source message errorCode t"
  let ?a = "AppendLifecycleEvent (w_env w 1) d2 ?r rid"
  have run: "(reply, d3) = (case ?a of (Inl err, d'') \<Rightarrow> (writeTelemetryError err, d'')
       | (Inr (accepted, duplicate), d'') \<Rightarrow>
         (writeJSON (if duplicate then 200 else 202) [(''installation_id'', JText i), (''sequence'', JInt (le_Sequence accepted)),
            (''stage'', JStage (le_Stage accepted)), (''source'', JSource (le_Source accepted)),
            (''received_at'', JTime (le_ReceivedAt accepted)), (''duplicate'', JBool duplicate)], d''))"
    using reporter_event_authenticated [OF assms(1-16) refl, of rid] assms(17,18) by simp
  obtain res d'' where a: "?a = (res, d'')" by force
  show ?thesis
  proof (cases res)
    case (Inl x)
    with a have "d'' = d2" using AppendLifecycleEvent_rollback [of d2 "w_env w 1" ?r rid] by (simp add: rolled_back_def)
    moreover have "\<not> (report_Validate ?r = None \<and> i \<in> sp_ID ` set (installation_specs d2)
       \<and> (i, k) \<notin> event_key ` set (lifecycle_events d2) \<and> CanAdvance (current_stage d2 i) stage \<and> (\<forall>n. env_io (w_env w 1) n))"
      using AppendLifecycleEvent_next [of "w_env w 1" ?r d2 rid] a Inl by auto
    ultimately show ?thesis using run a Inl by simp
  next
    case (Inr x)
    then obtain v dup where x: "res = Inr (v, dup)" by (cases x) auto
    show ?thesis
    proof (cases dup)
      case True
      note known = AppendLifecycleEvent_duplicate [OF a [unfolded x, simplified True]]
      then have "le_Stage v = stage \<and> le_Source v = source" by (simp add: same_report_def)
      moreover have "(i, k) \<in> event_key ` set (lifecycle_events d2)" using known(2,4) by force
      ultimately show ?thesis using run a x True known by auto
    next
      case False
      note new = AppendLifecycleEvent_stores [OF a [unfolded x, simplified False]]
      from run a x False new show ?thesis by (simp add: accepted_event_def writeJSON_def)
    qed
  qed
qed

section \<open>The proof of the machine's key\<close>

text \<open>
  The reporter signs a challenge only if it names its own installation, machine and key, and what it
  signs is the canonical text the server checks, when the reply carries the challenge of the server.
\<close>

lemma challenge_signature_accepted:
  assumes "sign_challenge L cfg key reply = Inr signature"
    and "cl_ID reply = c_ID challenge" "cl_InstallationID reply = c_InstallationID challenge" "cl_MachineID reply = c_MachineID challenge"
    and "cl_Fingerprint reply = c_KeyFingerprint challenge" "cl_Nonce reply = RawURL_Encode (c_Nonce challenge)"
  shows "c_InstallationID challenge = rc_InstallationID cfg \<and> c_MachineID challenge = rc_MachineID cfg
    \<and> c_KeyFingerprint challenge = tk_fingerprint key
    \<and> (\<exists>canonical. CanonicalChallenge challenge = Inr canonical
        \<and> lib_rsa_verify L (tk_publicKey key) (lib_sha256 L canonical) signature)"
proof -
  have "CanonicalChallenge (challenge_of_reply reply (c_Nonce challenge)) = CanonicalChallenge challenge"
    by (simp add: CanonicalChallenge_def challenge_of_reply_def assms)
  then obtain canonical where "CanonicalChallenge challenge = Inr canonical" "tpm_Sign L key canonical = Inr signature"
    "c_InstallationID challenge = rc_InstallationID cfg" "c_MachineID challenge = rc_MachineID cfg" "c_KeyFingerprint challenge = tk_fingerprint key"
    using assms by (auto simp: sign_challenge_def RawURL_roundtrip split: sum.splits if_splits)
  then show ?thesis by (auto simp: tpm_Sign_def Let_def split: option.splits if_splits)
qed

lemma acquired_secret_length:
  "AcquireCredential L C cfg server key st = (Inr m, st') \<Longrightarrow> 32 \<le> length (cm_Secret m) \<and> length (cm_Secret m) \<le> 128
     \<and> tk_decrypt key (cm_Ciphertext m) = Some (cm_Secret m) \<and> cm_Fingerprint m = tk_fingerprint key"
  by (auto simp: AcquireCredential_def DecryptLifecycleCredential_def split: prod.splits sum.splits option.splits if_splits)

text \<open>A sample exchange. The texts of the sample codec stand for one payload.\<close>

definition sample_codec :: codec where
  "sample_codec = \<lparr>cj_event = \<lambda>p. ''event'', cj_log = \<lambda>p. ''log'', cj_enroll = \<lambda>p. p, cj_challenge = \<lambda>p. p, cj_prove = \<lambda>p. bp_Signature p,
     dj_error = \<lambda>s. ([], []), dj_enrolled = \<lambda>s. None, dj_challenge = \<lambda>s. None, dj_release = \<lambda>s. None, format_time = \<lambda>t. ''t''\<rparr>"

definition sample_config :: ReporterConfig where
  "sample_config = \<lparr>rc_APIBase = ''http://pxe.example.org'', rc_InstallationID = ''i_1'', rc_MachineID = ''m_1'', rc_AdminUsername = ''admin''\<rparr>"

abbreviation sample_posted :: telemetryEventRequest where
  "sample_posted \<equiv> event_payload sample_codec StageInstallerStarted SourceInstaller ''started'' [] 0"

lemma sample_signed:
  "\<exists>q. signed_request (sample_lib 0) sample_config (env_now sample_env) ''secret'' ''k4'' ''/reporter/events'' (cj_event sample_codec sample_posted) = Inr q"
  by (simp add: signed_request_def new_request_def endpoint_def sample_config_def sample_lib_def TrimRight_slash_def Canonical_def Let_def
      Unix_def duration_defs ToUpper_def TrimSpace_ends plain_def byte_def space1_def)

theorem reporter_event_accepted_witness:
  "\<exists>q. let reply = reporterTelemetryEvent (sample_lib 0) (\<lambda>_ _. Inr (sample_posted, True)) (\<lambda>_. Some 0) sample_world
      (received q ''i_1'' ''req'') sample_live_db in rp_Status (fst reply) = 202 \<and> length (lifecycle_events (snd reply)) = 4"
proof -
  obtain q where q: "signed_request (sample_lib 0) sample_config (env_now sample_env) ''secret'' ''k4'' ''/reporter/events''
      (cj_event sample_codec sample_posted) = Inr q" using sample_signed by blast
  have codec: "event_codec_ok sample_codec (\<lambda>_ _. Inr (sample_posted, True)) (\<lambda>_. Some 0) sample_posted 0"
    by (simp add: event_codec_ok_def sample_codec_def sample_trim)
  have key: "ValidateIdempotencyKey ''k4'' = None" by code_simp
  have body: "length (cj_event sample_codec sample_posted) \<le> maxTelemetryEventBody" by (simp add: sample_codec_def maxTelemetryEventBody_def)
  have cred: "sample_credential \<in> set (lifecycle_credentials sample_live_db)" by (simp add: sample_live_db_def)
  have used: "sample_live_db\<lparr>lifecycle_credentials := update_where (\<lambda>x. lc_InstallationID x = ''i_1'')
      (\<lambda>x. x\<lparr>lc_LastUsedAt := Some (env_now sample_env)\<rparr>) (lifecycle_credentials sample_live_db)\<rparr> = sample_used_db"
    by (simp add: sample_used_db_def sample_live_db_def update_where_def sample_credential_fields)
  have sha: "lib_sha256 (sample_lib 0) = sample_digest" by (simp add: sample_lib_def)
  let ?reply = "reporterTelemetryEvent (sample_lib 0) (\<lambda>_ _. Inr (sample_posted, True)) (\<lambda>_. Some 0) sample_world (received q ''i_1'' ''req'') sample_live_db"
  have fresh: "(''i_1'', ''k4'') \<notin> event_key ` set (lifecycle_events sample_used_db)" "''i_1'' \<in> sp_ID ` set (installation_specs sample_used_db)"
    "CanAdvance (current_stage sample_used_db ''i_1'') StageInstallerStarted"
    "report_Validate (posted_report ''i_1'' ''k4'' StageInstallerStarted SourceInstaller ''started'' [] 0) = None"
    "length (lifecycle_events sample_used_db) = 3"
    by code_simp+
  have w: "w_other sample_world n x = x" "w_env sample_world n = sample_env" "env_io sample_env n" for n x by simp_all
  have "rp_Status (fst ?reply) = 202 \<and> length (lifecycle_events (snd ?reply)) = 3 + 1"
    using reporter_event_accepted [OF q codec sample_lib_digests, of sample_world sample_live_db sample_credential "''i_1''"
        sample_used_db "''req''" "fst ?reply" "snd ?reply", THEN conjunct2, THEN mp, unfolded w used, OF sample_live_db_inv _ cred] fresh
    by (simp add: sample_credential_fields Unix_def key sample_trim body sha duration_defs)
  then show ?thesis by (intro exI [of _ q]) simp
qed

end
