(* ===== verification/Reporter_Properties.thy ===== *)
theory Reporter_Properties
  imports Reporter_Runtime Reporter_Protocol
begin

text \<open>
  The reporter's promises: its waits end, events leave the queue in order and only when the server
  took them, the installer's log is sent byte by byte, and the first boot reports what its
  validation found.
\<close>

section \<open>The waits end\<close>

lemma wait_ends:
  assumes "\<forall>n. clock n + Second \<le> clock (Suc n)" "clock i + int m * Second > deadline"
  shows "\<exists>r n. wait_loop file clock stop deadline i = Some (r, n) \<and> n \<le> i + m + 1"
  using assms(2)
proof (induction m arbitrary: i)
  case 0
  then show ?case by (subst wait_loop.simps) (auto split: option.split)
next
  case (Suc m)
  have "clock i + Second \<le> clock (Suc i)" using assms(1) by simp
  with Suc.prems have "clock (Suc i) + int m * Second > deadline" by (simp add: algebra_simps)
  from Suc.IH [OF this] obtain r n where "wait_loop file clock stop deadline (Suc i) = Some (r, n)" "n \<le> i + Suc m + 1" by auto
  then show ?case by (subst wait_loop.simps) (auto split: option.split)
qed

definition half_second :: int where "half_second = 500 * 10 ^ 6"

lemma drain_wait_ends:
  assumes "\<forall>n. clock n + half_second \<le> clock (Suc n)" "clock i + int m * half_second \<ge> deadline"
  shows "\<exists>r. drain_wait drained clock stop deadline i = Some r"
  using assms(2)
proof (induction m arbitrary: i)
  case 0
  then show ?case by (subst drain_wait.simps) auto
next
  case (Suc m)
  have "clock i + half_second \<le> clock (Suc i)" using assms(1) by simp
  with Suc.prems have "clock (Suc i) + int m * half_second \<ge> deadline" by (simp add: algebra_simps)
  from Suc.IH [OF this] obtain r where "drain_wait drained clock stop deadline (Suc i) = Some r" by auto
  then show ?case by (subst drain_wait.simps) auto
qed

text \<open>C40:
  The hand-over to the first boot ends. Whatever the files contain, whenever the operator approves
  and whatever other processes do to the queue: if the clock advances by at least the time slept
  between two looks, the wait for the encrypted credential gives up after at most 902 looks, and the
  installation of the first-boot reporter returns.
\<close>

theorem handover_ends:
  assumes "start \<le> clock 0" and "\<forall>n. clock n + Second \<le> clock (Suc n)"
    and "start' \<le> clock' 0" and "\<forall>n. clock' n + half_second \<le> clock' (Suc n)"
  shows "(\<exists>r n. WaitForCredentialCiphertext file clock stop start (15 * Minute) = Some (r, n) \<and> n \<le> 902)
    \<and> (\<exists>r. InstallFirstBoot e cfg target file clock stop start drained clock' stop' start' rt tg = Some r)"
proof -
  have wait: "\<exists>r n. WaitForCredentialCiphertext file clock stop start (15 * Minute) = Some (r, n) \<and> n \<le> 902"
    using wait_ends [OF assms(2), of "start + 15 * Minute" 0 901] assms(1)
    by (simp add: WaitForCredentialCiphertext_def duration_defs)
  have "\<exists>r. drain_wait drained clock' stop' (start' + 2 * Minute) 0 = Some r"
    using drain_wait_ends [OF assms(4), of "start' + 2 * Minute" 0 240] assms(3) by (simp add: half_second_def duration_defs)
  with wait have "\<exists>r. InstallFirstBoot e cfg target file clock stop start drained clock' stop' start' rt tg = Some r"
    by (auto simp: InstallFirstBoot_def simp del: split_paired_Ex split: sum.splits bool.splits prod.splits)
  with wait show ?thesis by blast
qed

theorem handover_ends_witness:
  "\<exists>r n. WaitForCredentialCiphertext (\<lambda>_. None) (\<lambda>n. int n * Second) (\<lambda>_. False) 0 (15 * Minute) = Some (r, n) \<and> n \<le> 902"
proof -
  have 1: "\<forall>n. int n * Second + Second \<le> int (Suc n) * Second" and 2: "\<forall>n. int n * Second + half_second \<le> int (Suc n) * Second"
    by (simp_all add: algebra_simps half_second_def duration_defs)
  from handover_ends [of 0 "\<lambda>n. int n * Second" 0 "\<lambda>n. int n * Second", OF _ 1 _ 2] show ?thesis by simp
qed

section \<open>The queue\<close>

text \<open>The state of the server after the first posts.\<close>

primrec after_posts :: "(nat \<Rightarrow> queuedEvent \<Rightarrow> 's \<Rightarrow> client_error option \<times> 's) \<Rightarrow> queuedEvent list \<Rightarrow> 's \<Rightarrow> nat \<Rightarrow> nat \<Rightarrow> 's" where
  "after_posts post items st k 0 = st"
| "after_posts post items st k (Suc n) = snd (post (k + n) (items ! n) (after_posts post items st k n))"

lemma after_posts_Cons:
  "after_posts post (item # items) st k (Suc n) = after_posts post items (snd (post k item st)) (Suc k) n"
  by (induction n) simp_all

lemma post_events_prefix:
  assumes "post_events post k items st = (m, st')"
  shows "\<exists>n. m = k + n \<and> n \<le> length items
    \<and> (\<forall>j < n. fst (post (k + j) (items ! j) (after_posts post items st k j)) = None)
    \<and> (n < length items \<longrightarrow> fst (post (k + n) (items ! n) (after_posts post items st k n)) \<noteq> None)"
  using assms
proof (induction items arbitrary: k st)
  case Nil
  then show ?case by simp
next
  case (Cons item items)
  obtain err st1 where p: "post k item st = (err, st1)" by force
  show ?case
  proof (cases err)
    case (Some x)
    with Cons.prems p show ?thesis by (intro exI [of _ 0]) simp
  next
    case None
    with Cons.prems p have "post_events post (Suc k) items st1 = (m, st')" by simp
    from Cons.IH [OF this] obtain n where n: "m = Suc k + n" "n \<le> length items"
      "\<forall>j < n. fst (post (Suc k + j) (items ! j) (after_posts post items st1 (Suc k) j)) = None"
      "n < length items \<longrightarrow> fst (post (Suc k + n) (items ! n) (after_posts post items st1 (Suc k) n)) \<noteq> None"
      by blast
    have step: "after_posts post (item # items) st k (Suc j) = after_posts post items st1 (Suc k) j" for j
      using p by (simp only: after_posts_Cons) simp
    have "\<forall>j < Suc n. fst (post (k + j) ((item # items) ! j) (after_posts post (item # items) st k j)) = None"
    proof (intro allI impI)
      fix j assume "j < Suc n"
      then show "fst (post (k + j) ((item # items) ! j) (after_posts post (item # items) st k j)) = None"
        using n(3) p None by (cases j) (simp, simp only: step, simp)
    qed
    moreover have "Suc n < length (item # items) \<longrightarrow>
        fst (post (k + Suc n) ((item # items) ! Suc n) (after_posts post (item # items) st k (Suc n))) \<noteq> None"
      using n(4) unfolding step by simp
    ultimately show ?thesis using n(1,2) by (intro exI [of _ "Suc n"]) auto
  qed
qed

lemma decode_entries: "decode_queue (map Entry items) = Some items"
  by (induction items) simp_all

text \<open>Events leave the queue in their order and only when the server took them. When the file operations
  succeed and every line of the queue can be decoded, the upload posts the events one after the
  other up to the first that fails; these and no others are gone afterwards, and the rest is in the
  queue in its old order.
\<close>

theorem queue_drained_in_order:
  assumes "decode_queue (case rt_queue rt of None \<Rightarrow> [] | Some ls \<Rightarrow> ls) = Some items" and "\<forall>n. env_io e n"
    and "drainEvents L C cfg server clock e torn secret rt st = (res, rt', st')"
  shows "res = None \<and> (\<exists>n \<le> length items. decode_queue (the (rt_queue rt')) = Some (drop n items)
      \<and> (\<forall>j < n. fst (post_queued L C cfg server clock secret j (items ! j)
           (after_posts (post_queued L C cfg server clock secret) items st 0 j)) = None)
      \<and> (n < length items \<longrightarrow> fst (post_queued L C cfg server clock secret n (items ! n)
           (after_posts (post_queued L C cfg server clock secret) items st 0 n)) \<noteq> None))
    \<and> rt_queue rt' \<noteq> None \<and> rt'\<lparr>rt_queue := rt_queue rt\<rparr> = rt"
proof -
  let ?post = "post_queued L C cfg server clock secret"
  obtain m s where posts: "post_events ?post 0 items st = (m, s)" by force
  from post_events_prefix [OF this] have m: "m \<le> length items" "\<forall>j < m. fst (?post j (items ! j) (after_posts ?post items st 0 j)) = None"
    "m < length items \<longrightarrow> fst (?post m (items ! m) (after_posts ?post items st 0 m)) \<noteq> None"
    by auto
  have "res = None" "rt' = rt\<lparr>rt_queue := Some (if m = 0 then (case rt_queue rt of None \<Rightarrow> [] | Some ls \<Rightarrow> ls) else map Entry (drop m items))\<rparr>"
    using assms posts by (auto simp: drainEvents_def Let_def split: if_splits)
  with m assms(1) show ?thesis by (intro conjI exI [of _ m]) (auto simp: decode_entries)
qed

definition sample_runtime :: runtime where
  "sample_runtime = \<lparr>rt_queue = Some [Entry (queued_event 1 StageHardening SourceInstaller ''hook'' [])], rt_ciphertext = None, rt_offset = None,
     rt_sequence = None, rt_evidence = NoEvidence\<rparr>"

theorem queue_drained_in_order_witness:
  "\<exists>n \<le> 1. decode_queue (the (rt_queue (fst (snd (drainEvents (sample_lib 0) sample_codec sample_config (\<lambda>q st. (None, ())) (\<lambda>_. 1) sample_env [] ''secret''
       sample_runtime ()))))) = Some (drop n [queued_event 1 StageHardening SourceInstaller ''hook'' []])"
proof -
  have "decode_queue (case rt_queue sample_runtime of None \<Rightarrow> [] | Some ls \<Rightarrow> ls) = Some [queued_event 1 StageHardening SourceInstaller ''hook'' []]"
    "\<forall>n. env_io sample_env n"
    by (simp_all add: sample_runtime_def)
  moreover obtain res rt' st' where run: "drainEvents (sample_lib 0) sample_codec sample_config (\<lambda>q st. (None, ())) (\<lambda>_. 1) sample_env [] ''secret''
       sample_runtime () = (res, rt', st')" by (metis prod_cases3)
  ultimately show ?thesis using queue_drained_in_order [OF _ _ run] by (auto simp: run)
qed

section \<open>Evidence\<close>

text \<open>
  The evidence file is read without looking at the error. When it exists and cannot be read, the map
  of seen names is nil, and the first evidence that is queued makes the reporter panic.
\<close>

lemma unreadable_evidence_panics:
  assumes "rt_evidence rt = BadEvidence" "\<forall>n k. env_io (es n) k" "Contains content (ck_needle (hd checks))"
  shows "fst (detectNativeInstallerEvidence es e (Content content) rt) = Panic"
proof -
  let ?c = "hd checks"
  have first: "checks = ?c # tl checks" "ck_stage ?c = StageOSInstalling" "ck_errorCode ?c = []" by (simp_all add: checks_def)
  have "validateQueuedEvent (queued_event now StageOSInstalling SourceInstaller (ck_message ?c) []) = None" for now
  proof -
    have "plain (CHR ''r'')" "plain (CHR ''g'')" by (simp_all add: plain_def byte_def space1_def)
    then have "TrimSpace (''reporter:stage:'' @ ''os_installing'') = ''reporter:stage:os_installing''" by (subst TrimSpace_ends) simp_all
    moreover have "ToLower (stage_text StageOSInstalling) = ''os_installing''" by code_simp
    ultimately show ?thesis by (simp add: validateQueuedEvent_def queued_event_def)
  qed
  then obtain rt' where queued: "QueueEvent (es 0) StageOSInstalling SourceInstaller (ck_message ?c) [] rt = (None, rt')"
    using assms(2) by (simp add: QueueEvent_def Let_def)
  have "evidence_loop es content 0 (?c # tl checks) None False rt = (Inl Panic, rt')"
    using assms(3) queued by (simp add: first(2,3))
  then show ?thesis using assms(1) by (simp add: detectNativeInstallerEvidence_def readEvidenceState_def flip: first(1))
qed

section \<open>The installer's log\<close>

lemma readIntFile_written: "0 \<le> i \<Longrightarrow> i < 2 ^ 63 \<Longrightarrow> readIntFile (Some (FormatInt i @ [LF])) = i"
proof -
  assume i: "0 \<le> i" "i < 2 ^ 63"
  let ?t = "nat_text (nat i)"
  have "TrimSpace (?t @ [LF]) = ?t" using TrimSpace_plain_LF [OF nat_text_plain [of "nat i"]] by simp
  moreover have "hd ?t \<notin> set ''+-''" "?t \<noteq> []"
    using nat_text_read [of "nat i"] by (cases ?t; auto simp: digits_def in_range_def byte_def)+
  ultimately show ?thesis
    using i nat_text_read [of "nat i"] by (auto simp: readIntFile_def FormatInt_def Let_def)
qed

lemma add64_small: "0 \<le> a \<Longrightarrow> 0 \<le> b \<Longrightarrow> a + b < 2 ^ 63 \<Longrightarrow> add64 a b = a + b"
  by (simp add: add64_def)

text \<open>
  The numbers of log chunks are consecutive, and each chunk is the next part of the log: an upload
  that succeeds sends nothing when everything was sent, or the next bytes (at most 64 KiB) under the
  next number, and remembers both.
\<close>

lemma upload_next_part:
  assumes "uploadInstallerLog L C cfg server e signed (Content content) secret rt st = (None, rt', st')"
    and "rt_offset rt = Some (FormatInt (int n) @ [LF])" "rt_sequence rt = Some (FormatInt (int s) @ [LF])"
    and "length content < 2 ^ 62" "n \<le> length content" "s < 2 ^ 62"
  shows "(let chunk = take maxReporterLogRead (drop n content) in
    if n = length content then rt' = rt \<and> st' = st
    else PostLog L C cfg server signed secret (''reporter:log:'' @ FormatInt (int s + 1)) (int s + 1) SourceInstaller chunk (env_now e) st = (None, st')
      \<and> rt' = rt\<lparr>rt_offset := Some (FormatInt (int (n + length chunk)) @ [LF]), rt_sequence := Some (FormatInt (int s + 1) @ [LF])\<rparr>)"
proof -
  have off: "readIntFile (rt_offset rt) = int n" using assms by (simp add: readIntFile_written)
  have "readIntFile (rt_sequence rt) = int s" using assms by (simp add: readIntFile_written)
  then have seq: "next_sequence (rt_sequence rt) = int s + 1" using assms(6) by (simp add: next_sequence_def add64_small Let_def)
  let ?chunk = "take maxReporterLogRead (drop n content)"
  have empty: "?chunk = [] \<longleftrightarrow> n = length content" using assms(5) by (auto simp: maxReporterLogRead_def)
  have next_off: "add64 (int n) (int (length ?chunk)) = int (n + length ?chunk)"
    using assms(4,5) by (subst add64_small) auto
  show ?thesis
  proof (cases "?chunk = []")
    case True
    with assms(1) off empty show ?thesis by (simp add: uploadInstallerLog_def Let_def split: if_splits)
  next
    case False
    with assms(1) off seq next_off empty show ?thesis
      by (auto simp: uploadInstallerLog_def writeIntFile_def writePrivateFile_def Let_def split: if_splits prod.splits option.splits)
  qed
qed

section \<open>The first boot\<close>

text \<open>A server together with the requests it was sent.\<close>

definition recording :: "'s server \<Rightarrow> ('s \<times> client_request list) server" where
  "recording server req st = (case server req (fst st) of (reply, s) \<Rightarrow> (reply, s, snd st @ [req]))"

text \<open>What a post does to the trace: at most one request, with this body, and one if it succeeds.\<close>

lemma postSigned_recorded:
  assumes "postSigned L C cfg (recording server) now secret k suff body (st, tr) = (err, st', tr')"
  shows "(tr' = tr \<and> err \<noteq> None) \<or> (\<exists>q. tr' = tr @ [q] \<and> cq_Body q = body)"
proof (cases "signed_request L cfg now secret k suff body")
  case (Inl x)
  with assms show ?thesis by (auto simp: postSigned_def)
next
  case (Inr q)
  have "cq_Body q = body" using Inr by (rule signed_request_Inr) simp
  moreover have "tr' = tr @ [q]"
    using assms Inr by (auto simp: postSigned_def client_do_def recording_def Let_def split: prod.splits option.splits if_splits sum.splits)
  ultimately show ?thesis by simp
qed

definition final_body :: "codec \<Rightarrow> (nat \<Rightarrow> env) \<Rightarrow> string option \<Rightarrow> string" where
  "final_body C es err = (case err of
     Some message \<Rightarrow> cj_event C (event_payload C StageFailed SourceValidator message ''VAL001_FIRST_BOOT_VALIDATION_FAILED'' (env_now (es 3)))
   | None \<Rightarrow> cj_event C (event_payload C StageSuccess SourceValidator ''AegisPXE first-boot validation completed successfully'' [] (env_now (es 4))))"

definition first_boot_bodies :: "codec \<Rightarrow> ReporterConfig \<Rightarrow> (nat \<Rightarrow> env) \<Rightarrow> installed_system \<Rightarrow> first_boot \<Rightarrow> string list" where
  "first_boot_bodies C cfg es sys fb =
    [cj_event C (event_payload C StageFirstBoot SourceFinalizer ''Installed operating system reached first boot'' [] (env_now (es 0))),
     cj_event C (event_payload C StageValidating SourceValidator ''AegisPXE first-boot validation started'' [] (env_now (es 1))),
     cj_log C (log_payload C (next_sequence (fb_sequence fb)) SourceValidator (fst (validateInstalledSystem cfg sys)) (env_now (es 2))),
     final_body C es (snd (validateInstalledSystem cfg sys))]"

lemma PostEvent_recorded:
  "PostEvent L C cfg (recording server) now secret k stage source message errorCode t (st, tr) = (err, st', tr') \<Longrightarrow>
   (tr' = tr \<and> err \<noteq> None) \<or> (\<exists>q. tr' = tr @ [q] \<and> cq_Body q = cj_event C (event_payload C stage source message errorCode t))"
  unfolding PostEvent_def by (rule postSigned_recorded)

lemma PostLog_recorded:
  "PostLog L C cfg (recording server) now secret k sequence source content t (st, tr) = (err, st', tr') \<Longrightarrow>
   (tr' = tr \<and> err \<noteq> None) \<or> (\<exists>q. tr' = tr @ [q] \<and> cq_Body q = cj_log C (log_payload C sequence source content t))"
  unfolding PostLog_def by (rule postSigned_recorded)

lemma final_report_recorded:
  assumes "final_report L C cfg (recording server) es secret err fb (st, tr) = (res, fb', st', tr')"
  shows "(tr' = tr \<and> fb' = fb \<and> res \<noteq> None)
    \<or> (\<exists>q. tr' = tr @ [q]
        \<and> cq_Body q = final_body C es err
        \<and> (res = None \<longrightarrow> err = None \<and> fb_ciphertext fb' = None))"
  using assms by (auto simp: final_report_def final_body_def split: option.splits prod.splits if_splits dest!: PostEvent_recorded)

lemma first_log_recorded:
  assumes "postFirstBootLog L C cfg (recording server) e signed secret content fb (st, tr) = (res, fb', st', tr')"
  shows "fb_ciphertext fb' = fb_ciphertext fb \<and> ((tr' = tr \<and> res \<noteq> None)
    \<or> (\<exists>q. tr' = tr @ [q] \<and> cq_Body q = cj_log C (log_payload C (next_sequence (fb_sequence fb)) SourceValidator content (env_now e))))"
  using assms by (auto simp: postFirstBootLog_def Let_def split: option.splits prod.splits dest!: PostLog_recorded)

lemma validation_recorded:
  assumes "(case postFirstBootLog L C cfg (recording server) (es 2) (env_now (es 12)) secret log fb (st, tr) of
      (Some x, fb, st) \<Rightarrow> (Some x, fb, st) | (None, fb, st) \<Rightarrow> final_report L C cfg (recording server) es secret err fb st) = (res, fb', st', tr')"
  shows "\<exists>more. tr' = tr @ more \<and> (let todo = [cj_log C (log_payload C (next_sequence (fb_sequence fb)) SourceValidator log (env_now (es 2))), final_body C es err] in
      prefix (map cq_Body more) todo \<and> (res = None \<longrightarrow> err = None \<and> map cq_Body more = todo)
      \<and> (fb_ciphertext fb' = fb_ciphertext fb \<or> map cq_Body more = todo))"
proof -
  obtain e3 f3 s3 t3 where p3: "postFirstBootLog L C cfg (recording server) (es 2) (env_now (es 12)) secret log fb (st, tr) = (e3, f3, s3, t3)" by (metis prod_cases4)
  note rec = first_log_recorded [OF p3]
  show ?thesis
  proof (cases e3)
    case (Some x)
    with assms p3 have "tr' = t3" "fb' = f3" "res \<noteq> None" by auto
    with rec show ?thesis by (auto simp: Let_def)
  next
    case None
    with assms p3 have final: "final_report L C cfg (recording server) es secret err f3 (s3, t3) = (res, fb', st', tr')" by simp
    from None rec obtain q where q: "t3 = tr @ [q]"
      "cq_Body q = cj_log C (log_payload C (next_sequence (fb_sequence fb)) SourceValidator log (env_now (es 2)))" by auto
    from final_report_recorded [OF final] show ?thesis
    proof
      assume "tr' = t3 \<and> fb' = f3 \<and> res \<noteq> None"
      with q rec show ?thesis by (intro exI [of _ "[q]"]) (auto simp: Let_def)
    next
      assume "\<exists>q. tr' = t3 @ [q] \<and> cq_Body q = final_body C es err \<and> (res = None \<longrightarrow> err = None \<and> fb_ciphertext fb' = None)"
      then obtain q' where "tr' = t3 @ [q']" "cq_Body q' = final_body C es err" "res = None \<longrightarrow> err = None" by blast
      with q show ?thesis by (intro exI [of _ "[q, q']"]) (auto simp: Let_def)
    qed
  qed
qed

text \<open>C39:
  The first boot reports what it found. The requests a run sends are, in this order and each at most
  once: the first boot, the start of the validation, the log of the validation, and then SUCCESS if
  the validation found no fault and FAILED with its message otherwise. The run succeeds only if the
  validation found no fault and all of them were sent, and the encrypted credential is only removed
  once the last one was sent.
\<close>

theorem first_boot_reports:
  assumes "RunFirstBoot L C cfg (recording server) tpm es sys fb (st, []) = (res, fb', st', tr)"
  shows "prefix (map cq_Body tr) (first_boot_bodies C cfg es sys fb)
    \<and> (res = None \<longrightarrow> snd (validateInstalledSystem cfg sys) = None \<and> map cq_Body tr = first_boot_bodies C cfg es sys fb)
    \<and> (fb_ciphertext fb' = fb_ciphertext fb \<or> map cq_Body tr = first_boot_bodies C cfg es sys fb)"
proof -
  obtain log err where v: "validateInstalledSystem cfg sys = (log, err)" by force
  note bodies = first_boot_bodies_def [of C cfg es sys fb, unfolded v]
  show ?thesis
  proof (cases "\<exists>ciphertext key secret. fb_ciphertext fb = Some ciphertext \<and> tpm = Some key \<and> DecryptLifecycleCredential key ciphertext = Inr secret")
    case False
    with assms have "tr = []" "fb' = fb" "res \<noteq> None" by (auto simp: RunFirstBoot_def split: option.splits sum.splits)
    then show ?thesis by auto
  next
    case True
    then obtain ciphertext key secret where open_key: "fb_ciphertext fb = Some ciphertext" "tpm = Some key" "DecryptLifecycleCredential key ciphertext = Inr secret"
      by blast
    obtain e1 s1 t1 where p1: "PostEvent L C cfg (recording server) (env_now (es 10)) secret ''reporter:first-boot'' StageFirstBoot SourceFinalizer
        ''Installed operating system reached first boot'' [] (env_now (es 0)) (st, []) = (e1, s1, t1)" by (metis prod_cases3)
    show ?thesis
    proof (cases e1)
      case (Some x)
      with assms open_key p1 have "tr = t1" "fb' = fb" "res \<noteq> None" by (auto simp: RunFirstBoot_def)
      with PostEvent_recorded [OF p1] show ?thesis by (auto simp: bodies)
    next
      case None
      with PostEvent_recorded [OF p1] obtain q1 where t1: "t1 = [q1]"
        "cq_Body q1 = cj_event C (event_payload C StageFirstBoot SourceFinalizer ''Installed operating system reached first boot'' [] (env_now (es 0)))" by auto
      obtain e2 s2 t2 where p2: "PostEvent L C cfg (recording server) (env_now (es 11)) secret ''reporter:validating'' StageValidating SourceValidator
          ''AegisPXE first-boot validation started'' [] (env_now (es 1)) (s1, t1) = (e2, s2, t2)" by (metis prod_cases3)
      note run = assms [unfolded RunFirstBoot_def, simplified open_key p1 None p2 option.case sum.case prod.case v]
      show ?thesis
      proof (cases e2)
        case (Some x)
        with run have "tr = t2" "fb' = fb" "res \<noteq> None" by auto
        with PostEvent_recorded [OF p2] t1 show ?thesis by (auto simp: bodies)
      next
        case None
        from None PostEvent_recorded [OF p2] obtain q2 where t2: "t2 = t1 @ [q2]"
          "cq_Body q2 = cj_event C (event_payload C StageValidating SourceValidator ''AegisPXE first-boot validation started'' [] (env_now (es 1)))" by auto
        from run None have "(case postFirstBootLog L C cfg (recording server) (es 2) (env_now (es 12)) secret log fb (s2, t2) of
            (Some x, fb, st) \<Rightarrow> (Some x, fb, st) | (None, fb, st) \<Rightarrow> final_report L C cfg (recording server) es secret err fb st) = (res, fb', st', tr)"
          by simp
        from validation_recorded [OF this] t1 t2 show ?thesis by (auto simp: bodies Let_def v)
      qed
    qed
  qed
qed

definition sample_system :: installed_system where
  "sample_system = \<lparr>is_passwd = Some ''admin:x'', is_authorized = Some (True, 80, 0x180), is_sshd_config = Some True, is_sshd_test = (True, False), is_sudoers = True\<rparr>"

definition sample_tpm :: TPMKey where
  "sample_tpm = \<lparr>tk_publicKey = RSAKey 0 65537, tk_publicPEM = ''pem'', tk_fingerprint = ''f'', tk_sign = Some, tk_decrypt = \<lambda>c. Some (replicate 43 (CHR ''s''))\<rparr>"

theorem first_boot_reports_witness:
  "\<exists>res fb' st' tr. RunFirstBoot (sample_lib 0) sample_codec sample_config (recording (\<lambda>q st. (Some \<lparr>re_Status = 202, re_Body = []\<rparr>, st))) (Some sample_tpm)
       (\<lambda>_. sample_env) sample_system \<lparr>fb_ciphertext = Some ''c'', fb_sequence = None\<rparr> ((), []) = (res, fb', st', tr)
     \<and> prefix (map cq_Body tr) (first_boot_bodies sample_codec sample_config (\<lambda>_. sample_env) sample_system \<lparr>fb_ciphertext = Some ''c'', fb_sequence = None\<rparr>)"
proof -
  obtain res fb' st' tr where "RunFirstBoot (sample_lib 0) sample_codec sample_config (recording (\<lambda>q st. (Some \<lparr>re_Status = 202, re_Body = []\<rparr>, st))) (Some sample_tpm)
       (\<lambda>_. sample_env) sample_system \<lparr>fb_ciphertext = Some ''c'', fb_sequence = None\<rparr> ((), []) = (res, fb', st', tr)" by (metis prod_cases4)
  from first_boot_reports [OF this] this show ?thesis by blast
qed

end
