(* ===== verification/Operator_Auth.thy ===== *)
theory Operator_Auth
  imports Operator_Model Window_Limit Base64 Installation_Model
begin

text \<open>
  Operator sessions and the recovery key (internal/operator/auth.go, recovery.go). The manager
  keeps the digest of the recovery key, the sessions under the digests of their tokens and the
  counters of recovery attempts. Every operation runs under the manager's mutex. A method may be
  called on a nil manager, which is None.

  The environment of an operation gives its clock reading, its random bytes and the outcome of
  its file operations. Texts of errors end where the code wraps the error of a library.
\<close>

section \<open>The manager\<close>

definition recoveryKeyBytes :: nat where "recoveryKeyBytes = 32"
definition sessionTokenBytes :: nat where "sessionTokenBytes = 32"
definition csrfTokenBytes :: nat where "csrfTokenBytes = 24"
definition SessionDuration :: int where "SessionDuration = 8 * Hour"
definition loginWindow :: int where "loginWindow = Minute"
definition maxLoginAttempts :: nat where "maxLoginAttempts = 5"
definition maxActiveSessions :: nat where "maxActiveSessions = 1024"

lemmas auth_limits = recoveryKeyBytes_def sessionTokenBytes_def csrfTokenBytes_def SessionDuration_def
  loginWindow_def maxLoginAttempts_def maxActiveSessions_def

record Session =
  se_Actor :: string
  se_UserID :: string
  se_Role :: Role
  se_AuthMethod :: string
  se_CSRFToken :: string
  se_ExpiresAt :: time

definition IsAdmin :: "Session \<Rightarrow> bool" where
  "IsAdmin s \<longleftrightarrow> se_Role s = RoleAdmin"

record Manager =
  mg_keyDigest :: string
  mg_sessions :: "(string \<times> Session) list"
  mg_attempts :: "(string \<times> counter) list"

definition randomToken :: "env \<Rightarrow> nat \<Rightarrow> nat \<Rightarrow> string option" where
  "randomToken e k n = map_option RawURL_Encode (rand_Read e k n)"

definition GenerateKey :: "env \<Rightarrow> nat \<Rightarrow> string option" where
  "GenerateKey e k = randomToken e k recoveryKeyBytes"

definition New_manager :: "golib \<Rightarrow> string \<Rightarrow> string + Manager" where
  "New_manager L key0 =
     (let key = TrimSpace key0 in
      case RawURL_Decode key of
        None \<Rightarrow> Inl ''operator recovery key must be 256-bit base64url without padding''
      | Some decoded \<Rightarrow>
        if length decoded \<noteq> recoveryKeyBytes then Inl ''operator recovery key must be 256-bit base64url without padding''
        else Inr \<lparr>mg_keyDigest = lib_sha256 L key, mg_sessions = [], mg_attempts = []\<rparr>)"

definition cleanupLocked :: "time \<Rightarrow> Manager \<Rightarrow> Manager" where
  "cleanupLocked now m = m\<lparr>mg_sessions := filter (\<lambda>(digest, rec). se_ExpiresAt rec > now) (mg_sessions m),
     mg_attempts := filter (\<lambda>(remote, c). \<not> now - ct_started c \<ge> 2 * loginWindow) (mg_attempts m)\<rparr>"

definition issueSession :: "golib \<Rightarrow> env \<Rightarrow> Session \<Rightarrow> Manager \<Rightarrow> (string + string \<times> Session) \<times> Manager" where
  "issueSession L e base m0 =
     (let now = env_now e; m = cleanupLocked now m0 in
      if length (mg_sessions m) \<ge> maxActiveSessions then (Inl ''too many active operator sessions'', m)
      else case randomToken e 0 sessionTokenBytes of
        None \<Rightarrow> (Inl ''generate operator session: secure random generation failed'', m)
      | Some token \<Rightarrow>
        (case randomToken e 1 csrfTokenBytes of
           None \<Rightarrow> (Inl ''generate operator csrf token: secure random generation failed'', m)
         | Some csrf \<Rightarrow>
           let session = base\<lparr>se_CSRFToken := csrf, se_ExpiresAt := now + SessionDuration\<rparr> in
           (Inr (token, session), m\<lparr>mg_sessions := AList.update (lib_sha256 L token) session (mg_sessions m)\<rparr>)))"

definition IssueUserSession :: "golib \<Rightarrow> env \<Rightarrow> User \<Rightarrow> string \<Rightarrow> Manager option
    \<Rightarrow> (string + string \<times> Session) \<times> Manager option" where
  "IssueUserSession L e user authMethod0 p =
     (case p of None \<Rightarrow> (Inl ''operator manager is unavailable'', None)
      | Some m \<Rightarrow>
        if u_ID user = [] \<or> u_Status user \<noteq> StatusActive then (Inl ''operator user is not active'', Some m)
        else case ValidateRole (u_Role user) of
          Some err \<Rightarrow> (Inl err, Some m)
        | None \<Rightarrow>
          let authMethod = TrimSpace authMethod0 in
          if authMethod = [] \<or> length authMethod > 64 then (Inl ''operator authentication method is invalid'', Some m)
          else map_prod id Some (issueSession L e
            \<lparr>se_Actor = ''user:'' @ u_Subject user, se_UserID = u_ID user, se_Role = u_Role user,
             se_AuthMethod = authMethod, se_CSRFToken = [], se_ExpiresAt = 0\<rparr> m))"

definition Session_of :: "golib \<Rightarrow> env \<Rightarrow> string \<Rightarrow> Manager option \<Rightarrow> Session option \<times> Manager option" where
  "Session_of L e token p =
     (case p of None \<Rightarrow> (None, None)
      | Some m0 \<Rightarrow>
        if TrimSpace token = [] then (None, Some m0)
        else let now = env_now e; m = cleanupLocked now m0 in
        (case map_of (mg_sessions m) (lib_sha256 L token) of
           None \<Rightarrow> (None, Some m)
         | Some rec \<Rightarrow> (if \<not> se_ExpiresAt rec > now then None else Some rec, Some m)))"

definition ValidateCSRF :: "golib \<Rightarrow> Session \<Rightarrow> string \<Rightarrow> bool" where
  "ValidateCSRF L session supplied \<longleftrightarrow>
     \<not> (TrimSpace supplied = [] \<or> se_CSRFToken session = [])
     \<and> lib_sha256 L supplied = lib_sha256 L (se_CSRFToken session)"

definition Logout :: "golib \<Rightarrow> string \<Rightarrow> Manager option \<Rightarrow> Manager option" where
  "Logout L token p =
     (case p of None \<Rightarrow> None
      | Some m \<Rightarrow> if token = [] then Some m
          else Some (m\<lparr>mg_sessions := AList.delete (lib_sha256 L token) (mg_sessions m)\<rparr>))"

section \<open>The recovery key\<close>

definition VerifyRecoveryKey :: "golib \<Rightarrow> env \<Rightarrow> string \<Rightarrow> string \<Rightarrow> Manager option \<Rightarrow> string option \<times> Manager option" where
  "VerifyRecoveryKey L e remote0 suppliedKey p =
     (case p of None \<Rightarrow> (Some ''operator manager is unavailable'', None)
      | Some m0 \<Rightarrow>
        let remote = (if TrimSpace remote0 = [] then ''unknown'' else TrimSpace remote0);
            now = env_now e; m = cleanupLocked now m0;
            c = (case map_of (mg_attempts m) remote of None \<Rightarrow> \<lparr>ct_started = 0, ct_count = 0\<rparr> | Some c \<Rightarrow> c);
            c = (if IsZero (ct_started c) \<or> now - ct_started c \<ge> loginWindow then \<lparr>ct_started = now, ct_count = 0\<rparr> else c) in
        if ct_count c \<ge> maxLoginAttempts then
          (Some ''operator recovery rate limit exceeded'', Some (m\<lparr>mg_attempts := AList.update remote c (mg_attempts m)\<rparr>))
        else let m = m\<lparr>mg_attempts := AList.update remote (c\<lparr>ct_count := ct_count c + 1\<rparr>) (mg_attempts m)\<rparr> in
        if lib_sha256 L (TrimSpace suppliedKey) \<noteq> mg_keyDigest m then (Some ''operator recovery key is invalid'', Some m)
        else (None, Some (m\<lparr>mg_attempts := AList.delete remote (mg_attempts m)\<rparr>)))"

text \<open>
  The file that the path names: whether it is a regular file (and no symbolic link), its permission
  bits and its content. The outcome number of the file operations: 0 the inspection, 1 the read,
  2 the directory, 3 the exclusive creation, 4 the write (of which \<open>written\<close> bytes reached the file
  when it fails), 5 the sync, 6 the close, 7 the removal after a failure.
\<close>

record key_file =
  kf_regular :: bool
  kf_perm :: nat
  kf_content :: string

definition removed_unless_ok :: "env \<Rightarrow> key_file \<Rightarrow> key_file option" where
  "removed_unless_ok e f = (if env_io e 7 then None else Some f)"

definition loadOrCreateRecoveryKey :: "env \<Rightarrow> nat \<Rightarrow> key_file option \<Rightarrow> (string + string \<times> bool) \<times> key_file option" where
  "loadOrCreateRecoveryKey e written fs =
     (if \<not> env_io e 0 then (Inl ''inspect operator recovery key'', fs)
      else case fs of
        Some f \<Rightarrow>
          if \<not> kf_regular f then (Inl ''operator key path must be a regular file'', fs)
          else if kf_perm f mod 0x40 \<noteq> 0 then (Inl ''operator key file permissions must not allow group/other access'', fs)
          else if \<not> env_io e 1 then (Inl ''read operator recovery key'', fs)
          else (Inr (TrimSpace (kf_content f), False), fs)
      | None \<Rightarrow>
          if \<not> env_io e 2 then (Inl ''create operator key directory'', None)
          else case GenerateKey e 0 of
            None \<Rightarrow> (Inl ''secure random generation failed'', None)
          | Some key \<Rightarrow>
            if \<not> env_io e 3 then (Inl ''create operator recovery key'', None)
            else let f = \<lparr>kf_regular = True, kf_perm = 0x180, kf_content = key @ [LF]\<rparr> in
            if \<not> env_io e 4 then (Inl ''write operator recovery key'', removed_unless_ok e (f\<lparr>kf_content := take written (key @ [LF])\<rparr>))
            else if \<not> env_io e 5 then (Inl ''sync operator recovery key'', removed_unless_ok e f)
            else if \<not> env_io e 6 then (Inl ''close operator recovery key'', removed_unless_ok e f)
            else (Inr (key, True), Some f))"

text \<open>filepath.Clean makes a path absolute exactly when it was.\<close>

definition LoadOrCreate :: "golib \<Rightarrow> env \<Rightarrow> nat \<Rightarrow> string \<Rightarrow> key_file option \<Rightarrow> (string + Manager) \<times> key_file option" where
  "LoadOrCreate L e written path fs =
     (if \<not> prefix ''/'' (TrimSpace path) then (Inl ''operator key path must be absolute'', fs)
      else case loadOrCreateRecoveryKey e written fs of
        (Inl err, fs') \<Rightarrow> (Inl err, fs')
      | (Inr (key, created), fs') \<Rightarrow> (New_manager L key, fs'))"

text \<open>A key that was created is the key of every later start.\<close>

lemma randomToken_Some: "randomToken e k n = Some t \<longleftrightarrow> (\<exists>raw. rand_Read e k n = Some raw \<and> length raw = n \<and> t = RawURL_Encode raw)"
  by (auto simp: randomToken_def rand_Read_def)

lemma recovery_key_kept:
  assumes "loadOrCreateRecoveryKey e w None = (Inr (key, created), fs)" "env_io e' 0" "env_io e' 1"
  shows "loadOrCreateRecoveryKey e' w' fs = (Inr (key, False), fs)"
    and "New_manager L key = Inr \<lparr>mg_keyDigest = lib_sha256 L key, mg_sessions = [], mg_attempts = []\<rparr>"
proof -
  from assms obtain raw where raw: "rand_Read e 0 recoveryKeyBytes = Some raw" "length raw = recoveryKeyBytes"
      "key = RawURL_Encode raw" "fs = Some \<lparr>kf_regular = True, kf_perm = 0x180, kf_content = key @ [LF]\<rparr>"
    by (auto simp: loadOrCreateRecoveryKey_def GenerateKey_def randomToken_Some Let_def removed_unless_ok_def
        split: if_splits option.splits)
  have "TrimSpace (key @ [LF]) = key" using raw(3) by (simp add: TrimSpace_RawURL_line del: append.simps)
  with raw assms show "loadOrCreateRecoveryKey e' w' fs = (Inr (key, False), fs)"
    by (simp add: loadOrCreateRecoveryKey_def)
  show "New_manager L key = Inr \<lparr>mg_keyDigest = lib_sha256 L key, mg_sessions = [], mg_attempts = []\<rparr>"
    using raw by (simp add: New_manager_def Let_def RawURL_roundtrip)
qed

end
