(* ===== verification/Operator_Sessions.thy ===== *)
theory Operator_Sessions
  imports Operator_Auth Samples
begin

text \<open>
  Properties of the operator's sessions and of the recovery key over runs of the manager: which
  token opens a session and for how long, and how often a key can be guessed.
\<close>

section \<open>Runs of the manager\<close>

text \<open>Operations with their environments; the check of a CSRF token does not touch the manager.\<close>

datatype auth_op = OpIssue env User string | OpLookup env string | OpLogout string | OpRecover env string string

fun auth_apply :: "golib \<Rightarrow> auth_op \<Rightarrow> Manager option \<Rightarrow> Manager option" where
  "auth_apply L (OpIssue e user meth) p = snd (IssueUserSession L e user meth p)"
| "auth_apply L (OpLookup e token) p = snd (Session_of L e token p)"
| "auth_apply L (OpLogout token) p = Logout L token p"
| "auth_apply L (OpRecover e remote key) p = snd (VerifyRecoveryKey L e remote key p)"

definition auth_run :: "golib \<Rightarrow> auth_op list \<Rightarrow> Manager option \<Rightarrow> Manager option" where
  "auth_run L ops p = fold (auth_apply L) ops p"

fun op_time :: "auth_op \<Rightarrow> time option" where
  "op_time (OpIssue e user meth) = Some (env_now e)"
| "op_time (OpLookup e token) = Some (env_now e)"
| "op_time (OpLogout token) = None"
| "op_time (OpRecover e remote key) = Some (env_now e)"

text \<open>The session a manager holds under a digest, if it is live.\<close>

definition held :: "Manager option \<Rightarrow> string \<Rightarrow> Session option" where
  "held p digest = (case p of None \<Rightarrow> None | Some m \<Rightarrow> map_of (mg_sessions m) digest)"

definition manager_ok :: "Manager option \<Rightarrow> bool" where
  "manager_ok p = (case p of None \<Rightarrow> True | Some m \<Rightarrow>
     distinct (map fst (mg_sessions m)) \<and> distinct (map fst (mg_attempts m)) \<and> length (mg_sessions m) \<le> 1024)"

text \<open>Does an operation end the session under a digest, or replace it?\<close>

fun touches :: "golib \<Rightarrow> string \<Rightarrow> auth_op \<Rightarrow> bool" where
  "touches L digest (OpIssue e user meth) \<longleftrightarrow> (\<exists>t. randomToken e 0 sessionTokenBytes = Some t \<and> lib_sha256 L t = digest)"
| "touches L digest (OpLogout token) \<longleftrightarrow> lib_sha256 L token = digest"
| "touches L digest (OpLookup e token) \<longleftrightarrow> False"
| "touches L digest (OpRecover e remote key) \<longleftrightarrow> False"

section \<open>The steps\<close>

lemma cleanup_sessions [simp]: "mg_sessions (cleanupLocked now m) = filter (\<lambda>(d, s). se_ExpiresAt s > now) (mg_sessions m)"
  "mg_attempts (cleanupLocked now m) = filter (\<lambda>(r, c). \<not> now - ct_started c \<ge> 2 * loginWindow) (mg_attempts m)"
  "mg_keyDigest (cleanupLocked now m) = mg_keyDigest m"
  by (simp_all add: cleanupLocked_def)

lemma held_filter:
  "distinct (map fst al) \<Longrightarrow> map_of (filter (\<lambda>(d, s). se_ExpiresAt s > now) al) digest =
    (case map_of al digest of None \<Rightarrow> None | Some s \<Rightarrow> if se_ExpiresAt s > now then Some s else None)"
  by (simp add: map_of_filter_cases split: option.splits)

definition base_session :: "User \<Rightarrow> string \<Rightarrow> Session" where
  "base_session user meth = \<lparr>se_Actor = ''user:'' @ u_Subject user, se_UserID = u_ID user, se_Role = u_Role user,
     se_AuthMethod = TrimSpace meth, se_CSRFToken = [], se_ExpiresAt = 0\<rparr>"

text \<open>What a successful issue means, and that a failed one only drops expired sessions.\<close>

lemma issue_Inr:
  assumes "IssueUserSession L e user meth (Some m) = (Inr (token, s), p)"
  shows "u_Status user = StatusActive \<and> u_ID user \<noteq> [] \<and> u_Role user \<in> {RoleAdmin, RoleOperator}
    \<and> TrimSpace meth \<noteq> [] \<and> length (TrimSpace meth) \<le> 64
    \<and> randomToken e 0 sessionTokenBytes = Some token
    \<and> (\<exists>csrf. randomToken e 1 csrfTokenBytes = Some csrf
        \<and> s = (base_session user meth)\<lparr>se_CSRFToken := csrf, se_ExpiresAt := env_now e + SessionDuration\<rparr>)
    \<and> length (mg_sessions (cleanupLocked (env_now e) m)) < 1024
    \<and> p = Some ((cleanupLocked (env_now e) m)\<lparr>mg_sessions :=
        AList.update (lib_sha256 L token) s (mg_sessions (cleanupLocked (env_now e) m))\<rparr>)"
  using assms
  by (auto simp: IssueUserSession_def issueSession_def base_session_def Let_def ValidateRole_def maxActiveSessions_def
      split: if_splits option.splits Role.splits simp del: cleanup_sessions)

lemma issue_Inl:
  assumes "IssueUserSession L e user meth (Some m) = (Inl err, p)"
  shows "p = Some m \<or> p = Some (cleanupLocked (env_now e) m)"
  using assms
  by (auto simp: IssueUserSession_def issueSession_def Let_def split: if_splits option.splits)

lemma lookup_state: "snd (Session_of L e token (Some m)) = Some m \<or> snd (Session_of L e token (Some m)) = Some (cleanupLocked (env_now e) m)"
  by (auto simp: Session_of_def Let_def split: option.splits)

lemma recover_sessions:
  "\<exists>m'. snd (VerifyRecoveryKey L e remote key (Some m)) = Some m' \<and> mg_sessions m' = mg_sessions (cleanupLocked (env_now e) m)
     \<and> mg_keyDigest m' = mg_keyDigest m \<and> (distinct (map fst (mg_attempts m)) \<longrightarrow> distinct (map fst (mg_attempts m')))"
  by (auto simp: VerifyRecoveryKey_def Let_def distinct_update distinct_delete distinct_map_filter split: option.splits)

lemma manager_ok_cleanup: "manager_ok (Some m) \<Longrightarrow> manager_ok (Some (cleanupLocked now m))"
  by (auto simp: manager_ok_def distinct_map_filter intro: le_trans [OF length_filter_le])

lemma auth_apply_ok:
  assumes "manager_ok p"
  shows "manager_ok (auth_apply L opr p)"
proof (cases p)
  case None
  then show ?thesis
    by (cases opr) (simp_all add: manager_ok_def IssueUserSession_def Session_of_def Logout_def VerifyRecoveryKey_def)
next
  case (Some m)
  with assms have m: "manager_ok (Some m)" by simp
  note clean = manager_ok_cleanup [OF m]
  show ?thesis
  proof (cases opr)
    case (OpIssue e user meth)
    obtain res q where issue: "IssueUserSession L e user meth (Some m) = (res, q)" by force
    show ?thesis
    proof (cases res)
      case (Inl err)
      with issue_Inl [of L e user meth m err q] issue m clean OpIssue Some show ?thesis by auto
    next
      case (Inr r)
      obtain token s where r: "r = (token, s)" by force
      from issue_Inr [of L e user meth m token s q] issue Inr r clean [of "env_now e"] OpIssue Some
      show ?thesis by (auto simp: manager_ok_def distinct_update length_update simp del: cleanup_sessions)
    qed
  next
    case (OpLookup e token)
    with lookup_state [of L e token m] m clean Some show ?thesis by auto
  next
    case (OpLogout token)
    with m Some show ?thesis
      by (auto simp: manager_ok_def Logout_def distinct_delete intro: le_trans [OF length_delete_le])
  next
    case (OpRecover e remote key)
    obtain m' where "snd (VerifyRecoveryKey L e remote key (Some m)) = Some m'" "mg_sessions m' = mg_sessions (cleanupLocked (env_now e) m)"
      "distinct (map fst (mg_attempts m)) \<longrightarrow> distinct (map fst (mg_attempts m'))"
      using recover_sessions [of L e remote key m] by auto
    with OpRecover clean [of "env_now e"] m Some show ?thesis by (simp add: manager_ok_def)
  qed
qed

lemma auth_run_ok: "manager_ok p \<Longrightarrow> manager_ok (auth_run L ops p)"
  unfolding auth_run_def by (induction ops arbitrary: p) (simp_all add: auth_apply_ok)

section \<open>What a session stands for\<close>

lemma map_of_update [simp]: "map_of (AList.update k v al) x = (if x = k then Some v else map_of al x)"
  by (simp add: update_conv')

lemma map_of_delete [simp]: "map_of (AList.delete k al) x = (if x = k then None else map_of al x)"
  by (simp add: delete_conv')

lemma held_cleanup:
  assumes "manager_ok (Some m)"
  shows "held (Some (cleanupLocked now m)) digest =
    (case held (Some m) digest of None \<Rightarrow> None | Some s \<Rightarrow> if se_ExpiresAt s > now then Some s else None)"
  using assms by (simp add: held_def manager_ok_def held_filter)

lemma held_recover:
  "held (snd (VerifyRecoveryKey L e remote key (Some m))) digest = held (Some (cleanupLocked (env_now e) m)) digest"
  using recover_sessions [of L e remote key m] by (auto simp: held_def)

text \<open>An operation leaves a session, ends it, lets it expire or issues it.\<close>

lemma held_step:
  assumes "manager_ok (Some m)"
  shows "held (auth_apply L opr (Some m)) digest = held (Some m) digest
    \<or> held (auth_apply L opr (Some m)) digest = None \<and>
        (touches L digest opr \<or> (\<exists>s t. held (Some m) digest = Some s \<and> op_time opr = Some t \<and> se_ExpiresAt s \<le> t))
    \<or> (\<exists>e user meth token s q. opr = OpIssue e user meth \<and> lib_sha256 L token = digest
        \<and> IssueUserSession L e user meth (Some m) = (Inr (token, s), q)
        \<and> held (auth_apply L opr (Some m)) digest = Some s)"
proof (cases opr)
  case (OpIssue e user meth)
  obtain res q where issue: "IssueUserSession L e user meth (Some m) = (res, q)" by force
  show ?thesis
  proof (cases res)
    case (Inl err)
    with issue_Inl [of L e user meth m err q] issue OpIssue held_cleanup [OF assms, of "env_now e" digest] show ?thesis
      by (auto split: option.splits)
  next
    case (Inr r)
    obtain token s where r: "r = (token, s)" by force
    have q: "held q digest = (if lib_sha256 L token = digest then Some s else held (Some (cleanupLocked (env_now e) m)) digest)"
      using issue_Inr [of L e user meth m token s q] issue Inr r by (auto simp: held_def)
    with issue Inr r OpIssue held_cleanup [OF assms, of "env_now e" digest] show ?thesis
      by (auto split: option.splits)
  qed
next
  case (OpLookup e token)
  with lookup_state [of L e token m] held_cleanup [OF assms, of "env_now e" digest] show ?thesis
    by (auto split: option.splits if_splits)
next
  case (OpLogout token)
  then show ?thesis by (auto simp: Logout_def held_def)
next
  case (OpRecover e remote key)
  with held_cleanup [OF assms, of "env_now e" digest] show ?thesis
    by (auto simp: held_recover split: option.splits)
qed

lemma logout_ends:
  "held p digest \<noteq> None \<Longrightarrow> held (auth_apply L (OpLogout token) p) digest \<noteq> None \<Longrightarrow> token = [] \<or> lib_sha256 L token \<noteq> digest"
  by (auto simp: held_def Logout_def split: option.splits if_splits)

lemma auth_apply_Some: "p \<noteq> None \<Longrightarrow> auth_apply L opr p \<noteq> None"
  using recover_sessions by (cases opr) (fastforce simp: IssueUserSession_def Session_of_def Logout_def Let_def split: option.splits)+

lemma auth_run_Some: "p \<noteq> None \<Longrightarrow> auth_run L ops p \<noteq> None"
  unfolding auth_run_def by (induction ops arbitrary: p) (simp_all add: auth_apply_Some del: not_None_eq)

lemma auth_run_snoc: "auth_run L (ops @ [opr]) p = auth_apply L opr (auth_run L ops p)"
  by (simp add: auth_run_def)

definition issued_in :: "golib \<Rightarrow> auth_op list \<Rightarrow> Manager \<Rightarrow> string \<Rightarrow> Session \<Rightarrow> env \<Rightarrow> User \<Rightarrow> bool" where
  "issued_in L ops m0 digest s e user \<longleftrightarrow> (\<exists>before meth after token q.
     ops = before @ OpIssue e user meth # after
   \<and> IssueUserSession L e user meth (auth_run L before (Some m0)) = (Inr (token, s), q)
   \<and> lib_sha256 L token = digest
   \<and> (\<forall>tk. OpLogout tk \<in> set after \<longrightarrow> tk = [] \<or> lib_sha256 L tk \<noteq> digest))"

lemma issued_in_snoc:
  assumes "issued_in L ops m0 digest s e user" "\<forall>tk. opr = OpLogout tk \<longrightarrow> tk = [] \<or> lib_sha256 L tk \<noteq> digest"
  shows "issued_in L (ops @ [opr]) m0 digest s e user"
proof -
  obtain before meth after token q where *: "ops = before @ OpIssue e user meth # after"
    "IssueUserSession L e user meth (auth_run L before (Some m0)) = (Inr (token, s), q)"
    "lib_sha256 L token = digest" "\<forall>tk. OpLogout tk \<in> set after \<longrightarrow> tk = [] \<or> lib_sha256 L tk \<noteq> digest"
    using assms(1) unfolding issued_in_def by blast
  show ?thesis
    unfolding issued_in_def using * assms(2)
    by (intro exI [of _ before] exI [of _ meth] exI [of _ "after @ [opr]"] exI [of _ token] exI [of _ q]) auto
qed

lemma held_issued:
  assumes "manager_ok (Some m0)" "held (Some m0) digest = None" "held (auth_run L ops (Some m0)) digest = Some s"
  shows "\<exists>e user. issued_in L ops m0 digest s e user"
  using assms(3)
proof (induction ops arbitrary: s rule: rev_induct)
  case Nil
  with assms(2) show ?case by (simp add: auth_run_def)
next
  case (snoc opr ops)
  obtain m where m: "auth_run L ops (Some m0) = Some m" using auth_run_Some [of "Some m0" L ops] by auto
  have ok: "manager_ok (Some m)" using auth_run_ok [OF assms(1), of L ops] m by simp
  from held_step [OF ok, of L opr digest] snoc.prems
  consider "held (Some m) digest = Some s"
    | e user meth token q where "opr = OpIssue e user meth" "lib_sha256 L token = digest"
        "IssueUserSession L e user meth (Some m) = (Inr (token, s), q)"
    by (auto simp: auth_run_snoc m)
  then show ?case
  proof cases
    case 1
    then obtain e user where "issued_in L ops m0 digest s e user" using snoc.IH m by metis
    moreover have "\<forall>tk. opr = OpLogout tk \<longrightarrow> tk = [] \<or> lib_sha256 L tk \<noteq> digest"
      using logout_ends [of "Some m" digest L] 1 snoc.prems unfolding auth_run_snoc m by (metis option.distinct(1))
    ultimately show ?thesis using issued_in_snoc by blast
  next
    case 2
    then have "issued_in L (ops @ [opr]) m0 digest s e user"
      unfolding issued_in_def using m
      by (intro exI [of _ ops] exI [of _ meth] exI [of _ "[]"] exI [of _ token] exI [of _ q]) auto
    then show ?thesis by blast
  qed
qed

lemma new_manager: "New_manager L key = Inr m \<Longrightarrow> mg_sessions m = [] \<and> mg_attempts m = [] \<and> manager_ok (Some m)
    \<and> mg_keyDigest m = lib_sha256 L (TrimSpace key)"
  by (auto simp: New_manager_def Let_def manager_ok_def split: option.splits if_splits)

lemma Session_of_Some: "fst (Session_of L e token (Some m)) = Some s \<Longrightarrow> manager_ok (Some m) \<Longrightarrow>
    held (Some m) (lib_sha256 L token) = Some s \<and> se_ExpiresAt s > env_now e"
  by (auto simp: Session_of_def held_def manager_ok_def Let_def held_filter split: if_splits option.splits)

text \<open>C34:
  A token opens a session only if the session was issued for it. Whatever operations ran since the
  manager was made, a lookup that succeeds returns a session that an earlier successful issue
  returned with a token of the same digest, for an active user with a valid role whose identifier
  and role it carries, less than eight hours ago, and no logout of this token followed.
\<close>

theorem operator_session_authentic:
  assumes "New_manager L key = Inr m0"
    and "fst (Session_of L e token (auth_run L ops (Some m0))) = Some s"
  shows "\<exists>e' user. issued_in L ops m0 (lib_sha256 L token) s e' user
    \<and> u_Status user = StatusActive \<and> u_Role user \<in> {RoleAdmin, RoleOperator}
    \<and> se_UserID s = u_ID user \<and> se_Role s = u_Role user
    \<and> env_now e < env_now e' + 8 * Hour"
proof -
  obtain m where m: "auth_run L ops (Some m0) = Some m" using auth_run_Some [of "Some m0" L ops] by auto
  note new = new_manager [OF assms(1)]
  have "manager_ok (Some m)" using auth_run_ok [of "Some m0" L ops] new m by simp
  with Session_of_Some [of L e token m s] assms(2) m
  have held: "held (auth_run L ops (Some m0)) (lib_sha256 L token) = Some s" "se_ExpiresAt s > env_now e" by auto
  obtain e' user where i: "issued_in L ops m0 (lib_sha256 L token) s e' user"
    using held_issued [OF _ _ held(1)] new by (auto simp: held_def)
  then obtain before meth token' q where "IssueUserSession L e' user meth (auth_run L before (Some m0)) = (Inr (token', s), q)"
    by (auto simp: issued_in_def)
  moreover obtain mb where "auth_run L before (Some m0) = Some mb" using auth_run_Some [of "Some m0" L before] by auto
  ultimately have "u_Status user = StatusActive" "u_Role user \<in> {RoleAdmin, RoleOperator}" "se_UserID s = u_ID user"
    "se_Role s = u_Role user" "se_ExpiresAt s = env_now e' + SessionDuration"
    using issue_Inr [of L e' user meth mb token' s q] by (auto simp: base_session_def)
  with i held(2) show ?thesis by (auto simp: SessionDuration_def)
qed

section \<open>The lifetime of a session\<close>

lemma held_stays:
  assumes "manager_ok (Some m)" "held (Some m) digest = Some s" "\<not> touches L digest opr"
    "\<forall>t. op_time opr = Some t \<longrightarrow> t < se_ExpiresAt s"
  shows "held (auth_apply L opr (Some m)) digest = Some s"
  using held_step [OF assms(1), of L opr digest] assms(2-4) issue_Inr by fastforce

lemma held_gone:
  assumes "manager_ok (Some m)" "held (Some m) digest = None \<or> held (Some m) digest = Some s" "\<not> touches L digest opr"
  shows "held (auth_apply L opr (Some m)) digest = None \<or> held (auth_apply L opr (Some m)) digest = Some s"
  using held_step [OF assms(1), of L opr digest] assms(2,3) issue_Inr by fastforce

lemma held_run:
  assumes "manager_ok p" "p \<noteq> None" "held p digest = Some s" "\<forall>opr \<in> set ops. \<not> touches L digest opr"
  shows "(held (auth_run L ops p) digest = None \<or> held (auth_run L ops p) digest = Some s)
    \<and> ((\<forall>opr \<in> set ops. \<forall>t. op_time opr = Some t \<longrightarrow> t < se_ExpiresAt s) \<longrightarrow> held (auth_run L ops p) digest = Some s)"
  using assms(4)
proof (induction ops rule: rev_induct)
  case Nil
  with assms(3) show ?case by (simp add: auth_run_def)
next
  case (snoc opr ops)
  obtain m where m: "auth_run L ops p = Some m" using auth_run_Some [OF assms(2), of L ops] by auto
  have ok: "manager_ok (Some m)" using auth_run_ok [OF assms(1), of L ops] m by simp
  have IH: "(held (Some m) digest = None \<or> held (Some m) digest = Some s)
    \<and> ((\<forall>opr \<in> set ops. \<forall>t. op_time opr = Some t \<longrightarrow> t < se_ExpiresAt s) \<longrightarrow> held (Some m) digest = Some s)"
    using snoc m by simp
  have t: "\<not> touches L digest opr" using snoc.prems by simp
  show ?case
    using held_gone [OF ok conjunct1 [OF IH] t] held_stays [OF ok _ t, of s] IH by (simp add: auth_run_snoc m)
qed

lemma token_not_blank: "randomToken e k sessionTokenBytes = Some token \<Longrightarrow> TrimSpace token \<noteq> []"
  by (auto simp: randomToken_Some sessionTokenBytes_def dest: arg_cong [where f = length] simp: length_RawURL_Encode)

lemma csrf_not_empty: "randomToken e k csrfTokenBytes = Some csrf \<Longrightarrow> TrimSpace csrf \<noteq> [] \<and> csrf \<noteq> []"
  by (auto simp: randomToken_Some csrfTokenBytes_def dest: arg_cong [where f = length] simp: length_RawURL_Encode)

lemma Session_of_held:
  "manager_ok (Some m) \<Longrightarrow> TrimSpace token \<noteq> [] \<Longrightarrow> fst (Session_of L e token (Some m)) =
    (case held (Some m) (lib_sha256 L token) of None \<Rightarrow> None | Some s \<Rightarrow> if se_ExpiresAt s > env_now e then Some s else None)"
  by (simp add: Session_of_def held_def manager_ok_def Let_def held_filter split: option.splits)

lemma token_not_empty: "randomToken e k sessionTokenBytes = Some token \<Longrightarrow> token \<noteq> []"
  using token_not_blank by fastforce

lemma logged_out: "token \<noteq> [] \<Longrightarrow> held (Logout L token p) (lib_sha256 L token) = None"
  by (simp add: held_def Logout_def split: option.splits)

lemma Logout_is_op: "Logout L token p = auth_apply L (OpLogout token) p"
  by simp

text \<open>C35:
  A session lives for eight hours or until its logout. Whatever operations ran before it was issued
  and whatever ran since, in the order of the clock, as long as none of them logs it out or issues a
  token with the same digest: looking its token up returns it before its expiry and nothing from
  then on. After its logout the token opens nothing. Its CSRF token is accepted.
\<close>

theorem operator_session_lifetime:
  assumes "New_manager L key = Inr m0"
    and "IssueUserSession L e user meth (auth_run L before (Some m0)) = (Inr (token, s), p)"
    and "\<forall>opr \<in> set after. \<not> touches L (lib_sha256 L token) opr \<and> (\<forall>t. op_time opr = Some t \<longrightarrow> t \<le> env_now e')"
  shows "fst (Session_of L e' token (auth_run L after p)) = (if env_now e' < env_now e + 8 * Hour then Some s else None)
    \<and> fst (Session_of L e'' token (Logout L token (auth_run L after p))) = None
    \<and> ValidateCSRF L s (se_CSRFToken s)"
proof -
  let ?d = "lib_sha256 L token"
  obtain mb where mb: "auth_run L before (Some m0) = Some mb" using auth_run_Some [of "Some m0" L before] by auto
  note i = issue_Inr [OF assms(2) [unfolded mb]]
  have token: "TrimSpace token \<noteq> []" "token \<noteq> []" using i token_not_blank token_not_empty by blast+
  have "manager_ok (auth_run L (before @ [OpIssue e user meth]) (Some m0))"
    using auth_run_ok new_manager [OF assms(1)] by blast
  then have p: "manager_ok p" "held p ?d = Some s" "p \<noteq> None"
    using i assms(2) by (auto simp: auth_run_snoc held_def)
  obtain m where m: "auth_run L after p = Some m" using auth_run_Some [OF p(3), of L after] by auto
  have ok: "manager_ok (Some m)" using auth_run_ok [OF p(1), of L after] m by simp
  have expiry: "se_ExpiresAt s = env_now e + 8 * Hour" using i by (auto simp: SessionDuration_def)
  have after: "(held (Some m) ?d = None \<or> held (Some m) ?d = Some s)
    \<and> ((\<forall>opr \<in> set after. \<forall>t. op_time opr = Some t \<longrightarrow> t < se_ExpiresAt s) \<longrightarrow> held (Some m) ?d = Some s)"
    using held_run [OF p(1,3,2), of after L] assms(3) m by simp
  then have run: "env_now e' < se_ExpiresAt s \<longrightarrow> held (Some m) ?d = Some s"
    using assms(3) by (meson le_less_trans)
  have 1: "fst (Session_of L e' token (Some m)) = (if env_now e' < env_now e + 8 * Hour then Some s else None)"
    using run after expiry by (auto simp: Session_of_held [OF ok token(1)] split: option.splits)
  obtain m' where m': "Logout L token (Some m) = Some m'" by (simp add: Logout_def token)
  have "manager_ok (Some m')" using auth_apply_ok [OF ok, of L "OpLogout token"] m' by simp
  then have 2: "fst (Session_of L e'' token (Logout L token (Some m))) = None"
    using logged_out [OF token(2), of L "Some m"] by (simp add: m' Session_of_held token)
  have "ValidateCSRF L s (se_CSRFToken s)" using i csrf_not_empty by (auto simp: ValidateCSRF_def)
  with 1 2 m show ?thesis by simp
qed

section \<open>Guessing the recovery key\<close>

definition remote_name :: "string \<Rightarrow> string" where
  "remote_name remote = (if TrimSpace remote = [] then ''unknown'' else TrimSpace remote)"

fun at_time :: "time \<Rightarrow> auth_op \<Rightarrow> auth_op" where
  "at_time t (OpIssue e user meth) = OpIssue (e\<lparr>env_now := t\<rparr>) user meth"
| "at_time t (OpLookup e token) = OpLookup (e\<lparr>env_now := t\<rparr>) token"
| "at_time t (OpLogout token) = OpLogout token"
| "at_time t (OpRecover e remote key) = OpRecover (e\<lparr>env_now := t\<rparr>) remote key"

text \<open>A guess of a client: its key was compared with the recovery key and is another one.\<close>

fun wrong_guess :: "golib \<Rightarrow> string \<Rightarrow> auth_op \<Rightarrow> Manager option \<Rightarrow> bool" where
  "wrong_guess L client (OpRecover e remote key) p \<longleftrightarrow> remote_name remote = client
     \<and> fst (VerifyRecoveryKey L e remote key p) = Some ''operator recovery key is invalid''"
| "wrong_guess L client (OpIssue e user meth) p \<longleftrightarrow> False"
| "wrong_guess L client (OpLookup e token) p \<longleftrightarrow> False"
| "wrong_guess L client (OpLogout token) p \<longleftrightarrow> False"

definition recovery_step :: "golib \<Rightarrow> string \<Rightarrow> time \<Rightarrow> auth_op \<Rightarrow> Manager option \<Rightarrow> bool \<times> Manager option" where
  "recovery_step L client t opr p = (wrong_guess L client (at_time t opr) p, auth_apply L (at_time t opr) p)"

text \<open>Operations in which the client does not present the right key.\<close>

fun guesses_wrong :: "golib \<Rightarrow> string \<Rightarrow> string \<Rightarrow> auth_op \<Rightarrow> bool" where
  "guesses_wrong L client digest (OpRecover e remote key) \<longleftrightarrow>
     remote_name remote = client \<longrightarrow> lib_sha256 L (TrimSpace key) \<noteq> digest"
| "guesses_wrong L client digest (OpIssue e user meth) \<longleftrightarrow> True"
| "guesses_wrong L client digest (OpLookup e token) \<longleftrightarrow> True"
| "guesses_wrong L client digest (OpLogout token) \<longleftrightarrow> True"

definition attempts_of :: "string \<Rightarrow> Manager option \<Rightarrow> counter option" where
  "attempts_of client p = (case p of None \<Rightarrow> None | Some m \<Rightarrow> map_of (mg_attempts m) client)"

definition keeps_key :: "string \<Rightarrow> Manager option \<Rightarrow> bool" where
  "keeps_key digest p \<longleftrightarrow> manager_ok p \<and> (\<exists>m. p = Some m \<and> mg_keyDigest m = digest)"

lemma VerifyRecoveryKey_cases:
  assumes "VerifyRecoveryKey L e remote key (Some m) = (res, p)"
  obtains (limited) "res = Some ''operator recovery rate limit exceeded''" "p = Some ((cleanupLocked (env_now e) m)\<lparr>mg_attempts :=
      AList.update (remote_name remote) (renew loginWindow (env_now e) (map_of (mg_attempts (cleanupLocked (env_now e) m)) (remote_name remote)))
        (mg_attempts (cleanupLocked (env_now e) m))\<rparr>)"
  | (wrong) c where "res = Some ''operator recovery key is invalid''"
      "c = renew loginWindow (env_now e) (map_of (mg_attempts (cleanupLocked (env_now e) m)) (remote_name remote))" "ct_count c < 5"
      "p = Some ((cleanupLocked (env_now e) m)\<lparr>mg_attempts :=
        AList.update (remote_name remote) (c\<lparr>ct_count := ct_count c + 1\<rparr>) (mg_attempts (cleanupLocked (env_now e) m))\<rparr>)"
  | (right) m' where "res = None" "lib_sha256 L (TrimSpace key) = mg_keyDigest m" "p = Some m'" "mg_keyDigest m' = mg_keyDigest m"
      "\<And>k. k \<noteq> remote_name remote \<Longrightarrow> map_of (mg_attempts m') k = map_of (mg_attempts (cleanupLocked (env_now e) m)) k"
proof -
  let ?m = "cleanupLocked (env_now e) m" and ?r = "remote_name remote"
  let ?c = "renew loginWindow (env_now e) (map_of (mg_attempts ?m) ?r)"
  have V: "VerifyRecoveryKey L e remote key (Some m) =
      (if ct_count ?c \<ge> 5 then (Some ''operator recovery rate limit exceeded'', Some (?m\<lparr>mg_attempts := AList.update ?r ?c (mg_attempts ?m)\<rparr>))
       else let m = ?m\<lparr>mg_attempts := AList.update ?r (?c\<lparr>ct_count := ct_count ?c + 1\<rparr>) (mg_attempts ?m)\<rparr> in
       if lib_sha256 L (TrimSpace key) \<noteq> mg_keyDigest m then (Some ''operator recovery key is invalid'', Some m)
       else (None, Some (m\<lparr>mg_attempts := AList.delete ?r (mg_attempts m)\<rparr>)))"
    by (simp add: VerifyRecoveryKey_def renew_def remote_name_def Let_def maxLoginAttempts_def del: cleanup_sessions)
  show ?thesis
    using assms limited wrong right unfolding V by (auto simp: Let_def simp del: cleanup_sessions(1,2) split: if_splits)
qed

lemma issue_state:
  "snd (IssueUserSession L e user meth (Some m)) = Some m
    \<or> (\<exists>ss. snd (IssueUserSession L e user meth (Some m)) = Some ((cleanupLocked (env_now e) m)\<lparr>mg_sessions := ss\<rparr>))"
proof -
  have same: "m = m\<lparr>mg_sessions := mg_sessions m\<rparr>" for m :: Manager by simp
  show ?thesis
    by (auto simp: IssueUserSession_def issueSession_def Let_def simp del: cleanup_sessions split: option.splits intro: same)
qed

lemma attempts_cleanup:
  "manager_ok (Some m) \<Longrightarrow> kept_or_dropped loginWindow t (attempts_of client (Some m)) (attempts_of client (Some (cleanupLocked t m)))"
  using dropped_by_filter [of "mg_attempts m" loginWindow t client] by (simp add: attempts_of_def manager_ok_def)

lemma keeps_key_apply: "keeps_key digest p \<Longrightarrow> keeps_key digest (auth_apply L opr p)"
proof -
  assume k: "keeps_key digest p"
  then obtain m where m: "p = Some m" "mg_keyDigest m = digest" "manager_ok p" by (auto simp: keeps_key_def)
  have "\<exists>m'. auth_apply L opr p = Some m' \<and> mg_keyDigest m' = digest"
  proof (cases opr)
    case (OpIssue e user meth)
    with issue_state [of L e user meth m] m show ?thesis by (auto simp del: cleanup_sessions(1,2))
  next
    case (OpLookup e token)
    with lookup_state [of L e token m] m show ?thesis by auto
  next
    case (OpLogout token)
    with m show ?thesis by (auto simp: Logout_def)
  next
    case (OpRecover e remote key)
    with recover_sessions [of L e remote key m] m show ?thesis by auto
  qed
  with auth_apply_ok [OF m(3), of L opr] show ?thesis by (simp add: keeps_key_def)
qed

lemma attempts_other:
  assumes "\<And>e remote key. opr \<noteq> OpRecover e remote key"
  shows "attempts_of client (auth_apply L opr (Some m)) = attempts_of client (Some m)
    \<or> (\<exists>t. op_time opr = Some t \<and> attempts_of client (auth_apply L opr (Some m)) = attempts_of client (Some (cleanupLocked t m)))"
proof (cases opr)
  case (OpIssue e user meth)
  with issue_state [of L e user meth m] show ?thesis
    by (auto simp: attempts_of_def simp del: cleanup_sessions)
next
  case (OpLookup e token)
  with lookup_state [of L e token m] show ?thesis by auto
next
  case (OpLogout token)
  then show ?thesis by (simp add: Logout_def attempts_of_def)
next
  case (OpRecover e remote key)
  with assms show ?thesis by blast
qed

lemma recover_counts:
  assumes "manager_ok (Some m)" "guesses_wrong L client (mg_keyDigest m) (OpRecover e remote key)"
    "VerifyRecoveryKey L e remote key (Some m) = (res, p)"
  shows "let c0 = attempts_of client (Some (cleanupLocked (env_now e) m)) in
    if wrong_guess L client (OpRecover e remote key) (Some m) then ct_count (renew loginWindow (env_now e) c0) < 5
      \<and> attempts_of client p = Some ((renew loginWindow (env_now e) c0)\<lparr>ct_count := ct_count (renew loginWindow (env_now e) c0) + 1\<rparr>)
    else attempts_of client p = c0 \<or> attempts_of client p = Some (renew loginWindow (env_now e) c0)"
  using assms(3)
proof (cases rule: VerifyRecoveryKey_cases)
  case limited
  with assms(3) show ?thesis by (simp add: attempts_of_def Let_def del: cleanup_sessions)
next
  case (wrong c)
  with assms(3) show ?thesis by (auto simp: attempts_of_def Let_def simp del: cleanup_sessions)
next
  case (right m')
  with assms(2,3) show ?thesis by (auto simp: attempts_of_def Let_def simp del: cleanup_sessions)
qed

interpretation recovery: fixed_window loginWindow 5 "recovery_step L client" "attempts_of client" "keeps_key digest" "guesses_wrong L client digest"
  for L client digest
proof
  show "loginWindow > 0" by (simp add: loginWindow_def duration_defs)
  fix p opr t ok p'
  assume p: "keeps_key digest p" and legal: "guesses_wrong L client digest opr" and step: "recovery_step L client t opr p = (ok, p')"
  then have p': "p' = auth_apply L (at_time t opr) p" "ok = wrong_guess L client (at_time t opr) p"
    by (auto simp: recovery_step_def)
  show "keeps_key digest p'" using keeps_key_apply [OF p] p' by simp
  obtain m where m: "p = Some m" "manager_ok (Some m)" "mg_keyDigest m = digest" using p by (auto simp: keeps_key_def)
  let ?c = "attempts_of client (Some (cleanupLocked t m))"
  have drop: "kept_or_dropped loginWindow t (attempts_of client p) ?c" using attempts_cleanup [OF m(2)] m(1) by simp
  show "\<exists>c0. kept_or_dropped loginWindow t (attempts_of client p) c0 \<and>
      (if ok then ct_count (renew loginWindow t c0) < 5
         \<and> attempts_of client p' = Some ((renew loginWindow t c0)\<lparr>ct_count := ct_count (renew loginWindow t c0) + 1\<rparr>)
       else attempts_of client p' = c0 \<or> attempts_of client p' = Some (renew loginWindow t c0))"
  proof (cases "\<exists>e remote key. opr = OpRecover e remote key")
    case True
    then obtain e remote key where opr: "opr = OpRecover e remote key" by blast
    obtain res q where v: "VerifyRecoveryKey L (e\<lparr>env_now := t\<rparr>) remote key (Some m) = (res, q)" by force
    with recover_counts [OF m(2) _ v, of client] legal m opr p' drop show ?thesis
      by (intro exI [of _ ?c]) (auto simp: Let_def)
  next
    case False
    then have "at_time t opr \<noteq> OpRecover e remote key" for e remote key by (cases opr) auto
    from attempts_other [OF this, of client L m] have
      "attempts_of client p' = attempts_of client p \<or> attempts_of client p' = ?c" "\<not> ok"
      using p' m False by (cases opr; auto)+
    with drop show ?thesis by (metis kept_or_dropped_def)
  qed
qed

text \<open>C36:
  Guessing the recovery key is slow. Whatever operations the manager runs, in the order of the
  clock, at most ten wrong keys of one client are compared with the recovery key in any minute (five
  in each of the at most two windows it touches), as long as the client never presents the right one.
\<close>

theorem recovery_guesses_bounded:
  assumes "New_manager L key = Inr m0"
    and "sorted (map fst evs)"
    and "\<forall>(t, opr) \<in> set evs. t > 0 \<and> guesses_wrong L client (lib_sha256 L (TrimSpace key)) opr"
  shows "length (filter (\<lambda>x. t \<le> x \<and> x < t + Minute) (admitted (recovery_step L client) (Some m0) evs)) \<le> 10"
  using recovery.window_bound [of "lib_sha256 L (TrimSpace key)" "Some m0" client evs L t] new_manager [OF assms(1)] assms(2,3)
  by (simp add: keeps_key_def attempts_of_def loginWindow_def)

section \<open>A sample run\<close>

definition sample_recovery_key :: string where
  "sample_recovery_key = RawURL_Encode (replicate 32 (CHR ''k''))"

definition sample_manager :: Manager where
  "sample_manager = \<lparr>mg_keyDigest = sample_digest sample_recovery_key, mg_sessions = [], mg_attempts = []\<rparr>"

definition sample_token :: string where
  "sample_token = RawURL_Encode (map (\<lambda>n. char_of (65::nat)) [0..<32])"

definition sample_session :: Session where
  "sample_session = (base_session sample_user ''passkey'')\<lparr>se_CSRFToken := RawURL_Encode (map (\<lambda>n. char_of (66::nat)) [0..<24]),
     se_ExpiresAt := env_now sample_env + SessionDuration\<rparr>"

lemma sample_lib_sha [simp]: "lib_sha256 (sample_lib n) = sample_digest"
  by (simp add: sample_lib_def)

lemma sample_manager_new: "New_manager (sample_lib 0) sample_recovery_key = Inr sample_manager"
  by (simp add: New_manager_def sample_recovery_key_def sample_manager_def Let_def RawURL_roundtrip recoveryKeyBytes_def)

lemma sample_issue:
  "IssueUserSession (sample_lib 0) sample_env sample_user ''passkey'' (Some sample_manager) =
    (Inr (sample_token, sample_session), Some (sample_manager\<lparr>mg_sessions := [(sample_digest sample_token, sample_session)]\<rparr>))"
  by (simp add: IssueUserSession_def issueSession_def sample_manager_def sample_user_def ValidateRole_def maxActiveSessions_def Let_def
      randomToken_def rand_Read_def sample_token_def sample_session_def sessionTokenBytes_def csrfTokenBytes_def base_session_def
      cleanupLocked_def sample_trim del: upt_Suc upt_rec_numeral)

lemma sample_token_nonblank: "TrimSpace sample_token \<noteq> []"
  unfolding sample_token_def TrimSpace_RawURL_Encode
  by (auto dest: arg_cong [where f = length] simp: length_RawURL_Encode)

theorem operator_session_authentic_witness:
  "\<exists>e' user. issued_in (sample_lib 0) [OpIssue sample_env sample_user ''passkey''] sample_manager (sample_digest sample_token) sample_session e' user
    \<and> u_Status user = StatusActive \<and> env_now sample_env < env_now e' + 8 * Hour"
proof -
  have "fst (Session_of (sample_lib 0) sample_env sample_token
      (auth_run (sample_lib 0) [OpIssue sample_env sample_user ''passkey''] (Some sample_manager))) = Some sample_session"
    by (simp add: auth_run_def sample_issue Session_of_def sample_token_nonblank Let_def sample_session_def SessionDuration_def duration_defs)
  from operator_session_authentic [OF sample_manager_new this] show ?thesis by auto
qed

theorem operator_session_lifetime_witness:
  "fst (Session_of (sample_lib 0) sample_env sample_token
      (auth_run (sample_lib 0) [OpLookup sample_env sample_token] (Some (sample_manager\<lparr>mg_sessions := [(sample_digest sample_token, sample_session)]\<rparr>))))
     = Some sample_session"
  using operator_session_lifetime [OF sample_manager_new, of sample_env sample_user "''passkey''" "[]" sample_token sample_session _
      "[OpLookup sample_env sample_token]" sample_env] sample_issue
  by (simp add: auth_run_def duration_defs)

theorem recovery_guesses_bounded_witness:
  "admitted (recovery_step (sample_lib 0) ''h'') (Some sample_manager) [(1, OpRecover sample_env ''h'' ''wrong''), (2, OpRecover sample_env ''h'' ''wrong'')] = [1, 2]
   \<and> length (filter (\<lambda>x. 1 \<le> x \<and> x < 1 + Minute) (admitted (recovery_step (sample_lib 0) ''h'') (Some sample_manager)
       [(1, OpRecover sample_env ''h'' ''wrong''), (2, OpRecover sample_env ''h'' ''wrong'')])) \<le> 10"
proof -
  have trim: "TrimSpace ''h'' = ''h''" "TrimSpace ''wrong'' = ''wrong''" by (simp_all add: sample_trim)
  have digest: "sample_digest ''wrong'' ! 5 = CHR ''0''" "sample_digest sample_recovery_key ! 5 \<noteq> CHR ''0''"
    by (simp add: sample_digest_def) code_simp
  then have wrong: "sample_digest ''wrong'' \<noteq> sample_digest sample_recovery_key" by metis
  have plain: "TrimSpace sample_recovery_key = sample_recovery_key" by (simp add: sample_recovery_key_def)
  have "admitted (recovery_step (sample_lib 0) ''h'') (Some sample_manager)
      [(1, OpRecover sample_env ''h'' ''wrong''), (2, OpRecover sample_env ''h'' ''wrong'')] = [1, 2]"
    using wrong by (simp add: recovery_step_def VerifyRecoveryKey_def sample_manager_def Let_def trim remote_name_def maxLoginAttempts_def
        loginWindow_def duration_defs)
  moreover have "length (filter (\<lambda>x. 1 \<le> x \<and> x < 1 + Minute) (admitted (recovery_step (sample_lib 0) ''h'') (Some sample_manager)
       [(1, OpRecover sample_env ''h'' ''wrong''), (2, OpRecover sample_env ''h'' ''wrong'')])) \<le> 10"
    by (rule recovery_guesses_bounded [OF sample_manager_new]) (simp_all add: remote_name_def trim plain wrong)
  ultimately show ?thesis by blast
qed

end
