(* ===== verification/One_Time.thy ===== *)
theory One_Time
  imports Fault "HOL-Library.AList"
begin

text \<open>
  Secrets that can be redeemed once. A store holds entries under the digests of their secrets. The
  passkey ceremonies and the recovery tickets (internal/operatorpasskey) work this way; what they
  share is the locale \<open>one_time_store\<close>.
\<close>

text \<open>
  \<open>inv\<close> is what every operation keeps of the store, \<open>held\<close> is the entry under a digest. An operation may add an entry (\<open>adds\<close>), it may present a
  digest (\<open>presents\<close>), which removes the entry whatever comes of it, and it may redeem the entry it
  presents (\<open>redeems\<close>). Entries disappear for other reasons too, such as their age.
\<close>

locale one_time_store =
  fixes inv :: "'s \<Rightarrow> bool"
    and held :: "'s \<Rightarrow> string \<Rightarrow> 'v option"
    and apply_op :: "'op \<Rightarrow> 's \<Rightarrow> 's"
    and adds :: "'op \<Rightarrow> 's \<Rightarrow> (string \<times> 'v) option"
    and presents :: "'op \<Rightarrow> string \<Rightarrow> bool"
    and redeems :: "'op \<Rightarrow> 's \<Rightarrow> (string \<times> 'v) option"
  assumes inv_after: "inv s \<Longrightarrow> inv (apply_op x s)"
    and held_after: "inv s \<Longrightarrow> held (apply_op x s) g = Some v \<Longrightarrow> held s g = Some v \<and> \<not> presents x g \<or> adds x s = Some (g, v)"
    and redeemed_held: "inv s \<Longrightarrow> redeems x s = Some (g, v) \<Longrightarrow> held s g = Some v \<and> presents x g"
begin

definition after :: "'op list \<Rightarrow> 's \<Rightarrow> 's" where
  "after xs s = fold apply_op xs s"

lemma after_simps [simp]: "after [] s = s" "after (xs @ [x]) s = apply_op x (after xs s)"
  by (simp_all add: after_def)

lemma inv_run: "inv s \<Longrightarrow> inv (after xs s)"
  by (induction xs rule: rev_induct) (simp_all add: inv_after)

text \<open>An entry that was not there at first was added, and its secret not presented since.\<close>

lemma held_added:
  assumes "held (after xs s) g = Some v" "held s g = None" "inv s"
  shows "\<exists>pre x post. xs = pre @ x # post \<and> adds x (after pre s) = Some (g, v) \<and> (\<forall>y \<in> set post. \<not> presents y g)"
  using assms
proof (induction xs rule: rev_induct)
  case (snoc y ys)
  from snoc.prems(1) held_after [of "after ys s" y g v] inv_run [OF snoc.prems(3), of ys]
  consider "held (after ys s) g = Some v" "\<not> presents y g" | "adds y (after ys s) = Some (g, v)" by auto
  then show ?case
  proof cases
    case 1
    with snoc obtain pre x post where "ys = pre @ x # post" "adds x (after pre s) = Some (g, v)" "\<forall>z \<in> set post. \<not> presents z g"
      by blast
    with 1 show ?thesis by (intro exI [of _ pre] exI [of _ x] exI [of _ "post @ [y]"]) auto
  next
    case 2
    then show ?thesis by (intro exI [of _ ys] exI [of _ y] exI [of _ "[]"]) auto
  qed
qed simp

lemma redeemed_once:
  assumes "redeems x (after xs s) = Some (g, v)" "held s g = None" "inv s"
  shows "\<exists>pre y post. xs = pre @ y # post \<and> adds y (after pre s) = Some (g, v) \<and> (\<forall>z \<in> set post. \<not> presents z g)"
  using held_added [OF _ assms(2,3)] redeemed_held [OF inv_run [OF assms(3)] assms(1)] by blast

end

end
