(* ===== verification/Store_Listings.thy ===== *)
theory Store_Listings
  imports System "HOL-Library.Multiset" "HOL-Library.List_Lexorder" "HOL-Library.Char_ord"
begin

text \<open>
  The ordered listings of the store (internal/store/machine_queries.go, installation_queries.go,
  and the listings in operator_users.go and boot_trust.go). The columns hold times as texts in
  time.RFC3339Nano, and \<open>ORDER BY\<close> compares these texts byte by byte.
\<close>

section \<open>Times as texts\<close>

text \<open>
  Time.Format for UTC times from year 1 on. The calendar repeats after 400 years of 146097 days;
  inside there are centuries of 36524 days, spans of four years of 1461 days and years of 365,
  with the last of each group one day longer.
\<close>

definition pad :: "nat \<Rightarrow> nat \<Rightarrow> string" where
  "pad width n = (let t = nat_text n in replicate (width - length t) (CHR ''0'') @ t)"

fun month_day :: "nat list \<Rightarrow> nat \<Rightarrow> nat \<Rightarrow> nat \<times> nat" where
  "month_day [] m r = (m, r + 1)"
| "month_day (l # ls) m r = (if r < l then (m, r + 1) else month_day ls (m + 1) (r - l))"

definition civil_date :: "nat \<Rightarrow> nat \<times> nat \<times> nat" where
  "civil_date days =
     (let cycle = days div 146097; r = days mod 146097;
          century = min 3 (r div 36524); r = r - century * 36524;
          span = r div 1461; r = r - span * 1461;
          y = min 3 (r div 365); r = r - y * 365;
          leap = (y = 3 \<and> (span \<noteq> 24 \<or> century = 3));
          (month, day) = month_day [31, if leap then 29 else 28, 31, 30, 31, 30, 31, 31, 30, 31, 30, 31] 1 r in
      (400 * cycle + 100 * century + 4 * span + y + 1, month, day))"

definition fraction :: "nat \<Rightarrow> string" where
  "fraction nanos = (if nanos = 0 then [] else CHR ''.'' # rev (dropWhile (\<lambda>c. c = CHR ''0'') (rev (pad 9 nanos))))"

definition RFC3339Nano :: "time \<Rightarrow> string" where
  "RFC3339Nano t =
     (let n = nat t; nanos = n mod 1000000000; s = n div 1000000000; secs = s mod 86400;
          (year, month, day) = civil_date (s div 86400) in
      pad 4 year @ ''-'' @ pad 2 month @ ''-'' @ pad 2 day @ ''T'' @ pad 2 (secs div 3600) @ '':'' @ pad 2 (secs mod 3600 div 60)
        @ '':'' @ pad 2 (secs mod 60) @ fraction nanos @ ''Z'')"

section \<open>Listings\<close>

text \<open>\<open>ORDER BY k DESC\<close>: rows with the same key stay in the order they had.\<close>

definition order_desc :: "('r \<Rightarrow> 'k::linorder) \<Rightarrow> 'r list \<Rightarrow> 'r list" where
  "order_desc k rows = rev (sort_key k (rev rows))"

definition Machines :: "env \<Rightarrow> db \<Rightarrow> Machine list result" where
  "Machines e d =
     read_rows e 0 ''query machines'' ''scan machine'' ''iterate machines''
       (map scanMachine (order_desc (\<lambda>m. RFC3339Nano (m_LastSeen m)) (sort_key m_ID (machines d))))"

fun kind_text :: "IdentifierKind \<Rightarrow> string" where
  "kind_text IdentifierMAC = ''mac''"
| "kind_text IdentifierSMBIOSUUID = ''smbios_uuid''"

definition MachineIdentifiers :: "env \<Rightarrow> db \<Rightarrow> string \<Rightarrow> Identifier list result" where
  "MachineIdentifiers e d machineID =
     (case store_Machine e 3 d machineID of
        Inl err \<Rightarrow> Inl err
      | Inr _ \<Rightarrow> read_rows e 0 ''query machine identifiers'' ''scan machine identifier'' ''iterate machine identifiers''
          (map (\<lambda>r. (mi_Kind r, mi_Value r)) (sort_key (\<lambda>r. kind_text (mi_Kind r)) (sort_key mi_Value
            (filter (\<lambda>r. mi_MachineID r = machineID) (machine_identifiers d))))))"

text \<open>
  The identifiers first, then each specification in a query of its own (labels from 4): \<open>other k\<close> is
  what other requests do to the database before read number \<open>k\<close>.
\<close>

fun read_specs :: "env \<Rightarrow> (nat \<Rightarrow> db \<Rightarrow> db) \<Rightarrow> nat \<Rightarrow> db \<Rightarrow> string list \<Rightarrow> Spec list result \<times> db" where
  "read_specs e other k d [] = (Inr [], d)"
| "read_specs e other k d (i # ids) =
     (let d' = other k d in
      case InstallationSpec e (4 + k) d' i of
        Inl err \<Rightarrow> (Inl err, d')
      | Inr item \<Rightarrow>
        (case read_specs e other (k + 1) d' ids of
           (Inl err, d'') \<Rightarrow> (Inl err, d'')
         | (Inr items, d'') \<Rightarrow> (Inr (item # items), d'')))"

definition installationSpecsByQuery ::
  "env \<Rightarrow> (nat \<Rightarrow> db \<Rightarrow> db) \<Rightarrow> db \<Rightarrow> (Spec \<Rightarrow> bool) \<Rightarrow> Spec list result \<times> db" where
  "installationSpecsByQuery e other d selected =
     (case read_rows e 0 ''list installation specs'' ''read installation spec identifier'' ''iterate installation spec identifiers''
             (map sp_ID (order_desc (\<lambda>s. RFC3339Nano (sp_CreatedAt s)) (order_desc sp_ID (filter selected (installation_specs d))))) of
        Inl err \<Rightarrow> (Inl err, d)
      | Inr ids \<Rightarrow> if \<not> env_io e 3 then (Inl (storageError ''close installation spec list''), d) else read_specs e other 0 d ids)"

definition InstallationSpecs :: "env \<Rightarrow> (nat \<Rightarrow> db \<Rightarrow> db) \<Rightarrow> db \<Rightarrow> Spec list result \<times> db" where
  "InstallationSpecs e other d = installationSpecsByQuery e other d (\<lambda>s. True)"

definition InstallationSpecsForMachine :: "env \<Rightarrow> (nat \<Rightarrow> db \<Rightarrow> db) \<Rightarrow> db \<Rightarrow> string \<Rightarrow> Spec list result \<times> db" where
  "InstallationSpecsForMachine e other d machineID =
     installationSpecsByQuery e other d (\<lambda>s. sp_MachineID s = TrimSpace machineID)"

definition OperatorUsers :: "env \<Rightarrow> db \<Rightarrow> User list result" where
  "OperatorUsers e d =
     read_rows e 0 ''list operator users'' ''scan operator user'' ''iterate operator users''
       (sort_key (\<lambda>u. RFC3339Nano (u_CreatedAt u)) (sort_key u_ID (operator_users d)))"

text \<open>
  Rows that the code does not order further (keys or credentials of the same instant) are taken in
  the order of the table. json.Unmarshal of a stored credential is \<open>decode\<close>, None when it fails.
\<close>

definition BootTrustKeys :: "env \<Rightarrow> db \<Rightarrow> string \<Rightarrow> Key list result" where
  "BootTrustKeys e d machineID =
     read_rows e 0 ''list boot trust keys'' ''could not read boot trust key'' ''iterate boot trust keys''
       (order_desc (\<lambda>k. RFC3339Nano (k_FirstSeenAt k)) (filter (\<lambda>k. k_MachineID k = TrimSpace machineID) (boot_trust_keys d)))"

fun decode_all :: "('a \<Rightarrow> 'b option) \<Rightarrow> 'a list \<Rightarrow> 'b list option" where
  "decode_all f [] = Some []"
| "decode_all f (x # xs) = (case f x of None \<Rightarrow> None | Some y \<Rightarrow> map_option (\<lambda>ys. y # ys) (decode_all f xs))"

definition OperatorUserForWebAuthn ::
  "(string \<Rightarrow> 'c option) \<Rightarrow> env \<Rightarrow> db \<Rightarrow> string \<Rightarrow> string \<Rightarrow> (User \<times> 'c list) result" where
  "OperatorUserForWebAuthn decode e d userID rpID =
     (case OperatorUser e 3 d userID of
        Inl err \<Rightarrow> Inl err
      | Inr user \<Rightarrow>
        if \<not> env_io e 0 then Inl (storageError ''query operator credentials'')
        else if \<not> env_io e 1 then Inl (storageError ''scan operator credential'')
        else case decode_all decode (map oc_CredentialJSON (sort_key (\<lambda>c. RFC3339Nano (oc_CreatedAt c))
               (filter (\<lambda>c. oc_UserID c = u_ID user \<and> oc_RPID c = TrimSpace rpID) (operator_credentials d)))) of
          None \<Rightarrow> Inl (storageError ''decode operator credential'')
        | Some credentials \<Rightarrow>
            if \<not> env_io e 2 then Inl (storageError ''iterate operator credentials'') else Inr (user, credentials))"

section \<open>What a listing holds\<close>

lemma mset_order_desc [simp]: "mset (order_desc k rows) = mset rows"
  by (simp add: order_desc_def)

lemma set_order_desc [simp]: "set (order_desc k rows) = set rows"
  by (simp add: order_desc_def)

lemma order_desc_sorted: "sorted (rev (map k (order_desc k rows)))"
  by (simp add: order_desc_def rev_map)

text \<open>Every machine once, with the greatest text of the last contact first.\<close>

lemma machines_listed:
  assumes "Machines e d = Inr ms"
  shows "mset ms = mset (map scanMachine (machines d))"
    and "sorted (rev (map (\<lambda>m. RFC3339Nano (m_LastSeen m)) ms))"
proof -
  let ?k = "\<lambda>m. RFC3339Nano (m_LastSeen m)"
  from assms have ms: "ms = map scanMachine (order_desc ?k (sort_key m_ID (machines d)))"
    by (simp add: Machines_def read_rows_def split: if_splits)
  show "mset ms = mset (map scanMachine (machines d))" unfolding ms mset_map mset_order_desc by simp
  have "m_LastSeen (scanMachine m) = m_LastSeen m" for m by (simp add: scanMachine_def)
  then have "map ?k ms = map ?k (order_desc ?k (sort_key m_ID (machines d)))" unfolding ms by simp
  then show "sorted (rev (map ?k ms))" using order_desc_sorted [of ?k] by simp
qed

text \<open>Without other requests in between every selected specification is read back.\<close>

lemma read_specs_all:
  assumes "\<forall>k. env_io e k" "\<forall>i \<in> set ids. List.find (\<lambda>s. sp_ID s = TrimSpace i) (installation_specs d) = Some (f i)"
  shows "read_specs e (\<lambda>_. id) k d ids = (Inr (map f ids), d)"
  using assms(2)
  by (induction ids arbitrary: k) (simp_all add: InstallationSpec_def query_row_def assms(1))

text \<open>
  The order of the texts is not the order of the times: a full second is listed as later than
  every fraction of it, because \<open>Z\<close> is greater than the point.
\<close>

lemma date_of_1970: "civil_date 719162 = (1970, 1, 1)"
  by (simp add: civil_date_def)

lemma text_order_not_chronological:
  "\<exists>t u. t < u \<and> RFC3339Nano u < RFC3339Nano t"
proof -
  have t: "RFC3339Nano (time_Unix 0) = ''1970-01-01T00:00:00Z''"
    by (simp add: RFC3339Nano_def time_Unix_def Second_def date_of_1970 pad_def nat_text.simps fraction_def char_of_def bit_0)
  have u: "RFC3339Nano (time_Unix 0 + 500000000) = ''1970-01-01T00:00:00.5Z''"
    by (simp add: RFC3339Nano_def time_Unix_def Second_def date_of_1970 pad_def nat_text.simps fraction_def char_of_def bit_0)
  have "''1970-01-01T00:00:00.5Z'' < ''1970-01-01T00:00:00Z''" by code_simp
  moreover have "time_Unix 0 < time_Unix 0 + 500000000" by simp
  ultimately show ?thesis using t u by metis
qed

end
