(* ===== verification/Operator_Passkeys.thy ===== *)
theory Operator_Passkeys
  imports Operator_Sessions One_Time Http_Base Store_Listings
begin

text \<open>
  Passkey ceremonies and recovery tickets (internal/operatorpasskey/service.go, recovery.go). A
  ceremony is started and finished in two requests: what the WebAuthn package needs to finish it is
  kept under the digest of a random token, for five minutes and for one try.

  The WebAuthn package is the parameter \<open>weblib\<close>: whether it accepts a configuration, and the start
  and the end of the two ceremonies. Its session data are an opaque text, a credential is its
  identifier with its JSON text (None when json.Marshal fails).
\<close>

section \<open>The package\<close>

type_synonym credential = "string \<times> string option"

record weblib =
  wl_config_ok :: "string \<Rightarrow> string list \<Rightarrow> bool"
  wl_BeginRegistration :: "env \<Rightarrow> User \<Rightarrow> credential list \<Rightarrow> (json \<times> string) option"
  wl_FinishRegistration :: "User \<Rightarrow> credential list \<Rightarrow> string \<Rightarrow> string \<Rightarrow> credential option"
  wl_BeginLogin :: "env \<Rightarrow> User \<Rightarrow> credential list \<Rightarrow> (json \<times> string) option"
  wl_FinishLogin :: "User \<Rightarrow> credential list \<Rightarrow> string \<Rightarrow> string \<Rightarrow> credential option"
  wl_decode :: "string \<Rightarrow> credential option"

section \<open>Ceremonies\<close>

definition flowTokenBytes :: nat where "flowTokenBytes = 32"
definition flowLifetime :: int where "flowLifetime = 5 * Minute"
definition maxActiveFlows :: nat where "maxActiveFlows = 256"

datatype Mode = ModeLogin | ModeEnrollment | ModeRecovery

record flow =
  fl_UserID :: string
  fl_Mode :: Mode
  fl_Session :: string
  fl_ExpiresAt :: time

record Service =
  ps_rpID :: string
  ps_flows :: "(string \<times> flow) list"

definition New_service :: "weblib \<Rightarrow> string \<Rightarrow> string list \<Rightarrow> string + Service option" where
  "New_service W rpID0 origins =
     (let rpID = TrimSpace rpID0; cleanOrigins = filter (\<lambda>v. v \<noteq> []) (map TrimSpace origins) in
      if rpID = [] \<and> cleanOrigins = [] then Inr None
      else if rpID = [] \<or> cleanOrigins = [] then Inl ''WebAuthn requires both RP ID and at least one origin''
      else if \<not> wl_config_ok W rpID cleanOrigins then Inl ''invalid WebAuthn configuration''
      else Inr (Some \<lparr>ps_rpID = rpID, ps_flows = []\<rparr>))"

definition RPID :: "Service option \<Rightarrow> string" where
  "RPID p = (case p of None \<Rightarrow> [] | Some s \<Rightarrow> ps_rpID s)"

definition cleanup_flows :: "time \<Rightarrow> Service \<Rightarrow> Service" where
  "cleanup_flows now s = s\<lparr>ps_flows := filter (\<lambda>(digest, entry). fl_ExpiresAt entry > now) (ps_flows s)\<rparr>"

definition saveFlow :: "golib \<Rightarrow> env \<Rightarrow> string \<Rightarrow> Mode \<Rightarrow> string \<Rightarrow> Service \<Rightarrow> (string + string) \<times> Service" where
  "saveFlow L e userID mode session s0 =
     (case randomToken e 0 flowTokenBytes of
        None \<Rightarrow> (Inl ''secure random generation failed'', s0)
      | Some token \<Rightarrow>
        let now = env_now e; s = cleanup_flows now s0 in
        if length (ps_flows s) \<ge> maxActiveFlows then (Inl ''too many active passkey ceremonies'', s)
        else (Inr token, s\<lparr>ps_flows := AList.update (lib_sha256 L token)
          \<lparr>fl_UserID = userID, fl_Mode = mode, fl_Session = session, fl_ExpiresAt = now + flowLifetime\<rparr> (ps_flows s)\<rparr>))"

definition takeFlow :: "golib \<Rightarrow> env \<Rightarrow> string \<Rightarrow> string \<Rightarrow> Mode \<Rightarrow> Service option \<Rightarrow> (string + flow) \<times> Service option" where
  "takeFlow L e token userID mode p =
     (case p of None \<Rightarrow> (Inl ''passkey ceremony is missing'', None)
      | Some s0 \<Rightarrow>
        if TrimSpace token = [] then (Inl ''passkey ceremony is missing'', p)
        else let now = env_now e; digest = lib_sha256 L token; s = cleanup_flows now s0;
                 entry = map_of (ps_flows s) digest; s' = s\<lparr>ps_flows := AList.delete digest (ps_flows s)\<rparr> in
        (case entry of None \<Rightarrow> (Inl ''passkey ceremony is invalid or expired'', Some s')
         | Some f \<Rightarrow> if \<not> fl_ExpiresAt f > now \<or> fl_UserID f \<noteq> userID \<or> fl_Mode f \<noteq> mode
             then (Inl ''passkey ceremony is invalid or expired'', Some s') else (Inr f, Some s')))"

definition BeginRegistration ::
  "golib \<Rightarrow> weblib \<Rightarrow> env \<Rightarrow> User \<times> credential list \<Rightarrow> Service option \<Rightarrow> (string + json \<times> string) \<times> Service option" where
  "BeginRegistration L W e user p =
     (case p of None \<Rightarrow> (Inl ''WebAuthn is not configured'', None)
      | Some s \<Rightarrow>
        (case wl_BeginRegistration W e (fst user) (snd user) of
           None \<Rightarrow> (Inl ''registration could not be started'', p)
         | Some (creation, session) \<Rightarrow>
           (case saveFlow L e (u_ID (fst user)) ModeEnrollment session s of
              (Inl err, s') \<Rightarrow> (Inl err, Some s')
            | (Inr token, s') \<Rightarrow> (Inr (creation, token), Some s'))))"

definition FinishRegistration ::
  "golib \<Rightarrow> weblib \<Rightarrow> env \<Rightarrow> User \<times> credential list \<Rightarrow> string \<Rightarrow> string \<Rightarrow> Service option
    \<Rightarrow> (string + credential) \<times> Service option" where
  "FinishRegistration L W e user token body p =
     (case takeFlow L e token (u_ID (fst user)) ModeEnrollment p of
        (Inl err, p') \<Rightarrow> (Inl err, p')
      | (Inr entry, p') \<Rightarrow>
        (case wl_FinishRegistration W (fst user) (snd user) (fl_Session entry) body of
           None \<Rightarrow> (Inl ''registration failed'', p') | Some c \<Rightarrow> (Inr c, p')))"

definition BeginLogin ::
  "golib \<Rightarrow> weblib \<Rightarrow> env \<Rightarrow> User \<times> credential list \<Rightarrow> Mode \<Rightarrow> Service option \<Rightarrow> (string + json \<times> string) \<times> Service option" where
  "BeginLogin L W e user mode p =
     (case p of None \<Rightarrow> (Inl ''WebAuthn is not configured'', None)
      | Some s \<Rightarrow>
        if mode \<noteq> ModeLogin \<and> mode \<noteq> ModeRecovery then (Inl ''invalid passkey login mode'', p)
        else case wl_BeginLogin W e (fst user) (snd user) of
          None \<Rightarrow> (Inl ''login could not be started'', p)
        | Some (assertion, session) \<Rightarrow>
          (case saveFlow L e (u_ID (fst user)) mode session s of
             (Inl err, s') \<Rightarrow> (Inl err, Some s')
           | (Inr token, s') \<Rightarrow> (Inr (assertion, token), Some s')))"

definition FinishLogin ::
  "golib \<Rightarrow> weblib \<Rightarrow> env \<Rightarrow> User \<times> credential list \<Rightarrow> string \<Rightarrow> Mode \<Rightarrow> string \<Rightarrow> Service option
    \<Rightarrow> (string + credential) \<times> Service option" where
  "FinishLogin L W e user token mode body p =
     (case takeFlow L e token (u_ID (fst user)) mode p of
        (Inl err, p') \<Rightarrow> (Inl err, p')
      | (Inr entry, p') \<Rightarrow>
        (case wl_FinishLogin W (fst user) (snd user) (fl_Session entry) body of
           None \<Rightarrow> (Inl ''login failed'', p') | Some c \<Rightarrow> (Inr c, p')))"

section \<open>Recovery tickets\<close>

definition recoveryTicketLifetime :: int where "recoveryTicketLifetime = 5 * Minute"
definition maxRecoveryTickets :: nat where "maxRecoveryTickets = 128"

record recoveryTicket =
  rt_UserID :: string
  rt_ExpiresAt :: time

type_synonym tickets = "(string \<times> recoveryTicket) list"

definition cleanupRecoveryTicketsLocked :: "time \<Rightarrow> tickets \<Rightarrow> tickets" where
  "cleanupRecoveryTicketsLocked now items = filter (\<lambda>(digest, ticket). rt_ExpiresAt ticket > now) items"

definition IssueRecoveryTicket :: "golib \<Rightarrow> env \<Rightarrow> string \<Rightarrow> tickets \<Rightarrow> (string + string) \<times> tickets" where
  "IssueRecoveryTicket L e userID0 items0 =
     (let userID = TrimSpace userID0 in
      if userID = [] then (Inl ''recovery user is missing'', items0)
      else case randomToken e 0 flowTokenBytes of
        None \<Rightarrow> (Inl ''secure random generation failed'', items0)
      | Some token \<Rightarrow>
        let now = env_now e; items = cleanupRecoveryTicketsLocked now items0 in
        if length items \<ge> maxRecoveryTickets then (Inl ''too many active recovery tickets'', items)
        else (Inr token, AList.update (lib_sha256 L token)
          \<lparr>rt_UserID = userID, rt_ExpiresAt = now + recoveryTicketLifetime\<rparr> items))"

definition ConsumeRecoveryTicket :: "golib \<Rightarrow> env \<Rightarrow> string \<Rightarrow> string \<Rightarrow> tickets \<Rightarrow> bool \<times> tickets" where
  "ConsumeRecoveryTicket L e token userID items0 =
     (let now = env_now e; digest = lib_sha256 L (TrimSpace token); items = cleanupRecoveryTicketsLocked now items0 in
      ((case map_of items digest of None \<Rightarrow> False
        | Some ticket \<Rightarrow> rt_UserID ticket = TrimSpace userID \<and> rt_ExpiresAt ticket > now),
       AList.delete digest items))"

section \<open>Redeemed once\<close>

text \<open>The calls of the two stores with their environments.\<close>

datatype flow_op = FlowSave env string Mode string | FlowTake env string string Mode

fun flow_apply :: "golib \<Rightarrow> flow_op \<Rightarrow> Service option \<Rightarrow> Service option" where
  "flow_apply L (FlowSave e userID mode session) p = map_option (\<lambda>s. snd (saveFlow L e userID mode session s)) p"
| "flow_apply L (FlowTake e token userID mode) p = snd (takeFlow L e token userID mode p)"

definition held_flow :: "Service option \<Rightarrow> string \<Rightarrow> flow option" where
  "held_flow p digest = (case p of None \<Rightarrow> None | Some s \<Rightarrow> map_of (ps_flows s) digest)"

definition flows_ok :: "Service option \<Rightarrow> bool" where
  "flows_ok p = (case p of None \<Rightarrow> True | Some s \<Rightarrow> distinct (map fst (ps_flows s)) \<and> length (ps_flows s) \<le> maxActiveFlows)"

fun flow_added :: "golib \<Rightarrow> flow_op \<Rightarrow> Service option \<Rightarrow> (string \<times> flow) option" where
  "flow_added L (FlowSave e userID mode session) p = (case p of None \<Rightarrow> None
     | Some s \<Rightarrow> case fst (saveFlow L e userID mode session s) of Inl _ \<Rightarrow> None
       | Inr token \<Rightarrow> Some (lib_sha256 L token,
           \<lparr>fl_UserID = userID, fl_Mode = mode, fl_Session = session, fl_ExpiresAt = env_now e + flowLifetime\<rparr>))"
| "flow_added L (FlowTake e token userID mode) p = None"

fun flow_presented :: "golib \<Rightarrow> flow_op \<Rightarrow> string \<Rightarrow> bool" where
  "flow_presented L (FlowSave e userID mode session) digest \<longleftrightarrow> False"
| "flow_presented L (FlowTake e token userID mode) digest \<longleftrightarrow> TrimSpace token \<noteq> [] \<and> lib_sha256 L token = digest"

fun flow_redeemed :: "golib \<Rightarrow> flow_op \<Rightarrow> Service option \<Rightarrow> (string \<times> flow) option" where
  "flow_redeemed L (FlowSave e userID mode session) p = None"
| "flow_redeemed L (FlowTake e token userID mode) p =
     (case fst (takeFlow L e token userID mode p) of Inl _ \<Rightarrow> None | Inr f \<Rightarrow> Some (lib_sha256 L token, f))"

lemma cleanup_flows_simps [simp]:
  "ps_flows (cleanup_flows now s) = filter (\<lambda>(d, f). fl_ExpiresAt f > now) (ps_flows s)"
  "ps_rpID (cleanup_flows now s) = ps_rpID s"
  by (simp_all add: cleanup_flows_def)

interpretation passkey_flows: one_time_store flows_ok held_flow "flow_apply L" "flow_added L" "flow_presented L" "flow_redeemed L" for L
proof
  fix s x g v
  assume ok: "flows_ok s"
  show "flows_ok (flow_apply L x s)"
    using ok by (cases x) (auto simp: flows_ok_def saveFlow_def takeFlow_def Let_def distinct_update distinct_delete distinct_map_filter
        length_update intro: order.antisym le_trans [OF length_filter_le] le_trans [OF length_delete_le] split: option.splits)
  show "held_flow s g = Some v \<and> \<not> flow_presented L x g \<or> flow_added L x s = Some (g, v)"
    if "held_flow (flow_apply L x s) g = Some v"
    using ok that by (cases x) (auto simp: flows_ok_def held_flow_def saveFlow_def takeFlow_def Let_def map_of_filter_cases
        split: option.splits if_splits)
  show "held_flow s g = Some v \<and> flow_presented L x g" if "flow_redeemed L x s = Some (g, v)"
    using ok that by (cases x) (auto simp: flows_ok_def held_flow_def takeFlow_def Let_def map_of_filter_cases
        split: option.splits if_splits)
qed

datatype ticket_op = TicketIssue env string | TicketConsume env string string

fun ticket_apply :: "golib \<Rightarrow> ticket_op \<Rightarrow> tickets \<Rightarrow> tickets" where
  "ticket_apply L (TicketIssue e userID) items = snd (IssueRecoveryTicket L e userID items)"
| "ticket_apply L (TicketConsume e token userID) items = snd (ConsumeRecoveryTicket L e token userID items)"

definition tickets_ok :: "tickets \<Rightarrow> bool" where
  "tickets_ok items \<longleftrightarrow> distinct (map fst items) \<and> length items \<le> maxRecoveryTickets"

fun ticket_added :: "golib \<Rightarrow> ticket_op \<Rightarrow> tickets \<Rightarrow> (string \<times> recoveryTicket) option" where
  "ticket_added L (TicketIssue e userID) items = (case fst (IssueRecoveryTicket L e userID items) of Inl _ \<Rightarrow> None
     | Inr token \<Rightarrow> Some (lib_sha256 L token, \<lparr>rt_UserID = TrimSpace userID, rt_ExpiresAt = env_now e + recoveryTicketLifetime\<rparr>))"
| "ticket_added L (TicketConsume e token userID) items = None"

fun ticket_presented :: "golib \<Rightarrow> ticket_op \<Rightarrow> string \<Rightarrow> bool" where
  "ticket_presented L (TicketIssue e userID) digest \<longleftrightarrow> False"
| "ticket_presented L (TicketConsume e token userID) digest \<longleftrightarrow> lib_sha256 L (TrimSpace token) = digest"

fun ticket_redeemed :: "golib \<Rightarrow> ticket_op \<Rightarrow> tickets \<Rightarrow> (string \<times> recoveryTicket) option" where
  "ticket_redeemed L (TicketIssue e userID) items = None"
| "ticket_redeemed L (TicketConsume e token userID) items =
     (if fst (ConsumeRecoveryTicket L e token userID items)
      then map_option (Pair (lib_sha256 L (TrimSpace token))) (map_of items (lib_sha256 L (TrimSpace token))) else None)"

interpretation recovery_tickets: one_time_store tickets_ok map_of "ticket_apply L" "ticket_added L" "ticket_presented L" "ticket_redeemed L" for L
proof
  fix s x g v
  assume ok: "tickets_ok s"
  show "tickets_ok (ticket_apply L x s)"
    using ok by (cases x) (auto simp: tickets_ok_def IssueRecoveryTicket_def ConsumeRecoveryTicket_def cleanupRecoveryTicketsLocked_def Let_def
        distinct_update distinct_delete distinct_map_filter length_update intro: order.antisym le_trans [OF length_filter_le] le_trans [OF length_delete_le]
        split: option.splits)
  show "map_of s g = Some v \<and> \<not> ticket_presented L x g \<or> ticket_added L x s = Some (g, v)"
    if "map_of (ticket_apply L x s) g = Some v"
    using ok that by (cases x) (auto simp: tickets_ok_def IssueRecoveryTicket_def ConsumeRecoveryTicket_def cleanupRecoveryTicketsLocked_def
        Let_def map_of_filter_cases split: option.splits if_splits)
  show "map_of s g = Some v \<and> ticket_presented L x g" if "ticket_redeemed L x s = Some (g, v)"
    using ok that by (cases x) (auto split: option.splits if_splits)
qed

end
