(* ===== verification/Log_Buffer.thy ===== *)
theory Log_Buffer
  imports Prelude "HOL-Library.Word"
begin

text \<open>
  The ring buffer behind the live log (internal/observability/logbuffer.go): bytes are collected
  into lines, the last lines are kept with a running 64-bit number. The abstract buffer is the
  text written so far: which writes it came in does not matter.
\<close>

section \<open>The buffer\<close>

record LogEntry =
  en_Sequence :: "64 word"
  en_Line :: string

record LogBuffer =
  lb_capacity :: int
  lb_entries :: "LogEntry list"
  lb_next :: "64 word"
  lb_pending :: string

definition NewLogBuffer :: "int \<Rightarrow> LogBuffer" where
  "NewLogBuffer capacity = \<lparr>lb_capacity = (if capacity < 1 then 1 else capacity), lb_entries = [], lb_next = 1, lb_pending = []\<rparr>"

definition appendLocked :: "string \<Rightarrow> LogBuffer \<Rightarrow> LogBuffer" where
  "appendLocked line b =
     (let entry = \<lparr>en_Sequence = lb_next b, en_Line = line\<rparr>; b = b\<lparr>lb_next := lb_next b + 1\<rparr> in
      if int (length (lb_entries b)) < lb_capacity b then b\<lparr>lb_entries := lb_entries b @ [entry]\<rparr>
      else b\<lparr>lb_entries := tl (lb_entries b) @ [entry]\<rparr>)"

lemma rest_shorter: "LF \<in> set s \<Longrightarrow> length (dropWhile (\<lambda>c. c \<noteq> LF) s) - Suc 0 < length s"
  by (metis One_nat_def diff_less le_less_trans length_dropWhile_le length_pos_if_in_set less_imp_diff_less order_le_less zero_less_one)

lemma appendLocked_pending [simp]: "lb_pending (appendLocked line b) = lb_pending b" "lb_capacity (appendLocked line b) = lb_capacity b"
  "lb_next (appendLocked line b) = lb_next b + 1"
  by (simp_all add: appendLocked_def Let_def)

text \<open>The loop of Write over the lines that are complete.\<close>

function collect_lines :: "LogBuffer \<Rightarrow> LogBuffer" where
  "collect_lines b =
     (if LF \<notin> set (lb_pending b) then b
      else let line = TrimSpace (takeWhile (\<lambda>c. c \<noteq> LF) (lb_pending b));
               b = b\<lparr>lb_pending := tl (dropWhile (\<lambda>c. c \<noteq> LF) (lb_pending b))\<rparr> in
      if line = [] then collect_lines b else collect_lines (appendLocked line b))"
  by pat_completeness auto
termination
  by (relation "measure (\<lambda>b. length (lb_pending b))") (auto simp: rest_shorter)

declare collect_lines.simps [simp del]

definition Write :: "string \<Rightarrow> LogBuffer \<Rightarrow> nat \<times> LogBuffer" where
  "Write p b = (length p, collect_lines (b\<lparr>lb_pending := lb_pending b @ p\<rparr>))"

definition effective_limit :: "int \<Rightarrow> LogBuffer \<Rightarrow> int" where
  "effective_limit limit b = (if limit \<le> 0 \<or> limit > lb_capacity b then lb_capacity b else limit)"

text \<open>The readers take a pointer, which may be nil.\<close>

fun take_after :: "64 word \<Rightarrow> nat \<Rightarrow> LogEntry list \<Rightarrow> LogEntry list \<Rightarrow> LogEntry list" where
  "take_after after limit out [] = out"
| "take_after after limit out (e # es) =
     (if en_Sequence e \<le> after then take_after after limit out es
      else if length (out @ [e]) = limit then out @ [e] else take_after after limit (out @ [e]) es)"

definition Snapshot_entries :: "64 word \<Rightarrow> int \<Rightarrow> LogBuffer option \<Rightarrow> LogEntry list" where
  "Snapshot_entries after limit p =
     (case p of None \<Rightarrow> [] | Some b \<Rightarrow> take_after after (nat (effective_limit limit b)) [] (lb_entries b))"

fun tail_end :: "64 word \<Rightarrow> LogEntry list \<Rightarrow> nat \<Rightarrow> nat" where
  "tail_end sequence es 0 = 0"
| "tail_end sequence es (Suc n) = (if en_Sequence (es ! n) > sequence then tail_end sequence es n else Suc n)"

definition TailThrough :: "64 word \<Rightarrow> int \<Rightarrow> LogBuffer option \<Rightarrow> LogEntry list" where
  "TailThrough sequence limit p = (case p of None \<Rightarrow> [] | Some b \<Rightarrow>
     let stop = tail_end sequence (lb_entries b) (length (lb_entries b));
         start = nat (int stop - effective_limit limit b) in
     drop start (take stop (lb_entries b)))"

definition Tail :: "int \<Rightarrow> LogBuffer option \<Rightarrow> LogEntry list" where
  "Tail limit p = TailThrough (-1) limit p"

definition LatestSequence :: "LogBuffer option \<Rightarrow> 64 word" where
  "LatestSequence p = (case p of None \<Rightarrow> 0 | Some b \<Rightarrow>
     if lb_entries b = [] then 0 else en_Sequence (last (lb_entries b)))"

section \<open>The abstract buffer\<close>

text \<open>The lines of a text, numbered from one, and the last of them that fit.\<close>

definition text_lines :: "string \<Rightarrow> string list" where
  "text_lines t = filter (\<lambda>l. l \<noteq> []) (map TrimSpace (butlast (split_on LF t)))"

definition numbered :: "string list \<Rightarrow> LogEntry list" where
  "numbered ls = map (\<lambda>i. \<lparr>en_Sequence = of_nat (i + 1), en_Line = ls ! i\<rparr>) [0..<length ls]"

definition last_n :: "nat \<Rightarrow> 'a list \<Rightarrow> 'a list" where
  "last_n n xs = drop (length xs - n) xs"

text \<open>A buffer that holds some lines, with what is pending.\<close>

definition holds :: "int \<Rightarrow> string list \<Rightarrow> string \<Rightarrow> LogBuffer" where
  "holds capacity ls rest = \<lparr>lb_capacity = max 1 capacity, lb_entries = last_n (nat (max 1 capacity)) (numbered ls),
     lb_next = of_nat (length ls + 1), lb_pending = rest\<rparr>"

definition abs_buffer :: "int \<Rightarrow> string \<Rightarrow> LogBuffer" where
  "abs_buffer capacity t = holds capacity (text_lines t) (last (split_on LF t))"

section \<open>Refinement\<close>

lemma numbered_snoc: "numbered (ls @ [l]) = numbered ls @ [\<lparr>en_Sequence = of_nat (length ls + 1), en_Line = l\<rparr>]"
  by (auto simp: numbered_def nth_append)

lemma length_numbered [simp]: "length (numbered ls) = length ls"
  by (simp add: numbered_def)

lemma last_n_snoc: "n > 0 \<Longrightarrow> last_n n (xs @ [x]) =
    (if length (last_n n xs) < n then last_n n xs @ [x] else tl (last_n n xs) @ [x])"
  by (auto simp: last_n_def tl_drop drop_Suc Suc_diff_le)

lemma append_holds: "appendLocked l (holds c ls rest) = holds c (ls @ [l]) rest"
  by (auto simp: appendLocked_def holds_def Let_def numbered_snoc last_n_snoc nat_less_iff)

lemma collect_holds:
  "collect_lines (holds c ls s) = holds c (ls @ text_lines s) (last (split_on LF s))"
proof (induction "length s" arbitrary: ls s rule: less_induct)
  case less
  show ?case
  proof (cases "LF \<in> set s")
    case False
    then show ?thesis
      by (simp add: collect_lines.simps [of "holds c ls s"] split_on_free text_lines_def) (simp add: holds_def)
  next
    case True
    then obtain l r where s: "s = l @ LF # r" "LF \<notin> set l" by (meson split_list_first)
    have "takeWhile (\<lambda>c. c \<noteq> LF) s = l" "dropWhile (\<lambda>c. c \<noteq> LF) s = LF # r"
      unfolding s(1) using s(2) by (subst takeWhile_append2 dropWhile_append2, auto)+
    then have parts: "takeWhile (\<lambda>c. c \<noteq> LF) s = l" "tl (dropWhile (\<lambda>c. c \<noteq> LF) s) = r" by simp_all
    have pending: "(holds c ls s)\<lparr>lb_pending := x\<rparr> = holds c ls x" "lb_pending (holds c ls s) = s" for x
      by (simp_all add: holds_def)
    have split: "split_on LF s = l # split_on LF r" using s by (simp add: split_on_append_sep)
    have step: "collect_lines (holds c ls s) =
        (if TrimSpace l = [] then collect_lines (holds c ls r) else collect_lines (holds c (ls @ [TrimSpace l]) r))"
      by (subst collect_lines.simps) (simp add: True parts pending append_holds)
    have "length r < length s" using s by simp
    from less [OF this] show ?thesis
      by (simp add: step split text_lines_def)
  qed
qed

lemma split_on_continue:
  "split_on c (t @ p) = butlast (split_on c t) @ split_on c (last (split_on c t) @ p)"
  by (induction t) (auto split: list.splits)

lemma write_abs: "snd (Write p (abs_buffer c t)) = abs_buffer c (t @ p)"
proof -
  let ?rest = "last (split_on LF t) @ p"
  have "(abs_buffer c t)\<lparr>lb_pending := ?rest\<rparr> = holds c (text_lines t) ?rest" "lb_pending (abs_buffer c t) = last (split_on LF t)"
    by (simp_all add: abs_buffer_def holds_def)
  moreover have "text_lines (t @ p) = text_lines t @ text_lines ?rest"
    by (simp add: text_lines_def split_on_continue [of LF t p] butlast_append)
  moreover have "last (split_on LF (t @ p)) = last (split_on LF ?rest)"
    by (simp add: split_on_continue [of LF t p])
  ultimately show ?thesis
    by (simp add: Write_def collect_holds) (simp add: abs_buffer_def)
qed

lemma new_abs: "NewLogBuffer c = abs_buffer c []"
  by (simp add: NewLogBuffer_def abs_buffer_def holds_def text_lines_def numbered_def last_n_def)

lemma writes_abs: "fold (\<lambda>p b. snd (Write p b)) ps (abs_buffer c t) = abs_buffer c (t @ concat ps)"
  by (induction ps arbitrary: t) (simp_all add: write_abs)

section \<open>Reading\<close>

lemma tail_end_sorted:
  assumes "sorted (map en_Sequence es)" "n \<le> length es"
  shows "take (tail_end s es n) es = filter (\<lambda>e. en_Sequence e \<le> s) (take n es) \<and> tail_end s es n \<le> n"
  using assms(2)
proof (induction n)
  case (Suc n)
  then have n: "n < length es" by simp
  show ?case
  proof (cases "en_Sequence (es ! n) > s")
    case True
    with Suc n show ?thesis by (simp add: take_Suc_conv_app_nth)
  next
    case False
    have "en_Sequence e \<le> s" if "e \<in> set (take n es)" for e
    proof -
      from that obtain i where "i < n" "e = es ! i" using n by (auto simp: in_set_conv_nth)
      then have "en_Sequence e \<le> en_Sequence (es ! n)"
        using sorted_nth_mono [OF assms(1), of i n] n by simp
      with False show ?thesis by simp
    qed
    with False n show ?thesis by (simp add: take_Suc_conv_app_nth filter_id_conv)
  qed
qed simp

lemma of_nat_le_64: "j < 2 ^ 64 \<Longrightarrow> i \<le> j \<Longrightarrow> (of_nat i :: 64 word) \<le> of_nat j"
  by (simp add: word_of_nat_less_eq_iff take_bit_nat_eq_self)

lemma numbered_sorted: "length ls < 2 ^ 64 - 1 \<Longrightarrow> sorted (map en_Sequence (numbered ls))"
  unfolding numbered_def sorted_iff_nth_mono
  by (auto simp del: of_nat_add of_nat_Suc intro!: of_nat_le_64)

lemma take_after_filter:
  "length out < limit \<Longrightarrow> take_after after limit out es = out @ take (limit - length out) (filter (\<lambda>e. after < en_Sequence e) es)"
proof (induction es arbitrary: out)
  case (Cons e es)
  show ?case
  proof (cases "length out + 1 = limit")
    case True
    then show ?thesis using Cons by auto
  next
    case False
    with Cons.prems have "limit - length out = Suc (limit - (length out + 1))" "length (out @ [e]) < limit" by simp_all
    with Cons show ?thesis by auto
  qed
qed simp

lemma abs_entries: "lb_entries (abs_buffer c t) = last_n (nat (max 1 c)) (numbered (text_lines t))"
  by (simp add: abs_buffer_def holds_def)

lemma abs_limit: "effective_limit limit (abs_buffer c t) = (if 0 < limit \<and> limit \<le> max 1 c then limit else max 1 c)"
  by (auto simp: effective_limit_def abs_buffer_def holds_def)

lemma snapshot_abs:
  "Snapshot_entries after limit (Some (abs_buffer c t)) =
   take (nat (effective_limit limit (abs_buffer c t))) (filter (\<lambda>e. after < en_Sequence e) (last_n (nat (max 1 c)) (numbered (text_lines t))))"
  by (simp add: Snapshot_entries_def take_after_filter abs_limit abs_entries)

lemma tail_abs:
  assumes "length (text_lines t) < 2 ^ 64 - 1"
  shows "TailThrough q limit (Some (abs_buffer c t)) =
    last_n (nat (effective_limit limit (abs_buffer c t))) (filter (\<lambda>e. en_Sequence e \<le> q) (last_n (nat (max 1 c)) (numbered (text_lines t))))"
proof -
  let ?b = "abs_buffer c t"
  have lim: "effective_limit limit ?b > 0" by (auto simp: abs_limit)
  have "sorted (map en_Sequence (lb_entries ?b))"
    unfolding abs_entries last_n_def using numbered_sorted [OF assms] by (simp add: drop_map [symmetric] sorted_wrt_drop)
  note t = tail_end_sorted [OF this order_refl, of q]
  let ?n = "tail_end q (lb_entries ?b) (length (lb_entries ?b))"
  from t have f: "take ?n (lb_entries ?b) = filter (\<lambda>e. en_Sequence e \<le> q) (lb_entries ?b)" by simp
  have n: "length (filter (\<lambda>e. en_Sequence e \<le> q) (lb_entries ?b)) = ?n"
    unfolding f [symmetric] using conjunct2 [OF t] by simp
  show ?thesis
    using lim by (simp add: TailThrough_def last_n_def [of "nat (effective_limit limit ?b)"] Let_def f n nat_diff_distrib' abs_entries [symmetric])
qed

text \<open>C33:
  The log buffer refines the text written to it. After any writes the buffer is the one of the
  concatenated text, however it was cut: it keeps the last \<open>capacity\<close> non-blank lines, without outer
  white space, numbered from one, and the unfinished line. Reading after a number gives the first
  kept lines with a greater number and, while fewer than \<open>2^64 - 1\<close> lines were written, the tail
  through a number is the last kept lines with at most this number.
\<close>

theorem log_buffer_refines:
  "fold (\<lambda>p b. snd (Write p b)) ps (NewLogBuffer capacity) = abs_buffer capacity (concat ps)
 \<and> Snapshot_entries q limit (Some (abs_buffer capacity (concat ps))) =
     take (nat (effective_limit limit (abs_buffer capacity (concat ps))))
       (filter (\<lambda>e. q < en_Sequence e) (last_n (nat (max 1 capacity)) (numbered (text_lines (concat ps)))))
 \<and> (length (text_lines (concat ps)) < 2 ^ 64 - 1 \<longrightarrow>
     TailThrough q limit (Some (abs_buffer capacity (concat ps))) =
     last_n (nat (effective_limit limit (abs_buffer capacity (concat ps))))
       (filter (\<lambda>e. en_Sequence e \<le> q) (last_n (nat (max 1 capacity)) (numbered (text_lines (concat ps))))))"
  using tail_abs snapshot_abs writes_abs [of ps capacity "[]"] by (simp add: new_abs)

theorem log_buffer_refines_witness:
  "TailThrough 2 1 (Some (abs_buffer 2 (''a'' @ [LF] @ ''b'' @ [LF]))) = [\<lparr>en_Sequence = 2, en_Line = ''b''\<rparr>]"
proof -
  have lines: "text_lines (concat [''a'' @ [LF], ''b'' @ [LF]]) = [''a'', ''b'']"
    by (simp add: text_lines_def TrimSpace_plain plain_def byte_def space1_def)
  have lim: "effective_limit 1 (abs_buffer 2 (concat [''a'' @ [LF], ''b'' @ [LF]])) = 1"
    by (simp add: abs_limit)
  have "TailThrough 2 1 (Some (abs_buffer 2 (concat [''a'' @ [LF], ''b'' @ [LF]]))) = [\<lparr>en_Sequence = 2, en_Line = ''b''\<rparr>]"
    using log_buffer_refines [of "[''a'' @ [LF], ''b'' @ [LF]]" 2 2 1] unfolding lines lim
    by (simp add: numbered_def last_n_def upt_rec)
  then show ?thesis by simp
qed

end
