(* ===== verification/Trusted_Proxy.thy ===== *)
theory Trusted_Proxy
  imports Operator_Passkeys Log_Buffer
begin

unbundle bit_operations_syntax

text \<open>
  Where a request of the operator's interface comes from (internal/operatorui/trusted_proxy.go and
  the transport check in dashboard_common.go): which addresses are trusted proxies, the identity a
  proxy supplies, and the gate in front of the interface.

  Reading an address or a prefix from a text (net/netip) is the parameter \<open>netlib\<close>. As in
  net/netip an address is 128 bits with its family; an IPv4 address has the bits of its mapped
  IPv6 address.
\<close>

section \<open>Addresses\<close>

record Addr =
  na_is4 :: bool
  na_bits :: "128 word"
  na_zone :: string

record netlib =
  nl_ParseAddr :: "string \<Rightarrow> Addr option"
  nl_ParsePrefix :: "string \<Rightarrow> (Addr \<times> nat) option"

definition Is4In6 :: "Addr \<Rightarrow> bool" where
  "Is4In6 a \<longleftrightarrow> \<not> na_is4 a \<and> drop_bit 32 (na_bits a) = 0xFFFF"

definition IsLoopback :: "Addr \<Rightarrow> bool" where
  "IsLoopback a \<longleftrightarrow> (if na_is4 a \<or> Is4In6 a then take_bit 8 (drop_bit 24 (na_bits a)) = 127 else na_bits a = 1)"

text \<open>Prefix.Contains: no zone, the same family, and no difference in the leading bits.\<close>

definition BitLen :: "Addr \<Rightarrow> nat" where
  "BitLen a = (if na_is4 a then 32 else 128)"

definition prefix_Contains :: "Addr \<times> nat \<Rightarrow> Addr \<Rightarrow> bool" where
  "prefix_Contains p a \<longleftrightarrow> na_zone a = [] \<and> na_is4 a = na_is4 (fst p) \<and> snd p \<le> BitLen a
     \<and> drop_bit (BitLen a - snd p) (na_bits a XOR na_bits (fst p)) = 0"

text \<open>Prefix.Masked and PrefixFrom, which drops the zone.\<close>

definition Masked :: "Addr \<times> nat \<Rightarrow> Addr \<times> nat" where
  "Masked p = (case p of (a, n) \<Rightarrow>
     (a\<lparr>na_bits := push_bit (BitLen a - n) (drop_bit (BitLen a - n) (na_bits a)), na_zone := []\<rparr>, n))"

definition PrefixFrom :: "Addr \<Rightarrow> nat \<Rightarrow> Addr \<times> nat" where
  "PrefixFrom a n = (a\<lparr>na_zone := []\<rparr>, n)"

section \<open>Requests\<close>

text \<open>
  A request of the interface. \<open>ur_TLS\<close> says whether the connection (or the proxy) is encrypted,
  \<open>ur_External\<close> is the identity in its context, \<open>ur_PostForm n\<close> the form parsed from a body of at most \<open>n\<close>
  bytes, None when ParseForm fails.
\<close>

record externalIdentity =
  xi_Provider :: string
  xi_Subject :: string

record ui_request = request +
  ur_TLS :: bool
  ur_Cookie :: "string \<Rightarrow> string option"
  ur_External :: "externalIdentity option"
  ur_PostForm :: "nat \<Rightarrow> (string \<Rightarrow> string) option"

definition requestID :: "ui_request \<Rightarrow> string" where
  "requestID r = TrimSpace (rq_Header r ''X-Request-ID'')"

text \<open>The host of the peer, as both transport checks take it.\<close>

definition peer_host :: "string \<Rightarrow> string" where
  "peer_host remote = (case split_host (TrimSpace remote) of Some host \<Rightarrow> host | None \<Rightarrow> TrimSpace remote)"

definition remoteAddr :: "netlib \<Rightarrow> string \<Rightarrow> Addr option" where
  "remoteAddr NL remote = nl_ParseAddr NL (peer_host remote)"

text \<open>net.ParseIP knows no zones; IP.IsLoopback treats a mapped address as IPv4.\<close>

definition secureTransport :: "netlib \<Rightarrow> ui_request \<Rightarrow> bool" where
  "secureTransport NL r \<longleftrightarrow> ur_TLS r \<or>
     (case nl_ParseAddr NL (peer_host (rq_RemoteAddr r)) of None \<Rightarrow> False
      | Some ip \<Rightarrow> na_zone ip = [] \<and> IsLoopback ip)"

section \<open>The trusted proxy\<close>

definition trustedProxyProvider :: string where "trustedProxyProvider = ''trusted-proxy''"

record TrustedProxy =
  tp_prefixes :: "(Addr \<times> nat) list"
  tp_identityHeader :: string
  tp_protoHeader :: string

definition no_proxy :: TrustedProxy where
  "no_proxy = \<lparr>tp_prefixes = [], tp_identityHeader = [], tp_protoHeader = []\<rparr>"

definition validHeaderName :: "string \<Rightarrow> bool" where
  "validHeaderName v \<longleftrightarrow> v \<noteq> [] \<and> length v \<le> 128
     \<and> list_all (\<lambda>c. is_alnum c \<or> c \<in> set ([CHR 0x21, CHR 0x23, CHR 0x24, CHR 0x25, CHR 0x26, CHR 0x27, CHR 0x60] @ ''*+-.^_|~'')) v"

text \<open>strings.FieldsFunc for separators of one byte.\<close>

fun FieldsFunc :: "(char \<Rightarrow> bool) \<Rightarrow> string \<Rightarrow> string \<Rightarrow> string list" where
  "FieldsFunc sep acc [] = (if acc = [] then [] else [acc])"
| "FieldsFunc sep acc (c # s) = (if sep c then (if acc = [] then [] else [acc]) @ FieldsFunc sep [] s else FieldsFunc sep (acc @ [c]) s)"

fun parse_prefixes :: "netlib \<Rightarrow> string list \<Rightarrow> (Addr \<times> nat) list option" where
  "parse_prefixes NL [] = Some []"
| "parse_prefixes NL (part # parts) =
     (let v = TrimSpace part in
      if v = [] then parse_prefixes NL parts
      else case nl_ParsePrefix NL v of
        Some pfx \<Rightarrow> map_option (\<lambda>ps. Masked pfx # ps) (parse_prefixes NL parts)
      | None \<Rightarrow>
        (case nl_ParseAddr NL v of
           None \<Rightarrow> None
         | Some addr \<Rightarrow> map_option (\<lambda>ps. PrefixFrom addr (if na_is4 addr then 32 else 128) # ps) (parse_prefixes NL parts)))"

definition ParseTrustedProxy :: "netlib \<Rightarrow> string \<Rightarrow> string \<Rightarrow> string \<Rightarrow> string + TrustedProxy" where
  "ParseTrustedProxy NL cidrs0 identityHeader0 protoHeader0 =
     (let cidrs = TrimSpace cidrs0 in
      if cidrs = [] then Inr no_proxy
      else let identityHeader = TrimSpace identityHeader0; protoHeader = TrimSpace protoHeader0 in
      if \<not> validHeaderName identityHeader \<or> \<not> validHeaderName protoHeader then Inl ''trusted proxy header names are invalid''
      else case parse_prefixes NL (FieldsFunc (\<lambda>c. c \<in> set ([CHR 0x09, LF] @ '',; '')) [] cidrs) of
        None \<Rightarrow> Inl ''trusted proxy CIDR contains an invalid address''
      | Some nets \<Rightarrow>
        if nets = [] then Inl ''trusted proxy CIDRs are empty''
        else Inr \<lparr>tp_prefixes = nets, tp_identityHeader = identityHeader, tp_protoHeader = protoHeader\<rparr>)"

definition Enabled :: "TrustedProxy \<Rightarrow> bool" where
  "Enabled p \<longleftrightarrow> tp_prefixes p \<noteq> []"

definition proxy_contains :: "TrustedProxy \<Rightarrow> Addr \<Rightarrow> bool" where
  "proxy_contains p addr \<longleftrightarrow> list_ex (\<lambda>pfx. prefix_Contains pfx addr) (tp_prefixes p)"

text \<open>
  strings.EqualFold with an ASCII text on the right: besides the two cases of a letter, the long s
  (U+017F) folds to s and the Kelvin sign (U+212A) to k.
\<close>

fun EqualFold :: "string \<Rightarrow> string \<Rightarrow> bool" where
  "EqualFold s [] \<longleftrightarrow> s = []"
| "EqualFold s (d # t) \<longleftrightarrow>
     (s \<noteq> [] \<and> ascii_lower (hd s) = ascii_lower d \<and> EqualFold (tl s) t)
   \<or> (ascii_lower d = CHR ''s'' \<and> prefix [CHR 0xC5, CHR 0xBF] s \<and> EqualFold (drop 2 s) t)
   \<or> (ascii_lower d = CHR ''k'' \<and> prefix [CHR 0xE2, CHR 0x84, CHR 0xAA] s \<and> EqualFold (drop 3 s) t)"

definition SecureSource :: "netlib \<Rightarrow> TrustedProxy \<Rightarrow> ui_request \<Rightarrow> bool" where
  "SecureSource NL p r \<longleftrightarrow> Enabled p
     \<and> (case remoteAddr NL (rq_RemoteAddr r) of None \<Rightarrow> False | Some addr \<Rightarrow> proxy_contains p addr)
     \<and> EqualFold (TrimSpace (rq_Header r (tp_protoHeader p))) ''https''"

definition Identity :: "netlib \<Rightarrow> TrustedProxy \<Rightarrow> ui_request \<Rightarrow> string option" where
  "Identity NL p r =
     (if \<not> SecureSource NL p r then None
      else let identity = TrimSpace (rq_Header r (tp_identityHeader p)) in
      if identity = [] \<or> length identity > 120 then None
      else if containsControl identity then None else Some identity)"

definition externalIdentityFromRequest :: "ui_request \<Rightarrow> externalIdentity option" where
  "externalIdentityFromRequest r =
     (case ur_External r of None \<Rightarrow> None | Some i \<Rightarrow> if TrimSpace (xi_Subject i) \<noteq> [] then Some i else None)"

end
