(* ===== verification/Dashboard_Access.thy ===== *)
theory Dashboard_Access
  imports Trusted_Proxy
begin

text \<open>
  Access to the operator's interface (internal/operatorui/dashboard.go, dashboard_auth.go): the
  session behind a request, the checks of pages and actions, sign-in with a passkey, enrolment, the
  emergency sign-in and the claim of the first administrator.

  The state of the interface is the database, the session manager, the passkey service, the recovery
  tickets and the log buffer; a nil pointer is None. A handler makes several calls, numbered by \<open>k\<close>: each
  has its own environment \<open>w_env k\<close>, and other requests run before it (\<open>w_other k\<close> on the database,
  \<open>ui_auth k\<close>, \<open>ui_passkeys k\<close> and \<open>ui_tickets k\<close> on the rest).
\<close>

section \<open>State, environment, answers\<close>

record dash =
  ds_db :: db
  ds_auth :: "Manager option"
  ds_passkeys :: "Service option"
  ds_tickets :: tickets
  ds_logs :: "LogBuffer option"

record uiworld = world +
  ui_auth :: "nat \<Rightarrow> Manager option \<Rightarrow> Manager option"
  ui_passkeys :: "nat \<Rightarrow> Service option \<Rightarrow> Service option"
  ui_tickets :: "nat \<Rightarrow> tickets \<Rightarrow> tickets"

record uilib =
  ul_go :: golib
  ul_net :: netlib
  ul_web :: weblib
  ul_network :: network

text \<open>The pages are given by the values their templates are filled with, less the fixed title and description of a page.\<close>

record authView =
  av_Title :: string
  av_Description :: string
  av_Subject :: string
  av_State :: string
  av_CanPasskey :: bool

record dashboardInstallationRow =
  ir_Spec :: Spec
  ir_Machine :: Machine
  ir_Assignment :: "Assignment option"
  ir_Gate :: Gate

record wizardValues =
  wv_MachineID :: string
  wv_Hostname :: string
  wv_Locale :: string
  wv_Keyboard :: string
  wv_Timezone :: string
  wv_AdminUsername :: string
  wv_AdminFullName :: string
  wv_SSHKeys :: string
  wv_Packages :: string
  wv_TargetDisk :: string

record dashboardView =
  dv_Page :: string
  dv_Session :: Session
  dv_Machines :: "Machine list"
  dv_Installations :: "dashboardInstallationRow list"
  dv_Users :: "User list"
  dv_Machine :: "Machine option"
  dv_Identifiers :: "Identifier list"
  dv_Spec :: "Spec option"
  dv_Assignment :: "Assignment option"
  dv_Gate :: "Gate option"
  dv_Events :: "AuditEvent list"
  dv_RecentEvents :: "AuditEvent list"
  dv_Wizard :: "wizardValues option"
  dv_Error :: string
  dv_Known :: nat
  dv_Provision :: nat
  dv_Armed :: nat
  dv_PendingUsers :: nat
  dv_LogAfter :: "64 word"

datatype ui_body = UText string | UJson "(string \<times> json) list" | UAuth authView | UPage dashboardView
  | UMachine Session Machine | UInstallation Session string string string
  | UTrust Session string string string "Key list" | UExport "string list" | URedirect string

record Cookie =
  ck_Name :: string
  ck_Value :: string
  ck_Path :: string
  ck_HttpOnly :: bool
  ck_Secure :: bool
  ck_SameSiteStrict :: bool
  ck_Expires :: time
  ck_MaxAge :: int

record ui_response =
  us_Status :: int
  us_Headers :: "(string \<times> string) list"
  us_Cookie :: "Cookie option"
  us_Body :: ui_body

definition answer :: "int \<Rightarrow> ui_body \<Rightarrow> ui_response" where
  "answer status body = \<lparr>us_Status = status, us_Headers = [], us_Cookie = None, us_Body = body\<rparr>"

definition http_Error :: "string \<Rightarrow> int \<Rightarrow> ui_response" where
  "http_Error msg status = answer status (UText (msg @ [LF]))"

definition http_Redirect :: "string \<Rightarrow> int \<Rightarrow> ui_response" where
  "http_Redirect url status = answer status (URedirect url)"

definition writeDashboardJSON :: "int \<Rightarrow> (string \<times> json) list \<Rightarrow> ui_response" where
  "writeDashboardJSON status v = answer status (UJson v)"

definition renderAuth :: "authView \<Rightarrow> ui_response" where
  "renderAuth v = answer 200 (UAuth v)"

abbreviation json_message :: "int \<Rightarrow> string \<Rightarrow> ui_response" where
  "json_message status msg \<equiv> writeDashboardJSON status [(''message'', JText msg)]"

definition authJSONFailure :: ui_response where
  "authJSONFailure = json_message 401 ''Authentication failed.''"

abbreviation recovery_failed :: "int \<Rightarrow> ui_response" where
  "recovery_failed status \<equiv> json_message status ''Recovery authentication failed.''"

section \<open>Sessions of the interface\<close>

definition sessionCookieName :: string where "sessionCookieName = ''aegispxe_operator_session''"
definition maxFormBody :: nat where "maxFormBody = 96 * 2 ^ 10"

definition setDashboardSessionCookie :: "ui_request \<Rightarrow> string \<Rightarrow> Session \<Rightarrow> ui_response \<Rightarrow> ui_response" where
  "setDashboardSessionCookie r token session resp = resp\<lparr>us_Cookie := Some
     \<lparr>ck_Name = sessionCookieName, ck_Value = token, ck_Path = ''/ui/'', ck_HttpOnly = True, ck_Secure = ur_TLS r,
      ck_SameSiteStrict = True, ck_Expires = se_ExpiresAt session, ck_MaxAge = SessionDuration div Second\<rparr>\<rparr>"

definition clearDashboardSessionCookie :: "ui_request \<Rightarrow> ui_response \<Rightarrow> ui_response" where
  "clearDashboardSessionCookie r resp = resp\<lparr>us_Cookie := Some
     \<lparr>ck_Name = sessionCookieName, ck_Value = [], ck_Path = ''/ui/'', ck_HttpOnly = True, ck_Secure = ur_TLS r,
      ck_SameSiteStrict = True, ck_Expires = 0, ck_MaxAge = -1\<rparr>\<rparr>"

text \<open>Calls: 0 the session, 1 its user, 2 the log-out of a session whose user changed.\<close>

definition session_invalid :: "User result \<Rightarrow> Session \<Rightarrow> bool" where
  "session_invalid found session = (case found of Inl _ \<Rightarrow> True
     | Inr user \<Rightarrow> u_Status user \<noteq> StatusActive \<or> u_Role user \<noteq> se_Role session \<or> se_Actor session \<noteq> ''user:'' @ u_Subject user)"

definition dashboardSession :: "uilib \<Rightarrow> uiworld \<Rightarrow> ui_request \<Rightarrow> dash \<Rightarrow> (Session \<times> string) option \<times> dash" where
  "dashboardSession P w r st =
     (if ds_auth st = None \<or> \<not> secureTransport (ul_net P) r then (None, st)
      else case ur_Cookie r sessionCookieName of
        None \<Rightarrow> (None, st)
      | Some token \<Rightarrow>
        (case Session_of (ul_go P) (w_env w 0) token (ui_auth w 0 (ds_auth st)) of
           (None, m) \<Rightarrow> (None, st\<lparr>ds_auth := m\<rparr>)
         | (Some session, m) \<Rightarrow>
           if TrimSpace (se_UserID session) = [] then (None, st\<lparr>ds_auth := m\<rparr>)
           else let d = w_other w 1 (ds_db st); found = OperatorUser (w_env w 1) 0 d (se_UserID session) in
           if session_invalid found session then
             (None, st\<lparr>ds_db := d, ds_auth := Logout (ul_go P) token (ui_auth w 2 m)\<rparr>)
           else (Some (session, token), st\<lparr>ds_db := d, ds_auth := m\<rparr>)))"

definition requireDashboardPage :: "uilib \<Rightarrow> uiworld \<Rightarrow> ui_request \<Rightarrow> dash \<Rightarrow> (ui_response + Session) \<times> dash" where
  "requireDashboardPage P w r st =
     (case dashboardSession P w r st of
        (None, st') \<Rightarrow> (Inl (http_Redirect ''/ui/'' 303), st')
      | (Some (session, token), st') \<Rightarrow> (Inr session, st'))"

definition requireDashboardPageJSON :: "uilib \<Rightarrow> uiworld \<Rightarrow> ui_request \<Rightarrow> dash \<Rightarrow> (ui_response + Session) \<times> dash" where
  "requireDashboardPageJSON P w r st =
     (case dashboardSession P w r st of
        (None, st') \<Rightarrow> (Inl (json_message 401 ''dashboard session required''), st')
      | (Some (session, token), st') \<Rightarrow> (Inr session, st'))"

text \<open>The parsed form is part of the request afterwards.\<close>

definition requireDashboardAction ::
  "uilib \<Rightarrow> uiworld \<Rightarrow> ui_request \<Rightarrow> bool \<Rightarrow> dash \<Rightarrow> (ui_response + Session \<times> (string \<Rightarrow> string)) \<times> dash" where
  "requireDashboardAction P w r admin st =
     (if \<not> secureTransport (ul_net P) r then (Inl (http_Error ''secure transport required'' 426), st)
      else case dashboardSession P w r st of
        (None, st') \<Rightarrow> (Inl (http_Error ''dashboard session required'' 401), st')
      | (Some (session, token), st') \<Rightarrow>
        if admin \<and> \<not> IsAdmin session then (Inl (http_Error ''administrator role required'' 403), st')
        else case ur_PostForm r maxFormBody of
          None \<Rightarrow> (Inl (http_Error ''invalid dashboard request'' 403), st')
        | Some form \<Rightarrow>
          if \<not> ValidateCSRF (ul_go P) session (form ''csrf'') then (Inl (http_Error ''invalid dashboard request'' 403), st')
          else (Inr (session, form), st'))"

text \<open>Call 3: the log-out.\<close>

definition dashboardLogout :: "uilib \<Rightarrow> uiworld \<Rightarrow> ui_request \<Rightarrow> dash \<Rightarrow> ui_response \<times> dash" where
  "dashboardLogout P w r st =
     (case dashboardSession P w r st of
        (None, st') \<Rightarrow> (http_Redirect ''/ui/'' 303, st')
      | (Some (session, token), st') \<Rightarrow>
        (case ur_PostForm r maxFormBody of
           None \<Rightarrow> (http_Error ''invalid dashboard request'' 403, st')
         | Some form \<Rightarrow>
           if \<not> ValidateCSRF (ul_go P) session (form ''csrf'') then (http_Error ''invalid dashboard request'' 403, st')
           else (clearDashboardSessionCookie r (http_Redirect ''/ui/'' 303),
                 st'\<lparr>ds_auth := Logout (ul_go P) token (ui_auth w 3 (ds_auth st'))\<rparr>)))"

section \<open>Sign-in behind the trusted proxy\<close>

text \<open>Calls: 0 the identity, 1 the credentials, 2 the ceremony, 3 the credential saved, 4 the user read again, 5 the session.\<close>

definition resolve_external :: "uiworld \<Rightarrow> ui_request \<Rightarrow> externalIdentity \<Rightarrow> dash \<Rightarrow> User result \<times> dash" where
  "resolve_external w r identity st =
     (case ResolveOperatorUser (w_env w 0) (w_other w 0 (ds_db st)) (xi_Provider identity) (xi_Subject identity)
             (xi_Subject identity) '''' (requestID r) of
        (Inl err, d) \<Rightarrow> (Inl err, st\<lparr>ds_db := d\<rparr>)
      | (Inr (user, created), d) \<Rightarrow> (Inr user, st\<lparr>ds_db := d\<rparr>))"

definition externalWebAuthnUser ::
  "uilib \<Rightarrow> uiworld \<Rightarrow> ui_request \<Rightarrow> Status \<Rightarrow> dash \<Rightarrow> (ui_response + User \<times> credential list) \<times> dash" where
  "externalWebAuthnUser P w r required st =
     (case externalIdentityFromRequest r of
        None \<Rightarrow> (Inl authJSONFailure, st)
      | Some identity \<Rightarrow>
        if ds_passkeys st = None then (Inl authJSONFailure, st)
        else case resolve_external w r identity st of
          (Inl err, st') \<Rightarrow> (Inl authJSONFailure, st')
        | (Inr user, st') \<Rightarrow>
          if u_Status user \<noteq> required then (Inl authJSONFailure, st')
          else let st'' = st'\<lparr>ds_db := w_other w 1 (ds_db st')\<rparr> in
          case OperatorUserForWebAuthn (wl_decode (ul_web P)) (w_env w 1) (ds_db st'') (u_ID user) (RPID (ds_passkeys st'')) of
            Inl err \<Rightarrow> (Inl authJSONFailure, st'')
          | Inr (user, creds) \<Rightarrow>
            if required = StatusActive \<and> creds = [] then (Inl authJSONFailure, st'') else (Inr (user, creds), st''))"

definition ceremony_started :: "(string + json \<times> string) \<Rightarrow> ui_response" where
  "ceremony_started res = (case res of Inl err \<Rightarrow> authJSONFailure
     | Inr (options, flow) \<Rightarrow> writeDashboardJSON 200 [(''options'', options), (''flow'', JText flow)])"

definition beginExternalPasskeyLogin :: "uilib \<Rightarrow> uiworld \<Rightarrow> ui_request \<Rightarrow> dash \<Rightarrow> ui_response \<times> dash" where
  "beginExternalPasskeyLogin P w r st =
     (case externalWebAuthnUser P w r StatusActive st of
        (Inl resp, st') \<Rightarrow> (resp, st')
      | (Inr user, st') \<Rightarrow>
        (case BeginLogin (ul_go P) (ul_web P) (w_env w 2) user ModeLogin (ui_passkeys w 2 (ds_passkeys st')) of
           (res, s) \<Rightarrow> (ceremony_started res, st'\<lparr>ds_passkeys := s\<rparr>)))"

definition beginPasskeyEnrollment :: "uilib \<Rightarrow> uiworld \<Rightarrow> ui_request \<Rightarrow> dash \<Rightarrow> ui_response \<times> dash" where
  "beginPasskeyEnrollment P w r st =
     (case externalWebAuthnUser P w r StatusEnrollmentRequired st of
        (Inl resp, st') \<Rightarrow> (resp, st')
      | (Inr user, st') \<Rightarrow>
        (case BeginRegistration (ul_go P) (ul_web P) (w_env w 2) user (ui_passkeys w 2 (ds_passkeys st')) of
           (res, s) \<Rightarrow> (ceremony_started res, st'\<lparr>ds_passkeys := s\<rparr>)))"

definition issue_session ::
  "uilib \<Rightarrow> uiworld \<Rightarrow> ui_request \<Rightarrow> User \<Rightarrow> string \<Rightarrow> ui_response \<Rightarrow> ui_response \<Rightarrow> dash \<Rightarrow> ui_response \<times> dash" where
  "issue_session P w r user authMethod refused accepted st =
     (case IssueUserSession (ul_go P) (w_env w 5) user authMethod (ui_auth w 5 (ds_auth st)) of
        (Inl err, m) \<Rightarrow> (refused, st\<lparr>ds_auth := m\<rparr>)
      | (Inr (token, session), m) \<Rightarrow> (setDashboardSessionCookie r token session accepted, st\<lparr>ds_auth := m\<rparr>))"

definition save_passkey ::
  "uiworld \<Rightarrow> ui_request \<Rightarrow> User \<Rightarrow> credential \<Rightarrow> string \<Rightarrow> bool \<Rightarrow> dash \<Rightarrow> bool \<times> dash" where
  "save_passkey w r user cred actor enrollment st =
     (case SaveOperatorCredential (w_env w 3) (w_other w 3 (ds_db st)) (u_ID user) (RPID (ds_passkeys st)) cred (requestID r) actor enrollment of
        (res, d) \<Rightarrow> (\<not> isl res, st\<lparr>ds_db := d\<rparr>))"

abbreviation ceremony_token :: "ui_request \<Rightarrow> string" where
  "ceremony_token r \<equiv> TrimSpace (rq_Header r ''X-AegisPXE-Ceremony'')"

definition status_ok :: ui_response where
  "status_ok = writeDashboardJSON 200 [(''status'', JText ''ok'')]"

definition finishExternalPasskeyLogin :: "uilib \<Rightarrow> uiworld \<Rightarrow> ui_request \<Rightarrow> dash \<Rightarrow> ui_response \<times> dash" where
  "finishExternalPasskeyLogin P w r st =
     (case externalWebAuthnUser P w r StatusActive st of
        (Inl resp, st') \<Rightarrow> (resp, st')
      | (Inr user, st') \<Rightarrow>
        (case FinishLogin (ul_go P) (ul_web P) (w_env w 2) user (ceremony_token r) ModeLogin (rq_Body r) (ui_passkeys w 2 (ds_passkeys st')) of
           (Inl err, s) \<Rightarrow> (authJSONFailure, st'\<lparr>ds_passkeys := s\<rparr>)
         | (Inr cred, s) \<Rightarrow>
           (case save_passkey w r (fst user) cred (''user:'' @ u_Subject (fst user)) False (st'\<lparr>ds_passkeys := s\<rparr>) of
              (False, st'') \<Rightarrow> (authJSONFailure, st'')
            | (True, st'') \<Rightarrow> issue_session P w r (fst user) ''zoraxy+passkey'' authJSONFailure status_ok st'')))"

definition finishPasskeyEnrollment :: "uilib \<Rightarrow> uiworld \<Rightarrow> ui_request \<Rightarrow> dash \<Rightarrow> ui_response \<times> dash" where
  "finishPasskeyEnrollment P w r st =
     (case externalWebAuthnUser P w r StatusEnrollmentRequired st of
        (Inl resp, st') \<Rightarrow> (resp, st')
      | (Inr user, st') \<Rightarrow>
        (case FinishRegistration (ul_go P) (ul_web P) (w_env w 2) user (ceremony_token r) (rq_Body r) (ui_passkeys w 2 (ds_passkeys st')) of
           (Inl err, s) \<Rightarrow> (authJSONFailure, st'\<lparr>ds_passkeys := s\<rparr>)
         | (Inr cred, s) \<Rightarrow>
           (case save_passkey w r (fst user) cred (''user:'' @ u_Subject (fst user)) True (st'\<lparr>ds_passkeys := s\<rparr>) of
              (False, st'') \<Rightarrow> (authJSONFailure, st'')
            | (True, st'') \<Rightarrow>
              let d = w_other w 4 (ds_db st'') in
              (case OperatorUser (w_env w 4) 0 d (u_ID (fst user)) of
                 Inl err \<Rightarrow> (authJSONFailure, st''\<lparr>ds_db := d\<rparr>)
               | Inr active \<Rightarrow> issue_session P w r active ''zoraxy+passkey'' authJSONFailure status_ok (st''\<lparr>ds_db := d\<rparr>)))))"

text \<open>Calls: 0 the identity, 6 the recovery key, 7 the claim.\<close>

definition claim_rejected :: "int \<Rightarrow> ui_response" where
  "claim_rejected status = http_Error ''initial administrator claim rejected'' status"

definition bootstrapInitialAdmin :: "uilib \<Rightarrow> uiworld \<Rightarrow> ui_request \<Rightarrow> dash \<Rightarrow> ui_response \<times> dash" where
  "bootstrapInitialAdmin P w r st =
     (case externalIdentityFromRequest r of
        None \<Rightarrow> (http_Error ''trusted identity required'' 403, st)
      | Some identity \<Rightarrow>
        if \<not> secureTransport (ul_net P) r then (http_Error ''trusted identity required'' 403, st)
        else case ur_PostForm r maxFormBody of
          None \<Rightarrow> (http_Error ''invalid bootstrap request'' 400, st)
        | Some form \<Rightarrow>
          (case resolve_external w r identity st of
             (Inl err, st') \<Rightarrow> (claim_rejected 403, st')
           | (Inr user, st') \<Rightarrow>
             if u_Status user \<noteq> StatusPendingReview then (claim_rejected 403, st')
             else (case VerifyRecoveryKey (ul_go P) (w_env w 6) (remoteHost (rq_RemoteAddr r)) (form ''key'') (ui_auth w 6 (ds_auth st')) of
                (Some err, m) \<Rightarrow> (claim_rejected 403, st'\<lparr>ds_auth := m\<rparr>)
              | (None, m) \<Rightarrow>
                (case ClaimInitialAdmin (w_env w 7) (w_other w 7 (ds_db st')) (u_ID user) (requestID r) (''bootstrap:'' @ u_Subject user) of
                   (Inl err, d) \<Rightarrow> (claim_rejected 409, st'\<lparr>ds_auth := m, ds_db := d\<rparr>)
                 | (Inr _, d) \<Rightarrow> (http_Redirect ''/ui/'' 303, st'\<lparr>ds_auth := m, ds_db := d\<rparr>)))))"

section \<open>Emergency sign-in\<close>

text \<open>Calls: 0 the user, 1 the credentials, 2 the ceremony, 3 the credential saved, 6 the recovery key, 8 the ticket, 5 the session.\<close>

definition recovery_user :: "uiworld \<Rightarrow> string \<Rightarrow> dash \<Rightarrow> User option \<times> dash" where
  "recovery_user w subject st =
     (let d = w_other w 0 (ds_db st) in
      ((case OperatorUserByExternalIdentity (w_env w 0) d trustedProxyProvider subject of Inl _ \<Rightarrow> None
        | Inr user \<Rightarrow> if u_Status user \<noteq> StatusActive then None else Some user), st\<lparr>ds_db := d\<rparr>))"

definition beginRecoveryPasskey :: "uilib \<Rightarrow> uiworld \<Rightarrow> ui_request \<Rightarrow> dash \<Rightarrow> ui_response \<times> dash" where
  "beginRecoveryPasskey P w r st =
     (if externalIdentityFromRequest r \<noteq> None then
        (json_message 403 ''Recovery authentication is unavailable while an outer identity is present.'', st)
      else if ds_passkeys st = None then (recovery_failed 503, st)
      else case ur_PostForm r maxFormBody of
        None \<Rightarrow> (recovery_failed 400, st)
      | Some form \<Rightarrow>
        (case recovery_user w (TrimSpace (form ''subject'')) st of
           (None, st') \<Rightarrow> (recovery_failed 401, st')
         | (Some user, st') \<Rightarrow>
           let st'' = st'\<lparr>ds_db := w_other w 1 (ds_db st')\<rparr> in
           (case OperatorUserForWebAuthn (wl_decode (ul_web P)) (w_env w 1) (ds_db st'') (u_ID user) (RPID (ds_passkeys st'')) of
              Inl err \<Rightarrow> (recovery_failed 401, st'')
            | Inr (user, creds) \<Rightarrow>
              if creds = [] then (recovery_failed 401, st'')
              else (case BeginLogin (ul_go P) (ul_web P) (w_env w 2) (user, creds) ModeRecovery (ui_passkeys w 2 (ds_passkeys st'')) of
                (res, s) \<Rightarrow> (ceremony_started res, st''\<lparr>ds_passkeys := s\<rparr>)))))"

definition finishRecoveryPasskey :: "uilib \<Rightarrow> uiworld \<Rightarrow> ui_request \<Rightarrow> dash \<Rightarrow> ui_response \<times> dash" where
  "finishRecoveryPasskey P w r st =
     (if externalIdentityFromRequest r \<noteq> None \<or> ds_passkeys st = None then (recovery_failed 401, st)
      else case recovery_user w (TrimSpace (rq_Header r ''X-AegisPXE-Recovery-Subject'')) st of
        (None, st') \<Rightarrow> (recovery_failed 401, st')
      | (Some user, st') \<Rightarrow>
        let st'' = st'\<lparr>ds_db := w_other w 1 (ds_db st')\<rparr> in
        (case OperatorUserForWebAuthn (wl_decode (ul_web P)) (w_env w 1) (ds_db st'') (u_ID user) (RPID (ds_passkeys st'')) of
           Inl err \<Rightarrow> (authJSONFailure, st'')
         | Inr user \<Rightarrow>
           (case FinishLogin (ul_go P) (ul_web P) (w_env w 2) user (ceremony_token r) ModeRecovery (rq_Body r) (ui_passkeys w 2 (ds_passkeys st'')) of
              (Inl err, s) \<Rightarrow> (authJSONFailure, st''\<lparr>ds_passkeys := s\<rparr>)
            | (Inr cred, s) \<Rightarrow>
              (case save_passkey w r (fst user) cred (''recovery:'' @ u_Subject (fst user)) False (st''\<lparr>ds_passkeys := s\<rparr>) of
                 (False, t) \<Rightarrow> (authJSONFailure, t)
               | (True, t) \<Rightarrow>
                 (case IssueRecoveryTicket (ul_go P) (w_env w 8) (u_ID (fst user)) (ui_tickets w 8 (ds_tickets t)) of
                    (Inl err, items) \<Rightarrow> (authJSONFailure, t\<lparr>ds_tickets := items\<rparr>)
                  | (Inr ticket, items) \<Rightarrow> (writeDashboardJSON 200 [(''ticket'', JText ticket)], t\<lparr>ds_tickets := items\<rparr>))))))"

definition recovery_refused :: "int \<Rightarrow> ui_response" where
  "recovery_refused status = http_Error ''recovery authentication failed'' status"

definition finishRecoveryLogin :: "uilib \<Rightarrow> uiworld \<Rightarrow> ui_request \<Rightarrow> dash \<Rightarrow> ui_response \<times> dash" where
  "finishRecoveryLogin P w r st =
     (if externalIdentityFromRequest r \<noteq> None \<or> \<not> secureTransport (ul_net P) r then (recovery_refused 403, st)
      else case ur_PostForm r maxFormBody of
        None \<Rightarrow> (recovery_refused 400, st)
      | Some form \<Rightarrow>
        (case recovery_user w (TrimSpace (form ''subject'')) st of
           (None, st') \<Rightarrow> (recovery_refused 401, st')
         | (Some user, st') \<Rightarrow>
           (case VerifyRecoveryKey (ul_go P) (w_env w 6) (remoteHost (rq_RemoteAddr r)) (form ''key'') (ui_auth w 6 (ds_auth st')) of
              (Some err, m) \<Rightarrow> (recovery_refused 401, st'\<lparr>ds_auth := m\<rparr>)
            | (None, m) \<Rightarrow>
              (case ConsumeRecoveryTicket (ul_go P) (w_env w 8) (form ''ticket'') (u_ID user) (ui_tickets w 8 (ds_tickets st')) of
                 (False, items) \<Rightarrow> (recovery_refused 401, st'\<lparr>ds_auth := m, ds_tickets := items\<rparr>)
               | (True, items) \<Rightarrow>
                 issue_session P w r user ''recovery+passkey+key'' (recovery_refused 401) (http_Redirect ''/ui/'' 303)
                   (st'\<lparr>ds_auth := m, ds_tickets := items\<rparr>)))))"

end
