(* ===== verification/Dashboard_Actions.thy ===== *)
theory Dashboard_Actions
  imports Dashboard_Access
begin

text \<open>
  The pages and actions of the operator's interface (internal/operatorui/dashboard_pages.go,
  dashboard_provisioning.go, dashboard_management.go, dashboard_trust.go, dashboard_log_hardening.go,
  dashboard_log_tail.go), its routes and the handlers around them (dashboard.go, trusted_proxy.go).
  Every page and action starts with the calls 0 to 2 of \<open>dashboardSession\<close>; its own calls are numbered
  from 3. Two handlers that no route uses (dashboardLogFeed, dashboardLogExport) are left out.
\<close>

section \<open>Errors\<close>

fun code_text :: "code \<Rightarrow> string" where
  "code_text DiscoveryRateLimited = ''PXE001_DISCOVERY_RATE_LIMITED''"
| "code_text MachineIdentityConflict = ''MAC001_MACHINE_IDENTITY_CONFLICT''"
| "code_text MachineIdentityInvalid = ''MAC002_MACHINE_IDENTITY_INVALID''"
| "code_text MachineNotFound = ''MAC003_MACHINE_NOT_FOUND''"
| "code_text MachinePolicyInvalid = ''MAC004_MACHINE_POLICY_INVALID''"
| "code_text MachineDeleteConflict = ''MAC005_MACHINE_DELETE_CONFLICT''"
| "code_text ArtifactTrustFailed = ''ART001_ARTIFACT_TRUST_FAILED''"
| "code_text ArtifactHashMismatch = ''ART002_ARTIFACT_HASH_MISMATCH''"
| "code_text ArtifactFetchFailed = ''ART003_ARTIFACT_FETCH_FAILED''"
| "code_text DriverSpecUnsupported = ''DRV001_DRIVER_SPEC_UNSUPPORTED''"
| "code_text DriverRenderFailed = ''DRV002_DRIVER_RENDER_FAILED''"
| "code_text InstallationSpecInvalid = ''INS001_INSTALLATION_SPEC_INVALID''"
| "code_text InstallationNotFound = ''INS002_INSTALLATION_NOT_FOUND''"
| "code_text InstallationAssignmentInvalid = ''INS003_INSTALLATION_ASSIGNMENT_INVALID''"
| "code_text InstallationAssignmentConflict = ''INS004_INSTALLATION_ASSIGNMENT_CONFLICT''"
| "code_text InstallationAssignmentNotFound = ''INS005_INSTALLATION_ASSIGNMENT_NOT_FOUND''"
| "code_text InstallerTelemetryInvalid = ''INS006_INSTALLER_TELEMETRY_INVALID''"
| "code_text InstallerTelemetryConflict = ''INS007_INSTALLER_TELEMETRY_CONFLICT''"
| "code_text InstallerLogLimitExceeded = ''INS008_INSTALLER_LOG_LIMIT_EXCEEDED''"
| "code_text InstallationDeleteConflict = ''INS009_INSTALLATION_DELETE_CONFLICT''"
| "code_text CryptographicBootTrustRequired = ''SEC001_CRYPTOGRAPHIC_BOOT_TRUST_REQUIRED''"
| "code_text OperatorAuthenticationFailed = ''SEC002_OPERATOR_AUTHENTICATION_FAILED''"
| "code_text OperatorAuthRateLimited = ''SEC003_OPERATOR_AUTH_RATE_LIMITED''"
| "code_text OperatorSessionRequired = ''SEC004_OPERATOR_SESSION_REQUIRED''"
| "code_text OperatorCSRFInvalid = ''SEC005_OPERATOR_CSRF_INVALID''"
| "code_text OperatorSecureTransportRequired = ''SEC006_SECURE_OPERATOR_TRANSPORT_REQUIRED''"
| "code_text OperatorUserPending = ''SEC007_OPERATOR_USER_PENDING_REVIEW''"
| "code_text OperatorUserBlocked = ''SEC008_OPERATOR_USER_BLOCKED''"
| "code_text OperatorUserNotFound = ''SEC009_OPERATOR_USER_NOT_FOUND''"
| "code_text OperatorPasskeyRequired = ''SEC010_OPERATOR_PASSKEY_REQUIRED''"
| "code_text OperatorPasskeyFailed = ''SEC011_OPERATOR_PASSKEY_FAILED''"
| "code_text OperatorAuthorizationDenied = ''SEC012_OPERATOR_AUTHORIZATION_DENIED''"
| "code_text OperatorRecoveryFailed = ''SEC013_OPERATOR_RECOVERY_FAILED''"
| "code_text OperatorWebAuthnNotConfigured = ''SEC014_OPERATOR_WEBAUTHN_NOT_CONFIGURED''"
| "code_text InstallerCredentialRequired = ''SEC015_INSTALLER_CREDENTIAL_REQUIRED''"
| "code_text InstallerCredentialInvalid = ''SEC016_INSTALLER_CREDENTIAL_INVALID''"
| "code_text InstallerCredentialExpired = ''SEC017_INSTALLER_CREDENTIAL_EXPIRED''"
| "code_text BootTrustEnrollmentRequired = ''SEC018_BOOT_TRUST_ENROLLMENT_REQUIRED''"
| "code_text BootTrustKeyInvalid = ''SEC019_BOOT_TRUST_KEY_INVALID''"
| "code_text BootTrustProofInvalid = ''SEC020_BOOT_TRUST_PROOF_INVALID''"
| "code_text BootTrustChallengeExpired = ''SEC021_BOOT_TRUST_CHALLENGE_EXPIRED''"
| "code_text BootTrustReplayRejected = ''SEC022_BOOT_TRUST_REPLAY_REJECTED''"
| "code_text SecureBootRequired = ''SEC023_SECURE_BOOT_REQUIRED''"
| "code_text SecureBootEvidenceInvalid = ''SEC024_SECURE_BOOT_EVIDENCE_INVALID''"
| "code_text SecureBootAssetsInvalid = ''SEC025_SECURE_BOOT_ASSETS_INVALID''"
| "code_text StorageFailure = ''SYS001_STORAGE_FAILURE''"

definition writeDashboardError :: "fault \<Rightarrow> ui_response" where
  "writeDashboardError err =
     http_Error (''dashboard operation failed: '' @ code_text (Code err))
       (case Code err of MachineNotFound \<Rightarrow> 404 | InstallationNotFound \<Rightarrow> 404 | InstallationAssignmentNotFound \<Rightarrow> 404
        | OperatorUserNotFound \<Rightarrow> 404 | InstallationAssignmentConflict \<Rightarrow> 409 | OperatorAuthorizationDenied \<Rightarrow> 403
        | StorageFailure \<Rightarrow> 503 | _ \<Rightarrow> 400)"

text \<open>A read and a write of the store as call number \<open>k\<close>, with the answer to its result.\<close>

definition store_read ::
  "uiworld \<Rightarrow> nat \<Rightarrow> (env \<Rightarrow> db \<Rightarrow> 'a result) \<Rightarrow> ('a \<Rightarrow> dash \<Rightarrow> ui_response \<times> dash) \<Rightarrow> dash \<Rightarrow> ui_response \<times> dash" where
  "store_read w k query nxt st =
     (let st' = st\<lparr>ds_db := w_other w k (ds_db st)\<rparr> in
      case query (w_env w k) (ds_db st') of Inl err \<Rightarrow> (writeDashboardError err, st') | Inr x \<Rightarrow> nxt x st')"

definition store_write ::
  "uiworld \<Rightarrow> nat \<Rightarrow> (env \<Rightarrow> db \<Rightarrow> 'a result \<times> db) \<Rightarrow> (fault \<Rightarrow> ui_response) \<Rightarrow> ('a \<Rightarrow> ui_response) \<Rightarrow> dash \<Rightarrow> ui_response \<times> dash" where
  "store_write w k opr failed succeeded_with st =
     (case opr (w_env w k) (w_other w k (ds_db st)) of
        (Inl err, d) \<Rightarrow> (failed err, st\<lparr>ds_db := d\<rparr>)
      | (Inr x, d) \<Rightarrow> (succeeded_with x, st\<lparr>ds_db := d\<rparr>))"

definition with_page ::
  "uilib \<Rightarrow> uiworld \<Rightarrow> ui_request \<Rightarrow> (Session \<Rightarrow> dash \<Rightarrow> ui_response \<times> dash) \<Rightarrow> dash \<Rightarrow> ui_response \<times> dash" where
  "with_page P w r nxt st = (case requireDashboardPage P w r st of (Inl resp, st') \<Rightarrow> (resp, st') | (Inr session, st') \<Rightarrow> nxt session st')"

definition with_page_json ::
  "uilib \<Rightarrow> uiworld \<Rightarrow> ui_request \<Rightarrow> (Session \<Rightarrow> dash \<Rightarrow> ui_response \<times> dash) \<Rightarrow> dash \<Rightarrow> ui_response \<times> dash" where
  "with_page_json P w r nxt st = (case requireDashboardPageJSON P w r st of (Inl resp, st') \<Rightarrow> (resp, st') | (Inr session, st') \<Rightarrow> nxt session st')"

definition with_action ::
  "uilib \<Rightarrow> uiworld \<Rightarrow> ui_request \<Rightarrow> bool \<Rightarrow> (Session \<Rightarrow> (string \<Rightarrow> string) \<Rightarrow> dash \<Rightarrow> ui_response \<times> dash) \<Rightarrow> dash \<Rightarrow> ui_response \<times> dash" where
  "with_action P w r admin nxt st =
     (case requireDashboardAction P w r admin st of (Inl resp, st') \<Rightarrow> (resp, st') | (Inr (session, form), st') \<Rightarrow> nxt session form st')"

abbreviation path_id :: "ui_request \<Rightarrow> string" where
  "path_id r \<equiv> TrimSpace (rq_PathValue r ''id'')"

section \<open>Actions\<close>

definition policy_of_text :: "string \<Rightarrow> Policy" where
  "policy_of_text s = (if s = ''pending'' then PolicyPending else if s = ''local'' then PolicyLocal
     else if s = ''provision'' then PolicyProvision else if s = ''blocked'' then PolicyBlocked else PolicyOther s)"

definition role_of_text :: "string \<Rightarrow> Role" where
  "role_of_text s = (if s = ''admin'' then RoleAdmin else if s = ''operator'' then RoleOperator else RoleOther s)"

definition dashboardMachinePolicy :: "uilib \<Rightarrow> uiworld \<Rightarrow> ui_request \<Rightarrow> dash \<Rightarrow> ui_response \<times> dash" where
  "dashboardMachinePolicy P w r = with_action P w r False (\<lambda>session form.
     store_write w 3 (\<lambda>e d. SetMachinePolicy e d (path_id r) (policy_of_text (TrimSpace (form ''policy''))) (requestID r) (se_Actor session))
       writeDashboardError (\<lambda>_. http_Redirect (''/ui/machines/'' @ path_id r) 303))"

definition dashboardMachineNickname :: "uilib \<Rightarrow> uiworld \<Rightarrow> ui_request \<Rightarrow> dash \<Rightarrow> ui_response \<times> dash" where
  "dashboardMachineNickname P w r = with_action P w r False (\<lambda>session form.
     store_write w 3 (\<lambda>e d. SetMachineNickname e d (path_id r) (form ''nickname'') (requestID r) (se_Actor session))
       writeDashboardError (\<lambda>_. http_Redirect (''/ui/machines/'' @ path_id r @ ''/manage'') 303))"

definition dashboardDeleteMachine :: "uilib \<Rightarrow> uiworld \<Rightarrow> ui_request \<Rightarrow> dash \<Rightarrow> ui_response \<times> dash" where
  "dashboardDeleteMachine P w r = with_action P w r True (\<lambda>session form st.
     if TrimSpace (form ''confirm'') \<noteq> path_id r then (http_Error ''machine deletion confirmation does not match'' 400, st)
     else store_write w 3 (\<lambda>e d. DeleteMachine e d (path_id r) (requestID r) (se_Actor session))
       (\<lambda>err. if Code err = MachineDeleteConflict then http_Error (''delete this machine'' @ [CHR 0x27] @ ''s installations first'') 409
              else writeDashboardError err)
       (\<lambda>_. http_Redirect ''/ui/machines'' 303) st)"

definition dashboardDeleteInstallation :: "uilib \<Rightarrow> uiworld \<Rightarrow> ui_request \<Rightarrow> dash \<Rightarrow> ui_response \<times> dash" where
  "dashboardDeleteInstallation P w r = with_action P w r True (\<lambda>session form st.
     if TrimSpace (form ''confirm'') \<noteq> path_id r then (http_Error ''installation deletion confirmation does not match'' 400, st)
     else store_write w 3 (\<lambda>e d. DeleteInstallation e d (path_id r) (requestID r) (se_Actor session))
       (\<lambda>err. if Code err = InstallationDeleteConflict then http_Error ''cancel the armed assignment before deleting this installation'' 409
              else writeDashboardError err)
       (\<lambda>_. http_Redirect ''/ui/installations'' 303) st)"

definition dashboardArmInstallation :: "uilib \<Rightarrow> uiworld \<Rightarrow> ui_request \<Rightarrow> dash \<Rightarrow> ui_response \<times> dash" where
  "dashboardArmInstallation P w r = with_action P w r False (\<lambda>session form.
     store_read w 3 (\<lambda>e d. InstallationSpec e 0 d (path_id r)) (\<lambda>spec.
       store_write w 4 (\<lambda>e d. ArmInstallation e d (sp_MachineID spec) (sp_ID spec) (requestID r) (se_Actor session))
         writeDashboardError (\<lambda>_. http_Redirect (''/ui/installations/'' @ path_id r) 303)))"

definition dashboardCancelInstallation :: "uilib \<Rightarrow> uiworld \<Rightarrow> ui_request \<Rightarrow> dash \<Rightarrow> ui_response \<times> dash" where
  "dashboardCancelInstallation P w r = with_action P w r False (\<lambda>session form.
     store_write w 3 (\<lambda>e d. CancelAssignment e d (path_id r) (requestID r) (se_Actor session))
       writeDashboardError (\<lambda>_. http_Redirect (''/ui/installations/'' @ path_id r) 303))"

abbreviation path_fingerprint :: "ui_request \<Rightarrow> string" where
  "path_fingerprint r \<equiv> TrimSpace (rq_PathValue r ''fingerprint'')"

definition dashboardApproveBootTrustKey :: "uilib \<Rightarrow> uiworld \<Rightarrow> ui_request \<Rightarrow> dash \<Rightarrow> ui_response \<times> dash" where
  "dashboardApproveBootTrustKey P w r = with_action P w r True (\<lambda>session form.
     store_read w 3 (\<lambda>e d. InstallationSpec e 0 d (path_id r)) (\<lambda>spec.
       store_write w 4 (\<lambda>e d. ApproveBootTrustKey e d (sp_MachineID spec) (path_fingerprint r) (requestID r) (se_Actor session))
         writeDashboardError (\<lambda>_. http_Redirect (''/ui/installations/'' @ path_id r @ ''/trust'') 303)))"

definition dashboardRevokeBootTrustKey :: "uilib \<Rightarrow> uiworld \<Rightarrow> ui_request \<Rightarrow> dash \<Rightarrow> ui_response \<times> dash" where
  "dashboardRevokeBootTrustKey P w r = with_action P w r True (\<lambda>session form.
     store_read w 3 (\<lambda>e d. InstallationSpec e 0 d (path_id r)) (\<lambda>spec.
       store_write w 4 (\<lambda>e d. RevokeBootTrustKey e d (sp_MachineID spec) (path_fingerprint r) (requestID r) (se_Actor session))
         writeDashboardError (\<lambda>_. http_Redirect (''/ui/installations/'' @ path_id r @ ''/trust'') 303)))"

definition dashboardApproveUser :: "uilib \<Rightarrow> uiworld \<Rightarrow> ui_request \<Rightarrow> dash \<Rightarrow> ui_response \<times> dash" where
  "dashboardApproveUser P w r = with_action P w r True (\<lambda>session form.
     store_write w 3 (\<lambda>e d. ApproveOperatorUser e d (path_id r) (role_of_text (TrimSpace (form ''role''))) (requestID r) (se_Actor session))
       writeDashboardError (\<lambda>_. http_Redirect ''/ui/users'' 303))"

definition dashboardBlockUser :: "uilib \<Rightarrow> uiworld \<Rightarrow> ui_request \<Rightarrow> dash \<Rightarrow> ui_response \<times> dash" where
  "dashboardBlockUser P w r = with_action P w r True (\<lambda>session form.
     store_write w 3 (\<lambda>e d. BlockOperatorUser e d (path_id r) (requestID r) (se_Actor session))
       writeDashboardError (\<lambda>_. http_Redirect ''/ui/users'' 303))"

section \<open>Pages\<close>

definition renderDashboard :: "dashboardView \<Rightarrow> ui_response" where
  "renderDashboard view = answer 200 (UPage view)"

definition base_view :: "string \<Rightarrow> Session \<Rightarrow> dashboardView" where
  "base_view page session = \<lparr>dv_Page = page, dv_Session = session, dv_Machines = [], dv_Installations = [], dv_Users = [],
     dv_Machine = None, dv_Identifiers = [], dv_Spec = None, dv_Assignment = None, dv_Gate = None, dv_Events = [],
     dv_RecentEvents = [], dv_Wizard = None, dv_Error = [], dv_Known = 0, dv_Provision = 0, dv_Armed = 0, dv_PendingUsers = 0,
     dv_LogAfter = 0\<rparr>"

definition dashboardEventLimit :: int where "dashboardEventLimit = 200"

definition dashboardMachines :: "uilib \<Rightarrow> uiworld \<Rightarrow> ui_request \<Rightarrow> dash \<Rightarrow> ui_response \<times> dash" where
  "dashboardMachines P w r = with_page P w r (\<lambda>session.
     store_read w 3 Machines (\<lambda>items st. (renderDashboard ((base_view ''machines'' session)\<lparr>dv_Machines := items\<rparr>), st)))"

definition dashboardMachine :: "uilib \<Rightarrow> uiworld \<Rightarrow> ui_request \<Rightarrow> dash \<Rightarrow> ui_response \<times> dash" where
  "dashboardMachine P w r = with_page P w r (\<lambda>session.
     store_read w 3 (\<lambda>e d. store_Machine e 0 d (path_id r)) (\<lambda>item.
     store_read w 4 (\<lambda>e d. MachineIdentifiers e d (path_id r)) (\<lambda>identifiers.
     store_read w 5 (\<lambda>e d. RecentEvents e d ''machine'' (path_id r) dashboardEventLimit) (\<lambda>evs st.
       (renderDashboard ((base_view ''machines'' session)\<lparr>dv_Machine := Some item, dv_Identifiers := identifiers, dv_Events := evs\<rparr>), st)))))"

definition dashboardMachineMetadata :: "uilib \<Rightarrow> uiworld \<Rightarrow> ui_request \<Rightarrow> dash \<Rightarrow> ui_response \<times> dash" where
  "dashboardMachineMetadata P w r = with_page P w r (\<lambda>session.
     store_read w 3 Machines (\<lambda>items st. (answer 200 (UJson [(''machines'', JObject (map (\<lambda>m. (m_ID m, JObject
       [(''nickname'', JText (m_Nickname m)), (''secure_boot_state'', JSecureBoot (m_SecureBootState m))])) items))]), st)))"

definition dashboardMachineManagement :: "uilib \<Rightarrow> uiworld \<Rightarrow> ui_request \<Rightarrow> dash \<Rightarrow> ui_response \<times> dash" where
  "dashboardMachineManagement P w r = with_page P w r (\<lambda>session.
     store_read w 3 (\<lambda>e d. store_Machine e 0 d (path_id r)) (\<lambda>item st. (answer 200 (UMachine session item), st)))"

definition dashboardInstallationManagement :: "uilib \<Rightarrow> uiworld \<Rightarrow> ui_request \<Rightarrow> dash \<Rightarrow> ui_response \<times> dash" where
  "dashboardInstallationManagement P w r = with_page P w r (\<lambda>session.
     store_read w 3 (\<lambda>e d. InstallationSpec e 0 d (path_id r)) (\<lambda>spec st.
       (answer 200 (UInstallation session (sp_ID spec) (sp_MachineID spec) (pf_Hostname (sp_Profile spec))), st)))"

definition dashboardInstallationTrust :: "uilib \<Rightarrow> uiworld \<Rightarrow> ui_request \<Rightarrow> dash \<Rightarrow> ui_response \<times> dash" where
  "dashboardInstallationTrust P w r = with_page P w r (\<lambda>session.
     store_read w 3 (\<lambda>e d. InstallationSpec e 0 d (path_id r)) (\<lambda>spec.
     store_read w 4 (\<lambda>e d. BootTrustKeys e d (sp_MachineID spec)) (\<lambda>keys st.
       (answer 200 (UTrust session (sp_ID spec) (sp_MachineID spec) (pf_Hostname (sp_Profile spec)) keys), st))))"

text \<open>
  The assignment of an installation for display: none is not an error. The gate is shown as without
  cryptographic proof.
\<close>

definition optional_assignment :: "env \<Rightarrow> db \<Rightarrow> string \<Rightarrow> Assignment option result" where
  "optional_assignment e d installationID =
     (case AssignmentForInstallation e 0 d installationID of
        Inr stored \<Rightarrow> Inr (Some stored)
      | Inl err \<Rightarrow> if Code err \<noteq> InstallationAssignmentNotFound then Inl err else Inr None)"

definition assignment_armed :: "Assignment option \<Rightarrow> bool" where
  "assignment_armed a = (case a of None \<Rightarrow> False | Some x \<Rightarrow> as_State x = StateArmed)"

definition dashboardInstallation :: "uilib \<Rightarrow> uiworld \<Rightarrow> ui_request \<Rightarrow> dash \<Rightarrow> ui_response \<times> dash" where
  "dashboardInstallation P w r = with_page P w r (\<lambda>session.
     store_read w 3 (\<lambda>e d. InstallationSpec e 0 d (path_id r)) (\<lambda>spec.
     store_read w 4 (\<lambda>e d. store_Machine e 0 d (sp_MachineID spec)) (\<lambda>item.
     store_read w 5 (\<lambda>e d. optional_assignment e d (path_id r)) (\<lambda>assigned.
     store_read w 6 (\<lambda>e d. RecentEvents e d ''installation'' (path_id r) dashboardEventLimit) (\<lambda>evs st.
       (renderDashboard ((base_view ''installations'' session)\<lparr>dv_Machine := Some item, dv_Spec := Some spec, dv_Assignment := assigned,
          dv_Gate := Some (Evaluate (m_Policy item) (assignment_armed assigned) False), dv_Events := evs\<rparr>), st))))))"

text \<open>
  The rows of the installation list. The calls from 100 on are numbered in threes, so that no two have
  the same number: the reads of a listing are 100, 103, \<open>\<dots>\<close>, the machine and the assignment of a row 101, 104, \<open>\<dots>\<close>,
  the reads of events 102, 105, \<open>\<dots>\<close>.
\<close>

abbreviation row_call :: "nat \<Rightarrow> nat" where "row_call k \<equiv> 101 + 3 * k"

fun installation_rows :: "uiworld \<Rightarrow> nat \<Rightarrow> db \<Rightarrow> Spec list \<Rightarrow> dashboardInstallationRow list result \<times> db" where
  "installation_rows w k d [] = (Inr [], d)"
| "installation_rows w k d (spec # specs) =
     (let d1 = w_other w (row_call k) d in
      case store_Machine (w_env w (row_call k)) 0 d1 (sp_MachineID spec) of
        Inl err \<Rightarrow> (Inl err, d1)
      | Inr item \<Rightarrow>
        let d2 = w_other w (row_call (k + 1)) d1 in
        (case optional_assignment (w_env w (row_call (k + 1))) d2 (sp_ID spec) of
           Inl err \<Rightarrow> (Inl err, d2)
         | Inr assigned \<Rightarrow>
           (case installation_rows w (k + 2) d2 specs of
              (Inl err, d3) \<Rightarrow> (Inl err, d3)
            | (Inr rows, d3) \<Rightarrow> (Inr (\<lparr>ir_Spec = spec, ir_Machine = item, ir_Assignment = assigned,
                ir_Gate = Evaluate (m_Policy item) (assignment_armed assigned) False\<rparr> # rows), d3))))"

text \<open>Call \<open>c\<close> lists the specifications.\<close>

definition loadInstallationRows :: "uiworld \<Rightarrow> nat \<Rightarrow> db \<Rightarrow> dashboardInstallationRow list result \<times> db" where
  "loadInstallationRows w c d =
     (case InstallationSpecs (w_env w c) (\<lambda>k. w_other w (100 + 3 * k)) (w_other w c d) of
        (Inl err, d') \<Rightarrow> (Inl err, d')
      | (Inr specs, d') \<Rightarrow> installation_rows w 0 d' specs)"

text \<open>A computation on the database that calls the store several times.\<close>

definition store_query ::
  "(db \<Rightarrow> 'a result \<times> db) \<Rightarrow> ('a \<Rightarrow> dash \<Rightarrow> ui_response \<times> dash) \<Rightarrow> dash \<Rightarrow> ui_response \<times> dash" where
  "store_query query nxt st =
     (case query (ds_db st) of (Inl err, d) \<Rightarrow> (writeDashboardError err, st\<lparr>ds_db := d\<rparr>) | (Inr x, d) \<Rightarrow> nxt x (st\<lparr>ds_db := d\<rparr>))"

definition dashboardInstallations :: "uilib \<Rightarrow> uiworld \<Rightarrow> ui_request \<Rightarrow> dash \<Rightarrow> ui_response \<times> dash" where
  "dashboardInstallations P w r = with_page P w r (\<lambda>session.
     store_query (loadInstallationRows w 3) (\<lambda>rows st.
       (renderDashboard ((base_view ''installations'' session)\<lparr>dv_Installations := rows\<rparr>), st)))"

fun read_events :: "uiworld \<Rightarrow> nat \<Rightarrow> db \<Rightarrow> (string \<times> string) list \<Rightarrow> AuditEvent list result \<times> db" where
  "read_events w k d [] = (Inr [], d)"
| "read_events w k d ((entityType, entityID) # rest) =
     (let d1 = w_other w (102 + 3 * k) d in
      case Events (w_env w (102 + 3 * k)) d1 entityType entityID of
        Inl err \<Rightarrow> (Inl err, d1)
      | Inr evs \<Rightarrow>
        (case read_events w (k + 1) d1 rest of (Inl err, d2) \<Rightarrow> (Inl err, d2) | (Inr items, d2) \<Rightarrow> (Inr (evs @ items), d2)))"

definition collectRecentEvents ::
  "uiworld \<Rightarrow> Machine list \<Rightarrow> dashboardInstallationRow list \<Rightarrow> int \<Rightarrow> db \<Rightarrow> AuditEvent list result \<times> db" where
  "collectRecentEvents w items rows limit d =
     (case read_events w 0 d (map (\<lambda>m. (''machine'', m_ID m)) (take 6 items) @ map (\<lambda>x. (''installation'', sp_ID (ir_Spec x))) (take 6 rows)) of
        (Inl err, d') \<Rightarrow> (Inl err, d')
      | (Inr evs, d') \<Rightarrow>
        let sorted_evs = order_desc ev_OccurredAt evs in
        (Inr (if limit > 0 \<and> int (length sorted_evs) > limit then take (nat limit) sorted_evs else sorted_evs), d'))"

definition renderDashboardOverview :: "uiworld \<Rightarrow> Session \<Rightarrow> dash \<Rightarrow> ui_response \<times> dash" where
  "renderDashboardOverview w session =
     store_read w 3 Machines (\<lambda>items.
     store_query (loadInstallationRows w 4) (\<lambda>rows.
     store_read w 5 OperatorUsers (\<lambda>users.
     store_query (collectRecentEvents w items rows 12) (\<lambda>recent st.
       (renderDashboard ((base_view ''dashboard'' session)\<lparr>dv_Machines := take 6 items, dv_Installations := take 6 rows, dv_Users := users,
          dv_RecentEvents := recent, dv_Known := length items,
          dv_Provision := length (filter (\<lambda>m. m_Policy m = PolicyProvision) items),
          dv_Armed := length (filter (\<lambda>x. assignment_armed (ir_Assignment x)) rows),
          dv_PendingUsers := length (filter (\<lambda>u. u_Status u = StatusPendingReview) users)\<rparr>), st)))))"

definition dashboardUsers :: "uilib \<Rightarrow> uiworld \<Rightarrow> ui_request \<Rightarrow> dash \<Rightarrow> ui_response \<times> dash" where
  "dashboardUsers P w r = with_page P w r (\<lambda>session st.
     if \<not> IsAdmin session then (http_Error ''administrator role required'' 403, st)
     else store_read w 3 OperatorUsers (\<lambda>users st. (renderDashboard ((base_view ''users'' session)\<lparr>dv_Users := users\<rparr>), st)) st)"

text \<open>The entry page: the overview for a session, or what the identity has to do next. Calls: 6 the identity, 7 the administrators.\<close>

definition auth_page :: "dash \<Rightarrow> string \<Rightarrow> string \<Rightarrow> string \<Rightarrow> string \<Rightarrow> ui_response" where
  "auth_page st title description subject state = renderAuth \<lparr>av_Title = title, av_Description = description, av_Subject = subject,
     av_State = state, av_CanPasskey = (ds_passkeys st \<noteq> None)\<rparr>"

definition pending_page :: "uiworld \<Rightarrow> User \<Rightarrow> dash \<Rightarrow> ui_response \<times> dash" where
  "pending_page w user st0 =
     (let st = st0\<lparr>ds_db := w_other w 7 (ds_db st0)\<rparr> in
      ((case HasOperatorAdmin (w_env w 7) (ds_db st) of
          Inl err \<Rightarrow> auth_page st ''Authentication unavailable'' ''AegisPXE could not verify bootstrap state.'' (u_Subject user) ''error''
        | Inr False \<Rightarrow> auth_page st ''Create initial administrator''
            ''Your trusted identity is the first AegisPXE user. Confirm the local recovery key before passkey enrollment.'' (u_Subject user) ''bootstrap''
        | Inr True \<Rightarrow> auth_page st ''Pending review''
            ''An AegisPXE administrator must approve this identity before passkey enrollment.'' (u_Subject user) ''pending''), st))"

definition identity_page :: "uiworld \<Rightarrow> User \<Rightarrow> dash \<Rightarrow> ui_response \<times> dash" where
  "identity_page w user st =
     (case u_Status user of
        StatusPendingReview \<Rightarrow> pending_page w user st
      | StatusEnrollmentRequired \<Rightarrow> (auth_page st ''Enroll your passkey''
          ''Administrator approval is complete. Register the second AegisPXE authentication factor.'' (u_Subject user) ''enroll'', st)
      | StatusActive \<Rightarrow> (auth_page st ''AegisPXE passkey''
          ''The outer identity is accepted. Complete the independent AegisPXE passkey challenge.'' (u_Subject user) ''login'', st)
      | StatusBlocked \<Rightarrow> (auth_page st ''Access blocked''
          ''The outer identity is valid, but AegisPXE authorization denies access.'' (u_Subject user) ''blocked'', st)
      | StatusOther s \<Rightarrow> (auth_page st ''Authentication unavailable'' ''AegisPXE rejected this account state.'' (u_Subject user) ''error'', st))"

definition dashboardEntry :: "uilib \<Rightarrow> uiworld \<Rightarrow> ui_request \<Rightarrow> dash \<Rightarrow> ui_response \<times> dash" where
  "dashboardEntry P w r st =
     (case dashboardSession P w r st of
        (Some (session, token), st') \<Rightarrow> renderDashboardOverview w session st'
      | (None, st') \<Rightarrow>
        (case externalIdentityFromRequest r of
           None \<Rightarrow> (auth_page st' ''Emergency access'' ''No trusted upstream identity was supplied.'' '''' ''recovery'', st')
         | Some identity \<Rightarrow>
           (case ResolveOperatorUser (w_env w 6) (w_other w 6 (ds_db st')) (xi_Provider identity) (xi_Subject identity)
                   (xi_Subject identity) '''' (requestID r) of
              (Inl err, d) \<Rightarrow> (auth_page st' ''Authentication unavailable'' ''AegisPXE could not resolve this identity.''
                 (xi_Subject identity) ''error'', st'\<lparr>ds_db := d\<rparr>)
            | (Inr (user, created), d) \<Rightarrow> identity_page w user (st'\<lparr>ds_db := d\<rparr>))))"

section \<open>The installation wizard\<close>

definition builtinProfileID :: string where "builtinProfileID = ''builtin:debian13-standard''"
definition builtinProfileRevision :: string where "builtinProfileRevision = ''1''"

definition defaultWizardValues :: wizardValues where
  "defaultWizardValues = \<lparr>wv_MachineID = '''', wv_Hostname = ''debian13'', wv_Locale = ''de_DE.UTF-8'', wv_Keyboard = ''de'',
     wv_Timezone = ''Europe/Berlin'', wv_AdminUsername = ''guardian'', wv_AdminFullName = ''Aegis Administrator'',
     wv_SSHKeys = '''', wv_Packages = '''', wv_TargetDisk = ''/dev/vda''\<rparr>"

definition wizardValuesFromRequest :: "(string \<Rightarrow> string) \<Rightarrow> wizardValues" where
  "wizardValuesFromRequest form = \<lparr>wv_MachineID = TrimSpace (form ''machine_id''), wv_Hostname = form ''hostname'',
     wv_Locale = form ''locale'', wv_Keyboard = form ''keyboard'', wv_Timezone = form ''timezone'',
     wv_AdminUsername = form ''admin_username'', wv_AdminFullName = form ''admin_full_name'', wv_SSHKeys = form ''ssh_keys'',
     wv_Packages = form ''packages'', wv_TargetDisk = form ''target_disk''\<rparr>"

definition parseSSHKeys :: "string \<Rightarrow> string list" where
  "parseSSHKeys v = filter (\<lambda>line. line \<noteq> []) (map TrimSpace (split_on LF v))"

text \<open>White space, commas and semicolons separate; each name once, in the order of the bytes.\<close>

definition parsePackages :: "string \<Rightarrow> string list" where
  "parsePackages v =
     (let fields = Fields (map (\<lambda>c. if c = CHR '','' \<or> c = CHR '';'' then CHR '' '' else c) v) in
      sort (remdups (filter (\<lambda>name. name \<noteq> []) (map TrimSpace fields))))"

definition profile_of_values :: "wizardValues \<Rightarrow> Snapshot" where
  "profile_of_values v = \<lparr>pf_SchemaVersion = SchemaVersion, pf_Hostname = TrimSpace (wv_Hostname v), pf_Locale = TrimSpace (wv_Locale v),
     pf_Keyboard = TrimSpace (wv_Keyboard v), pf_Timezone = TrimSpace (wv_Timezone v),
     pf_Admin = \<lparr>ad_Username = TrimSpace (wv_AdminUsername v), ad_FullName = TrimSpace (wv_AdminFullName v),
       ad_AuthorizedSSHKeys = parseSSHKeys (wv_SSHKeys v), ad_PasswordlessSudo = True\<rparr>,
     pf_Packages = parsePackages (wv_Packages v)\<rparr>"

definition wizard_spec :: "Machine \<Rightarrow> wizardValues \<Rightarrow> Resolution \<Rightarrow> string \<Rightarrow> Session \<Rightarrow> Spec" where
  "wizard_spec item v resolution credentialID session =
     \<lparr>sp_ID = '''', sp_MachineID = m_ID item, sp_DriverID = DriverID, sp_DriverVersion = DriverVersion, sp_OSRelease = ''13'',
      sp_Architecture = ''amd64'', sp_ProfileID = builtinProfileID, sp_ProfileRevision = builtinProfileRevision,
      sp_Profile = profile_of_values v,
      sp_Artifacts = [vf_Descriptor (rn_Kernel resolution), vf_Descriptor (rn_Initrd resolution), vf_Descriptor (rn_Shim resolution)],
      sp_Storage = \<lparr>st_Mode = ''whole-disk'', st_Filesystem = ''ext4'', st_TargetDisk = TrimSpace (wv_TargetDisk v),
        st_Encrypted = False, st_TPM2 = False\<rparr>,
      sp_Security = \<lparr>se_SSHPasswordAuthentication = False, se_RootLogin = False, se_AutomaticSecurityUpdates = True\<rparr>,
      sp_LifecycleCredentialID = credentialID, sp_CreatedAt = 0, sp_CreatedBy = se_Actor session\<rparr>"

definition provisionMachines :: "env \<Rightarrow> db \<Rightarrow> Machine list result" where
  "provisionMachines e d = (case Machines e d of Inl err \<Rightarrow> Inl err | Inr items \<Rightarrow> Inr (filter (\<lambda>m. m_Policy m = PolicyProvision) items))"

definition renderDashboardWizardError :: "uiworld \<Rightarrow> Session \<Rightarrow> wizardValues \<Rightarrow> string \<Rightarrow> dash \<Rightarrow> ui_response \<times> dash" where
  "renderDashboardWizardError w session v msg =
     store_read w 6 provisionMachines (\<lambda>items st.
       (renderDashboard ((base_view ''installations'' session)\<lparr>dv_Machines := items, dv_Wizard := Some v, dv_Error := msg\<rparr>), st))"

definition dashboardInstallationWizard :: "uilib \<Rightarrow> uiworld \<Rightarrow> ui_request \<Rightarrow> dash \<Rightarrow> ui_response \<times> dash" where
  "dashboardInstallationWizard P w r = with_page P w r (\<lambda>session.
     store_read w 3 provisionMachines (\<lambda>items st.
       let asked = TrimSpace (rq_Query r ''machine_id'');
           v = defaultWizardValues\<lparr>wv_MachineID := (if asked = [] \<and> items \<noteq> [] then m_ID (hd items) else asked)\<rparr> in
       (renderDashboard ((base_view ''installations'' session)\<lparr>dv_Machines := items, dv_Wizard := Some v,
          dv_Error := (if items = [] then ''No PROVISION-approved machine is available. Approve a machine first.'' else [])\<rparr>), st)))"

text \<open>
  Calls: 3 the machine, 4 the identifier of the credential, 5 the new specification, 6 the machines for the
  page of an error. Resolving the artifacts goes over the network.
\<close>

definition create_installation :: "uilib \<Rightarrow> uiworld \<Rightarrow> ui_request \<Rightarrow> Session \<Rightarrow> wizardValues \<Rightarrow> Machine \<Rightarrow> dash \<Rightarrow> ui_response \<times> dash" where
  "create_installation P w r session v item st =
     (let wizard_error = renderDashboardWizardError w session v in
      if m_Policy item \<noteq> PolicyProvision then
        wizard_error ''Machine must be approved with policy PROVISION before creating an installation.'' st
      else if m_Architecture item \<noteq> [] \<and> m_Architecture item \<noteq> ''x86_64'' \<and> m_Architecture item \<noteq> ''amd64'' then
        wizard_error ''Debian 13 Standard currently supports amd64/x86_64 machines only.'' st
      else case snapshot_Validate (profile_of_values v) of
        Some err \<Rightarrow> wizard_error (''Profile input is invalid: '' @ err) st
      | None \<Rightarrow>
        if ValidateTargetDisk (TrimSpace (wv_TargetDisk v)) \<noteq> None then
          wizard_error ''Target disk is invalid. Use a whole device such as /dev/vda, /dev/sda or /dev/nvme0n1.'' st
        else case Resolve (ul_go P) (ul_network P) of
          Inl err \<Rightarrow> wizard_error (''Debian installer artifacts could not be verified. Check the server log for '' @ code_text (Code err) @ ''.'') st
        | Inr resolution \<Rightarrow>
          (case idgen_New (w_env w 4) 0 ''lc_'' of
             None \<Rightarrow> wizard_error ''Could not allocate installation identity metadata.'' st
           | Some credentialID \<Rightarrow>
             let spec = wizard_spec item v resolution credentialID session in
             (case ValidateSpec (ul_go P) spec of
                Some err \<Rightarrow> wizard_error (''Debian 13 Standard rejected the requested installation: '' @ err) st
              | None \<Rightarrow>
                (case CreateInstallationSpec (ul_go P) (w_env w 5) (w_other w 5 (ds_db st)) spec (requestID r) of
                   (Inl err, d) \<Rightarrow> wizard_error (''InstallationSpec could not be created. Check the server log for ''
                      @ code_text (Code err) @ ''.'') (st\<lparr>ds_db := d\<rparr>)
                 | (Inr created, d) \<Rightarrow> (http_Redirect (''/ui/installations/'' @ sp_ID created) 303, st\<lparr>ds_db := d\<rparr>)))))"

definition dashboardCreateInstallation :: "uilib \<Rightarrow> uiworld \<Rightarrow> ui_request \<Rightarrow> dash \<Rightarrow> ui_response \<times> dash" where
  "dashboardCreateInstallation P w r = with_action P w r False (\<lambda>session form st.
     let v = wizardValuesFromRequest form; st' = st\<lparr>ds_db := w_other w 3 (ds_db st)\<rparr> in
     case store_Machine (w_env w 3) 0 (ds_db st') (wv_MachineID v) of
       Inl err \<Rightarrow> renderDashboardWizardError w session v ''Selected machine could not be loaded.'' st'
     | Inr item \<Rightarrow> create_installation P w r session v item st')"

section \<open>Logs\<close>

text \<open>strconv.ParseUint in base 10 with 64 bits.\<close>

definition ParseUint64 :: "string \<Rightarrow> 64 word option" where
  "ParseUint64 s = (if s \<noteq> [] \<and> digits s \<and> decimal s < 2 ^ 64 then Some (of_nat (decimal s)) else None)"

definition log_entries_json :: "LogEntry list \<Rightarrow> (string \<times> json) list" where
  "log_entries_json es = [(''entries'', JArray (map (\<lambda>x. JObject [(''sequence'', JInt (uint (en_Sequence x))), (''line'', JText (en_Line x))]) es))]"

definition dashboardLogs :: "uilib \<Rightarrow> uiworld \<Rightarrow> ui_request \<Rightarrow> dash \<Rightarrow> ui_response \<times> dash" where
  "dashboardLogs P w r = with_page P w r (\<lambda>session st.
     (renderDashboard ((base_view ''logs'' session)\<lparr>dv_LogAfter := LatestSequence (ds_logs st)\<rparr>), st))"

definition dashboardStableLogFeed :: "uilib \<Rightarrow> uiworld \<Rightarrow> ui_request \<Rightarrow> dash \<Rightarrow> ui_response \<times> dash" where
  "dashboardStableLogFeed P w r = with_page_json P w r (\<lambda>session st.
     let raw = TrimSpace (rq_Query r ''after'') in
     case (if raw = [] then Some 0 else ParseUint64 raw) of
       None \<Rightarrow> (json_message 400 ''after must be an unsigned sequence number'', st)
     | Some after \<Rightarrow> (writeDashboardJSON 200 (log_entries_json (Snapshot_entries after 500 (ds_logs st))), st))"

definition dashboardInitialLogTail :: int where "dashboardInitialLogTail = 200"

definition dashboardLogTail :: "uilib \<Rightarrow> uiworld \<Rightarrow> ui_request \<Rightarrow> dash \<Rightarrow> ui_response \<times> dash" where
  "dashboardLogTail P w r = with_page_json P w r (\<lambda>session st.
     let raw = TrimSpace (rq_Query r ''before'') in
     case (if raw = [] then Some (LatestSequence (ds_logs st)) else ParseUint64 raw) of
       None \<Rightarrow> (json_message 400 ''invalid log sequence'', st)
     | Some before \<Rightarrow> (writeDashboardJSON 200 (log_entries_json (TailThrough before dashboardInitialLogTail (ds_logs st))), st))"

definition dashboardStableLogExport :: "uilib \<Rightarrow> uiworld \<Rightarrow> ui_request \<Rightarrow> dash \<Rightarrow> ui_response \<times> dash" where
  "dashboardStableLogExport P w r = with_page P w r (\<lambda>session st.
     (answer 200 (UExport (map en_Line (Snapshot_entries 0 100000 (ds_logs st)))), st))"

section \<open>Routes\<close>

datatype route = REntry | RBootstrap | RLoginStart | RLoginFinish | REnrollStart | REnrollFinish | RRecoveryStart
  | RRecoveryPasskey | RRecoveryFinish | RLogout | RMachines | RMachine | RMachineManage | RMachinePolicy | RMachineNickname
  | RMachineDelete | RMachineMetadata | RInstallations | RWizard | RCreate | RInstallation | RInstallationManage | RArm
  | RCancel | RInstallationDelete | RTrust | RTrustApprove | RTrustRevoke | RUsers | RUserApprove | RUserBlock | RLogs
  | RLogFeed | RLogTail | RLogExport

fun serve_route :: "route \<Rightarrow> uilib \<Rightarrow> uiworld \<Rightarrow> ui_request \<Rightarrow> dash \<Rightarrow> ui_response \<times> dash" where
  "serve_route REntry = dashboardEntry"
| "serve_route RBootstrap = bootstrapInitialAdmin"
| "serve_route RLoginStart = beginExternalPasskeyLogin"
| "serve_route RLoginFinish = finishExternalPasskeyLogin"
| "serve_route REnrollStart = beginPasskeyEnrollment"
| "serve_route REnrollFinish = finishPasskeyEnrollment"
| "serve_route RRecoveryStart = beginRecoveryPasskey"
| "serve_route RRecoveryPasskey = finishRecoveryPasskey"
| "serve_route RRecoveryFinish = finishRecoveryLogin"
| "serve_route RLogout = dashboardLogout"
| "serve_route RMachines = dashboardMachines"
| "serve_route RMachine = dashboardMachine"
| "serve_route RMachineManage = dashboardMachineManagement"
| "serve_route RMachinePolicy = dashboardMachinePolicy"
| "serve_route RMachineNickname = dashboardMachineNickname"
| "serve_route RMachineDelete = dashboardDeleteMachine"
| "serve_route RMachineMetadata = dashboardMachineMetadata"
| "serve_route RInstallations = dashboardInstallations"
| "serve_route RWizard = dashboardInstallationWizard"
| "serve_route RCreate = dashboardCreateInstallation"
| "serve_route RInstallation = dashboardInstallation"
| "serve_route RInstallationManage = dashboardInstallationManagement"
| "serve_route RArm = dashboardArmInstallation"
| "serve_route RCancel = dashboardCancelInstallation"
| "serve_route RInstallationDelete = dashboardDeleteInstallation"
| "serve_route RTrust = dashboardInstallationTrust"
| "serve_route RTrustApprove = dashboardApproveBootTrustKey"
| "serve_route RTrustRevoke = dashboardRevokeBootTrustKey"
| "serve_route RUsers = dashboardUsers"
| "serve_route RUserApprove = dashboardApproveUser"
| "serve_route RUserBlock = dashboardBlockUser"
| "serve_route RLogs = dashboardLogs"
| "serve_route RLogFeed = dashboardStableLogFeed"
| "serve_route RLogTail = dashboardLogTail"
| "serve_route RLogExport = dashboardStableLogExport"

text \<open>
  http.ServeMux is the parameter \<open>mux\<close>: for a request it gives the route of the table that matches, with
  the values of the path, or an answer of its own (404, 405), a static asset or the redirection of an old path.
\<close>

type_synonym mux = "ui_request \<Rightarrow> ui_response + route \<times> (string \<Rightarrow> string)"

abbreviation SELF :: string where "SELF \<equiv> [CHR 0x27] @ ''self'' @ [CHR 0x27]"
abbreviation NONE :: string where "NONE \<equiv> [CHR 0x27] @ ''none'' @ [CHR 0x27]"

definition ui_security_headers :: "(string \<times> string) list" where
  "ui_security_headers = [(''X-Content-Type-Options'', ''nosniff''), (''Referrer-Policy'', ''no-referrer''),
     (''Content-Security-Policy'', ''default-src '' @ SELF @ ''; style-src '' @ SELF @ ''; script-src '' @ SELF @ ''; connect-src '' @ SELF
        @ ''; img-src '' @ SELF @ '' data:; object-src '' @ NONE @ ''; frame-ancestors '' @ NONE @ ''; base-uri '' @ NONE @ ''; form-action '' @ SELF),
     (''Permissions-Policy'', ''camera=(), microphone=(), geolocation=(), payment=(), usb=(), serial=()''), (''Cache-Control'', ''no-store'')]"

definition Dashboard_ServeHTTP ::
  "mux \<Rightarrow> (ui_request \<Rightarrow> dash \<Rightarrow> ui_response \<times> dash) \<Rightarrow> env \<Rightarrow> uilib \<Rightarrow> uiworld \<Rightarrow> ui_request \<Rightarrow> dash \<Rightarrow> ui_response \<times> dash" where
  "Dashboard_ServeHTTP mux nxt e P w r st =
     (if rq_URLPath r = ''/ui'' then (http_Redirect ''/ui/'' 308, st)
      else if \<not> prefix ''/ui/'' (rq_URLPath r) then nxt r st
      else case header_request_id e (rq_Header r ''X-Request-ID'') of
        None \<Rightarrow> (http_Error ''dashboard unavailable'' 503, st)
      | Some i \<Rightarrow>
        let r' = r\<lparr>rq_Header := (rq_Header r)(''X-Request-ID'' := i)\<rparr> in
        (case (case mux r' of Inl resp \<Rightarrow> (resp, st)
               | Inr (route, vals) \<Rightarrow> serve_route route P w (r'\<lparr>rq_PathValue := vals\<rparr>) st) of
           (resp, st') \<Rightarrow> (resp\<lparr>us_Headers := (''X-Request-ID'', i) # ui_security_headers @ us_Headers resp\<rparr>, st')))"

text \<open>The wrapper that puts the identity of a trusted proxy into the request.\<close>

definition identity_ServeHTTP ::
  "netlib \<Rightarrow> TrustedProxy \<Rightarrow> (ui_request \<Rightarrow> 's \<Rightarrow> ui_response \<times> 's) \<Rightarrow> env \<Rightarrow> ui_request \<Rightarrow> 's \<Rightarrow> ui_response \<times> 's" where
  "identity_ServeHTTP NL proxy nxt e r st =
     (if \<not> SecureSource NL proxy r then nxt r st
      else case (if requestID r = [] then idgen_New e 0 ''req_'' else Some (rq_Header r ''X-Request-ID'')) of
        None \<Rightarrow> (http_Error ''operator service unavailable'' 503, st)
      | Some i \<Rightarrow>
        let r' = r\<lparr>ur_TLS := True, rq_Header := (rq_Header r)(''X-Request-ID'' := i)\<rparr> in
        (case Identity NL proxy r of
           None \<Rightarrow> nxt r' st
         | Some subject \<Rightarrow> nxt (r'\<lparr>ur_External := Some \<lparr>xi_Provider = trustedProxyProvider, xi_Subject = subject\<rparr>\<rparr>) st))"

definition RequireTrustedProxyOrLoopback ::
  "netlib \<Rightarrow> TrustedProxy \<Rightarrow> (ui_request \<Rightarrow> 's \<Rightarrow> ui_response \<times> 's) \<Rightarrow> ui_request \<Rightarrow> 's \<Rightarrow> ui_response \<times> 's" where
  "RequireTrustedProxyOrLoopback NL proxy nxt r st =
     (if \<not> Enabled proxy then nxt r st
      else if rq_URLPath r = ''/healthz'' \<and> (rq_Method r = ''GET'' \<or> rq_Method r = ''HEAD'') then nxt r st
      else if (case remoteAddr NL (rq_RemoteAddr r) of None \<Rightarrow> False | Some addr \<Rightarrow> IsLoopback addr) then nxt r st
      else if SecureSource NL proxy r then nxt r st
      else (http_Error ''dashboard access denied'' 403, st))"

definition NewDashboardWithTrustedProxy ::
  "mux \<Rightarrow> (ui_request \<Rightarrow> dash \<Rightarrow> ui_response \<times> dash) \<Rightarrow> TrustedProxy \<Rightarrow> env \<Rightarrow> uilib \<Rightarrow> uiworld \<Rightarrow> ui_request \<Rightarrow> dash \<Rightarrow> ui_response \<times> dash" where
  "NewDashboardWithTrustedProxy mux nxt proxy e P w =
     (let base = Dashboard_ServeHTTP mux nxt e P w in
      if \<not> Enabled proxy then base else identity_ServeHTTP (ul_net P) proxy base e)"

end
