(* ===== verification/Dashboard_Properties.thy ===== *)
theory Dashboard_Properties
  imports Dashboard_Actions
begin

text \<open>
  What the operator's interface guarantees: who may change the database through it, what it takes to
  get a session, and where an outer identity can come from.
\<close>

section \<open>Changes by other requests and by an operator\<close>

text \<open>The database after nothing but the changes of other requests.\<close>

definition interleaved :: "uiworld \<Rightarrow> db \<Rightarrow> db \<Rightarrow> bool" where
  "interleaved w d d' \<longleftrightarrow> (\<exists>ks. d' = fold (w_other w) ks d)"

lemma interleaved_refl [simp, intro!]: "interleaved w d d"
  unfolding interleaved_def by (rule exI [of _ "[]"]) simp

lemma interleaved_trans: "interleaved w d d1 \<Longrightarrow> interleaved w d1 d2 \<Longrightarrow> interleaved w d d2"
  unfolding interleaved_def by (metis comp_apply fold_append)

lemma interleaved_other [simp]: "interleaved w d (w_other w k d)"
  unfolding interleaved_def by (rule exI [of _ "[k]"]) simp

lemma interleaved_then: "interleaved w d d1 \<Longrightarrow> interleaved w d (w_other w k d1)"
  by (erule interleaved_trans) simp

text \<open>One call of the store by an operator, whose name it records.\<close>

inductive operator_call :: "golib \<Rightarrow> string \<Rightarrow> db \<Rightarrow> db \<Rightarrow> bool" for L actor where
  oc_policy: "operator_call L actor d (snd (SetMachinePolicy e d m p rid actor))"
| oc_nickname: "operator_call L actor d (snd (SetMachineNickname e d m n rid actor))"
| oc_delete_machine: "operator_call L actor d (snd (DeleteMachine e d m rid actor))"
| oc_delete_installation: "operator_call L actor d (snd (DeleteInstallation e d i rid actor))"
| oc_arm: "operator_call L actor d (snd (ArmInstallation e d m i rid actor))"
| oc_cancel: "operator_call L actor d (snd (CancelAssignment e d i rid actor))"
| oc_approve_key: "operator_call L actor d (snd (ApproveBootTrustKey e d m f rid actor))"
| oc_revoke_key: "operator_call L actor d (snd (RevokeBootTrustKey e d m f rid actor))"
| oc_approve_user: "operator_call L actor d (snd (ApproveOperatorUser e d u role rid actor))"
| oc_block_user: "operator_call L actor d (snd (BlockOperatorUser e d u rid actor))"
| oc_create: "sp_CreatedBy s = actor \<Longrightarrow> operator_call L actor d (snd (CreateInstallationSpec L e d s rid))"

text \<open>
  What the checks of an action establish: an encrypted or local connection, a live session of the
  manager under the token of the cookie, its user active with the role and the name of the session,
  the session's CSRF token in the form, and for an administrator's action the administrator's role.
\<close>

definition principal :: "db \<Rightarrow> Session \<Rightarrow> bool" where
  "principal d session \<longleftrightarrow> (\<exists>user \<in> set (operator_users d). u_ID user = TrimSpace (se_UserID session)
     \<and> u_Status user = StatusActive \<and> u_Role user = se_Role session \<and> se_Actor session = ''user:'' @ u_Subject user)"

definition authorised :: "uilib \<Rightarrow> uiworld \<Rightarrow> ui_request \<Rightarrow> bool \<Rightarrow> dash \<Rightarrow> Session \<Rightarrow> bool" where
  "authorised P w r admin st session \<longleftrightarrow> secureTransport (ul_net P) r
     \<and> (\<exists>token. ur_Cookie r sessionCookieName = Some token
         \<and> fst (Session_of (ul_go P) (w_env w 0) token (ui_auth w 0 (ds_auth st))) = Some session)
     \<and> principal (w_other w 1 (ds_db st)) session
     \<and> (\<exists>form. ur_PostForm r maxFormBody = Some form \<and> ValidateCSRF (ul_go P) session (form ''csrf''))
     \<and> (admin \<longrightarrow> se_Role session = RoleAdmin)"

section \<open>The gates\<close>

lemma session_db: "dashboardSession P w r st = (res, st') \<Longrightarrow> interleaved w (ds_db st) (ds_db st')"
  by (auto simp: dashboardSession_def Let_def split: if_splits option.splits prod.splits)

lemma session_frame:
  "dashboardSession P w r st = (res, st') \<Longrightarrow> ds_passkeys st' = ds_passkeys st \<and> ds_tickets st' = ds_tickets st \<and> ds_logs st' = ds_logs st"
  by (auto simp: dashboardSession_def Let_def split: if_splits option.splits prod.splits)

lemma session_Some:
  assumes "dashboardSession P w r st = (Some (session, token), st')"
  shows "secureTransport (ul_net P) r" "ur_Cookie r sessionCookieName = Some token"
    and "fst (Session_of (ul_go P) (w_env w 0) token (ui_auth w 0 (ds_auth st))) = Some session"
    and "principal (w_other w 1 (ds_db st)) session"
  using assms
  by (auto simp: principal_def dashboardSession_def session_invalid_def OperatorUser_def operatorUserByID_def query_row_def Let_def
      split: if_splits option.splits prod.splits sum.splits dest!: find_SomeD)

lemma action_db: "requireDashboardAction P w r admin st = (res, st') \<Longrightarrow> interleaved w (ds_db st) (ds_db st')"
  by (auto simp: requireDashboardAction_def split: if_splits option.splits prod.splits dest: session_db)

lemma action_authorised:
  assumes "requireDashboardAction P w r admin st = (Inr (session, form), st')"
  shows "authorised P w r admin st session"
  using assms
  by (auto simp: requireDashboardAction_def authorised_def IsAdmin_def split: if_splits option.splits prod.splits dest: session_Some)

section \<open>Who changes the database\<close>

text \<open>The routes of the sign-in, and those that only an administrator may take.\<close>

definition sign_in :: "route \<Rightarrow> bool" where
  "sign_in x \<longleftrightarrow> x \<in> {REntry, RBootstrap, RLoginStart, RLoginFinish, REnrollStart, REnrollFinish,
     RRecoveryStart, RRecoveryPasskey, RRecoveryFinish}"

definition needs_admin :: "route \<Rightarrow> bool" where
  "needs_admin x \<longleftrightarrow> x \<in> {RMachineDelete, RInstallationDelete, RTrustApprove, RTrustRevoke, RUserApprove, RUserBlock}"

text \<open>What a handler behind the gate of an action may do to the database.\<close>

definition one_call :: "golib \<Rightarrow> uiworld \<Rightarrow> string \<Rightarrow> db \<Rightarrow> db \<Rightarrow> bool" where
  "one_call L w actor d d' \<longleftrightarrow> interleaved w d d'
     \<or> (\<exists>d1 d2. interleaved w d d1 \<and> operator_call L actor d1 d2 \<and> interleaved w d2 d')"

lemma one_call_before: "interleaved w d d1 \<Longrightarrow> one_call L w actor d1 d2 \<Longrightarrow> one_call L w actor d d2"
  unfolding one_call_def by (blast intro: interleaved_trans)

lemma one_call_reads [simp]: "interleaved w d d' \<Longrightarrow> one_call L w actor d d'"
  by (simp add: one_call_def)

lemma write_db:
  assumes "\<And>e d. operator_call L actor d (snd (opr e d))"
  shows "one_call L w actor (ds_db st) (ds_db (snd (store_write w k opr failed ok st)))"
  using assms [of "w_other w k (ds_db st)" "w_env w k"]
  by (auto simp: store_write_def one_call_def split: prod.splits sum.splits intro: interleaved_other) (metis interleaved_other interleaved_refl snd_conv)+

lemma read_db:
  assumes "\<And>x st'. one_call L w actor (ds_db st') (ds_db (snd (nxt x st')))"
  shows "one_call L w actor (ds_db st) (ds_db (snd (store_read w k query nxt st)))"
proof -
  let ?st = "st\<lparr>ds_db := w_other w k (ds_db st)\<rparr>"
  have "one_call L w actor (ds_db ?st) (ds_db (snd (nxt x ?st)))" for x by (rule assms)
  then have "one_call L w actor (ds_db st) (ds_db (snd (nxt x ?st)))" for x
    using one_call_before [OF interleaved_other [of w "ds_db st" k]] by simp
  then show ?thesis by (auto simp: store_read_def Let_def split: sum.splits)
qed

lemma with_action_db:
  assumes "\<And>session form st'. one_call (ul_go P) w (se_Actor session) (ds_db st') (ds_db (snd (nxt session form st')))"
  shows "interleaved w (ds_db st) (ds_db (snd (with_action P w r admin nxt st))) \<or>
    (\<exists>session. authorised P w r admin st session \<and> one_call (ul_go P) w (se_Actor session) (ds_db st) (ds_db (snd (with_action P w r admin nxt st))))"
proof -
  obtain res st' where gate: "requireDashboardAction P w r admin st = (res, st')" by force
  show ?thesis
  proof (cases res)
    case (Inl resp)
    with action_db [OF gate] gate show ?thesis by (simp add: with_action_def)
  next
    case (Inr sf)
    obtain session form where sf: "sf = (session, form)" by force
    with Inr gate have "authorised P w r admin st session" by (auto intro: action_authorised)
    moreover have "one_call (ul_go P) w (se_Actor session) (ds_db st) (ds_db (snd (with_action P w r admin nxt st)))"
      using one_call_before [OF action_db [OF gate] assms] gate Inr sf by (simp add: with_action_def)
    ultimately show ?thesis by blast
  qed
qed

definition guarded :: "uilib \<Rightarrow> uiworld \<Rightarrow> ui_request \<Rightarrow> bool \<Rightarrow> dash \<Rightarrow> db \<Rightarrow> bool" where
  "guarded P w r admin st d' \<longleftrightarrow> interleaved w (ds_db st) d'
     \<or> (\<exists>session d1 d2. authorised P w r admin st session \<and> interleaved w (ds_db st) d1
         \<and> operator_call (ul_go P) (se_Actor session) d1 d2 \<and> interleaved w d2 d')"

lemma guarded_action:
  assumes "\<And>session form st'. one_call (ul_go P) w (se_Actor session) (ds_db st') (ds_db (snd (nxt session form st')))"
  shows "guarded P w r admin st (ds_db (snd (with_action P w r admin nxt st)))"
  using with_action_db [where nxt = nxt and st = st and r = r and admin = admin, OF assms] unfolding guarded_def one_call_def by blast

subsection \<open>Actions\<close>

lemma policy_guarded: "guarded P w r False st (ds_db (snd (dashboardMachinePolicy P w r st)))"
  unfolding dashboardMachinePolicy_def by (intro guarded_action write_db oc_policy)

lemma nickname_guarded: "guarded P w r False st (ds_db (snd (dashboardMachineNickname P w r st)))"
  unfolding dashboardMachineNickname_def by (intro guarded_action write_db oc_nickname)

lemma delete_machine_guarded: "guarded P w r True st (ds_db (snd (dashboardDeleteMachine P w r st)))"
  unfolding dashboardDeleteMachine_def by (intro guarded_action) (simp split: if_split, intro impI write_db oc_delete_machine)

lemma delete_installation_guarded: "guarded P w r True st (ds_db (snd (dashboardDeleteInstallation P w r st)))"
  unfolding dashboardDeleteInstallation_def by (intro guarded_action) (simp split: if_split, intro impI write_db oc_delete_installation)

lemma arm_guarded: "guarded P w r False st (ds_db (snd (dashboardArmInstallation P w r st)))"
  unfolding dashboardArmInstallation_def by (intro guarded_action read_db write_db oc_arm)

lemma cancel_guarded: "guarded P w r False st (ds_db (snd (dashboardCancelInstallation P w r st)))"
  unfolding dashboardCancelInstallation_def by (intro guarded_action write_db oc_cancel)

lemma approve_key_guarded: "guarded P w r True st (ds_db (snd (dashboardApproveBootTrustKey P w r st)))"
  unfolding dashboardApproveBootTrustKey_def by (intro guarded_action read_db write_db oc_approve_key)

lemma revoke_key_guarded: "guarded P w r True st (ds_db (snd (dashboardRevokeBootTrustKey P w r st)))"
  unfolding dashboardRevokeBootTrustKey_def by (intro guarded_action read_db write_db oc_revoke_key)

lemma approve_user_guarded: "guarded P w r True st (ds_db (snd (dashboardApproveUser P w r st)))"
  unfolding dashboardApproveUser_def by (intro guarded_action write_db oc_approve_user)

lemma block_user_guarded: "guarded P w r True st (ds_db (snd (dashboardBlockUser P w r st)))"
  unfolding dashboardBlockUser_def by (intro guarded_action write_db oc_block_user)

lemma reads_db:
  assumes "\<And>x st'. interleaved w (ds_db st') (ds_db (snd (nxt x st')))"
  shows "interleaved w (ds_db st) (ds_db (snd (store_read w k query nxt st)))"
proof -
  let ?st = "st\<lparr>ds_db := w_other w k (ds_db st)\<rparr>"
  have "interleaved w (ds_db ?st) (ds_db (snd (nxt x ?st)))" for x by (rule assms)
  then have "interleaved w (ds_db st) (ds_db (snd (nxt x ?st)))" for x
    using interleaved_trans [OF interleaved_other [of w "ds_db st" k]] by simp
  then show ?thesis by (auto simp: store_read_def Let_def split: sum.splits)
qed

lemma wizard_error_db: "interleaved w (ds_db st) (ds_db (snd (renderDashboardWizardError w session v msg st)))"
  unfolding renderDashboardWizardError_def by (rule reads_db) simp

lemma create_db: "one_call (ul_go P) w (se_Actor session) (ds_db st) (ds_db (snd (create_installation P w r session v item st)))"
proof -
  have call: "operator_call (ul_go P) (se_Actor session) d (snd (CreateInstallationSpec (ul_go P) e d (wizard_spec item v res c session) rid))" for e d res c rid
    by (rule oc_create) (simp add: wizard_spec_def)
  let ?d0 = "w_other w 5 (ds_db st)"
  have failed: "one_call (ul_go P) w (se_Actor session) (ds_db st) (ds_db (snd (renderDashboardWizardError w session v msg (st\<lparr>ds_db := d\<rparr>))))"
    if "CreateInstallationSpec (ul_go P) (w_env w 5) ?d0 (wizard_spec item v res c session) (requestID r) = (Inl err, d)" for res c err d msg
  proof -
    have "operator_call (ul_go P) (se_Actor session) ?d0 d" using call [of ?d0 "w_env w 5" res c "requestID r"] that by simp
    moreover have "interleaved w d (ds_db (snd (renderDashboardWizardError w session v msg (st\<lparr>ds_db := d\<rparr>))))"
      using wizard_error_db [of w "st\<lparr>ds_db := d\<rparr>" session v msg] by simp
    ultimately show ?thesis using interleaved_other unfolding one_call_def by blast
  qed
  have created: "one_call (ul_go P) w (se_Actor session) (ds_db st) d"
    if "CreateInstallationSpec (ul_go P) (w_env w 5) ?d0 (wizard_spec item v res c session) (requestID r) = (Inr s, d)" for res c s d
  proof -
    have "operator_call (ul_go P) (se_Actor session) ?d0 d" using call [of ?d0 "w_env w 5" res c "requestID r"] that by simp
    then show ?thesis using interleaved_other interleaved_refl unfolding one_call_def by blast
  qed
  show ?thesis
    by (auto simp: create_installation_def Let_def wizard_error_db split: if_splits option.splits sum.splits prod.splits intro: failed created)
qed

lemma create_guarded: "guarded P w r False st (ds_db (snd (dashboardCreateInstallation P w r st)))"
  unfolding dashboardCreateInstallation_def
proof (rule guarded_action)
  fix session form and st' :: dash
  let ?st = "st'\<lparr>ds_db := w_other w 3 (ds_db st')\<rparr>"
  let ?v = "wizardValuesFromRequest form"
  have "one_call (ul_go P) w (se_Actor session) (ds_db st') (ds_db (snd (create_installation P w r session ?v item ?st)))" for item
    using one_call_before [OF interleaved_other [of w "ds_db st'" 3], of "ul_go P" "se_Actor session"] create_db [of P w session ?st r ?v item] by simp
  moreover have "one_call (ul_go P) w (se_Actor session) (ds_db st') (ds_db (snd (renderDashboardWizardError w session ?v msg ?st)))" for msg
    using interleaved_trans [OF interleaved_other [of w "ds_db st'" 3]] wizard_error_db [of w ?st session ?v msg] by simp
  ultimately show "one_call (ul_go P) w (se_Actor session) (ds_db st') (ds_db (snd (let v = ?v; st'' = ?st in
      case store_Machine (w_env w 3) 0 (ds_db st'') (wv_MachineID v) of
        Inl err \<Rightarrow> renderDashboardWizardError w session v ''Selected machine could not be loaded.'' st''
      | Inr item \<Rightarrow> create_installation P w r session v item st'')))"
    by (simp add: Let_def split: sum.split)
qed

subsection \<open>Pages\<close>

lemma page_db:
  assumes "\<And>session st'. interleaved w (ds_db st') (ds_db (snd (nxt session st')))"
  shows "interleaved w (ds_db st) (ds_db (snd (with_page P w r nxt st)))"
    and "interleaved w (ds_db st) (ds_db (snd (with_page_json P w r nxt st)))"
  by (auto simp: with_page_def with_page_json_def requireDashboardPage_def requireDashboardPageJSON_def
      split: option.splits prod.splits sum.splits dest!: session_db intro: interleaved_trans assms)

lemma read_specs_db: "interleaved w d (snd (read_specs e (\<lambda>k. w_other w (f k)) k d ids))"
proof (induction ids arbitrary: k d)
  case (Cons i ids)
  from interleaved_trans [OF interleaved_other Cons [where k = "k + 1"]]
  show ?case by (auto simp: Let_def split: sum.splits prod.splits) (metis add.commute plus_1_eq_Suc snd_conv)+
qed simp

lemma rows_db: "interleaved w d (snd (installation_rows w k d specs))"
proof (induction w k d specs rule: installation_rows.induct)
  case (2 w k d spec specs)
  let ?d1 = "w_other w (row_call k) d" and ?d2 = "w_other w (row_call (k + 1)) (w_other w (row_call k) d)"
  have reads: "interleaved w d ?d1" "interleaved w d ?d2" by (auto intro: interleaved_then)
  show ?case
  proof (cases "store_Machine (w_env w (row_call k)) 0 ?d1 (sp_MachineID spec)")
    case item: (Inr item)
    show ?thesis
    proof (cases "optional_assignment (w_env w (row_call (k + 1))) ?d2 (sp_ID spec)")
      case (Inr assigned)
      note rest = interleaved_trans [OF reads(2) 2 [OF refl item refl Inr]]
      obtain res d3 where "installation_rows w (k + 2) ?d2 specs = (res, d3)" by force
      with rest item Inr show ?thesis by (cases res) (simp_all add: Let_def)
    qed (use item reads in \<open>simp add: Let_def\<close>)
  qed (use reads in \<open>simp add: Let_def\<close>)
qed simp

lemma load_rows_db: "interleaved w d (snd (loadInstallationRows w c d))"
proof -
  let ?list = "InstallationSpecs (w_env w c) (\<lambda>k. w_other w (100 + 3 * k)) (w_other w c d)"
  have "interleaved w (w_other w c d) (snd ?list)"
    by (auto simp: InstallationSpecs_def installationSpecsByQuery_def read_specs_db split: sum.splits)
  then have list: "interleaved w d (snd ?list)" by (rule interleaved_trans [OF interleaved_other])
  obtain res d' where res: "?list = (res, d')" by force
  with list have "interleaved w d d'" by simp
  with interleaved_trans [OF this rows_db] res show ?thesis by (cases res) (simp_all add: loadInstallationRows_def)
qed

lemma query_db:
  assumes "\<And>d. interleaved w d (snd (query d))" "\<And>x st'. interleaved w (ds_db st') (ds_db (snd (nxt x st')))"
  shows "interleaved w (ds_db st) (ds_db (snd (store_query query nxt st)))"
proof -
  obtain res d where q: "query (ds_db st) = (res, d)" by force
  with assms(1) [of "ds_db st"] have "interleaved w (ds_db st) d" by simp
  moreover have "interleaved w d (ds_db (snd (nxt x (st\<lparr>ds_db := d\<rparr>))))" for x using assms(2) [of "st\<lparr>ds_db := d\<rparr>" x] by simp
  ultimately show ?thesis using q by (cases res) (auto simp: store_query_def intro: interleaved_trans)
qed

lemmas page_defs = dashboardMachines_def dashboardMachine_def dashboardMachineMetadata_def dashboardMachineManagement_def
  dashboardInstallationManagement_def dashboardInstallationTrust_def dashboardInstallation_def dashboardInstallations_def
  dashboardInstallationWizard_def dashboardLogs_def dashboardStableLogFeed_def dashboardLogTail_def dashboardStableLogExport_def

lemma pages_db:
  "interleaved w (ds_db st) (ds_db (snd (dashboardMachines P w r st)))"
  "interleaved w (ds_db st) (ds_db (snd (dashboardMachine P w r st)))"
  "interleaved w (ds_db st) (ds_db (snd (dashboardMachineMetadata P w r st)))"
  "interleaved w (ds_db st) (ds_db (snd (dashboardMachineManagement P w r st)))"
  "interleaved w (ds_db st) (ds_db (snd (dashboardInstallationManagement P w r st)))"
  "interleaved w (ds_db st) (ds_db (snd (dashboardInstallationTrust P w r st)))"
  "interleaved w (ds_db st) (ds_db (snd (dashboardInstallation P w r st)))"
  "interleaved w (ds_db st) (ds_db (snd (dashboardInstallations P w r st)))"
  "interleaved w (ds_db st) (ds_db (snd (dashboardInstallationWizard P w r st)))"
  "interleaved w (ds_db st) (ds_db (snd (dashboardLogs P w r st)))"
  "interleaved w (ds_db st) (ds_db (snd (dashboardStableLogFeed P w r st)))"
  "interleaved w (ds_db st) (ds_db (snd (dashboardLogTail P w r st)))"
  "interleaved w (ds_db st) (ds_db (snd (dashboardStableLogExport P w r st)))"
  unfolding page_defs by (intro page_db reads_db query_db load_rows_db; simp add: Let_def split: option.split)+

lemma users_page_db: "interleaved w (ds_db st) (ds_db (snd (dashboardUsers P w r st)))"
  unfolding dashboardUsers_def by (rule page_db) (auto intro: reads_db)

lemma logout_db: "interleaved w (ds_db st) (ds_db (snd (dashboardLogout P w r st)))"
  by (auto simp: dashboardLogout_def split: option.splits prod.splits dest: session_db)

text \<open>C9: whatever is sent to the operator's interface, outside the sign-in the database changes only by other
  requests, or by one call of the store that records the name of an operator whose live session, role, CSRF
  token and connection were checked for this request; deletions, machine keys and users need an administrator.
\<close>

theorem dashboard_change_authorised:
  assumes "serve_route route P w r st = (resp, st')" "\<not> sign_in route"
  shows "interleaved w (ds_db st) (ds_db st')
    \<or> (\<exists>session d1 d2. authorised P w r (needs_admin route) st session
        \<and> interleaved w (ds_db st) d1 \<and> operator_call (ul_go P) (se_Actor session) d1 d2 \<and> interleaved w d2 (ds_db st'))"
proof -
  have "guarded P w r (needs_admin route) st (ds_db (snd (serve_route route P w r st)))"
    using assms(2)
    by (cases route) (simp_all add: sign_in_def needs_admin_def policy_guarded nickname_guarded delete_machine_guarded
        delete_installation_guarded arm_guarded cancel_guarded approve_key_guarded revoke_key_guarded approve_user_guarded
        block_user_guarded create_guarded, simp_all add: guarded_def pages_db users_page_db logout_db)
  then show ?thesis using assms(1) by (simp add: guarded_def)
qed

section \<open>Getting a session\<close>

text \<open>A ceremony that the service held for this user and mode was finished to the satisfaction of the WebAuthn package.\<close>

definition passkey_proof :: "uilib \<Rightarrow> uiworld \<Rightarrow> ui_request \<Rightarrow> Mode \<Rightarrow> dash \<Rightarrow> User \<Rightarrow> bool" where
  "passkey_proof P w r mode st user \<longleftrightarrow> (\<exists>creds flow.
     fst (takeFlow (ul_go P) (w_env w 2) (ceremony_token r) (u_ID user) mode (ui_passkeys w 2 (ds_passkeys st))) = Inr flow
     \<and> (if mode = ModeEnrollment then wl_FinishRegistration (ul_web P) user creds (fl_Session flow) (rq_Body r) \<noteq> None
        else wl_FinishLogin (ul_web P) user creds (fl_Session flow) (rq_Body r) \<noteq> None))"

text \<open>The identity in the request belongs to a user with the given status, whose number the other user has.\<close>

definition outer_identity :: "uiworld \<Rightarrow> ui_request \<Rightarrow> Status \<Rightarrow> dash \<Rightarrow> User \<Rightarrow> bool" where
  "outer_identity w r status st user \<longleftrightarrow> (\<exists>identity u. externalIdentityFromRequest r = Some identity
     \<and> fst (resolve_external w r identity st) = Inr u \<and> u_Status u = status \<and> u_ID user = TrimSpace (u_ID u))"

lemma for_webauthn_ID: "OperatorUserForWebAuthn decode e d userID rp = Inr (user, creds) \<Longrightarrow> u_ID user = TrimSpace userID"
  by (auto simp: OperatorUserForWebAuthn_def OperatorUser_def operatorUserByID_def query_row_def split: sum.splits option.splits if_splits
      dest!: find_SomeD)

lemma operator_user_ID: "OperatorUser e k d userID = Inr user \<Longrightarrow> u_ID user = TrimSpace userID"
  by (auto simp: OperatorUser_def operatorUserByID_def query_row_def split: option.splits if_splits dest!: find_SomeD)

lemma external_user_Inr:
  assumes "externalWebAuthnUser P w r required st = (Inr (user, creds), st')"
  shows "outer_identity w r required st user \<and> ds_passkeys st' = ds_passkeys st \<and> ds_auth st' = ds_auth st \<and> ds_tickets st' = ds_tickets st"
proof -
  from assms obtain identity where id: "externalIdentityFromRequest r = Some identity"
    by (auto simp: externalWebAuthnUser_def split: option.splits)
  obtain res st1 where res: "resolve_external w r identity st = (res, st1)" by force
  have frame: "ds_passkeys st1 = ds_passkeys st \<and> ds_auth st1 = ds_auth st \<and> ds_tickets st1 = ds_tickets st"
    using res by (auto simp: resolve_external_def split: prod.splits sum.splits)
  from assms id res obtain u where "res = Inr u" "u_Status u = required"
      "OperatorUserForWebAuthn (wl_decode (ul_web P)) (w_env w 1) (w_other w 1 (ds_db st1)) (u_ID u) (RPID (ds_passkeys st1)) = Inr (user, creds)"
      "st' = st1\<lparr>ds_db := w_other w 1 (ds_db st1)\<rparr>"
    by (auto simp: externalWebAuthnUser_def Let_def split: if_splits sum.splits)
  with id res frame show ?thesis by (auto simp: outer_identity_def dest: for_webauthn_ID)
qed

lemma finish_login_Inr:
  assumes "FinishLogin (ul_go P) (ul_web P) (w_env w 2) user (ceremony_token r) mode (rq_Body r) (ui_passkeys w 2 (ds_passkeys st)) = (Inr cred, p')"
    "mode \<noteq> ModeEnrollment"
  shows "passkey_proof P w r mode st (fst user)"
  unfolding passkey_proof_def using assms
  by (intro exI [of _ "snd user"]) (auto simp: FinishLogin_def split: prod.splits sum.splits option.splits)

lemma finish_registration_Inr:
  assumes "FinishRegistration (ul_go P) (ul_web P) (w_env w 2) user (ceremony_token r) (rq_Body r) (ui_passkeys w 2 (ds_passkeys st)) = (Inr cred, p')"
  shows "passkey_proof P w r ModeEnrollment st (fst user)"
  unfolding passkey_proof_def using assms
  by (intro exI [of _ "snd user"]) (auto simp: FinishRegistration_def split: prod.splits sum.splits option.splits)

lemma issue_cookie:
  assumes "issue_session P w r user authMethod refused accepted st = (resp, st')" "us_Cookie resp \<noteq> None" "us_Cookie refused = None"
  shows "\<exists>token session. fst (IssueUserSession (ul_go P) (w_env w 5) user authMethod (ui_auth w 5 (ds_auth st))) = Inr (token, session)
      \<and> u_Status user = StatusActive \<and> us_Cookie resp = us_Cookie (setDashboardSessionCookie r token session accepted)"
  using assms
  by (auto simp: issue_session_def IssueUserSession_def setDashboardSessionCookie_def split: prod.splits sum.splits option.splits if_splits)

lemma no_cookie [simp]: "us_Cookie authJSONFailure = None" "us_Cookie (json_message n msg) = None" "us_Cookie (http_Error msg n) = None"
    "us_Cookie (http_Redirect url n) = None" "us_Cookie (recovery_refused n) = None" "us_Cookie (claim_rejected n) = None"
    "us_Cookie (writeDashboardJSON n v) = None" "us_Cookie (renderAuth a) = None" "us_Cookie (answer n b) = None"
    "us_Cookie (renderDashboard dv) = None" "us_Cookie (writeDashboardError err) = None" "us_Cookie (auth_page st t ds sb s) = None"
  by (simp_all add: authJSONFailure_def writeDashboardJSON_def http_Error_def http_Redirect_def recovery_refused_def claim_rejected_def
      renderAuth_def renderDashboard_def writeDashboardError_def auth_page_def answer_def)

lemma external_refused: "externalWebAuthnUser P w r required st = (Inl resp, st') \<Longrightarrow> us_Cookie resp = None"
  by (auto simp: externalWebAuthnUser_def Let_def split: option.splits sum.splits prod.splits if_splits)

lemma login_factors:
  assumes "finishExternalPasskeyLogin P w r st = (resp, st')" "us_Cookie resp \<noteq> None"
  shows "\<exists>user. u_Status user = StatusActive \<and> outer_identity w r StatusActive st user \<and> passkey_proof P w r ModeLogin st user"
proof -
  obtain res st1 where ext: "externalWebAuthnUser P w r StatusActive st = (res, st1)" by force
  with assms obtain user creds where user: "res = Inr (user, creds)" by (cases res) (auto simp: finishExternalPasskeyLogin_def dest: external_refused)
  note external = external_user_Inr [OF ext [unfolded user]]
  let ?p = "ui_passkeys w 2 (ds_passkeys st1)"
  obtain fin p where fin: "FinishLogin (ul_go P) (ul_web P) (w_env w 2) (user, creds) (ceremony_token r) ModeLogin (rq_Body r) ?p = (fin, p)" by force
  with assms ext user obtain cred where cred: "fin = Inr cred" by (cases fin) (auto simp: finishExternalPasskeyLogin_def)
  obtain ok st2 where save: "save_passkey w r user cred (''user:'' @ u_Subject user) False (st1\<lparr>ds_passkeys := p\<rparr>) = (ok, st2)" by force
  with assms ext user fin cred have ok: "ok" by (cases ok) (auto simp: finishExternalPasskeyLogin_def)
  with assms ext user fin cred save have "issue_session P w r user ''zoraxy+passkey'' authJSONFailure status_ok st2 = (resp, st')"
    by (simp add: finishExternalPasskeyLogin_def)
  from issue_cookie [OF this assms(2)] have "u_Status user = StatusActive" by auto
  moreover have "passkey_proof P w r ModeLogin st user" using finish_login_Inr [of P w "(user, creds)" r ModeLogin st cred p] fin cred external by simp
  ultimately show ?thesis using external by auto
qed

lemma enrollment_factors:
  assumes "finishPasskeyEnrollment P w r st = (resp, st')" "us_Cookie resp \<noteq> None"
  shows "\<exists>user. outer_identity w r StatusEnrollmentRequired st user \<and> passkey_proof P w r ModeEnrollment st user"
proof -
  obtain res st1 where ext: "externalWebAuthnUser P w r StatusEnrollmentRequired st = (res, st1)" by force
  with assms obtain user creds where user: "res = Inr (user, creds)" by (cases res) (auto simp: finishPasskeyEnrollment_def dest: external_refused)
  note external = external_user_Inr [OF ext [unfolded user]]
  let ?p = "ui_passkeys w 2 (ds_passkeys st1)"
  obtain fin p where fin: "FinishRegistration (ul_go P) (ul_web P) (w_env w 2) (user, creds) (ceremony_token r) (rq_Body r) ?p = (fin, p)" by force
  with assms ext user obtain cred where cred: "fin = Inr cred" by (cases fin) (auto simp: finishPasskeyEnrollment_def)
  then have "passkey_proof P w r ModeEnrollment st user" using finish_registration_Inr [of P w "(user, creds)" r st cred p] fin external by simp
  with external show ?thesis by auto
qed

text \<open>The emergency sign-in: no outer identity, a local or encrypted connection, the recovery key and a ticket.\<close>

lemma recovery_key_matched:
  assumes "VerifyRecoveryKey L e remote key p = (None, p')"
  shows "\<exists>m. p = Some m \<and> lib_sha256 L (TrimSpace key) = mg_keyDigest m"
proof (cases p)
  case None
  with assms show ?thesis by (simp add: VerifyRecoveryKey_def)
next
  case (Some m)
  with assms show ?thesis by (auto simp: VerifyRecoveryKey_def Let_def split: if_splits option.splits)
qed

definition emergency :: "uilib \<Rightarrow> uiworld \<Rightarrow> ui_request \<Rightarrow> dash \<Rightarrow> User \<Rightarrow> bool" where
  "emergency P w r st user \<longleftrightarrow> externalIdentityFromRequest r = None \<and> secureTransport (ul_net P) r
     \<and> (\<exists>form m. ur_PostForm r maxFormBody = Some form
         \<and> u_Provider user = trustedProxyProvider \<and> u_Subject user = TrimSpace (form ''subject'')
         \<and> ui_auth w 6 (ds_auth st) = Some m \<and> lib_sha256 (ul_go P) (TrimSpace (form ''key'')) = mg_keyDigest m
         \<and> fst (ConsumeRecoveryTicket (ul_go P) (w_env w 8) (form ''ticket'') (u_ID user) (ui_tickets w 8 (ds_tickets st))))"

lemma recovery_user_Some:
  assumes "recovery_user w subject st = (Some user, st')"
  shows "u_Status user = StatusActive" "u_Provider user = trustedProxyProvider" "u_Subject user = TrimSpace subject"
    and "ds_auth st' = ds_auth st" "ds_tickets st' = ds_tickets st" "ds_passkeys st' = ds_passkeys st"
proof -
  have provider: "TrimSpace trustedProxyProvider = trustedProxyProvider" by (simp add: trustedProxyProvider_def sample_trim)
  from assms provider show "u_Status user = StatusActive" "u_Provider user = trustedProxyProvider" "u_Subject user = TrimSpace subject"
    by (auto simp: recovery_user_def Let_def OperatorUserByExternalIdentity_def operatorUserByExternal_def query_row_def
        split: sum.splits option.splits if_splits dest!: find_SomeD)
  from assms show "ds_auth st' = ds_auth st" "ds_tickets st' = ds_tickets st" "ds_passkeys st' = ds_passkeys st"
    by (auto simp: recovery_user_def Let_def)
qed

lemma emergency_factors:
  assumes "finishRecoveryLogin P w r st = (resp, st')" "us_Cookie resp \<noteq> None"
  shows "\<exists>user. u_Status user = StatusActive \<and> emergency P w r st user"
proof -
  from assms have pre: "externalIdentityFromRequest r = None" "secureTransport (ul_net P) r"
    by (auto simp: finishRecoveryLogin_def split: if_splits)
  from assms pre obtain form where form: "ur_PostForm r maxFormBody = Some form"
    by (cases "ur_PostForm r maxFormBody") (auto simp: finishRecoveryLogin_def)
  obtain found st1 where found: "recovery_user w (TrimSpace (form ''subject'')) st = (found, st1)" by force
  with assms pre form obtain user where user: "found = Some user" by (cases found) (auto simp: finishRecoveryLogin_def)
  note u = recovery_user_Some [OF found [unfolded user]]
  obtain err m where key: "VerifyRecoveryKey (ul_go P) (w_env w 6) (remoteHost (rq_RemoteAddr r)) (form ''key'') (ui_auth w 6 (ds_auth st1)) = (err, m)"
    by force
  with assms pre form found user have ok: "err = None" by (cases err) (auto simp: finishRecoveryLogin_def)
  obtain redeemed items where tick: "ConsumeRecoveryTicket (ul_go P) (w_env w 8) (form ''ticket'') (u_ID user) (ui_tickets w 8 (ds_tickets st1)) = (redeemed, items)"
    by force
  with assms pre form found user key ok have "redeemed" by (cases redeemed) (auto simp: finishRecoveryLogin_def)
  with tick u key ok pre form recovery_key_matched [OF key [unfolded ok]] show ?thesis by (auto simp: emergency_def)
qed

text \<open>No other route hands out a session.\<close>

lemma store_write_no_cookie:
  "(\<And>err. us_Cookie (failed err) = None) \<Longrightarrow> (\<And>x. us_Cookie (ok x) = None) \<Longrightarrow> us_Cookie (fst (store_write w k opr failed ok st)) = None"
  by (auto simp: store_write_def split: prod.splits sum.splits)

lemma store_read_no_cookie:
  "(\<And>x st'. us_Cookie (fst (nxt x st')) = None) \<Longrightarrow> us_Cookie (fst (store_read w k query nxt st)) = None"
  by (auto simp: store_read_def Let_def split: sum.splits)

lemma store_query_no_cookie:
  "(\<And>x st'. us_Cookie (fst (nxt x st')) = None) \<Longrightarrow> us_Cookie (fst (store_query query nxt st)) = None"
  by (auto simp: store_query_def split: prod.splits sum.splits)

lemma gate_no_cookie:
  "(\<And>s st'. us_Cookie (fst (nxt s st')) = None) \<Longrightarrow> us_Cookie (fst (with_page P w r nxt st)) = None"
  "(\<And>s st'. us_Cookie (fst (nxt s st')) = None) \<Longrightarrow> us_Cookie (fst (with_page_json P w r nxt st)) = None"
  "(\<And>s f st'. us_Cookie (fst (act s f st')) = None) \<Longrightarrow> us_Cookie (fst (with_action P w r admin act st)) = None"
  by (auto simp: with_page_def with_page_json_def with_action_def requireDashboardPage_def requireDashboardPageJSON_def
      requireDashboardAction_def split: prod.splits sum.splits option.splits if_splits)

lemma wizard_error_no_cookie: "us_Cookie (fst (renderDashboardWizardError w s v msg st)) = None"
  unfolding renderDashboardWizardError_def by (rule store_read_no_cookie) simp

lemma create_no_cookie: "us_Cookie (fst (create_installation P w r s v item st)) = None"
  by (auto simp: create_installation_def Let_def wizard_error_no_cookie split: option.splits sum.splits prod.splits)

lemma create_page_no_cookie: "us_Cookie (fst (dashboardCreateInstallation P w r st)) = None"
  unfolding dashboardCreateInstallation_def
  by (rule gate_no_cookie) (simp add: Let_def create_no_cookie wizard_error_no_cookie split: sum.split)

lemma action_no_cookie:
  "us_Cookie (fst (dashboardMachinePolicy P w r st)) = None" "us_Cookie (fst (dashboardMachineNickname P w r st)) = None"
  "us_Cookie (fst (dashboardArmInstallation P w r st)) = None" "us_Cookie (fst (dashboardCancelInstallation P w r st)) = None"
  "us_Cookie (fst (dashboardApproveBootTrustKey P w r st)) = None" "us_Cookie (fst (dashboardRevokeBootTrustKey P w r st)) = None"
  "us_Cookie (fst (dashboardApproveUser P w r st)) = None" "us_Cookie (fst (dashboardBlockUser P w r st)) = None"
  unfolding dashboardMachinePolicy_def dashboardMachineNickname_def dashboardArmInstallation_def dashboardCancelInstallation_def
    dashboardApproveBootTrustKey_def dashboardRevokeBootTrustKey_def dashboardApproveUser_def dashboardBlockUser_def
  by (intro gate_no_cookie store_read_no_cookie store_write_no_cookie; simp)+

lemma deletion_no_cookie:
  "us_Cookie (fst (dashboardDeleteMachine P w r st)) = None" "us_Cookie (fst (dashboardDeleteInstallation P w r st)) = None"
  unfolding dashboardDeleteMachine_def dashboardDeleteInstallation_def
  by (rule gate_no_cookie; auto intro!: store_write_no_cookie)+

lemma page_no_cookie:
  "us_Cookie (fst (dashboardMachines P w r st)) = None" "us_Cookie (fst (dashboardMachine P w r st)) = None"
  "us_Cookie (fst (dashboardMachineMetadata P w r st)) = None" "us_Cookie (fst (dashboardMachineManagement P w r st)) = None"
  "us_Cookie (fst (dashboardInstallationManagement P w r st)) = None" "us_Cookie (fst (dashboardInstallationTrust P w r st)) = None"
  "us_Cookie (fst (dashboardInstallation P w r st)) = None" "us_Cookie (fst (dashboardInstallations P w r st)) = None"
  "us_Cookie (fst (dashboardInstallationWizard P w r st)) = None" "us_Cookie (fst (dashboardLogs P w r st)) = None"
  "us_Cookie (fst (dashboardStableLogFeed P w r st)) = None" "us_Cookie (fst (dashboardLogTail P w r st)) = None"
  "us_Cookie (fst (dashboardStableLogExport P w r st)) = None"
  unfolding page_defs by (intro gate_no_cookie store_read_no_cookie store_query_no_cookie; simp add: Let_def split: option.split)+

lemma users_no_cookie: "us_Cookie (fst (dashboardUsers P w r st)) = None"
  unfolding dashboardUsers_def by (rule gate_no_cookie) (auto intro: store_read_no_cookie)

lemma overview_no_cookie: "us_Cookie (fst (renderDashboardOverview w s st)) = None"
  unfolding renderDashboardOverview_def by (intro store_read_no_cookie store_query_no_cookie; simp)

lemma entry_no_cookie: "us_Cookie (fst (dashboardEntry P w r st)) = None"
  by (auto simp: dashboardEntry_def identity_page_def pending_page_def Let_def overview_no_cookie
      split: prod.splits option.splits sum.splits Status.splits bool.splits)

lemma start_no_cookie:
  "us_Cookie (fst (beginExternalPasskeyLogin P w r st)) = None" "us_Cookie (fst (beginPasskeyEnrollment P w r st)) = None"
  "us_Cookie (fst (beginRecoveryPasskey P w r st)) = None" "us_Cookie (fst (finishRecoveryPasskey P w r st)) = None"
  "us_Cookie (fst (bootstrapInitialAdmin P w r st)) = None"
proof -
  have [simp]: "us_Cookie (ceremony_started res) = None" for res by (auto simp: ceremony_started_def split: sum.splits prod.splits)
  show "us_Cookie (fst (beginExternalPasskeyLogin P w r st)) = None" "us_Cookie (fst (beginPasskeyEnrollment P w r st)) = None"
    by (auto simp: beginExternalPasskeyLogin_def beginPasskeyEnrollment_def split: prod.splits sum.splits dest: external_refused)
  show "us_Cookie (fst (beginRecoveryPasskey P w r st)) = None"
    by (auto simp: beginRecoveryPasskey_def Let_def split: option.splits sum.splits prod.splits)
  show "us_Cookie (fst (finishRecoveryPasskey P w r st)) = None"
    by (auto simp: finishRecoveryPasskey_def Let_def split: option.splits sum.splits prod.splits bool.splits)
  show "us_Cookie (fst (bootstrapInitialAdmin P w r st)) = None"
    by (auto simp: bootstrapInitialAdmin_def split: option.splits sum.splits prod.splits)
qed

lemma logout_cookie: "us_Cookie (fst (dashboardLogout P w r st)) = Some ck \<Longrightarrow> ck_Value ck = []"
  by (auto simp: dashboardLogout_def clearDashboardSessionCookie_def split: option.splits prod.splits if_splits)

text \<open>A ticket that is redeemed was issued for this user in the last five minutes and not presented since.\<close>

lemma ticket_origin:
  assumes "fst (ConsumeRecoveryTicket L e token userID (fold (ticket_apply L) ops []))"
  shows "\<exists>pre e0 uid post. ops = pre @ TicketIssue e0 uid # post \<and> TrimSpace uid = TrimSpace userID
    \<and> env_now e < env_now e0 + 5 * Minute \<and> (\<forall>x \<in> set post. \<not> ticket_presented L x (lib_sha256 L (TrimSpace token)))"
proof -
  let ?items = "fold (ticket_apply L) ops []" and ?g = "lib_sha256 L (TrimSpace token)"
  have ok: "tickets_ok []" by (simp add: tickets_ok_def)
  have "tickets_ok ?items" using recovery_tickets.inv_run [OF ok, of L ops] by (simp add: recovery_tickets.after_def)
  with assms obtain t where t: "map_of ?items ?g = Some t" "rt_UserID t = TrimSpace userID" "rt_ExpiresAt t > env_now e"
    by (auto simp: ConsumeRecoveryTicket_def cleanupRecoveryTicketsLocked_def tickets_ok_def Let_def map_of_filter_cases split: option.splits if_splits)
  from recovery_tickets.held_added [of L ops "[]" ?g t] t(1) ok obtain pre x post where
      run: "ops = pre @ x # post" "ticket_added L x (recovery_tickets.after L pre []) = Some (?g, t)" "\<forall>z \<in> set post. \<not> ticket_presented L z ?g"
    by (auto simp: recovery_tickets.after_def)
  from run(2) obtain e0 uid where "x = TicketIssue e0 uid" "t = \<lparr>rt_UserID = TrimSpace uid, rt_ExpiresAt = env_now e0 + recoveryTicketLifetime\<rparr>"
    by (cases x) (auto split: sum.splits)
  with run t show ?thesis by (auto simp: recoveryTicketLifetime_def intro!: exI [of _ pre])
qed

text \<open>C10: a request gets a session only with two factors behind the trusted proxy, its identity and a finished
  passkey ceremony of this user, or in an emergency without the proxy on a local or encrypted connection with
  the recovery key and a ticket that was issued to this user in the last five minutes and never presented before.
\<close>

theorem session_needs_factors:
  assumes "serve_route route P w r st = (resp, st')" "us_Cookie resp = Some ck" "ck_Value ck \<noteq> []"
    and "ui_tickets w 8 (ds_tickets st) = fold (ticket_apply (ul_go P)) ops []"
  shows "\<exists>user. route = RLoginFinish \<and> u_Status user = StatusActive \<and> outer_identity w r StatusActive st user
        \<and> passkey_proof P w r ModeLogin st user
    \<or> route = REnrollFinish \<and> outer_identity w r StatusEnrollmentRequired st user \<and> passkey_proof P w r ModeEnrollment st user
    \<or> route = RRecoveryFinish \<and> u_Status user = StatusActive \<and> emergency P w r st user
        \<and> (\<exists>form pre e uid post. ur_PostForm r maxFormBody = Some form \<and> ops = pre @ TicketIssue e uid # post
            \<and> TrimSpace uid = TrimSpace (u_ID user) \<and> env_now (w_env w 8) < env_now e + 5 * Minute
            \<and> (\<forall>x \<in> set post. \<not> ticket_presented (ul_go P) x (lib_sha256 (ul_go P) (TrimSpace (form ''ticket'')))))"
proof -
  have cookie: "us_Cookie (fst (serve_route route P w r st)) = Some ck" using assms(1,2) by simp
  then consider "route = RLoginFinish" | "route = REnrollFinish" | "route = RRecoveryFinish"
    using assms(3) by (cases route) (simp_all add: entry_no_cookie start_no_cookie page_no_cookie users_no_cookie action_no_cookie
        deletion_no_cookie create_page_no_cookie, auto dest: logout_cookie)
  then show ?thesis
  proof cases
    case 1
    with assms(1,2) login_factors [of P w r st resp st'] show ?thesis by auto
  next
    case 2
    with assms(1,2) enrollment_factors [of P w r st resp st'] show ?thesis by auto
  next
    case 3
    with assms(1,2) emergency_factors [of P w r st resp st'] obtain user where user: "u_Status user = StatusActive" "emergency P w r st user"
      by auto
    then obtain form where form: "ur_PostForm r maxFormBody = Some form"
        "fst (ConsumeRecoveryTicket (ul_go P) (w_env w 8) (form ''ticket'') (u_ID user) (ui_tickets w 8 (ds_tickets st)))"
      by (auto simp: emergency_def)
    from ticket_origin [OF form(2) [unfolded assms(4)]] form(1) user 3 show ?thesis by blast
  qed
qed

text \<open>The ticket itself is only issued after a passkey ceremony of an active user.\<close>

lemma ticket_needs_passkey:
  assumes "finishRecoveryPasskey P w r st = (resp, st')" "us_Status resp = 200"
  shows "\<exists>user. externalIdentityFromRequest r = None \<and> passkey_proof P w r ModeRecovery st user"
proof -
  have status: "us_Status (json_message n msg) = n" "us_Status authJSONFailure = 401" for n msg
    by (simp_all add: authJSONFailure_def writeDashboardJSON_def answer_def)
  from assms have pre: "externalIdentityFromRequest r = None" by (auto simp: finishRecoveryPasskey_def status split: if_splits)
  obtain found st1 where found: "recovery_user w (TrimSpace (rq_Header r ''X-AegisPXE-Recovery-Subject'')) st = (found, st1)" by force
  with assms obtain user where user: "found = Some user" by (cases found) (auto simp: finishRecoveryPasskey_def status split: if_splits)
  note u = recovery_user_Some [OF found [unfolded user]]
  let ?st2 = "st1\<lparr>ds_db := w_other w 1 (ds_db st1)\<rparr>"
  obtain load where load: "OperatorUserForWebAuthn (wl_decode (ul_web P)) (w_env w 1) (ds_db ?st2) (u_ID user) (RPID (ds_passkeys ?st2)) = load" by simp
  with assms found user obtain uc where uc: "load = Inr uc"
    by (cases load) (auto simp: finishRecoveryPasskey_def status Let_def split: if_splits)
  obtain fin p where fin: "FinishLogin (ul_go P) (ul_web P) (w_env w 2) uc (ceremony_token r) ModeRecovery (rq_Body r) (ui_passkeys w 2 (ds_passkeys st1)) = (fin, p)" by force
  with assms found user load uc obtain cred where cred: "fin = Inr cred"
    by (cases fin) (auto simp: finishRecoveryPasskey_def status Let_def split: if_splits)
  have "passkey_proof P w r ModeRecovery st (fst uc)" using finish_login_Inr [of P w uc r ModeRecovery st cred p] fin cred u by simp
  with pre show ?thesis by auto
qed

section \<open>Where an outer identity comes from\<close>

declare EqualFold.simps [simp del]

lemma drop_bit_agree: "drop_bit k x = drop_bit k (y :: 'a::len word) \<longleftrightarrow> (\<forall>i. k \<le> i \<longrightarrow> bit x i = bit y i)"
proof
  assume "drop_bit k x = drop_bit k y"
  then have "bit (drop_bit k x) (i - k) = bit (drop_bit k y) (i - k)" for i by simp
  then have "bit x (k + (i - k)) = bit y (k + (i - k))" for i by (simp add: bit_drop_bit_eq)
  then show "\<forall>i. k \<le> i \<longrightarrow> bit x i = bit y i" by (metis le_add_diff_inverse)
next
  assume "\<forall>i. k \<le> i \<longrightarrow> bit x i = bit y i"
  then show "drop_bit k x = drop_bit k y" by (intro bit_eqI) (simp add: bit_drop_bit_eq)
qed

lemma xor_0: "x XOR y = (0 :: 'a::len word) \<longleftrightarrow> x = y"
  by (auto simp: bit_eq_iff bit_xor_iff)

text \<open>An address of a network: the same family and the same leading \<open>n\<close> bits.\<close>

definition in_network :: "Addr \<Rightarrow> nat \<Rightarrow> Addr \<Rightarrow> bool" where
  "in_network net n a \<longleftrightarrow> na_zone a = [] \<and> na_is4 a = na_is4 net \<and> n \<le> BitLen a
     \<and> (\<forall>k. BitLen a - n \<le> k \<longrightarrow> bit (na_bits a) k = bit (na_bits net) k)"

lemma contains_bits: "prefix_Contains (net, n) a = in_network net n a"
  by (simp add: prefix_Contains_def in_network_def drop_bit_xor xor_0 drop_bit_agree)

lemma secure_source_net:
  assumes "SecureSource NL proxy r"
  shows "\<exists>addr net n. remoteAddr NL (rq_RemoteAddr r) = Some addr \<and> (net, n) \<in> set (tp_prefixes proxy) \<and> in_network net n addr"
  using assms by (auto simp: SecureSource_def proxy_contains_def list_ex_iff contains_bits split: option.splits) blast

text \<open>C11: a request reaches the interface with an outer identity only if its peer address agrees with a configured
  network of trusted proxies on the leading bits and the proxy says that the connection is encrypted; the identity
  is then the proxy's header. With a proxy configured, a request that gets through without an outer identity comes
  from the local host, or reads the health page, or comes encrypted through a trusted proxy whose identity header is
  blank, longer than 120 bytes or has control characters (docs/0.1.0-operator-auth.md lets this one through for the
  emergency sign-in). No other request gets through.
\<close>

theorem outer_identity_trusted:
  assumes "RequireTrustedProxyOrLoopback NL proxy
      (identity_ServeHTTP NL proxy (\<lambda>r' seen. (resp0, r' # seen)) e) r [] = (resp, [r'])"
    and "ur_External r = None" "Enabled proxy"
  shows "(case ur_External r' of
      None \<Rightarrow>
        (\<exists>addr. remoteAddr NL (rq_RemoteAddr r) = Some addr \<and> IsLoopback addr)
        \<or> rq_URLPath r = ''/healthz'' \<and> rq_Method r \<in> {''GET'', ''HEAD''}
        \<or> (\<exists>addr net n. remoteAddr NL (rq_RemoteAddr r) = Some addr \<and> (net, n) \<in> set (tp_prefixes proxy) \<and> in_network net n addr)
          \<and> EqualFold (TrimSpace (rq_Header r (tp_protoHeader proxy))) ''https''
          \<and> (TrimSpace (rq_Header r (tp_identityHeader proxy)) = [] \<or> length (TrimSpace (rq_Header r (tp_identityHeader proxy))) > 120
             \<or> containsControl (TrimSpace (rq_Header r (tp_identityHeader proxy))))
    | Some i \<Rightarrow> i = \<lparr>xi_Provider = ''trusted-proxy'', xi_Subject = TrimSpace (rq_Header r (tp_identityHeader proxy))\<rparr>
        \<and> xi_Subject i \<noteq> [] \<and> length (xi_Subject i) \<le> 120 \<and> \<not> containsControl (xi_Subject i)
        \<and> EqualFold (TrimSpace (rq_Header r (tp_protoHeader proxy))) ''https''
        \<and> (\<exists>addr net n. remoteAddr NL (rq_RemoteAddr r) = Some addr \<and> (net, n) \<in> set (tp_prefixes proxy)
            \<and> in_network net n addr))"
proof -
  let ?loop = "\<exists>addr. remoteAddr NL (rq_RemoteAddr r) = Some addr \<and> IsLoopback addr"
  from assms(1,3) have gate: "rq_URLPath r = ''/healthz'' \<and> rq_Method r \<in> {''GET'', ''HEAD''} \<or> ?loop \<or> SecureSource NL proxy r"
    and run: "identity_ServeHTTP NL proxy (\<lambda>r' seen. (resp0, r' # seen)) e r [] = (resp, [r'])"
    by (auto simp: RequireTrustedProxyOrLoopback_def split: if_splits option.splits)
  show ?thesis
  proof (cases "ur_External r'")
    case None
    have "TrimSpace (rq_Header r (tp_identityHeader proxy)) = [] \<or> length (TrimSpace (rq_Header r (tp_identityHeader proxy))) > 120
        \<or> containsControl (TrimSpace (rq_Header r (tp_identityHeader proxy)))" if src: "SecureSource NL proxy r"
    proof -
      from run None src have "Identity NL proxy r = None"
        by (auto simp: identity_ServeHTTP_def Let_def split: option.splits)
      with src show ?thesis by (auto simp: Identity_def Let_def split: if_splits)
    qed
    moreover have "EqualFold (TrimSpace (rq_Header r (tp_protoHeader proxy))) ''https''" if "SecureSource NL proxy r"
      using that by (simp add: SecureSource_def)
    ultimately show ?thesis using None gate secure_source_net by auto
  next
    case (Some i)
    with run assms(2) have src: "SecureSource NL proxy r" by (auto simp: identity_ServeHTTP_def split: if_splits)
    from run Some assms(2) src have "Identity NL proxy r = Some (xi_Subject i) \<and> xi_Provider i = ''trusted-proxy''"
      by (auto simp: identity_ServeHTTP_def Let_def trustedProxyProvider_def split: option.splits if_splits)
    then have "i = \<lparr>xi_Provider = ''trusted-proxy'', xi_Subject = TrimSpace (rq_Header r (tp_identityHeader proxy))\<rparr>
        \<and> xi_Subject i \<noteq> [] \<and> length (xi_Subject i) \<le> 120 \<and> \<not> containsControl (xi_Subject i)"
      by (cases i) (auto simp: Identity_def Let_def split: if_splits)
    with Some src secure_source_net [OF src] show ?thesis by (auto simp: SecureSource_def)
  qed
qed

section \<open>Examples\<close>

text \<open>An administrator with a session, on a connection through a proxy in 10.0.0.0/8.\<close>

definition sample_addr :: Addr where
  "sample_addr = \<lparr>na_is4 = True, na_bits = 0xFFFF0A000002, na_zone = []\<rparr>"

definition sample_netlib :: netlib where
  "sample_netlib = \<lparr>nl_ParseAddr = (\<lambda>s. if s = ''10.0.0.2'' then Some sample_addr else None), nl_ParsePrefix = (\<lambda>s. None)\<rparr>"

definition sample_proxy :: TrustedProxy where
  "sample_proxy = \<lparr>tp_prefixes = [(\<lparr>na_is4 = True, na_bits = 0xFFFF0A000000, na_zone = []\<rparr>, 8)], tp_identityHeader = ''U'', tp_protoHeader = ''P''\<rparr>"

definition sample_weblib :: weblib where
  "sample_weblib = \<lparr>wl_config_ok = (\<lambda>i os. True), wl_BeginRegistration = (\<lambda>e u cs. None), wl_FinishRegistration = (\<lambda>u cs s b. None),
     wl_BeginLogin = (\<lambda>e u cs. None), wl_FinishLogin = (\<lambda>u cs s b. None), wl_decode = (\<lambda>s. None)\<rparr>"

definition sample_uilib :: uilib where
  "sample_uilib = \<lparr>ul_go = sample_lib 0, ul_net = sample_netlib, ul_web = sample_weblib, ul_network = \<lparr>net_get = (\<lambda>u. HttpError), net_gpgv = (\<lambda>s. None)\<rparr>\<rparr>"

definition sample_uiworld :: uiworld where
  "sample_uiworld = \<lparr>w_now = 0, w_env = (\<lambda>k. sample_env), w_other = (\<lambda>k d. d), ui_auth = (\<lambda>k m. m), ui_passkeys = (\<lambda>k s. s), ui_tickets = (\<lambda>k t. t)\<rparr>"

definition sample_dash :: dash where
  "sample_dash = \<lparr>ds_db = sample_db, ds_auth = Some (sample_manager\<lparr>mg_sessions := [(sample_digest sample_token, sample_session)]\<rparr>),
     ds_passkeys = None, ds_tickets = [], ds_logs = None\<rparr>"

definition sample_ui_request :: ui_request where
  "sample_ui_request = \<lparr>rq_Method = ''POST'', rq_URLPath = ''/ui/machines/m_1/policy'', rq_PathValue = (\<lambda>n. ''m_1''),
     rq_Header = (\<lambda>n. if n = ''P'' then ''https'' else if n = ''U'' then ''alice'' else ''r''), rq_Host = [], rq_RemoteAddr = ''10.0.0.2'', rq_Body = [],
     rq_Form = Inl [], rq_Query = (\<lambda>n. []), rq_RequestID = [], ur_TLS = True, ur_Cookie = (\<lambda>n. Some sample_token), ur_External = None,
     ur_PostForm = (\<lambda>n. Some (\<lambda>f. if f = ''csrf'' then se_CSRFToken sample_session else ''blocked''))\<rparr>"

lemmas sample_ui_defs = sample_uilib_def sample_uiworld_def sample_dash_def sample_ui_request_def

lemma sample_user_found: "OperatorUser sample_env 0 sample_db (se_UserID sample_session) = Inr sample_user"
  by (simp add: OperatorUser_def operatorUserByID_def query_row_def sample_db_def sample_session_def base_session_def sample_user_def sample_trim)

lemma sample_session_live:
  "Session_of (sample_lib 0) sample_env sample_token (ds_auth sample_dash) = (Some sample_session, ds_auth sample_dash)"
  by (simp add: sample_dash_def Session_of_def sample_token_nonblank Let_def cleanupLocked_def sample_session_def SessionDuration_def duration_defs sample_manager_def)

lemma sample_dashboardSession:
  "dashboardSession sample_uilib sample_uiworld sample_ui_request sample_dash = (Some (sample_session, sample_token), sample_dash)"
proof -
  have "TrimSpace (se_UserID sample_session) \<noteq> []"
    by (simp add: sample_session_def base_session_def sample_user_def sample_trim)
  moreover have "\<not> session_invalid (Inr sample_user) sample_session"
    by (simp add: session_invalid_def sample_session_def base_session_def sample_user_def)
  moreover have "ds_auth sample_dash \<noteq> None" by (simp add: sample_dash_def)
  ultimately show ?thesis
    using sample_session_live sample_user_found
    by (simp add: dashboardSession_def sample_uilib_def sample_uiworld_def sample_ui_request_def secureTransport_def Let_def)
      (simp add: sample_dash_def)
qed

lemma sample_csrf: "ValidateCSRF (sample_lib 0) sample_session (se_CSRFToken sample_session)"
proof -
  have "TrimSpace (se_CSRFToken sample_session) \<noteq> []" "se_CSRFToken sample_session \<noteq> []"
    unfolding sample_session_def by (auto simp: TrimSpace_RawURL_Encode dest: arg_cong [where f = length] simp: length_RawURL_Encode)
  then show ?thesis by (simp add: ValidateCSRF_def)
qed

theorem dashboard_change_authorised_witness:
  "let st' = snd (serve_route RMachinePolicy sample_uilib sample_uiworld sample_ui_request sample_dash) in
   policy_of (ds_db st') ''m_1'' = Some PolicyBlocked
   \<and> (\<exists>session. authorised sample_uilib sample_uiworld sample_ui_request False sample_dash session)"
proof -
  obtain resp st' where run: "serve_route RMachinePolicy sample_uilib sample_uiworld sample_ui_request sample_dash = (resp, st')" by force
  have gate: "requireDashboardAction sample_uilib sample_uiworld sample_ui_request False sample_dash
      = (Inr (sample_session, \<lambda>f. if f = ''csrf'' then se_CSRFToken sample_session else ''blocked''), sample_dash)"
    using sample_csrf sample_dashboardSession
    by (simp add: requireDashboardAction_def, simp add: sample_uilib_def sample_ui_request_def secureTransport_def)
  have "st' = sample_dash\<lparr>ds_db := snd (SetMachinePolicy sample_env sample_db ''m_1'' PolicyBlocked ''r'' (se_Actor sample_session))\<rparr>"
    using run gate
    by (auto simp: dashboardMachinePolicy_def with_action_def store_write_def policy_of_text_def requestID_def sample_trim
        sample_uiworld_def sample_ui_request_def split: prod.splits sum.splits) (simp_all add: sample_dash_def)
  moreover have "policy_of (snd (SetMachinePolicy sample_env sample_db ''m_1'' PolicyBlocked ''r'' (se_Actor sample_session))) ''m_1'' = Some PolicyBlocked"
    unfolding sample_session_def base_session_def Session.simps by code_simp
  ultimately have blocked: "policy_of (ds_db st') ''m_1'' = Some PolicyBlocked" by simp
  moreover have "policy_of (ds_db sample_dash) ''m_1'' = Some PolicyProvision"
    by (simp add: sample_dash_def policy_of_def sample_db_def sample_machine_def)
  moreover have "interleaved sample_uiworld d d' \<Longrightarrow> d' = d" for d d'
  proof -
    have "fold (\<lambda>k d. d) ks d = d" for ks :: "nat list" and d :: db by (induction ks) simp_all
    then show "interleaved sample_uiworld d d' \<Longrightarrow> d' = d" by (auto simp: interleaved_def sample_uiworld_def)
  qed
  ultimately have "\<exists>session. authorised sample_uilib sample_uiworld sample_ui_request False sample_dash session"
    using dashboard_change_authorised [OF run] by (fastforce simp: sign_in_def needs_admin_def)
  with blocked run show ?thesis by simp
qed

theorem outer_identity_trusted_witness:
  "\<exists>net n. (net, n) \<in> set (tp_prefixes sample_proxy) \<and> in_network net n sample_addr"
proof -
  have fold: "EqualFold (TrimSpace ''https'') ''https''" by (simp add: EqualFold.simps ascii_lower_def sample_trim)
  have host: "peer_host ''10.0.0.2'' = ''10.0.0.2''" by (simp add: peer_host_def split_host_def sample_trim)
  have inside: "proxy_contains sample_proxy sample_addr"
    by (simp add: proxy_contains_def prefix_Contains_def sample_proxy_def sample_addr_def BitLen_def)
  have src: "SecureSource sample_netlib sample_proxy sample_ui_request"
    using fold host inside by (simp add: SecureSource_def Enabled_def remoteAddr_def sample_netlib_def sample_ui_request_def)
      (simp add: sample_proxy_def)
  let ?r' = "sample_ui_request\<lparr>rq_Header := (rq_Header sample_ui_request)(''X-Request-ID'' := ''r''),
     ur_TLS := True, ur_External := Some \<lparr>xi_Provider = trustedProxyProvider, xi_Subject = ''alice''\<rparr>\<rparr>"
  have "Identity sample_netlib sample_proxy sample_ui_request = Some ''alice''"
    using src by (simp add: Identity_def Let_def sample_proxy_def sample_ui_request_def containsControl_def sample_trim)
  then have "identity_ServeHTTP sample_netlib sample_proxy (\<lambda>r' seen. (authJSONFailure, r' # seen)) sample_env sample_ui_request [] = (authJSONFailure, [?r'])"
    using src by (simp add: identity_ServeHTTP_def requestID_def sample_ui_request_def sample_trim Let_def)
  then have "RequireTrustedProxyOrLoopback sample_netlib sample_proxy
      (identity_ServeHTTP sample_netlib sample_proxy (\<lambda>r' seen. (authJSONFailure, r' # seen)) sample_env) sample_ui_request [] = (authJSONFailure, [?r'])"
    using src by (simp add: RequireTrustedProxyOrLoopback_def split: option.split)
  from outer_identity_trusted [OF this] host show ?thesis
    by (auto simp: sample_ui_request_def sample_proxy_def Enabled_def remoteAddr_def sample_netlib_def)
qed

text \<open>An emergency sign-in: the ticket has just been issued.\<close>

definition sample_emergency_user :: User where
  "sample_emergency_user = sample_user\<lparr>u_Provider := ''trusted-proxy''\<rparr>"

definition sample_ticket_run :: "ticket_op list" where
  "sample_ticket_run = [TicketIssue sample_env ''u_1'']"

definition sample_emergency_dash :: dash where
  "sample_emergency_dash = \<lparr>ds_db = empty_db\<lparr>operator_users := [sample_emergency_user]\<rparr>, ds_auth = Some sample_manager, ds_passkeys = None,
     ds_tickets = fold (ticket_apply (sample_lib 0)) sample_ticket_run [], ds_logs = None\<rparr>"

definition sample_emergency_form :: "string \<Rightarrow> string" where
  "sample_emergency_form f = (if f = ''subject'' then ''alice'' else if f = ''key'' then sample_recovery_key else sample_token)"

definition sample_emergency_request :: ui_request where
  "sample_emergency_request = sample_ui_request\<lparr>ur_PostForm := (\<lambda>n. Some sample_emergency_form)\<rparr>"

lemma sample_tickets:
  "fold (ticket_apply (sample_lib 0)) sample_ticket_run []
     = [(sample_digest sample_token, \<lparr>rt_UserID = ''u_1'', rt_ExpiresAt = env_now sample_env + 5 * Minute\<rparr>)]"
  by (simp add: sample_ticket_run_def IssueRecoveryTicket_def Let_def randomToken_def rand_Read_def sample_token_def flowTokenBytes_def
      cleanupRecoveryTicketsLocked_def maxRecoveryTickets_def recoveryTicketLifetime_def sample_trim del: upt_Suc upt_rec_numeral)

lemma sample_token_trimmed: "TrimSpace sample_token = sample_token"
  by (simp add: sample_token_def)

lemma sample_ticket_consumed:
  "ConsumeRecoveryTicket (sample_lib 0) sample_env sample_token ''u_1'' (fold (ticket_apply (sample_lib 0)) sample_ticket_run []) = (True, [])"
  by (simp add: sample_tickets ConsumeRecoveryTicket_def cleanupRecoveryTicketsLocked_def Let_def sample_token_trimmed duration_defs sample_trim)

lemma sample_recovery_key_accepted:
  "VerifyRecoveryKey (sample_lib 0) sample_env remote sample_recovery_key (Some sample_manager) = (None, Some sample_manager)"
proof -
  have "TrimSpace sample_recovery_key = sample_recovery_key" by (simp add: sample_recovery_key_def)
  then show ?thesis
    by (simp add: VerifyRecoveryKey_def sample_manager_def Let_def cleanupLocked_def maxLoginAttempts_def loginWindow_def duration_defs)
qed

lemma sample_emergency_found:
  "recovery_user sample_uiworld ''alice'' sample_emergency_dash = (Some sample_emergency_user, sample_emergency_dash)"
  by (simp add: recovery_user_def Let_def sample_uiworld_def sample_emergency_dash_def OperatorUserByExternalIdentity_def operatorUserByExternal_def
      query_row_def trustedProxyProvider_def sample_emergency_user_def sample_user_def sample_trim)

lemma sample_emergency_issue:
  "\<exists>s m. IssueUserSession (sample_lib 0) sample_env sample_emergency_user ''recovery+passkey+key'' (Some sample_manager) = (Inr (sample_token, s), m)"
  by (simp add: IssueUserSession_def issueSession_def sample_manager_def sample_emergency_user_def sample_user_def ValidateRole_def maxActiveSessions_def
      Let_def randomToken_def rand_Read_def sample_token_def sessionTokenBytes_def csrfTokenBytes_def cleanupLocked_def sample_trim
      del: upt_Suc upt_rec_numeral)

theorem session_needs_factors_witness:
  "\<exists>user. u_Status user = StatusActive \<and> emergency sample_uilib sample_uiworld sample_emergency_request sample_emergency_dash user"
proof -
  obtain s m where issue: "IssueUserSession (sample_lib 0) sample_env sample_emergency_user ''recovery+passkey+key'' (Some sample_manager) = (Inr (sample_token, s), m)"
    using sample_emergency_issue by blast
  have form: "ur_PostForm sample_emergency_request n = Some sample_emergency_form" "ur_External sample_emergency_request = None"
    "ur_TLS sample_emergency_request" for n
    by (simp_all add: sample_emergency_request_def sample_ui_request_def)
  have id: "u_ID sample_emergency_user = ''u_1''" by (simp add: sample_emergency_user_def sample_user_def)
  have state: "ds_auth sample_emergency_dash = Some sample_manager"
    "ds_tickets sample_emergency_dash = fold (ticket_apply (sample_lib 0)) sample_ticket_run []"
    by (simp_all add: sample_emergency_dash_def)
  have world: "w_env sample_uiworld k = sample_env" "ui_auth sample_uiworld k p = p" "ui_tickets sample_uiworld k t = t" "ul_go sample_uilib = sample_lib 0" for k p t
    by (simp_all add: sample_uiworld_def sample_uilib_def)
  have fields: "TrimSpace (sample_emergency_form ''subject'') = ''alice''" "sample_emergency_form ''key'' = sample_recovery_key"
    "sample_emergency_form ''ticket'' = sample_token"
    by (simp_all add: sample_emergency_form_def sample_trim)
  obtain resp st' where run: "serve_route RRecoveryFinish sample_uilib sample_uiworld sample_emergency_request sample_emergency_dash = (resp, st')" by force
  have "us_Cookie resp = us_Cookie (setDashboardSessionCookie sample_emergency_request sample_token s (http_Redirect ''/ui/'' 303))"
    using run by (auto simp: finishRecoveryLogin_def externalIdentityFromRequest_def secureTransport_def form fields world sample_emergency_found state
        sample_recovery_key_accepted id sample_ticket_consumed issue_session_def issue)
  then obtain ck where "us_Cookie resp = Some ck" "ck_Value ck = sample_token" by (simp add: setDashboardSessionCookie_def)
  moreover have "sample_token \<noteq> []" using sample_token_nonblank by (metis TrimSpace_Nil)
  ultimately show ?thesis
    using session_needs_factors [OF run, of ck sample_ticket_run] state(2) world by auto
qed

end
