(* ===== verification/Spec2Isabelle.thy ===== *)
theory Spec2Isabelle
  imports System_Properties Debian13_Seed Artifact_Trust Discovery_Limit Http_Properties Reporter_Properties Dashboard_Properties
begin

text \<open>
  A verification library for AegisPXE, a server that discovers machines over PXE, lets an operator
  approve them, and installs Debian on them unattended.

  \<^bold>\<open>The program and its parts.\<close> A machine boots iPXE and asks the HTTP server
  (src/internal/httpapi) what to do; the server records it in an SQLite database
  (src/internal/store). An operator approves the machine, creates an immutable installation
  specification (src/internal/installation, profile, artifact) and arms it (src/internal/assignment).
  From then on the discovery chains the machine into the boot material that the Debian driver
  renders (src/internal/drivers/debian13) from artifacts with pinned digests
  (src/internal/artifact). Serving the preseed file consumes the assignment. The installer and the
  reporter in the installed system report their progress (src/internal/lifecycle, telemetry) with a
  credential that is released only against a proof of the machine's key (src/internal/boottrust,
  trust, telemetryauth). The reporter (src/internal/reporter) runs in the installer and at the first
  boot of the installed system. Operators work in a browser (src/internal/operatorui), signed in with
  an outer identity from a trusted proxy and a passkey (src/internal/operator, operatorpasskey).

  \<^bold>\<open>How the code is modelled.\<close> Structs are records with a prefix per type, enumerations are
  datatypes (with a constructor for every other text where the Go type is a string), texts and byte
  slices are \<^typ>\<open>string\<close>, one \<^typ>\<open>char\<close> per byte. Time is a number of nanoseconds, 0 is Go's zero
  time. An operation that can fail returns \<^typ>\<open>fault\<close> \<open>+\<close> its result; one that changes state also
  returns the new state. The clock, the random bytes and the outcome of every database call of an
  operation are its environment (\<open>env\<close> in \<open>Fault\<close>), so that every early return of the code is a
  branch of the model; a handler that calls the store several times has one environment per call
  and arbitrary changes by other requests in between (\<open>world\<close> in \<open>Http_Base\<close>). Code outside the
  repository is a parameter: the URL parser, SHA-256, HMAC, PEM, PKIX and RSA of Go's library
  (\<open>golib\<close> in \<open>Installation_Model\<close>), JSON decoders, gpgv and the network
  (\<open>network\<close> in \<open>Debian13_Artifacts\<close>), the WebAuthn package (\<open>weblib\<close> in \<open>Operator_Passkeys\<close>), the
  reading of network addresses (\<open>netlib\<close> in \<open>Trusted_Proxy\<close>), the TPM. What the store writes into a
  column as JSON or as a time text it reads back unchanged in the model. This holds for texts that
  are valid UTF-8 and for times the clock gives; json.Marshal puts U+FFFD for every byte of a text
  that is not UTF-8, which the model leaves out. Where a failed reading of such a text is an error in
  the code, it is one of the failures of the environment.

  \<^bold>\<open>The theories.\<close>
  \<^item> \<open>Prelude\<close>: bytes, strings.TrimSpace, ToLower, Split and Join, lists as tables, results; the
    locales \<open>ranked_steps\<close> and \<open>tracked_state\<close> for states that only move forward.
    \<open>Base64\<close>: encoding/base64 with its round trip.
  \<^item> \<open>Fault\<close> (fault.go, idgen.go): codes, environments, transactions, and the contracts
    \<open>invariant_operation\<close> and \<open>store_operation\<close> every store operation is shown to keep.
  \<^item> Models: \<open>Lifecycle\<close>, \<open>Telemetry_Model\<close> (telemetry, telemetryauth), \<open>Boot_Trust_Model\<close>,
    \<open>Machine_Model\<close> (machine, boot decision, trust gate, Secure Boot policy), \<open>Assignment_Model\<close>,
    \<open>Operator_Model\<close>, \<open>Installation_Model\<close> (installation, profile, artifact).
  \<^item> Store: \<open>Database\<close> (schema.go, events.go: tables with their constraints, and the invariant
    \<open>db_inv\<close>), then one theory per file: \<open>Store_Machines\<close>, \<open>Store_Installations\<close>,
    \<open>Store_Assignments\<close>, \<open>Store_Telemetry\<close>, \<open>Store_Boot_Trust\<close>, \<open>Store_Deletion\<close>, \<open>Store_Operators\<close>.
    \<open>System\<close> makes them one step relation; \<open>System_Properties\<close>, \<open>Audit_Trail\<close> and
    \<open>Boot_Trust_Properties\<close> hold what is true of every run: referential integrity, journals that
    are paths of the lifecycle, no way back for consumed assignments and revoked keys, an audit log
    that only deletions shorten, approval only by an operator, a first release only against a proof.
    A used challenge repeats its stored response to every signature, also after its key was revoked.
  \<^item> Driver: \<open>Debian13_Driver\<close> (contract, boot specification, preseed, late command),
    \<open>Debian13_Properties\<close> and \<open>Debian13_Seed\<close> (rendering succeeds on what validation
    accepts, under stated bounds on the texts it copies, and quoting is sound), \<open>Debian13_Artifacts\<close> and \<open>Artifact_Trust\<close> (the chain of trust from
    the signed release to every byte).
  \<^item> HTTP: \<open>Http_Base\<close>, \<open>Http_Provisioning\<close> and \<open>Http_Properties\<close> (discovery, boot decision, boot
    material), \<open>Http_Telemetry\<close> and \<open>Http_Telemetry_Properties\<close> (telemetry and machine keys).
    \<open>Window_Limit\<close> is the contract \<open>fixed_window\<close> of a rate limit; \<open>Discovery_Limit\<close> and
    \<open>Operator_Sessions\<close> show that the two limiters of the program keep it.
  \<^item> Reporter: \<open>Reporter_Client\<close> (configuration, signed requests, acquisition of the credential),
    \<open>Reporter_Runtime\<close> (event queue, evidence, log upload, daemon, hand-over, first boot),
    \<open>Reporter_Protocol\<close> (what the reporter signs is what the server accepts) and
    \<open>Reporter_Properties\<close> (order of the queue, end of the waits, reports of the first boot).
  \<^item> Operator: \<open>Operator_Auth\<close> and \<open>Operator_Sessions\<close> (sessions, CSRF, recovery key),
    \<open>One_Time\<close> (the contract \<open>one_time_store\<close> of secrets that are redeemed once) with its two
    instances in \<open>Operator_Passkeys\<close> (passkey ceremonies, recovery tickets), \<open>Log_Buffer\<close> (the ring
    buffer of the live log), \<open>Store_Listings\<close> (the ordered listings of the store).
  \<^item> Interface: \<open>Trusted_Proxy\<close> (addresses, transport, outer identity), \<open>Dashboard_Access\<close>
    (sessions of the interface, sign-in, recovery), \<open>Dashboard_Actions\<close> (pages, actions, wizard,
    routes) and \<open>Dashboard_Properties\<close> (who changes the database, what a session takes, where an
    outer identity comes from).
  \<^item> \<open>Samples\<close>: concrete data for the theorems with hypotheses.

  \<^bold>\<open>Bounds.\<close> Loops over lists are structural recursion and need no fuel. The loops over texts
  (\<open>strip\<close>, \<open>collect_lines\<close>) have termination proofs. HTTP redirects are followed at most as often
  as the redirect policies of the code allow, three requests, which ends \<open>http_do\<close>. The
  loops of the reporter that wait for the world (\<open>acquire_loop\<close>, \<open>daemon_loop\<close>, \<open>wait_loop\<close>,
  \<open>drain_wait\<close>) are partial functions into options, None for a loop that does not end; for the two
  waits of the hand-over it is shown that they end. The sequence number of the log buffer is a 64-bit
  word, a network address a 128-bit word.

  \<^bold>\<open>Not modelled.\<close> Logging, the HTML templates, style sheets and scripts of the operator's interface
  (a page is given by the values it shows), opening and migrating the database file, reading the
  boot chain from the file system, process set-up (src/cmd).
\<close>

end
